(* ===== verification/Prelude.thy ===== *)
theory Prelude
  imports Main
begin

text \<open>
  Shared vocabulary of the development: results with run-time panics, effectful programs over
  an explicit state, and the calculus of emitted actions and of preserved parts of the object a
  program works on. The collections \<open>emits_intros\<close>, \<open>keeps_intros\<close>, \<open>returns_intros\<close>,
  \<open>total_intros\<close>, \<open>run_simps\<close> and \<open>check_simps\<close>
  grow with the components.
\<close>

named_theorems emits_intros \<open>rules that bound the actions a program emits\<close>
named_theorems keeps_intros \<open>rules that say which part of the in-memory object a program keeps\<close>
named_theorems returns_intros \<open>rules that bound the results a program returns\<close>
named_theorems total_intros \<open>rules that show a program never panics\<close>
named_theorems run_simps \<open>equations that run a program from a state\<close>

section \<open>Chains of checks\<close>

text \<open>A chain of early returns ends with nil exactly when no check fails.\<close>

named_theorems check_simps \<open>when a chain of checks returns nil\<close>

lemma check_case_None [check_simps]:
  "(case x of None \<Rightarrow> y | Some e \<Rightarrow> Some (f e)) = None \<longleftrightarrow> x = None \<and> y = None"
  by (cases x) auto

lemma check_if_None [check_simps]: "(if b then Some e else r) = None \<longleftrightarrow> \<not> b \<and> r = None"
  by simp

lemma check_None [check_simps]: "(None = None) = True" "(Some e = None) = False"
  by simp_all

section \<open>Programs with effects\<close>

text \<open>
  A Go function with effects is a program: it maps a state to a result and the next state. The
  state holds the world outside the process (\<open>ext\<close>: the NICo service, the Kubernetes API server
  and the clock), the object in memory the function works on through a pointer (\<open>obj\<close>), and the
  actions performed so far (\<open>trace\<close>). A nil dereference is the result \<open>Panic\<close>; what was done
  before it stays done.
\<close>

datatype 'r res = Val 'r | Panic

record ('s, 'o, 'e) st =
  ext :: 's
  obj :: 'o
  trace :: "'e list"

type_synonym ('s, 'o, 'e, 'r) prog = "('s, 'o, 'e) st \<Rightarrow> 'r res \<times> ('s, 'o, 'e) st"

definition ret :: "'r \<Rightarrow> ('s, 'o, 'e, 'r) prog" where
  "ret x = (\<lambda>st. (Val x, st))"

definition panic :: "('s, 'o, 'e, 'r) prog" where
  "panic = (\<lambda>st. (Panic, st))"

definition andthen ::
  "('s, 'o, 'e, 'a) prog \<Rightarrow> ('a \<Rightarrow> ('s, 'o, 'e, 'b) prog) \<Rightarrow> ('s, 'o, 'e, 'b) prog" where
  "andthen m k = (\<lambda>st. case m st of (Val x, st') \<Rightarrow> k x st' | (Panic, st') \<Rightarrow> (Panic, st'))"

text \<open>\<open>seqp m k\<close> runs \<open>m\<close> for its effect and goes on with \<open>k\<close>.\<close>

definition seqp ::
  "('s, 'o, 'e, unit) prog \<Rightarrow> ('s, 'o, 'e, 'b) prog \<Rightarrow> ('s, 'o, 'e, 'b) prog" where
  "seqp m k = andthen m (\<lambda>_. k)"

definition whenp :: "bool \<Rightarrow> ('s, 'o, 'e, unit) prog \<Rightarrow> ('s, 'o, 'e, unit) prog" where
  "whenp b m = (if b then m else ret ())"

text \<open>
  \<open>tryp m w k\<close> is Go's \<open>x, err := m; if err != nil { return w(err) }\<close> followed by \<open>k x\<close>, for a
  call that gives a value or an error; \<open>guardp m w k\<close> is the same for a call that gives an error
  or nil.
\<close>

definition tryp ::
  "('s, 'o, 'e, 'err + 'a) prog \<Rightarrow> ('err \<Rightarrow> 'r) \<Rightarrow> ('a \<Rightarrow> ('s, 'o, 'e, 'r) prog)
     \<Rightarrow> ('s, 'o, 'e, 'r) prog" where
  "tryp m w k = andthen m (\<lambda>r. case r of Inl e \<Rightarrow> ret (w e) | Inr x \<Rightarrow> k x)"

definition guardp ::
  "('s, 'o, 'e, 'err option) prog \<Rightarrow> ('err \<Rightarrow> 'r) \<Rightarrow> ('s, 'o, 'e, 'r) prog
     \<Rightarrow> ('s, 'o, 'e, 'r) prog" where
  "guardp m w k = andthen m (\<lambda>r. case r of Some e \<Rightarrow> ret (w e) | None \<Rightarrow> k)"

definition emit :: "'e \<Rightarrow> ('s, 'o, 'e, unit) prog" where
  "emit a = (\<lambda>st. (Val (), st\<lparr>trace := trace st @ [a]\<rparr>))"

text \<open>\<open>extcall a f\<close>: record the action \<open>a\<close> and let the outside world answer it with \<open>f\<close>.\<close>

definition extcall :: "'e \<Rightarrow> ('s \<Rightarrow> 'r \<times> 's) \<Rightarrow> ('s, 'o, 'e, 'r) prog" where
  "extcall a f = (\<lambda>st. case f (ext st) of (r, e) \<Rightarrow> (Val r, st\<lparr>ext := e, trace := trace st @ [a]\<rparr>))"

definition readext :: "('s \<Rightarrow> 'r) \<Rightarrow> ('s, 'o, 'e, 'r) prog" where
  "readext f = (\<lambda>st. (Val (f (ext st)), st))"

definition getobj :: "('s, 'o, 'e, 'o) prog" where
  "getobj = (\<lambda>st. (Val (obj st), st))"

definition modobj :: "('o \<Rightarrow> 'o) \<Rightarrow> ('s, 'o, 'e, unit) prog" where
  "modobj f = (\<lambda>st. (Val (), st\<lparr>obj := f (obj st)\<rparr>))"

fun forp :: "'a list \<Rightarrow> ('a \<Rightarrow> ('s, 'o, 'e, unit) prog) \<Rightarrow> ('s, 'o, 'e, unit) prog" where
  "forp [] f = ret ()"
| "forp (x # xs) f = seqp (f x) (forp xs f)"

subsection \<open>Running programs\<close>

lemma run_ret [run_simps]: "ret x st = (Val x, st)"
  by (simp add: ret_def)

lemma run_panic [run_simps]: "panic st = (Panic, st)"
  by (simp add: panic_def)

lemma run_andthen [run_simps]:
  "andthen m k st = (case m st of (Val x, st') \<Rightarrow> k x st' | (Panic, st') \<Rightarrow> (Panic, st'))"
  by (simp add: andthen_def)

lemma run_seqp [run_simps]:
  "seqp m k st = (case m st of (Val x, st') \<Rightarrow> k st' | (Panic, st') \<Rightarrow> (Panic, st'))"
  by (simp add: seqp_def andthen_def)

lemma run_whenp [run_simps]: "whenp b m st = (if b then m st else (Val (), st))"
  by (simp add: whenp_def ret_def)

lemma run_tryp [run_simps]:
  "tryp m w k st = (case m st of
      (Val r, st') \<Rightarrow> (case r of Inl e \<Rightarrow> (Val (w e), st') | Inr x \<Rightarrow> k x st')
    | (Panic, st') \<Rightarrow> (Panic, st'))"
  by (auto simp: tryp_def andthen_def ret_def split: res.splits sum.splits prod.splits)

lemma run_guardp [run_simps]:
  "guardp m w k st = (case m st of
      (Val r, st') \<Rightarrow> (case r of Some e \<Rightarrow> (Val (w e), st') | None \<Rightarrow> k st')
    | (Panic, st') \<Rightarrow> (Panic, st'))"
  by (auto simp: guardp_def andthen_def ret_def split: res.splits option.splits prod.splits)

lemma run_emit [run_simps]: "emit a st = (Val (), st\<lparr>trace := trace st @ [a]\<rparr>)"
  by (simp add: emit_def)

lemma run_extcall [run_simps]:
  "extcall a f st = (Val (fst (f (ext st))), st\<lparr>ext := snd (f (ext st)), trace := trace st @ [a]\<rparr>)"
  by (simp add: extcall_def split: prod.split)

lemma run_readext [run_simps]: "readext f st = (Val (f (ext st)), st)"
  by (simp add: readext_def)

lemma run_getobj [run_simps]: "getobj st = (Val (obj st), st)"
  by (simp add: getobj_def)

lemma run_modobj [run_simps]: "modobj f st = (Val (), st\<lparr>obj := f (obj st)\<rparr>)"
  by (simp add: modobj_def)

lemma run_forp_Nil [run_simps]: "forp [] f st = (Val (), st)"
  by (simp add: ret_def)

lemma run_forp_Cons [run_simps]: "forp (x # xs) f st = seqp (f x) (forp xs f) st"
  by simp

declare forp.simps [simp del]

section \<open>The actions a program emits\<close>

text \<open>
  \<open>emits \<phi> m\<close>: whatever state \<open>m\<close> starts in and however it ends, it only appends actions that
  satisfy \<open>\<phi>\<close> to the trace. The rules follow the combinators, so a bound on a handler is a
  bound on the calls it makes.
\<close>

definition emits :: "('e \<Rightarrow> bool) \<Rightarrow> ('s, 'o, 'e, 'r) prog \<Rightarrow> bool" where
  "emits \<phi> m \<longleftrightarrow> (\<forall>st. \<exists>es. trace (snd (m st)) = trace st @ es \<and> list_all \<phi> es)"

lemma emitsI:
  "(\<And>st. \<exists>es. trace (snd (m st)) = trace st @ es \<and> list_all \<phi> es) \<Longrightarrow> emits \<phi> m"
  by (simp add: emits_def)

lemma emitsD: "emits \<phi> m \<Longrightarrow> \<exists>es. trace (snd (m st)) = trace st @ es \<and> list_all \<phi> es"
  by (simp add: emits_def)

lemma emits_set:
  assumes "emits \<phi> m" and "a \<in> set (trace (snd (m st)))" and "a \<notin> set (trace st)"
  shows "\<phi> a"
  using emitsD [OF assms(1), of st] assms(2,3) by (auto simp: list_all_iff)

lemma emits_mono: "emits \<phi> m \<Longrightarrow> (\<And>a. \<phi> a \<Longrightarrow> \<psi> a) \<Longrightarrow> emits \<psi> m"
  unfolding emits_def list_all_iff by blast

lemma emits_ret [emits_intros]: "emits \<phi> (ret x)"
  by (simp add: emits_def ret_def)

lemma emits_panic [emits_intros]: "emits \<phi> panic"
  by (simp add: emits_def panic_def)

lemma emits_andthen [emits_intros]:
  assumes m: "emits \<phi> m" and k: "\<And>x. emits \<phi> (k x)"
  shows "emits \<phi> (andthen m k)"
proof (rule emitsI)
  fix st
  obtain es where es: "trace (snd (m st)) = trace st @ es" "list_all \<phi> es"
    using emitsD [OF m] by blast
  show "\<exists>es. trace (snd (andthen m k st)) = trace st @ es \<and> list_all \<phi> es"
  proof (cases "m st")
    case (Pair r st')
    then show ?thesis
    proof (cases r)
      case (Val x)
      obtain es' where "trace (snd (k x st')) = trace st' @ es'" "list_all \<phi> es'"
        using emitsD [OF k] by blast
      with es Pair Val show ?thesis by (intro exI [of _ "es @ es'"]) (simp add: andthen_def)
    qed (use es in \<open>auto simp: andthen_def\<close>)
  qed
qed

lemma emits_seqp [emits_intros]: "emits \<phi> m \<Longrightarrow> emits \<phi> k \<Longrightarrow> emits \<phi> (seqp m k)"
  unfolding seqp_def by (rule emits_andthen)

lemma emits_whenp [emits_intros]: "(b \<Longrightarrow> emits \<phi> m) \<Longrightarrow> emits \<phi> (whenp b m)"
  by (simp add: whenp_def emits_ret)

lemma emits_tryp [emits_intros]:
  "emits \<phi> m \<Longrightarrow> (\<And>x. emits \<phi> (k x)) \<Longrightarrow> emits \<phi> (tryp m w k)"
  unfolding tryp_def by (rule emits_andthen) (auto split: sum.split intro: emits_ret)

lemma emits_guardp [emits_intros]:
  "emits \<phi> m \<Longrightarrow> emits \<phi> k \<Longrightarrow> emits \<phi> (guardp m w k)"
  unfolding guardp_def by (rule emits_andthen) (auto split: option.split intro: emits_ret)

lemma emits_emit [emits_intros]: "\<phi> a \<Longrightarrow> emits \<phi> (emit a)"
  by (simp add: emits_def emit_def)

lemma emits_extcall [emits_intros]: "\<phi> a \<Longrightarrow> emits \<phi> (extcall a f)"
  by (simp add: emits_def extcall_def split: prod.split)

lemma emits_readext [emits_intros]: "emits \<phi> (readext f)"
  by (simp add: emits_def readext_def)

lemma emits_getobj [emits_intros]: "emits \<phi> getobj"
  by (simp add: emits_def getobj_def)

lemma emits_modobj [emits_intros]: "emits \<phi> (modobj f)"
  by (simp add: emits_def modobj_def)

lemma emits_forp [emits_intros]: "(\<And>x. x \<in> set xs \<Longrightarrow> emits \<phi> (f x)) \<Longrightarrow> emits \<phi> (forp xs f)"
  by (induction xs) (auto simp: forp.simps intro!: emits_ret emits_seqp)

lemma emits_if [emits_intros]:
  "(b \<Longrightarrow> emits \<phi> m) \<Longrightarrow> (\<not> b \<Longrightarrow> emits \<phi> k) \<Longrightarrow> emits \<phi> (if b then m else k)"
  by simp

lemma emits_case_option [emits_intros]:
  "(x = None \<Longrightarrow> emits \<phi> m) \<Longrightarrow> (\<And>y. x = Some y \<Longrightarrow> emits \<phi> (k y)) \<Longrightarrow>
     emits \<phi> (case x of None \<Rightarrow> m | Some y \<Rightarrow> k y)"
  by (simp split: option.split)

lemma emits_case_sum [emits_intros]:
  "(\<And>y. x = Inl y \<Longrightarrow> emits \<phi> (m y)) \<Longrightarrow> (\<And>y. x = Inr y \<Longrightarrow> emits \<phi> (k y)) \<Longrightarrow>
     emits \<phi> (case x of Inl y \<Rightarrow> m y | Inr y \<Rightarrow> k y)"
  by (simp split: sum.split)

lemma emits_case_prod [emits_intros]:
  "(\<And>a b. x = (a, b) \<Longrightarrow> emits \<phi> (k a b)) \<Longrightarrow> emits \<phi> (case x of (a, b) \<Rightarrow> k a b)"
  by (simp split: prod.split)

lemma emits_case_list [emits_intros]:
  "(x = [] \<Longrightarrow> emits \<phi> m) \<Longrightarrow> (\<And>y ys. x = y # ys \<Longrightarrow> emits \<phi> (k y ys)) \<Longrightarrow>
     emits \<phi> (case x of [] \<Rightarrow> m | y # ys \<Rightarrow> k y ys)"
  by (simp split: list.split)

lemma emits_Let [emits_intros]: "emits \<phi> (k x) \<Longrightarrow> emits \<phi> (let y = x in k y)"
  by simp

section \<open>The part of the object a program keeps\<close>

text \<open>
  \<open>keeps f m\<close>: the value of \<open>f\<close> on the object in memory is the same after \<open>m\<close> as before it,
  however \<open>m\<close> ends.
\<close>

definition keeps :: "('o \<Rightarrow> 'v) \<Rightarrow> ('s, 'o, 'e, 'r) prog \<Rightarrow> bool" where
  "keeps f m \<longleftrightarrow> (\<forall>st. f (obj (snd (m st))) = f (obj st))"

lemma keepsD: "keeps f m \<Longrightarrow> f (obj (snd (m st))) = f (obj st)"
  by (simp add: keeps_def)

lemma keeps_ret [keeps_intros]: "keeps f (ret x)"
  by (simp add: keeps_def ret_def)

lemma keeps_panic [keeps_intros]: "keeps f panic"
  by (simp add: keeps_def panic_def)

lemma keeps_andthen [keeps_intros]:
  "keeps f m \<Longrightarrow> (\<And>x. keeps f (k x)) \<Longrightarrow> keeps f (andthen m k)"
  unfolding keeps_def andthen_def
  by (auto split: prod.split res.split) (metis snd_conv)+

lemma keeps_seqp [keeps_intros]: "keeps f m \<Longrightarrow> keeps f k \<Longrightarrow> keeps f (seqp m k)"
  unfolding seqp_def by (rule keeps_andthen)

lemma keeps_whenp [keeps_intros]: "(b \<Longrightarrow> keeps f m) \<Longrightarrow> keeps f (whenp b m)"
  by (simp add: whenp_def keeps_ret)

lemma keeps_tryp [keeps_intros]:
  "keeps f m \<Longrightarrow> (\<And>x. keeps f (k x)) \<Longrightarrow> keeps f (tryp m w k)"
  unfolding tryp_def by (rule keeps_andthen) (auto split: sum.split intro: keeps_ret)

lemma keeps_guardp [keeps_intros]:
  "keeps f m \<Longrightarrow> keeps f k \<Longrightarrow> keeps f (guardp m w k)"
  unfolding guardp_def by (rule keeps_andthen) (auto split: option.split intro: keeps_ret)

lemma keeps_emit [keeps_intros]: "keeps f (emit a)"
  by (simp add: keeps_def emit_def)

lemma keeps_extcall [keeps_intros]: "keeps f (extcall a g)"
  by (simp add: keeps_def extcall_def split: prod.split)

lemma keeps_readext [keeps_intros]: "keeps f (readext g)"
  by (simp add: keeps_def readext_def)

lemma keeps_getobj [keeps_intros]: "keeps f getobj"
  by (simp add: keeps_def getobj_def)

lemma keeps_modobj [keeps_intros]: "(\<And>x. f (g x) = f x) \<Longrightarrow> keeps f (modobj g)"
  by (simp add: keeps_def modobj_def)

lemma keeps_forp [keeps_intros]: "(\<And>x. x \<in> set xs \<Longrightarrow> keeps f (p x)) \<Longrightarrow> keeps f (forp xs p)"
  by (induction xs) (auto simp: forp.simps intro!: keeps_ret keeps_seqp)

lemma keeps_if [keeps_intros]:
  "(b \<Longrightarrow> keeps f m) \<Longrightarrow> (\<not> b \<Longrightarrow> keeps f k) \<Longrightarrow> keeps f (if b then m else k)"
  by simp

lemma keeps_case_option [keeps_intros]:
  "(x = None \<Longrightarrow> keeps f m) \<Longrightarrow> (\<And>y. x = Some y \<Longrightarrow> keeps f (k y)) \<Longrightarrow>
     keeps f (case x of None \<Rightarrow> m | Some y \<Rightarrow> k y)"
  by (simp split: option.split)

lemma keeps_case_sum [keeps_intros]:
  "(\<And>y. x = Inl y \<Longrightarrow> keeps f (m y)) \<Longrightarrow> (\<And>y. x = Inr y \<Longrightarrow> keeps f (k y)) \<Longrightarrow>
     keeps f (case x of Inl y \<Rightarrow> m y | Inr y \<Rightarrow> k y)"
  by (simp split: sum.split)

lemma keeps_case_prod [keeps_intros]:
  "(\<And>a b. x = (a, b) \<Longrightarrow> keeps f (k a b)) \<Longrightarrow> keeps f (case x of (a, b) \<Rightarrow> k a b)"
  by (simp split: prod.split)

lemma keeps_case_list [keeps_intros]:
  "(x = [] \<Longrightarrow> keeps f m) \<Longrightarrow> (\<And>y ys. x = y # ys \<Longrightarrow> keeps f (k y ys)) \<Longrightarrow>
     keeps f (case x of [] \<Rightarrow> m | y # ys \<Rightarrow> k y ys)"
  by (simp split: list.split)

lemma keeps_Let [keeps_intros]: "keeps f (k x) \<Longrightarrow> keeps f (let y = x in k y)"
  by simp

section \<open>How often a program emits an action\<close>

text \<open>\<open>at_most P n m\<close>: whatever state \<open>m\<close> starts in, at most \<open>n\<close> of the actions it appends satisfy \<open>P\<close>.\<close>

definition at_most :: "('e \<Rightarrow> bool) \<Rightarrow> nat \<Rightarrow> ('s, 'o, 'e, 'r) prog \<Rightarrow> bool" where
  "at_most P n m \<longleftrightarrow>
     (\<forall>st. \<exists>es. trace (snd (m st)) = trace st @ es \<and> length (filter P es) \<le> n)"

lemma at_mostD:
  "at_most P n m \<Longrightarrow> \<exists>es. trace (snd (m st)) = trace st @ es \<and> length (filter P es) \<le> n"
  by (simp add: at_most_def)

lemma at_most_none: "emits (\<lambda>a. \<not> P a) m \<Longrightarrow> at_most P n m"
  unfolding emits_def at_most_def list_all_iff by (metis filter_False le0 list.size(3))

lemma at_most_emits: "at_most P 0 m \<Longrightarrow> emits (\<lambda>a. \<not> P a) m"
  unfolding emits_def at_most_def list_all_iff by (metis filter_empty_conv le_zero_eq length_0_conv)

lemma at_most_andthen:
  assumes m: "at_most P n m" and k: "\<And>x. at_most P n' (k x)"
  shows "at_most P (n + n') (andthen m k)"
  unfolding at_most_def
proof
  fix st
  obtain es where es: "trace (snd (m st)) = trace st @ es" "length (filter P es) \<le> n"
    using at_mostD [OF m] by blast
  show "\<exists>es. trace (snd (andthen m k st)) = trace st @ es \<and> length (filter P es) \<le> n + n'"
  proof (cases "m st")
    case (Pair r st')
    then show ?thesis
    proof (cases r)
      case (Val x)
      obtain es' where "trace (snd (k x st')) = trace st' @ es'" "length (filter P es') \<le> n'"
        using at_mostD [OF k] by blast
      with es Pair Val show ?thesis by (intro exI [of _ "es @ es'"]) (simp add: andthen_def)
    qed (use es in \<open>auto simp: andthen_def\<close>)
  qed
qed

text \<open>The two ways a bound passes through a sequence: the action is in the rest, or in the head.\<close>

lemma at_most_rest:
  "emits (\<lambda>a. \<not> P a) m \<Longrightarrow> (\<And>x. at_most P n (k x)) \<Longrightarrow> at_most P n (andthen m k)"
  using at_most_andthen [OF at_most_none [of P m 0], of n k] by simp

lemma at_most_head:
  "at_most P n m \<Longrightarrow> (\<And>x. emits (\<lambda>a. \<not> P a) (k x)) \<Longrightarrow> at_most P n (andthen m k)"
  using at_most_andthen [of P n m 0 k] at_most_none by (metis add.right_neutral)

lemma at_most_tryp_rest:
  "emits (\<lambda>a. \<not> P a) m \<Longrightarrow> (\<And>x. at_most P n (k x)) \<Longrightarrow> at_most P n (tryp m w k)"
  unfolding tryp_def
  by (rule at_most_rest) (auto split: sum.split intro: at_most_none emits_ret)

lemma at_most_guardp_head:
  "at_most P n m \<Longrightarrow> emits (\<lambda>a. \<not> P a) k \<Longrightarrow> at_most P n (guardp m w k)"
  unfolding guardp_def by (rule at_most_head) (auto split: option.split intro: emits_ret)

lemma at_most_extcall: "at_most P 1 (extcall a f)"
  by (simp add: at_most_def extcall_def split: prod.split)

section \<open>What one run appends\<close>

definition new_actions :: "('s, 'o, 'e, 'r) prog \<Rightarrow> ('s, 'o, 'e) st \<Rightarrow> 'e list" where
  "new_actions m st = drop (length (trace st)) (trace (snd (m st)))"

lemma new_actions_emits: "emits \<phi> m \<Longrightarrow> list_all \<phi> (new_actions m st)"
  using emitsD [of \<phi> m st] by (auto simp: new_actions_def)

lemma new_actions_mem: "emits \<phi> m \<Longrightarrow> x \<in> set (new_actions m st) \<Longrightarrow> \<phi> x"
  using new_actions_emits [of \<phi> m st] by (simp add: list_all_iff)

lemma new_actions_at_most: "at_most P n m \<Longrightarrow> length (filter P (new_actions m st)) \<le> n"
  using at_mostD [of P n m st] by (auto simp: new_actions_def)

lemma new_actions_app: "emits \<phi> m \<Longrightarrow> trace (snd (m st)) = trace st @ new_actions m st"
  using emitsD [of \<phi> m st] by (auto simp: new_actions_def)

lemma new_actions_then:
  "emits \<phi> k \<Longrightarrow> trace st' = trace st @ es \<Longrightarrow> k st' = (r, st'') \<Longrightarrow>
     drop (length (trace st)) (trace st'') = es @ new_actions k st'"
  using new_actions_app [of \<phi> k st'] by simp

lemma new_actions_andthen:
  assumes m: "emits (\<lambda>_. True) m" and k: "\<And>x. emits (\<lambda>_. True) (k x)"
  shows "new_actions (andthen m k) st = new_actions m st
    @ (case m st of (Val x, st1) \<Rightarrow> new_actions (k x) st1 | (Panic, st1) \<Rightarrow> [])"
proof (cases "m st")
  case (Pair r st1)
  then have 1: "trace st1 = trace st @ new_actions m st" using new_actions_app [OF m, of st] by simp
  show ?thesis
  proof (cases r)
    case (Val x)
    obtain q st2 where 2: "k x st1 = (q, st2)" by (cases "k x st1")
    from new_actions_then [OF k 1 2] show ?thesis
      using Pair Val 2 by (simp add: new_actions_def [of "andthen m k"] run_andthen)
  qed (use Pair 1 in \<open>simp add: new_actions_def run_andthen\<close>)
qed

text \<open>
  Peeling a program: an action that the first part cannot emit comes from the second part, which
  then has been reached.
\<close>

lemma new_actions_peel:
  assumes x: "x \<in> set (new_actions (andthen m k) st)" "P x"
    and m: "emits (\<lambda>y. \<not> P y) m" and k: "\<And>v. emits (\<lambda>_. True) (k v)"
  obtains v st1 where "m st = (Val v, st1)" and "x \<in> set (new_actions (k v) st1)"
proof -
  obtain es where es: "trace (snd (m st)) = trace st @ es" "x \<notin> set es"
    using emitsD [OF m, of st] x(2) by (auto simp: list_all_iff)
  show thesis
  proof (cases "m st")
    case (Pair r st1)
    then show thesis
    proof (cases r)
      case (Val v)
      obtain r' st2 where 2: "k v st1 = (r', st2)" by (cases "k v st1")
      have "trace st1 = trace st @ es" using es(1) Pair by simp
      from new_actions_then [OF k this 2] x(1) es(2) Pair Val 2
      have "x \<in> set (new_actions (k v) st1)"
        by (simp add: new_actions_def [of "andthen m k"] run_andthen)
      then show thesis using Pair Val that by blast
    next
      case Panic
      then show thesis using x(1) es Pair by (simp add: new_actions_def run_andthen)
    qed
  qed
qed

lemma new_actions_peel_tryp:
  assumes "x \<in> set (new_actions (tryp m w k) st)" "P x"
    and "emits (\<lambda>y. \<not> P y) m" and k: "\<And>v. emits (\<lambda>_. True) (k v)"
  obtains v st1 where "m st = (Val (Inr v), st1)" and "x \<in> set (new_actions (k v) st1)"
proof -
  have "emits (\<lambda>_. True) (case r of Inl e \<Rightarrow> ret (w e) | Inr x \<Rightarrow> k x)" for r
    by (cases r) (simp_all add: k emits_ret)
  from new_actions_peel [OF assms(1) [unfolded tryp_def] assms(2,3) this]
  obtain r st1 where *: "m st = (Val r, st1)"
    "x \<in> set (new_actions (case r of Inl e \<Rightarrow> ret (w e) | Inr x \<Rightarrow> k x) st1)" .
  then show thesis
  proof (cases r)
    case (Inl e)
    then show thesis using * by (simp add: new_actions_def run_ret)
  qed (use * that in simp)
qed

lemma new_actions_ret [simp]: "new_actions (ret v) st = []"
  by (simp add: new_actions_def run_ret)

lemma new_actions_getobj: "new_actions (andthen getobj k) st = new_actions (k (obj st)) st"
  by (simp add: new_actions_def run_andthen run_getobj)

section \<open>The results a program returns\<close>

text \<open>
  \<open>returns \<psi> m\<close>: whenever \<open>m\<close> ends without a panic, its result satisfies \<open>\<psi>\<close>. Through
  \<open>emits_andthen_returns\<close> what a program emits later may depend on it.
\<close>

definition returns :: "('r \<Rightarrow> bool) \<Rightarrow> ('s, 'o, 'e, 'r) prog \<Rightarrow> bool" where
  "returns \<psi> m \<longleftrightarrow> (\<forall>st x st'. m st = (Val x, st') \<longrightarrow> \<psi> x)"

lemma returnsD: "returns \<psi> m \<Longrightarrow> m st = (Val x, st') \<Longrightarrow> \<psi> x"
  by (auto simp: returns_def)

lemma returns_True: "returns (\<lambda>_. True) m"
  by (simp add: returns_def)

lemma returns_ret [returns_intros]: "\<psi> x \<Longrightarrow> returns \<psi> (ret x)"
  by (simp add: returns_def ret_def)

lemma returns_andthen:
  "returns \<chi> m \<Longrightarrow> (\<And>x. \<chi> x \<Longrightarrow> returns \<psi> (k x)) \<Longrightarrow> returns \<psi> (andthen m k)"
  unfolding returns_def andthen_def by (simp split: prod.splits res.splits) blast

lemma returns_rest [returns_intros]: "(\<And>x. returns \<psi> (k x)) \<Longrightarrow> returns \<psi> (andthen m k)"
  by (rule returns_andthen [OF returns_True])

lemma returns_seqp [returns_intros]: "returns \<psi> k \<Longrightarrow> returns \<psi> (seqp m k)"
  unfolding seqp_def by (rule returns_rest)

lemma returns_if [returns_intros]:
  "(b \<Longrightarrow> returns \<psi> m) \<Longrightarrow> (\<not> b \<Longrightarrow> returns \<psi> k) \<Longrightarrow> returns \<psi> (if b then m else k)"
  by simp

lemma returns_case_option [returns_intros]:
  "(x = None \<Longrightarrow> returns \<psi> m) \<Longrightarrow> (\<And>y. x = Some y \<Longrightarrow> returns \<psi> (k y)) \<Longrightarrow>
     returns \<psi> (case x of None \<Rightarrow> m | Some y \<Rightarrow> k y)"
  by (simp split: option.split)

lemma returns_case_prod [returns_intros]:
  "(\<And>a b. x = (a, b) \<Longrightarrow> returns \<psi> (k a b)) \<Longrightarrow> returns \<psi> (case x of (a, b) \<Rightarrow> k a b)"
  by (simp split: prod.split)

lemma returns_case_sum [returns_intros]:
  "(\<And>y. x = Inl y \<Longrightarrow> returns \<psi> (m y)) \<Longrightarrow> (\<And>y. x = Inr y \<Longrightarrow> returns \<psi> (k y)) \<Longrightarrow>
     returns \<psi> (case x of Inl y \<Rightarrow> m y | Inr y \<Rightarrow> k y)"
  by (simp split: sum.split)

lemma returns_panic [returns_intros]: "returns \<psi> panic"
  by (simp add: returns_def panic_def)

lemma returns_tryp [returns_intros]:
  "(\<And>e. \<psi> (w e)) \<Longrightarrow> (\<And>x. returns \<psi> (k x)) \<Longrightarrow> returns \<psi> (tryp m w k)"
  unfolding tryp_def by (intro returns_intros)

lemma returns_guardp [returns_intros]:
  "(\<And>e. \<psi> (w e)) \<Longrightarrow> returns \<psi> k \<Longrightarrow> returns \<psi> (guardp m w k)"
  unfolding guardp_def by (intro returns_intros)

lemma returns_Let [returns_intros]: "returns \<psi> (k x) \<Longrightarrow> returns \<psi> (let y = x in k y)"
  by simp

lemma emits_andthen_returns:
  assumes m: "emits \<phi> m" and r: "returns \<psi> m" and k: "\<And>x. \<psi> x \<Longrightarrow> emits \<phi> (k x)"
  shows "emits \<phi> (andthen m k)"
proof (rule emitsI)
  fix st
  obtain es where es: "trace (snd (m st)) = trace st @ es" "list_all \<phi> es"
    using emitsD [OF m] by blast
  show "\<exists>es. trace (snd (andthen m k st)) = trace st @ es \<and> list_all \<phi> es"
  proof (cases "m st")
    case (Pair v st')
    then show ?thesis
    proof (cases v)
      case (Val x)
      with Pair r have "\<psi> x" by (blast dest: returnsD)
      then obtain es' where "trace (snd (k x st')) = trace st' @ es'" "list_all \<phi> es'"
        using emitsD [OF k] by blast
      with es Pair Val show ?thesis by (intro exI [of _ "es @ es'"]) (simp add: andthen_def)
    qed (use es in \<open>auto simp: andthen_def\<close>)
  qed
qed

section \<open>Programs that never panic\<close>

definition total :: "('s, 'o, 'e, 'r) prog \<Rightarrow> bool" where
  "total m \<longleftrightarrow> (\<forall>st. \<exists>x st'. m st = (Val x, st'))"

lemma totalD: "total m \<Longrightarrow> \<exists>x st'. m st = (Val x, st')"
  by (simp add: total_def)

lemma total_ret [total_intros]: "total (ret x)"
  by (simp add: total_def ret_def)

lemma total_andthen [total_intros]:
  assumes "total m" and "\<And>x. total (k x)"
  shows "total (andthen m k)"
  unfolding total_def
proof
  fix st
  obtain x st' where "m st = (Val x, st')" using totalD [OF assms(1)] by blast
  then show "\<exists>y st''. andthen m k st = (Val y, st'')"
    using totalD [OF assms(2)] by (simp add: andthen_def)
qed

lemma total_seqp [total_intros]: "total m \<Longrightarrow> total k \<Longrightarrow> total (seqp m k)"
  unfolding seqp_def by (rule total_andthen)

lemma total_whenp [total_intros]: "(b \<Longrightarrow> total m) \<Longrightarrow> total (whenp b m)"
  by (simp add: whenp_def total_ret)

lemma total_tryp [total_intros]: "total m \<Longrightarrow> (\<And>x. total (k x)) \<Longrightarrow> total (tryp m w k)"
  unfolding tryp_def by (rule total_andthen) (auto split: sum.split intro: total_ret)

lemma total_guardp [total_intros]: "total m \<Longrightarrow> total k \<Longrightarrow> total (guardp m w k)"
  unfolding guardp_def by (rule total_andthen) (auto split: option.split intro: total_ret)

lemma total_atoms [total_intros]:
  "total (emit a)" "total (extcall a f)" "total (readext g)" "total getobj" "total (modobj h)"
  by (simp_all add: total_def emit_def extcall_def readext_def getobj_def modobj_def split: prod.split)

lemma total_forp [total_intros]: "(\<And>x. x \<in> set xs \<Longrightarrow> total (f x)) \<Longrightarrow> total (forp xs f)"
  by (induction xs) (auto simp: forp.simps intro!: total_ret total_seqp)

lemma total_if [total_intros]: "(b \<Longrightarrow> total m) \<Longrightarrow> (\<not> b \<Longrightarrow> total k) \<Longrightarrow> total (if b then m else k)"
  by simp

lemma total_case_option [total_intros]:
  "(x = None \<Longrightarrow> total m) \<Longrightarrow> (\<And>y. x = Some y \<Longrightarrow> total (k y)) \<Longrightarrow>
     total (case x of None \<Rightarrow> m | Some y \<Rightarrow> k y)"
  by (simp split: option.split)

lemma total_case_sum [total_intros]:
  "(\<And>y. x = Inl y \<Longrightarrow> total (m y)) \<Longrightarrow> (\<And>y. x = Inr y \<Longrightarrow> total (k y)) \<Longrightarrow>
     total (case x of Inl y \<Rightarrow> m y | Inr y \<Rightarrow> k y)"
  by (simp split: sum.split)

lemma total_case_prod [total_intros]:
  "(\<And>a b. x = (a, b) \<Longrightarrow> total (k a b)) \<Longrightarrow> total (case x of (a, b) \<Rightarrow> k a b)"
  by (simp split: prod.split)

lemma total_case_list [total_intros]:
  "(x = [] \<Longrightarrow> total m) \<Longrightarrow> (\<And>y ys. x = y # ys \<Longrightarrow> total (k y ys)) \<Longrightarrow>
     total (case x of [] \<Rightarrow> m | y # ys \<Rightarrow> k y ys)"
  by (simp split: list.split)

lemma total_Let [total_intros]: "total (k x) \<Longrightarrow> total (let y = x in k y)"
  by simp

end
