(* ===== verification/GoText.thy ===== *)
theory GoText
  imports Prelude
begin

text \<open>
  The text functions of Go's standard library that the sources call, on strings as lists of
  bytes: decimal printing (\<open>strconv.Itoa\<close>, the verb \<open>%d\<close>), decimal scanning
  (\<open>strconv.ParseInt\<close> in base 10, \<open>fmt.Sscanf\<close> with a literal prefix and \<open>%d\<close>), the verb
  \<open>%q\<close>, \<open>strings.HasPrefix\<close>, \<open>strings.TrimPrefix\<close>, \<open>strings.Split\<close> on one separator byte, and
  the wrap-around of a signed 64-bit integer. The lemmas are the round trips the components
  rely on: what is printed is scanned back, what is joined is split back.
\<close>

section \<open>Prefixes and splitting\<close>

fun has_prefix :: "string \<Rightarrow> string \<Rightarrow> bool" where
  "has_prefix xs [] = True"
| "has_prefix [] (p # ps) = False"
| "has_prefix (x # xs) (p # ps) = (x = p \<and> has_prefix xs ps)"

definition trim_prefix :: "string \<Rightarrow> string \<Rightarrow> string" where
  "trim_prefix s p = (if has_prefix s p then drop (length p) s else s)"

fun split_on :: "char \<Rightarrow> string \<Rightarrow> string list" where
  "split_on c [] = [[]]"
| "split_on c (x # xs) =
     (if x = c then [] # split_on c xs
      else case split_on c xs of [] \<Rightarrow> [[x]] | p # ps \<Rightarrow> (x # p) # ps)"

fun join_on :: "char \<Rightarrow> string list \<Rightarrow> string" where
  "join_on c [] = []"
| "join_on c [p] = p"
| "join_on c (p # q # ps) = p @ [c] @ join_on c (q # ps)"

lemma has_prefix_append [simp]: "has_prefix (p @ s) p"
  by (induction p) auto

lemma has_prefix_iff: "has_prefix s p \<longleftrightarrow> (\<exists>t. s = p @ t)"
  by (induction s p rule: has_prefix.induct) auto

lemma trim_prefix_append [simp]: "trim_prefix (p @ s) p = s"
  by (simp add: trim_prefix_def)

lemma split_on_nonempty [simp]: "split_on c s \<noteq> []"
  by (cases s) (auto split: list.split)

lemma join_on_Cons: "ps \<noteq> [] \<Longrightarrow> join_on c (p # ps) = p @ [c] @ join_on c ps"
  by (cases ps) auto

lemma split_on_no_sep: "c \<notin> set p \<Longrightarrow> split_on c p = [p]"
  by (induction p) auto

lemma split_on_append_sep: "c \<notin> set p \<Longrightarrow> split_on c (p @ [c] @ s) = p # split_on c s"
  by (induction p) auto

lemma split_on_append: "c \<notin> set p \<Longrightarrow> split_on c (p @ c # s) = p # split_on c s"
  using split_on_append_sep [of c p s] by simp

lemma split_on_pieces: "p \<in> set (split_on c s) \<Longrightarrow> c \<notin> set p"
  by (induction s arbitrary: p) (auto split: if_splits list.splits)

lemma length_split_on: "length (split_on c s) = Suc (count_list s c)"
  by (induction s) (auto split: list.split)

lemma join_split: "join_on c (split_on c s) = s"
proof (induction s)
  case (Cons x xs)
  obtain p ps where *: "split_on c xs = p # ps"
    using split_on_nonempty [of c xs] by (cases "split_on c xs") blast+
  show ?case
  proof (cases "x = c")
    case True
    with Cons.IH show ?thesis by (simp add: join_on_Cons)
  next
    case False
    with Cons.IH * show ?thesis by (cases ps) auto
  qed
qed simp

section \<open>Decimal numbers\<close>

definition digit_char :: "nat \<Rightarrow> char" where
  "digit_char n = ''0123456789'' ! n"

definition digit_val :: "char \<Rightarrow> nat option" where
  "digit_val c =
     (let n = of_char c :: nat in if 48 \<le> n \<and> n < 58 then Some (n - 48) else None)"

fun show_nat :: "nat \<Rightarrow> string" where
  "show_nat n = (if n < 10 then [digit_char n] else show_nat (n div 10) @ [digit_char (n mod 10)])"

declare show_nat.simps [simp del]

definition show_int :: "int \<Rightarrow> string" where
  "show_int i = (if i < 0 then CHR ''-'' # show_nat (nat (- i)) else show_nat (nat i))"

text \<open>The digits at the front of a text, and the value of a run of digits.\<close>

fun span_digits :: "string \<Rightarrow> string \<times> string" where
  "span_digits [] = ([], [])"
| "span_digits (c # cs) =
     (if digit_val c = None then ([], c # cs)
      else case span_digits cs of (ds, rest) \<Rightarrow> (c # ds, rest))"

fun digits_val :: "nat \<Rightarrow> string \<Rightarrow> nat" where
  "digits_val acc [] = acc"
| "digits_val acc (c # cs) =
     digits_val (10 * acc + (case digit_val c of None \<Rightarrow> 0 | Some d \<Rightarrow> d)) cs"

lemma digit_val_char: "n < 10 \<Longrightarrow> digit_val (digit_char n) = Some n"
proof -
  have "list_all (\<lambda>n. digit_val (digit_char n) = Some n) [0..<10]" by code_simp
  then show "n < 10 \<Longrightarrow> digit_val (digit_char n) = Some n" by (simp add: list_all_iff)
qed

text \<open>Signs, blanks and the slash are no digits.\<close>

lemma non_digits:
  "list_all (\<lambda>c. digit_val c = None)
     [CHR ''-'', CHR ''+'', CHR ''/'', CHR '' '', CHR 0x09, CHR 0x0B, CHR 0x0C, CHR 0x0D]"
  by code_simp

lemma digits_val_append: "digits_val acc (xs @ ys) = digits_val (digits_val acc xs) ys"
  by (induction xs arbitrary: acc) auto

lemma digits_val_show_nat: "digits_val 0 (show_nat n) = n"
proof (induction n rule: less_induct)
  case (less n)
  show ?case
  proof (cases "n < 10")
    case True
    then show ?thesis by (simp add: show_nat.simps [of n] digit_val_char)
  next
    case False
    then have "digits_val 0 (show_nat (n div 10)) = n div 10"
      by (intro less.IH) simp
    with False show ?thesis
      by (simp add: show_nat.simps [of n] digits_val_append digit_val_char)
  qed
qed

lemma show_nat_digits: "c \<in> set (show_nat n) \<Longrightarrow> digit_val c \<noteq> None"
proof (induction n rule: less_induct)
  case (less n)
  show ?case
  proof (cases "n < 10")
    case True
    with less.prems show ?thesis by (simp add: show_nat.simps [of n] digit_val_char)
  next
    case False
    then have "n div 10 < n" by simp
    note IH = less.IH [OF this]
    from less.prems False consider "c \<in> set (show_nat (n div 10))" | "c = digit_char (n mod 10)"
      by (auto simp: show_nat.simps [of n])
    then show ?thesis by cases (use IH in \<open>auto simp: digit_val_char\<close>)
  qed
qed

lemma show_nat_nonempty: "show_nat n \<noteq> []"
  by (simp add: show_nat.simps [of n])

lemma span_digits_all: "(\<And>c. c \<in> set ds \<Longrightarrow> digit_val c \<noteq> None) \<Longrightarrow> span_digits ds = (ds, [])"
  by (induction ds) auto

lemma span_show_nat [simp]: "span_digits (show_nat n) = (show_nat n, [])"
  by (rule span_digits_all) (rule show_nat_digits)

lemma show_nat_hd: "\<exists>d ds. show_nat n = d # ds \<and> digit_val d \<noteq> None"
  using show_nat_nonempty [of n] show_nat_digits [of "hd (show_nat n)" n]
  by (cases "show_nat n") auto

section \<open>Signed 64-bit integers\<close>

definition min_int64 :: int where "min_int64 = - (2 ^ 63)"
definition max_int64 :: int where "max_int64 = 2 ^ 63 - 1"

text \<open>The value of a Go \<open>int64\<close> after wrap-around.\<close>

definition wrap64 :: "int \<Rightarrow> int" where
  "wrap64 i = (i + 2 ^ 63) mod 2 ^ 64 - 2 ^ 63"

lemma wrap64_id: "min_int64 \<le> i \<Longrightarrow> i \<le> max_int64 \<Longrightarrow> wrap64 i = i"
  by (simp add: wrap64_def min_int64_def max_int64_def)

lemma wrap64_range: "min_int64 \<le> wrap64 i \<and> wrap64 i \<le> max_int64"
  using pos_mod_bound [of "2 ^ 64" "i + 2 ^ 63"] pos_mod_sign [of "2 ^ 64" "i + 2 ^ 63"]
  by (simp add: wrap64_def min_int64_def max_int64_def)

text \<open>Go's integer division truncates towards zero.\<close>

definition go_div :: "int \<Rightarrow> int \<Rightarrow> int" where
  "go_div a b = sgn a * sgn b * (\<bar>a\<bar> div \<bar>b\<bar>)"

lemma go_div_nonneg: "0 \<le> a \<Longrightarrow> 0 < b \<Longrightarrow> go_div a b = a div b"
  by (cases "a = 0") (auto simp: go_div_def)

section \<open>Scanning numbers\<close>

text \<open>
  \<open>strconv.ParseInt(s, 10, 64)\<close> on an optional sign and digits: \<open>None\<close> on a syntax error or a
  value out of range.
\<close>

definition in_int64 :: "int \<Rightarrow> int option" where
  "in_int64 i = (if min_int64 \<le> i \<and> i \<le> max_int64 then Some i else None)"

fun parse_int :: "string \<Rightarrow> int option" where
  "parse_int [] = None"
| "parse_int (c # cs) =
     (let (neg, ds) = (if c = CHR ''-'' then (True, cs)
                       else if c = CHR ''+'' then (False, cs) else (False, c # cs))
      in if ds = [] \<or> snd (span_digits ds) \<noteq> [] then None
         else in_int64 (if neg then - int (digits_val 0 ds) else int (digits_val 0 ds)))"

lemma digit_not_sign: "digit_val d \<noteq> None \<Longrightarrow> d \<noteq> CHR ''-'' \<and> d \<noteq> CHR ''+''"
  using non_digits by auto

lemma parse_int_show_nat: "parse_int (show_nat n) = in_int64 (int n)"
proof -
  obtain d ds where *: "show_nat n = d # ds" "digit_val d \<noteq> None"
    using show_nat_hd by blast
  with digit_not_sign have "d \<noteq> CHR ''-''" "d \<noteq> CHR ''+''" by auto
  moreover have "span_digits (d # ds) = (d # ds, [])" using span_show_nat [of n] * by simp
  moreover have "digits_val 0 (d # ds) = n" using digits_val_show_nat [of n] * by simp
  ultimately show ?thesis
    unfolding *(1) parse_int.simps by (simp only: Let_def prod.case if_False snd_conv list.simps simp_thms of_nat_eq_iff)
qed

lemma parse_int_show_int: "parse_int (show_int i) = in_int64 i"
proof (cases "i < 0")
  case True
  then show ?thesis
    by (simp add: show_int_def show_nat_nonempty digits_val_show_nat)
next
  case False
  then show ?thesis by (simp add: show_int_def parse_int_show_nat)
qed

text \<open>
  \<open>fmt.Sscanf(s, prefix + "%d", &x)\<close>: the prefix byte for byte, then blanks, an optional sign
  and digits; what follows is not read. \<open>None\<close> when the scan fails, which leaves \<open>x\<close> as it was.
  (A line break where a number is expected is an error of the scanner; blanks are the ASCII
  ones.)
\<close>

definition scan_blanks :: "string \<Rightarrow> string" where
  "scan_blanks = dropWhile (\<lambda>c. c \<in> {CHR '' '', CHR 0x09, CHR 0x0B, CHR 0x0C, CHR 0x0D})"

definition scan_int :: "string \<Rightarrow> int option" where
  "scan_int s =
     (case scan_blanks s of
        [] \<Rightarrow> None
      | c # cs \<Rightarrow>
          (let (neg, ds) = (if c = CHR ''-'' then (True, fst (span_digits cs))
                            else if c = CHR ''+'' then (False, fst (span_digits cs))
                            else (False, fst (span_digits (c # cs))))
           in if ds = [] then None
              else in_int64 (if neg then - int (digits_val 0 ds) else int (digits_val 0 ds))))"

definition sscanf_prefix_int :: "string \<Rightarrow> string \<Rightarrow> int option" where
  "sscanf_prefix_int p s = (if has_prefix s p then scan_int (drop (length p) s) else None)"

lemma digit_not_blank:
  "digit_val d \<noteq> None \<Longrightarrow> d \<notin> {CHR '' '', CHR 0x09, CHR 0x0B, CHR 0x0C, CHR 0x0D}"
  using non_digits by auto

lemma scan_int_show_nat: "scan_int (show_nat n) = in_int64 (int n)"
proof -
  obtain d ds where *: "show_nat n = d # ds" "digit_val d \<noteq> None"
    using show_nat_hd by blast
  with digit_not_sign have s: "d \<noteq> CHR ''-''" "d \<noteq> CHR ''+''" by auto
  have b: "scan_blanks (d # ds) = d # ds"
    using digit_not_blank [OF *(2)] by (simp add: scan_blanks_def)
  have sp: "fst (span_digits (d # ds)) = d # ds" using span_show_nat [of n] * by simp
  have v: "digits_val 0 (d # ds) = n" using digits_val_show_nat [of n] * by simp
  show ?thesis
    unfolding *(1) scan_int_def b list.case
    using s by (simp only: if_False Let_def prod.case sp v list.simps simp_thms of_nat_eq_iff)
qed

lemma sscanf_show_nat: "sscanf_prefix_int p (p @ show_nat n) = in_int64 (int n)"
  by (simp add: sscanf_prefix_int_def scan_int_show_nat)

lemma sscanf_show_int: "0 \<le> i \<Longrightarrow> sscanf_prefix_int p (p @ show_int i) = in_int64 i"
  by (simp add: show_int_def sscanf_show_nat)

section \<open>Quoted text\<close>

text \<open>
  The verb \<open>%q\<close>: double quotes around the text, with Go's escapes. Bytes of multi-byte
  characters are kept, as \<open>%q\<close> keeps printable ones.
\<close>

definition hex_char :: "nat \<Rightarrow> char" where
  "hex_char n = ''0123456789abcdef'' ! n"

definition quote_char :: "char \<Rightarrow> string" where
  "quote_char c =
     (let n = of_char c :: nat in
      if c = CHR 0x22 then [CHR 0x5C, CHR 0x22]
      else if c = CHR 0x5C then [CHR 0x5C, CHR 0x5C]
      else if n = 7 then [CHR 0x5C, CHR ''a''] else if n = 8 then [CHR 0x5C, CHR ''b'']
      else if n = 9 then [CHR 0x5C, CHR ''t''] else if n = 10 then [CHR 0x5C, CHR ''n'']
      else if n = 11 then [CHR 0x5C, CHR ''v''] else if n = 12 then [CHR 0x5C, CHR ''f'']
      else if n = 13 then [CHR 0x5C, CHR ''r'']
      else if n < 32 \<or> n = 127 then [CHR 0x5C, CHR ''x'', hex_char (n div 16), hex_char (n mod 16)]
      else [c])"

definition quote :: "string \<Rightarrow> string" where
  "quote s = CHR 0x22 # concat (map quote_char s) @ [CHR 0x22]"

end
