(* ===== verification/GoErrors.thy ===== *)
theory GoErrors
  imports GoText
begin

text \<open>
  Error values. A Go error here is a text from outside or from \<open>fmt.Errorf\<close> without \<open>%w\<close>, a
  wrap by \<open>fmt.Errorf("...: %w", err)\<close> (every format of the sources ends with \<open>%w\<close>, so a
  wrap is the text before it), or the \<open>ClassifiedError\<close> of
  pkg/actuators/machine/actuator.go with its kind.
\<close>

datatype APIErrorKind = ErrorTransient | ErrorTerminal

datatype go_err =
    ErrText string
  | ErrWrap string go_err
  | ClassifiedError APIErrorKind go_err

text \<open>\<open>Error()\<close>: a wrap prints its text and then what it wraps; a classified error prints as the
  error it wraps.\<close>

fun err_string :: "go_err \<Rightarrow> string" where
  "err_string (ErrText s) = s"
| "err_string (ErrWrap s e) = s @ err_string e"
| "err_string (ClassifiedError k e) = err_string e"

text \<open>\<open>errors.As(err, &classified)\<close>: the first \<open>ClassifiedError\<close> along the chain of wraps.\<close>

fun errors_As :: "go_err \<Rightarrow> APIErrorKind option" where
  "errors_As (ErrText s) = None"
| "errors_As (ErrWrap s e) = errors_As e"
| "errors_As (ClassifiedError k e) = Some k"

section \<open>Printing and parsing\<close>

text \<open>
  A text form: whatever is well formed prints to a text that parses back to it, and only what is
  well formed comes out of the parser. Then printing is injective, and what a text parses to is
  the normal form of the text.
\<close>

locale text_codec =
  fixes wf :: "'a \<Rightarrow> bool" and print :: "'a \<Rightarrow> string" and parse :: "string \<Rightarrow> go_err + 'a"
  assumes parse_print: "wf x \<Longrightarrow> parse (print x) = Inr x"
    and parse_wf: "parse s = Inr x \<Longrightarrow> wf x"
begin

lemma print_inj: "wf x \<Longrightarrow> wf y \<Longrightarrow> print x = print y \<longleftrightarrow> x = y"
  using parse_print by (metis sum.inject(2))

lemma reparse: "parse s = Inr x \<Longrightarrow> parse (print x) = Inr x"
  by (rule parse_print) (rule parse_wf)

lemma same_normal_form: "parse s = Inr x \<Longrightarrow> parse t = Inr y \<Longrightarrow> print x = print y \<longleftrightarrow> x = y"
  by (rule print_inj) (rule parse_wf, assumption)+

end

end
