(* ===== verification/Json.thy ===== *)
theory Json
  imports GoErrors
begin

text \<open>
  JSON as \<open>encoding/json\<close> sees it, at the level of values: the bytes of a \<open>RawExtension\<close> are the
  value they spell, or nothing when they spell none (then \<open>Unmarshal\<close> fails). The decoders follow
  the package's rules for the field types of pkg/apis/nicoprovider/v1beta1/types.go: \<open>null\<close>
  leaves a field as it is and makes a pointer or slice nil, a value of another kind is an error,
  unknown members are ignored, and a member is matched to its field without regard to (ASCII)
  case. The texts of \<open>Unmarshal\<close>'s errors are not modelled. The encoders drop empty fields, as
  the tag \<open>omitempty\<close> says. Go maps are association lists with distinct keys.
\<close>

datatype json =
    JNull
  | JBool bool
  | JNum string
  | JStr string
  | JArr "json list"
  | JObj "(string \<times> json) list"

type_synonym raw_json = "json option"

section \<open>Go maps\<close>

type_synonym 'v gomap = "(string \<times> 'v) list"

definition gomap_get :: "'v gomap \<Rightarrow> string \<Rightarrow> 'v option" where
  "gomap_get m k = map_of m k"

fun gomap_set :: "string \<Rightarrow> 'v \<Rightarrow> 'v gomap \<Rightarrow> 'v gomap" where
  "gomap_set k v [] = [(k, v)]"
| "gomap_set k v ((k', v') # m) = (if k = k' then (k, v) # m else (k', v') # gomap_set k v m)"

lemma gomap_get_set [simp]: "gomap_get (gomap_set k v m) k' = (if k = k' then Some v else gomap_get m k')"
  by (induction k v m rule: gomap_set.induct) (auto simp: gomap_get_def)

lemma gomap_set_keys: "set (map fst (gomap_set k v m)) = insert k (set (map fst m))"
  by (induction k v m rule: gomap_set.induct) auto

lemma gomap_set_distinct: "distinct (map fst m) \<Longrightarrow> distinct (map fst (gomap_set k v m))"
proof (induction k v m rule: gomap_set.induct)
  case (2 k v k' v' m)
  then show ?case using gomap_set_keys [of k v m] by auto
qed simp

lemma gomap_set_same: "gomap_get m k = Some v \<Longrightarrow> gomap_set k v m = m"
  by (induction k v m rule: gomap_set.induct) (auto simp: gomap_get_def split: if_splits)

section \<open>Decoding\<close>

definition lower_char :: "char \<Rightarrow> char" where
  "lower_char c = (let n = of_char c :: nat in if 65 \<le> n \<and> n \<le> 90 then char_of (n + 32) else c)"

definition lower :: "string \<Rightarrow> string" where
  "lower s = map lower_char s"

definition is_field :: "string \<Rightarrow> string \<Rightarrow> bool" where
  "is_field k name \<longleftrightarrow> lower k = lower name"

lemma is_field_self [simp]: "is_field k k"
  by (simp add: is_field_def)

text \<open>Comparing lengths first makes the comparison cheap to evaluate.\<close>

lemma is_field_code [code]:
  "is_field k n = (if length k = length n then (if k = n then True else lower k = lower n) else False)"
  by (auto simp: is_field_def lower_def dest: map_eq_imp_length_eq)

definition type_error :: go_err where
  "type_error = ErrText ''json: cannot unmarshal value into Go struct field''"

fun dec_string :: "string \<Rightarrow> json \<Rightarrow> go_err + string" where
  "dec_string cur JNull = Inr cur"
| "dec_string cur (JStr s) = Inr s"
| "dec_string cur _ = Inl type_error"

fun dec_bool :: "bool \<Rightarrow> json \<Rightarrow> go_err + bool" where
  "dec_bool cur JNull = Inr cur"
| "dec_bool cur (JBool b) = Inr b"
| "dec_bool cur _ = Inl type_error"

fun dec_int32 :: "int \<Rightarrow> json \<Rightarrow> go_err + int" where
  "dec_int32 cur JNull = Inr cur"
| "dec_int32 cur (JNum lit) =
     (case parse_int lit of
        None \<Rightarrow> Inl type_error
      | Some i \<Rightarrow> if - (2 ^ 31) \<le> i \<and> i < 2 ^ 31 then Inr i else Inl type_error)"
| "dec_int32 cur _ = Inl type_error"

fun dec_ptr :: "(json \<Rightarrow> go_err + 'a) \<Rightarrow> json \<Rightarrow> go_err + 'a option" where
  "dec_ptr dec JNull = Inr None"
| "dec_ptr dec j = (case dec j of Inl e \<Rightarrow> Inl e | Inr x \<Rightarrow> Inr (Some x))"

fun dec_elems :: "(json \<Rightarrow> go_err + 'a) \<Rightarrow> json list \<Rightarrow> go_err + 'a list" where
  "dec_elems dec [] = Inr []"
| "dec_elems dec (j # js) =
     (case dec j of
        Inl e \<Rightarrow> Inl e
      | Inr x \<Rightarrow> (case dec_elems dec js of Inl e \<Rightarrow> Inl e | Inr xs \<Rightarrow> Inr (x # xs)))"

fun dec_list :: "(json \<Rightarrow> go_err + 'a) \<Rightarrow> json \<Rightarrow> go_err + 'a list" where
  "dec_list dec JNull = Inr []"
| "dec_list dec (JArr js) = dec_elems dec js"
| "dec_list dec _ = Inl type_error"

fun dec_entries :: "(string \<times> json) list \<Rightarrow> string gomap \<Rightarrow> go_err + string gomap" where
  "dec_entries [] m = Inr m"
| "dec_entries ((k, j) # js) m =
     (case dec_string [] j of Inl e \<Rightarrow> Inl e | Inr v \<Rightarrow> dec_entries js (gomap_set k v m))"

fun dec_strmap :: "string gomap \<Rightarrow> json \<Rightarrow> go_err + string gomap" where
  "dec_strmap cur JNull = Inr []"
| "dec_strmap cur (JObj js) = dec_entries js cur"
| "dec_strmap cur _ = Inl type_error"

text \<open>A struct: each member of the object in turn updates the field it names.\<close>

fun dec_members ::
  "(string \<Rightarrow> json \<Rightarrow> 'a \<Rightarrow> go_err + 'a) \<Rightarrow> (string \<times> json) list \<Rightarrow> 'a \<Rightarrow> go_err + 'a" where
  "dec_members f [] x = Inr x"
| "dec_members f ((k, j) # js) x =
     (case f k j x of Inl e \<Rightarrow> Inl e | Inr y \<Rightarrow> dec_members f js y)"

fun dec_struct :: "(string \<Rightarrow> json \<Rightarrow> 'a \<Rightarrow> go_err + 'a) \<Rightarrow> 'a \<Rightarrow> json \<Rightarrow> go_err + 'a" where
  "dec_struct f x JNull = Inr x"
| "dec_struct f x (JObj js) = dec_members f js x"
| "dec_struct f x _ = Inl type_error"

definition upd_field :: "go_err + 'v \<Rightarrow> ('v \<Rightarrow> 'a) \<Rightarrow> go_err + 'a" where
  "upd_field r f = (case r of Inl e \<Rightarrow> Inl e | Inr v \<Rightarrow> Inr (f v))"

lemma upd_field_simps [simp]: "upd_field (Inl e) f = Inl e" "upd_field (Inr v) f = Inr (f v)"
  by (simp_all add: upd_field_def)

lemma dec_members_append:
  "dec_members f (js @ ks) x =
     (case dec_members f js x of Inl e \<Rightarrow> Inl e | Inr y \<Rightarrow> dec_members f ks y)"
  by (induction js arbitrary: x) (auto split: sum.split)

text \<open>\<open>json.Unmarshal\<close> of the raw bytes into a fresh value.\<close>

definition unmarshal :: "(json \<Rightarrow> go_err + 'a) \<Rightarrow> raw_json \<Rightarrow> go_err + 'a" where
  "unmarshal dec raw =
     (case raw of None \<Rightarrow> Inl (ErrText ''invalid JSON text'') | Some j \<Rightarrow> dec j)"

section \<open>What decoding guarantees\<close>

text \<open>An invariant of every member's update is one of the struct, and a Go map has each key once.\<close>

lemma dec_members_invariant:
  assumes "\<And>k j x y. P x \<Longrightarrow> f k j x = Inr y \<Longrightarrow> P y" and "P x" and "dec_members f js x = Inr y"
  shows "P y"
  using assms(2,3)
proof (induction js arbitrary: x)
  case (Cons kj js)
  obtain k j where kj: "kj = (k, j)" by (cases kj)
  with Cons.prems(2) obtain x' where x': "f k j x = Inr x'" "dec_members f js x' = Inr y"
    by (auto split: sum.splits)
  show ?case by (rule Cons.IH [OF assms(1) [OF Cons.prems(1) x'(1)] x'(2)])
qed simp

lemma dec_entries_distinct:
  "dec_entries js m = Inr m' \<Longrightarrow> distinct (map fst m) \<Longrightarrow> distinct (map fst m')"
  by (induction js m rule: dec_entries.induct) (auto split: sum.splits intro: gomap_set_distinct)

lemma dec_strmap_distinct:
  "dec_strmap m j = Inr m' \<Longrightarrow> distinct (map fst m) \<Longrightarrow> distinct (map fst m')"
  by (cases j) (auto intro: dec_entries_distinct)

section \<open>Encoding\<close>

definition enc_omit_string :: "string \<Rightarrow> string \<Rightarrow> (string \<times> json) list" where
  "enc_omit_string k s = (if s = [] then [] else [(k, JStr s)])"

definition enc_omit_ptr :: "string \<Rightarrow> string option \<Rightarrow> (string \<times> json) list" where
  "enc_omit_ptr k p = (case p of None \<Rightarrow> [] | Some s \<Rightarrow> [(k, JStr s)])"

definition enc_omit_list :: "string \<Rightarrow> ('a \<Rightarrow> json) \<Rightarrow> 'a list \<Rightarrow> (string \<times> json) list" where
  "enc_omit_list k enc xs = (if xs = [] then [] else [(k, JArr (map enc xs))])"

definition enc_omit_strmap :: "string \<Rightarrow> string gomap \<Rightarrow> (string \<times> json) list" where
  "enc_omit_strmap k m = (if m = [] then [] else [(k, JObj (map (\<lambda>(k, v). (k, JStr v)) m))])"

section \<open>Codecs that invert each other\<close>

text \<open>
  The interface of an encoder and a decoder for one type: decoding what was encoded gives a value
  that agrees with the original up to \<open>norm\<close> (the identity for the repository's own types; for
  the condition type of the Kubernetes API machinery, whatever its text form does not keep).
\<close>

locale codec =
  fixes enc :: "'a \<Rightarrow> json" and dec :: "json \<Rightarrow> go_err + 'a" and norm :: "'a \<Rightarrow> 'a"
  assumes dec_enc: "dec (enc x) = Inr (norm x)"
begin

lemma dec_elems_map: "dec_elems dec (map enc xs) = Inr (map norm xs)"
  by (induction xs) (simp_all add: dec_enc)

lemma dec_list_enc: "dec_list dec (JArr (map enc xs)) = Inr (map norm xs)"
  by (simp add: dec_elems_map)

end

interpretation string_codec: codec JStr "dec_string []" "\<lambda>s. s"
  by unfold_locales simp

lemma dec_entries_enc:
  "distinct (map fst m @ map fst acc) \<Longrightarrow>
     dec_entries (map (\<lambda>(k, v). (k, JStr v)) m) acc = Inr (acc @ m)"
proof (induction m arbitrary: acc)
  case (Cons kv m)
  obtain k v where kv: "kv = (k, v)" by (cases kv)
  have "k \<notin> set (map fst acc)" using Cons.prems kv by auto
  then have "gomap_set k v acc = acc @ [(k, v)]"
    by (induction k v acc rule: gomap_set.induct) auto
  moreover have "distinct (map fst m @ map fst (acc @ [(k, v)]))" using Cons.prems kv by auto
  ultimately show ?case using Cons.IH [of "acc @ [(k, v)]"] kv by simp
qed simp

lemma dec_strmap_enc:
  "distinct (map fst m) \<Longrightarrow> dec_strmap [] (JObj (map (\<lambda>(k, v). (k, JStr v)) m)) = Inr m"
  using dec_entries_enc [of m "[]"] by simp

end
