(* ===== verification/ProviderTypes.thy ===== *)
theory ProviderTypes
  imports Json
begin

text \<open>
  The types of pkg/apis/nicoprovider/v1beta1/types.go, each field with its name (a prefix tells
  two structs' equal names apart), and their JSON form as the tags of the file say it. The
  embedded \<open>metav1.TypeMeta\<close> is its two texts; \<open>metav1.ObjectMeta\<close> is read by no code of the
  repository, so only whether it decodes is a parameter; \<open>metav1.Condition\<close> is a record of the
  fields the sources read and write, and its JSON form is a parameter as well.
\<close>

section \<open>Conditions of the Kubernetes API machinery\<close>

datatype ConditionStatus = ConditionTrue | ConditionFalse | ConditionOther string

text \<open>Times are nanoseconds since Go's zero time, so the zero time is \<open>0\<close>.\<close>

type_synonym time = int

record Condition =
  cType :: string
  cStatus :: ConditionStatus
  cReason :: string
  cMessage :: string
  cLastTransitionTime :: time

record metav1_codec =
  condition_enc :: "Condition \<Rightarrow> json"
  condition_dec :: "json \<Rightarrow> go_err + Condition"
  objectmeta_dec :: "json \<Rightarrow> go_err + unit"

section \<open>The provider spec\<close>

record AdditionalSubnet =
  asSubnetID :: string
  asIsPhysical :: bool

record CredentialsSecretReference =
  csName :: string
  csNamespace :: string

record InfiniBandInterfaceSpec =
  ibPartitionID :: string
  ibDevice :: string
  ibIsPhysical :: bool
  ibDeviceInstance :: "int option"

record DpuExtensionServiceSpec =
  dpuServiceID :: string
  dpuVersion :: string

record NVLinkInterfaceSpec =
  nvlNVLinkLogicalPartitionID :: string
  nvlDeviceInstance :: "int option"

record NicoMachineProviderSpec =
  specKind :: string
  specAPIVersion :: string
  SiteID :: string
  TenantID :: string
  InstanceTypeID :: string
  MachineID :: string
  AllowUnhealthyMachine :: bool
  VpcID :: string
  SubnetID :: string
  AdditionalSubnetIDs :: "AdditionalSubnet list"
  OperatingSystemID :: string
  InfiniBandInterfaces :: "InfiniBandInterfaceSpec list"
  NVLinkInterfaces :: "NVLinkInterfaceSpec list"
  NetworkSecurityGroupID :: string
  UserData :: string
  SSHKeyGroupIDs :: "string list"
  Labels :: "string gomap"
  Description :: string
  AlwaysBootWithCustomIpxe :: bool
  DpuExtensionServices :: "DpuExtensionServiceSpec list"
  CredentialsSecret :: CredentialsSecretReference

definition zero_spec :: NicoMachineProviderSpec where
  "zero_spec = \<lparr>specKind = [], specAPIVersion = [], SiteID = [], TenantID = [], InstanceTypeID = [],
     MachineID = [], AllowUnhealthyMachine = False, VpcID = [], SubnetID = [],
     AdditionalSubnetIDs = [], OperatingSystemID = [], InfiniBandInterfaces = [],
     NVLinkInterfaces = [], NetworkSecurityGroupID = [], UserData = [], SSHKeyGroupIDs = [],
     Labels = [], Description = [], AlwaysBootWithCustomIpxe = False, DpuExtensionServices = [],
     CredentialsSecret = \<lparr>csName = [], csNamespace = []\<rparr>\<rparr>"

section \<open>The provider status\<close>

record MachineAddress =
  addrType :: string
  addrAddress :: string

record NicoMachineProviderStatus =
  psKind :: string
  psAPIVersion :: string
  psInstanceID :: "string option"
  psMachineID :: "string option"
  psInstanceState :: "string option"
  psAddresses :: "MachineAddress list"
  psConditions :: "Condition list"
  psHealthLabels :: "string gomap"

definition zero_status :: NicoMachineProviderStatus where
  "zero_status = \<lparr>psKind = [], psAPIVersion = [], psInstanceID = None, psMachineID = None,
     psInstanceState = None, psAddresses = [], psConditions = [], psHealthLabels = []\<rparr>"

section \<open>Decoding the spec\<close>

definition member_AdditionalSubnet ::
  "string \<Rightarrow> json \<Rightarrow> AdditionalSubnet \<Rightarrow> go_err + AdditionalSubnet" where
  "member_AdditionalSubnet k j x =
     (if is_field k ''subnetId'' then upd_field (dec_string (asSubnetID x) j) (\<lambda>v. x\<lparr>asSubnetID := v\<rparr>)
      else if is_field k ''isPhysical'' then
        upd_field (dec_bool (asIsPhysical x) j) (\<lambda>v. x\<lparr>asIsPhysical := v\<rparr>)
      else Inr x)"

definition dec_AdditionalSubnet :: "json \<Rightarrow> go_err + AdditionalSubnet" where
  "dec_AdditionalSubnet = dec_struct member_AdditionalSubnet \<lparr>asSubnetID = [], asIsPhysical = False\<rparr>"

definition member_CredentialsSecret ::
  "string \<Rightarrow> json \<Rightarrow> CredentialsSecretReference \<Rightarrow> go_err + CredentialsSecretReference" where
  "member_CredentialsSecret k j x =
     (if is_field k ''name'' then upd_field (dec_string (csName x) j) (\<lambda>v. x\<lparr>csName := v\<rparr>)
      else if is_field k ''namespace'' then
        upd_field (dec_string (csNamespace x) j) (\<lambda>v. x\<lparr>csNamespace := v\<rparr>)
      else Inr x)"

definition member_InfiniBand ::
  "string \<Rightarrow> json \<Rightarrow> InfiniBandInterfaceSpec \<Rightarrow> go_err + InfiniBandInterfaceSpec" where
  "member_InfiniBand k j x =
     (if is_field k ''partitionId'' then
        upd_field (dec_string (ibPartitionID x) j) (\<lambda>v. x\<lparr>ibPartitionID := v\<rparr>)
      else if is_field k ''device'' then upd_field (dec_string (ibDevice x) j) (\<lambda>v. x\<lparr>ibDevice := v\<rparr>)
      else if is_field k ''isPhysical'' then
        upd_field (dec_bool (ibIsPhysical x) j) (\<lambda>v. x\<lparr>ibIsPhysical := v\<rparr>)
      else if is_field k ''deviceInstance'' then
        upd_field (dec_ptr (dec_int32 0) j) (\<lambda>v. x\<lparr>ibDeviceInstance := v\<rparr>)
      else Inr x)"

definition dec_InfiniBand :: "json \<Rightarrow> go_err + InfiniBandInterfaceSpec" where
  "dec_InfiniBand = dec_struct member_InfiniBand
     \<lparr>ibPartitionID = [], ibDevice = [], ibIsPhysical = False, ibDeviceInstance = None\<rparr>"

definition member_DpuService ::
  "string \<Rightarrow> json \<Rightarrow> DpuExtensionServiceSpec \<Rightarrow> go_err + DpuExtensionServiceSpec" where
  "member_DpuService k j x =
     (if is_field k ''serviceId'' then
        upd_field (dec_string (dpuServiceID x) j) (\<lambda>v. x\<lparr>dpuServiceID := v\<rparr>)
      else if is_field k ''version'' then
        upd_field (dec_string (dpuVersion x) j) (\<lambda>v. x\<lparr>dpuVersion := v\<rparr>)
      else Inr x)"

definition dec_DpuService :: "json \<Rightarrow> go_err + DpuExtensionServiceSpec" where
  "dec_DpuService = dec_struct member_DpuService \<lparr>dpuServiceID = [], dpuVersion = []\<rparr>"

definition member_NVLink ::
  "string \<Rightarrow> json \<Rightarrow> NVLinkInterfaceSpec \<Rightarrow> go_err + NVLinkInterfaceSpec" where
  "member_NVLink k j x =
     (if is_field k ''nvLinkLogicalPartitionId'' then
        upd_field (dec_string (nvlNVLinkLogicalPartitionID x) j)
          (\<lambda>v. x\<lparr>nvlNVLinkLogicalPartitionID := v\<rparr>)
      else if is_field k ''deviceInstance'' then
        upd_field (dec_ptr (dec_int32 0) j) (\<lambda>v. x\<lparr>nvlDeviceInstance := v\<rparr>)
      else Inr x)"

definition dec_NVLink :: "json \<Rightarrow> go_err + NVLinkInterfaceSpec" where
  "dec_NVLink = dec_struct member_NVLink
     \<lparr>nvlNVLinkLogicalPartitionID = [], nvlDeviceInstance = None\<rparr>"

definition member_ProviderSpec ::
  "metav1_codec \<Rightarrow> string \<Rightarrow> json \<Rightarrow> NicoMachineProviderSpec \<Rightarrow> go_err + NicoMachineProviderSpec" where
  "member_ProviderSpec C k j s =
     (if is_field k ''kind'' then upd_field (dec_string (specKind s) j) (\<lambda>v. s\<lparr>specKind := v\<rparr>)
      else if is_field k ''apiVersion'' then
        upd_field (dec_string (specAPIVersion s) j) (\<lambda>v. s\<lparr>specAPIVersion := v\<rparr>)
      else if is_field k ''metadata'' then upd_field (objectmeta_dec C j) (\<lambda>_. s)
      else if is_field k ''siteId'' then upd_field (dec_string (SiteID s) j) (\<lambda>v. s\<lparr>SiteID := v\<rparr>)
      else if is_field k ''tenantId'' then
        upd_field (dec_string (TenantID s) j) (\<lambda>v. s\<lparr>TenantID := v\<rparr>)
      else if is_field k ''instanceTypeId'' then
        upd_field (dec_string (InstanceTypeID s) j) (\<lambda>v. s\<lparr>InstanceTypeID := v\<rparr>)
      else if is_field k ''machineId'' then
        upd_field (dec_string (MachineID s) j) (\<lambda>v. s\<lparr>MachineID := v\<rparr>)
      else if is_field k ''allowUnhealthyMachine'' then
        upd_field (dec_bool (AllowUnhealthyMachine s) j) (\<lambda>v. s\<lparr>AllowUnhealthyMachine := v\<rparr>)
      else if is_field k ''vpcId'' then upd_field (dec_string (VpcID s) j) (\<lambda>v. s\<lparr>VpcID := v\<rparr>)
      else if is_field k ''subnetId'' then
        upd_field (dec_string (SubnetID s) j) (\<lambda>v. s\<lparr>SubnetID := v\<rparr>)
      else if is_field k ''additionalSubnetIds'' then
        upd_field (dec_list dec_AdditionalSubnet j) (\<lambda>v. s\<lparr>AdditionalSubnetIDs := v\<rparr>)
      else if is_field k ''operatingSystemId'' then
        upd_field (dec_string (OperatingSystemID s) j) (\<lambda>v. s\<lparr>OperatingSystemID := v\<rparr>)
      else if is_field k ''infiniBandInterfaces'' then
        upd_field (dec_list dec_InfiniBand j) (\<lambda>v. s\<lparr>InfiniBandInterfaces := v\<rparr>)
      else if is_field k ''nvLinkInterfaces'' then
        upd_field (dec_list dec_NVLink j) (\<lambda>v. s\<lparr>NVLinkInterfaces := v\<rparr>)
      else if is_field k ''networkSecurityGroupId'' then
        upd_field (dec_string (NetworkSecurityGroupID s) j) (\<lambda>v. s\<lparr>NetworkSecurityGroupID := v\<rparr>)
      else if is_field k ''userData'' then
        upd_field (dec_string (UserData s) j) (\<lambda>v. s\<lparr>UserData := v\<rparr>)
      else if is_field k ''sshKeyGroupIds'' then
        upd_field (dec_list (dec_string []) j) (\<lambda>v. s\<lparr>SSHKeyGroupIDs := v\<rparr>)
      else if is_field k ''labels'' then
        upd_field (dec_strmap (Labels s) j) (\<lambda>v. s\<lparr>Labels := v\<rparr>)
      else if is_field k ''description'' then
        upd_field (dec_string (Description s) j) (\<lambda>v. s\<lparr>Description := v\<rparr>)
      else if is_field k ''alwaysBootWithCustomIpxe'' then
        upd_field (dec_bool (AlwaysBootWithCustomIpxe s) j) (\<lambda>v. s\<lparr>AlwaysBootWithCustomIpxe := v\<rparr>)
      else if is_field k ''dpuExtensionServices'' then
        upd_field (dec_list dec_DpuService j) (\<lambda>v. s\<lparr>DpuExtensionServices := v\<rparr>)
      else if is_field k ''credentialsSecret'' then
        upd_field (dec_struct member_CredentialsSecret (CredentialsSecret s) j)
          (\<lambda>v. s\<lparr>CredentialsSecret := v\<rparr>)
      else Inr s)"

definition dec_ProviderSpec :: "metav1_codec \<Rightarrow> json \<Rightarrow> go_err + NicoMachineProviderSpec" where
  "dec_ProviderSpec C = dec_struct (member_ProviderSpec C) zero_spec"

section \<open>Encoding and decoding the status\<close>

definition member_MachineAddress ::
  "string \<Rightarrow> json \<Rightarrow> MachineAddress \<Rightarrow> go_err + MachineAddress" where
  "member_MachineAddress k j x =
     (if is_field k ''type'' then upd_field (dec_string (addrType x) j) (\<lambda>v. x\<lparr>addrType := v\<rparr>)
      else if is_field k ''address'' then
        upd_field (dec_string (addrAddress x) j) (\<lambda>v. x\<lparr>addrAddress := v\<rparr>)
      else Inr x)"

definition dec_MachineAddress :: "json \<Rightarrow> go_err + MachineAddress" where
  "dec_MachineAddress = dec_struct member_MachineAddress \<lparr>addrType = [], addrAddress = []\<rparr>"

definition enc_MachineAddress :: "MachineAddress \<Rightarrow> json" where
  "enc_MachineAddress a =
     JObj [(''type'', JStr (addrType a)), (''address'', JStr (addrAddress a))]"

definition member_ProviderStatus ::
  "metav1_codec \<Rightarrow> string \<Rightarrow> json \<Rightarrow> NicoMachineProviderStatus
     \<Rightarrow> go_err + NicoMachineProviderStatus" where
  "member_ProviderStatus C k j s =
     (if is_field k ''kind'' then upd_field (dec_string (psKind s) j) (\<lambda>v. s\<lparr>psKind := v\<rparr>)
      else if is_field k ''apiVersion'' then
        upd_field (dec_string (psAPIVersion s) j) (\<lambda>v. s\<lparr>psAPIVersion := v\<rparr>)
      else if is_field k ''instanceId'' then
        upd_field (dec_ptr (dec_string []) j) (\<lambda>v. s\<lparr>psInstanceID := v\<rparr>)
      else if is_field k ''machineId'' then
        upd_field (dec_ptr (dec_string []) j) (\<lambda>v. s\<lparr>psMachineID := v\<rparr>)
      else if is_field k ''instanceState'' then
        upd_field (dec_ptr (dec_string []) j) (\<lambda>v. s\<lparr>psInstanceState := v\<rparr>)
      else if is_field k ''addresses'' then
        upd_field (dec_list dec_MachineAddress j) (\<lambda>v. s\<lparr>psAddresses := v\<rparr>)
      else if is_field k ''conditions'' then
        upd_field (dec_list (condition_dec C) j) (\<lambda>v. s\<lparr>psConditions := v\<rparr>)
      else if is_field k ''healthLabels'' then
        upd_field (dec_strmap (psHealthLabels s) j) (\<lambda>v. s\<lparr>psHealthLabels := v\<rparr>)
      else Inr s)"

definition dec_ProviderStatus :: "metav1_codec \<Rightarrow> json \<Rightarrow> go_err + NicoMachineProviderStatus" where
  "dec_ProviderStatus C = dec_struct (member_ProviderStatus C) zero_status"

definition enc_ProviderStatus :: "metav1_codec \<Rightarrow> NicoMachineProviderStatus \<Rightarrow> json" where
  "enc_ProviderStatus C s = JObj
     (enc_omit_string ''kind'' (psKind s) @ enc_omit_string ''apiVersion'' (psAPIVersion s)
      @ enc_omit_ptr ''instanceId'' (psInstanceID s) @ enc_omit_ptr ''machineId'' (psMachineID s)
      @ enc_omit_ptr ''instanceState'' (psInstanceState s)
      @ enc_omit_list ''addresses'' enc_MachineAddress (psAddresses s)
      @ enc_omit_list ''conditions'' (condition_enc C) (psConditions s)
      @ enc_omit_strmap ''healthLabels'' (psHealthLabels s))"

section \<open>The status is read back as it was written\<close>

lemma is_field_status [simp]:
  "\<not> is_field ''apiVersion'' ''kind''"
  "\<not> is_field ''instanceId'' ''kind''" "\<not> is_field ''instanceId'' ''apiVersion''"
  "\<not> is_field ''machineId'' ''kind''" "\<not> is_field ''machineId'' ''apiVersion''"
  "\<not> is_field ''machineId'' ''instanceId''"
  "\<not> is_field ''instanceState'' ''kind''" "\<not> is_field ''instanceState'' ''apiVersion''"
  "\<not> is_field ''instanceState'' ''instanceId''" "\<not> is_field ''instanceState'' ''machineId''"
  "\<not> is_field ''addresses'' ''kind''" "\<not> is_field ''addresses'' ''apiVersion''"
  "\<not> is_field ''addresses'' ''instanceId''" "\<not> is_field ''addresses'' ''machineId''"
  "\<not> is_field ''addresses'' ''instanceState''"
  "\<not> is_field ''conditions'' ''kind''" "\<not> is_field ''conditions'' ''apiVersion''"
  "\<not> is_field ''conditions'' ''instanceId''" "\<not> is_field ''conditions'' ''machineId''"
  "\<not> is_field ''conditions'' ''instanceState''" "\<not> is_field ''conditions'' ''addresses''"
  "\<not> is_field ''healthLabels'' ''kind''" "\<not> is_field ''healthLabels'' ''apiVersion''"
  "\<not> is_field ''healthLabels'' ''instanceId''" "\<not> is_field ''healthLabels'' ''machineId''"
  "\<not> is_field ''healthLabels'' ''instanceState''" "\<not> is_field ''healthLabels'' ''addresses''"
  "\<not> is_field ''healthLabels'' ''conditions''"
  "\<not> is_field ''address'' ''type''"
  by code_simp+

interpretation address_codec: codec enc_MachineAddress dec_MachineAddress "\<lambda>a. a"
  by unfold_locales
    (simp add: enc_MachineAddress_def dec_MachineAddress_def member_MachineAddress_def)

lemma dec_status_segments:
  "dec_members (member_ProviderStatus C) (enc_omit_string ''kind'' v) s
     = Inr (if v = [] then s else s\<lparr>psKind := v\<rparr>)"
  "dec_members (member_ProviderStatus C) (enc_omit_string ''apiVersion'' v) s
     = Inr (if v = [] then s else s\<lparr>psAPIVersion := v\<rparr>)"
  "dec_members (member_ProviderStatus C) (enc_omit_ptr ''instanceId'' p) s
     = Inr (if p = None then s else s\<lparr>psInstanceID := p\<rparr>)"
  "dec_members (member_ProviderStatus C) (enc_omit_ptr ''machineId'' p) s
     = Inr (if p = None then s else s\<lparr>psMachineID := p\<rparr>)"
  "dec_members (member_ProviderStatus C) (enc_omit_ptr ''instanceState'' p) s
     = Inr (if p = None then s else s\<lparr>psInstanceState := p\<rparr>)"
  "dec_members (member_ProviderStatus C) (enc_omit_list ''addresses'' enc_MachineAddress as) s
     = Inr (if as = [] then s else s\<lparr>psAddresses := as\<rparr>)"
  by (auto simp: enc_omit_string_def enc_omit_ptr_def enc_omit_list_def member_ProviderStatus_def
      address_codec.dec_elems_map split: option.split)

lemma dec_status_conditions:
  assumes "codec (condition_enc C) (condition_dec C) norm"
  shows "dec_members (member_ProviderStatus C) (enc_omit_list ''conditions'' (condition_enc C) cs) s
     = Inr (if cs = [] then s else s\<lparr>psConditions := map norm cs\<rparr>)"
  using codec.dec_elems_map [OF assms]
  by (auto simp: enc_omit_list_def member_ProviderStatus_def)

lemma dec_status_labels:
  "distinct (map fst m) \<Longrightarrow> psHealthLabels s = [] \<Longrightarrow>
     dec_members (member_ProviderStatus C) (enc_omit_strmap ''healthLabels'' m) s
     = Inr (if m = [] then s else s\<lparr>psHealthLabels := m\<rparr>)"
  using dec_strmap_enc [of m] by (auto simp: enc_omit_strmap_def member_ProviderStatus_def)

lemma dec_enc_ProviderStatus:
  assumes "codec (condition_enc C) (condition_dec C) norm" and "distinct (map fst (psHealthLabels s))"
  shows "dec_ProviderStatus C (enc_ProviderStatus C s)
     = Inr (s\<lparr>psConditions := map norm (psConditions s)\<rparr>)"
  using assms(2)
  by (cases s) (simp add: dec_ProviderStatus_def enc_ProviderStatus_def dec_members_append
      dec_status_segments dec_status_conditions [OF assms(1)] dec_status_labels zero_status_def)

section \<open>The JSON form of conditions\<close>

text \<open>
  What the sources rely on in the JSON form of \<open>metav1.Condition\<close>: it keeps the type, the reason,
  the message and the two statuses the sources set. Of a time it keeps the seconds only, which
  \<open>norm\<close> stands for.
\<close>

locale condition_codec = codec enc dec norm
  for enc :: "Condition \<Rightarrow> json" and dec :: "json \<Rightarrow> go_err + Condition"
    and norm :: "Condition \<Rightarrow> Condition" +
  assumes norm_type: "cType (norm c) = cType c"
    and norm_reason: "cReason (norm c) = cReason c"
    and norm_status: "cStatus c = ConditionTrue \<or> cStatus c = ConditionFalse \<Longrightarrow>
      cStatus (norm c) = cStatus c"
begin

lemma status_roundtrip:
  "C = \<lparr>condition_enc = enc, condition_dec = dec, objectmeta_dec = om\<rparr> \<Longrightarrow>
     distinct (map fst (psHealthLabels s)) \<Longrightarrow>
     dec_ProviderStatus C (enc_ProviderStatus C s) = Inr (s\<lparr>psConditions := map norm (psConditions s)\<rparr>)"
  using dec_enc_ProviderStatus [of C norm s] codec_axioms by simp

end

abbreviation codec_ok :: "metav1_codec \<Rightarrow> (Condition \<Rightarrow> Condition) \<Rightarrow> bool" where
  "codec_ok C norm \<equiv> condition_codec (condition_enc C) (condition_dec C) norm"

text \<open>A form that keeps the laws: times as whole seconds, the zero second as \<open>0\<close>.\<close>

definition ref_status_text :: "ConditionStatus \<Rightarrow> string" where
  "ref_status_text s =
     (case s of ConditionTrue \<Rightarrow> ''True'' | ConditionFalse \<Rightarrow> ''False'' | ConditionOther t \<Rightarrow> t)"

definition ref_text_status :: "string \<Rightarrow> ConditionStatus" where
  "ref_text_status t =
     (if t = ''True'' then ConditionTrue else if t = ''False'' then ConditionFalse
      else ConditionOther t)"

definition ref_seconds :: "time \<Rightarrow> nat" where
  "ref_seconds t = nat (t div 1000000000)"

definition ref_condition_enc :: "Condition \<Rightarrow> json" where
  "ref_condition_enc c = JArr [JStr (cType c), JStr (ref_status_text (cStatus c)), JStr (cReason c),
     JStr (cMessage c), JStr (show_nat (ref_seconds (cLastTransitionTime c)))]"

fun ref_condition_dec :: "json \<Rightarrow> go_err + Condition" where
  "ref_condition_dec (JArr [JStr t, JStr s, JStr r, JStr m, JStr n]) =
     Inr \<lparr>cType = t, cStatus = ref_text_status s, cReason = r, cMessage = m,
          cLastTransitionTime = int (digits_val 0 n) * 1000000000\<rparr>"
| "ref_condition_dec _ = Inl type_error"

definition ref_condition_norm :: "Condition \<Rightarrow> Condition" where
  "ref_condition_norm c = c\<lparr>cStatus := ref_text_status (ref_status_text (cStatus c)),
     cLastTransitionTime := int (ref_seconds (cLastTransitionTime c)) * 1000000000\<rparr>"

definition ref_metav1 :: metav1_codec where
  "ref_metav1 = \<lparr>condition_enc = ref_condition_enc, condition_dec = ref_condition_dec,
     objectmeta_dec = (\<lambda>_. Inr ())\<rparr>"

interpretation ref_condition_codec:
  condition_codec ref_condition_enc ref_condition_dec ref_condition_norm
  by unfold_locales
    (auto simp: ref_condition_enc_def ref_condition_norm_def digits_val_show_nat
       ref_status_text_def ref_text_status_def)

end
