(* ===== verification/HttpErrors.thy ===== *)
theory HttpErrors
  imports Json
begin

text \<open>
  HTTP responses and the classification of API errors for retries: \<open>classifyHTTPError\<close> of
  pkg/actuators/machine/actuator.go.
\<close>

text \<open>\<open>*http.Response\<close> as the sources use it: the status code and,
  if there is a body, the JSON its bytes spell.\<close>

record HttpResponse =
  StatusCode :: int
  Body :: "raw_json option"

definition classifyHTTPError :: "HttpResponse option \<Rightarrow> go_err \<Rightarrow> go_err" where
  "classifyHTTPError httpResp err =
     (case httpResp of
        None \<Rightarrow> ClassifiedError ErrorTransient err
      | Some r \<Rightarrow>
          if StatusCode r = 400 then ClassifiedError ErrorTerminal err
          else ClassifiedError ErrorTransient err)"

lemma errors_As_classify [simp]:
  "errors_As (classifyHTTPError r e) =
     Some (if \<exists>h. r = Some h \<and> StatusCode h = 400 then ErrorTerminal else ErrorTransient)"
  by (auto simp: classifyHTTPError_def split: option.split)

lemma err_string_classify [simp]: "err_string (classifyHTTPError r e) = err_string e"
  by (auto simp: classifyHTTPError_def split: option.split)

end
