(* ===== verification/NicoApi.thy ===== *)
theory NicoApi
  imports ProviderTypes HttpErrors
begin

text \<open>
  The NICo REST API as the repository sees it: the interface \<open>NicoClientInterface\<close> and the
  wrapper \<open>nicoClient\<close> of pkg/actuators/machine/actuator.go. The SDK is not under src/, so its
  objects are records of what the sources read of them (a nullable field is what its \<open>Get()\<close>
  gives), its clients are parameters that answer a call and move the outside world, and its
  enumerations are the texts the sources name.
\<close>

section \<open>Objects of the SDK\<close>

text \<open>The SDK's instance states are texts; a comment on \<open>setInstanceStateConditions\<close> lists them.\<close>

type_synonym InstanceStatus = string

definition INSTANCESTATUS_PENDING :: InstanceStatus where "INSTANCESTATUS_PENDING = ''Pending''"
definition INSTANCESTATUS_PROVISIONING :: InstanceStatus where
  "INSTANCESTATUS_PROVISIONING = ''Provisioning''"
definition INSTANCESTATUS_CONFIGURING :: InstanceStatus where
  "INSTANCESTATUS_CONFIGURING = ''Configuring''"
definition INSTANCESTATUS_READY :: InstanceStatus where "INSTANCESTATUS_READY = ''Ready''"
definition INSTANCESTATUS_UPDATING :: InstanceStatus where "INSTANCESTATUS_UPDATING = ''Updating''"
definition INSTANCESTATUS_REBOOTING :: InstanceStatus where
  "INSTANCESTATUS_REBOOTING = ''Rebooting''"
definition INSTANCESTATUS_TERMINATING :: InstanceStatus where
  "INSTANCESTATUS_TERMINATING = ''Terminating''"
definition INSTANCESTATUS_ERROR :: InstanceStatus where "INSTANCESTATUS_ERROR = ''Error''"

lemmas instance_status_defs =
  INSTANCESTATUS_PENDING_def INSTANCESTATUS_PROVISIONING_def INSTANCESTATUS_CONFIGURING_def
  INSTANCESTATUS_READY_def INSTANCESTATUS_UPDATING_def INSTANCESTATUS_REBOOTING_def
  INSTANCESTATUS_TERMINATING_def INSTANCESTATUS_ERROR_def

record NvLinkInterface =
  nvliLogicalPartitionId :: "string option"
  nvliDomainId :: "string option"

record Instance =
  instId :: "string option"
  instMachineId :: "string option"
  instMachineIdSet :: bool
  instStatus :: "InstanceStatus option"
  instSiteId :: "string option"
  instInterfaces :: "string list list"
  instNvLinkInterfaces :: "NvLinkInterface list"
  instInfinibandInterfaces :: "string option list"

record InterfaceCreateRequest =
  icrSubnetId :: "string option"
  icrIsPhysical :: "bool option"

record InfiniBandInterfaceCreateRequest =
  ibrPartitionId :: "string option"
  ibrDevice :: "string option"
  ibrIsPhysical :: "bool option"
  ibrDeviceInstance :: "int option"

record NVLinkInterfaceCreateOrUpdateRequest =
  nvrNvLinkLogicalPartitionId :: "string option"
  nvrDeviceInstance :: "int option"

record InstanceCreateRequest =
  reqName :: string
  reqTenantId :: string
  reqVpcId :: string
  reqInterfaces :: "InterfaceCreateRequest list"
  reqPhoneHomeEnabled :: "bool option"
  reqInstanceTypeId :: "string option"
  reqMachineId :: "string option"
  reqAllowUnhealthyMachine :: "bool option"
  reqUserData :: "string option"
  reqOperatingSystemId :: "string option"
  reqIpxeScript :: "string option"
  reqSshKeyGroupIds :: "string list"
  reqLabels :: "string gomap"
  reqNetworkSecurityGroupId :: "string option"
  reqDescription :: "string option"
  reqAlwaysBootWithCustomIpxe :: "bool option"
  reqInfinibandInterfaces :: "InfiniBandInterfaceCreateRequest list"
  reqNvLinkInterfaces :: "NVLinkInterfaceCreateOrUpdateRequest list"

record DpuExtensionServiceDeploymentRequest =
  dprDpuExtensionServiceId :: "string option"
  dprVersion :: "string option"

record InstanceUpdateRequest =
  iurDpuExtensionServiceDeployments :: "DpuExtensionServiceDeploymentRequest list"

record MachineHealthIssue =
  mhiCategory :: string
  mhiSummary :: "string option"
  mhiDetails :: "string option"

record InstanceDeleteRequest =
  idrMachineHealthIssue :: "MachineHealthIssue option"

record MachineHealthProbeAlert =
  alertId :: string
  alertMessage :: string
  alertClassifications :: "string list"

record MachineHealthReportEntryRequest =
  hrrSource :: string
  hrrAlerts :: "MachineHealthProbeAlert list"
  hrrMode :: string

record MachineHealthReportEntry =
  hreAlerts :: "MachineHealthProbeAlert list"

record StatusDetail =
  sdStatus :: "string option"
  sdMessage :: "string option"
  sdCreated :: "time option"

record MachineValidationRun =
  mvrEndTime :: "time option"
  mvrState :: string
  mvrCompleted :: int
  mvrTotal :: int

record Tenant =
  tenCapabilities :: "bool option option"

record SiteCapability =
  scTargetedInstanceCreation :: bool
  scSiteIds :: "string list"

datatype TenantAccountStatus = TENANTACCOUNTSTATUS_READY | TenantAccountStatusOther string

record TenantAccount =
  taStatus :: TenantAccountStatus
  taSiteCapabilities :: "SiteCapability list"

datatype MachineStatus =
  MACHINESTATUS_READY | MACHINESTATUS_IN_USE | MachineStatusOther string

record BmcInfo =
  bmcIp :: "string option"
  bmcFirmwareRevision :: "string option"

record DmiData =
  dmiBiosVersion :: "string option"
  dmiBiosDate :: "string option"

record MachineNic =
  nicMacAddress :: "string option"
  nicDevice :: "string option"

record MachineMetadata =
  mdBmcInfo :: "BmcInfo option"
  mdDmiData :: "DmiData option"
  mdNetworkInterfaces :: "MachineNic list"
  mdGpuVbiosVersions :: "string option list"

record NicoMachine =
  nmId :: "string option"
  nmSiteId :: "string option"
  nmStatus :: "MachineStatus option"
  nmVendor :: "string option"
  nmProductName :: "string option"
  nmSerialNumber :: "string option"
  nmControllerMachineType :: "string option"
  nmMetadata :: "MachineMetadata option"
  nmHealth :: "MachineHealthProbeAlert list option"

record SkuCpu =
  skuCpuModel :: "string option"
  skuCpuCount :: "int option"

record SkuMemory =
  skuMemCapacityMb :: "int option"
  skuMemCount :: "int option"

record SkuStorage =
  skuStorVendor :: "string option"
  skuStorModel :: "string option"
  skuStorCapacityMb :: "int option"

record SkuComponents =
  skuCpus :: "SkuCpu list"
  skuMemory :: "SkuMemory list"
  skuStorage :: "SkuStorage list"

record Sku =
  skuComponents :: "SkuComponents option"
  skuAssociatedMachineIds :: "string list"

record ExplorationReport =
  erMachineId :: "string option"
  erFirmwareVersions :: "string gomap"

record ExploredEndpoint =
  epReport :: "ExplorationReport option"

section \<open>The client interface\<close>

type_synonym 'a reply = "'a \<times> HttpResponse option \<times> go_err option"

record 's NicoClientInterface =
  CreateInstance :: "string \<Rightarrow> InstanceCreateRequest \<Rightarrow> 's \<Rightarrow> Instance option reply \<times> 's"
  GetInstance :: "string \<Rightarrow> string \<Rightarrow> 's \<Rightarrow> Instance option reply \<times> 's"
  DeleteInstance ::
    "string \<Rightarrow> string \<Rightarrow> InstanceDeleteRequest option \<Rightarrow> 's \<Rightarrow> unit reply \<times> 's"
  UpdateInstance ::
    "string \<Rightarrow> string \<Rightarrow> InstanceUpdateRequest \<Rightarrow> 's \<Rightarrow> Instance option reply \<times> 's"
  GetMachine :: "string \<Rightarrow> string \<Rightarrow> 's \<Rightarrow> NicoMachine option reply \<times> 's"
  GetCurrentTenant :: "string \<Rightarrow> 's \<Rightarrow> Tenant option reply \<times> 's"
  GetInstanceStatusHistory :: "string \<Rightarrow> string \<Rightarrow> 's \<Rightarrow> StatusDetail list reply \<times> 's"
  GetAllMachineHealthReport ::
    "string \<Rightarrow> string \<Rightarrow> 's \<Rightarrow> MachineHealthReportEntry list reply \<times> 's"
  CreateOrUpdateMachineHealthReport ::
    "string \<Rightarrow> string \<Rightarrow> MachineHealthReportEntryRequest \<Rightarrow> 's
       \<Rightarrow> MachineHealthReportEntry option reply \<times> 's"
  DeleteMachineHealthReport :: "string \<Rightarrow> string \<Rightarrow> string \<Rightarrow> 's \<Rightarrow> unit reply \<times> 's"
  GetMachineValidationRuns ::
    "string \<Rightarrow> string \<Rightarrow> 's \<Rightarrow> MachineValidationRun list reply \<times> 's"
  GetMachineStatusHistory :: "string \<Rightarrow> string \<Rightarrow> 's \<Rightarrow> StatusDetail list reply \<times> 's"
  GetAllTenantAccount :: "string \<Rightarrow> 's \<Rightarrow> TenantAccount list reply \<times> 's"
  GetAllMachine :: "string \<Rightarrow> 's \<Rightarrow> NicoMachine list reply \<times> 's"
  GetAllSku :: "string \<Rightarrow> 's \<Rightarrow> Sku list reply \<times> 's"
  GetAllSiteExplorerEndpoint :: "string \<Rightarrow> 's \<Rightarrow> ExploredEndpoint list reply \<times> 's"

text \<open>A call of the interface, as it is recorded in a trace.\<close>

datatype api_call =
    CallCreateInstance string InstanceCreateRequest
  | CallGetInstance string string
  | CallDeleteInstance string string "InstanceDeleteRequest option"
  | CallUpdateInstance string string InstanceUpdateRequest
  | CallGetMachine string string
  | CallGetCurrentTenant string
  | CallGetInstanceStatusHistory string string
  | CallGetAllMachineHealthReport string string
  | CallCreateOrUpdateMachineHealthReport string string MachineHealthReportEntryRequest
  | CallDeleteMachineHealthReport string string string
  | CallGetMachineValidationRuns string string
  | CallGetMachineStatusHistory string string
  | CallGetAllTenantAccount string
  | CallGetAllMachine string
  | CallGetAllSku string
  | CallGetAllSiteExplorerEndpoint string

section \<open>The wrapper around the SDK client\<close>

text \<open>
  An SDK request is built from a context (here its access token), the path arguments, and what
  the request builder was given; \<open>Execute()\<close> answers it. The SDK is the record of its endpoints
  for one server URL.
\<close>

type_synonym token_ctx = "string option"

record 's SdkApi =
  sdkCreateInstance ::
    "token_ctx \<Rightarrow> string \<Rightarrow> InstanceCreateRequest option \<Rightarrow> 's \<Rightarrow> Instance option reply \<times> 's"
  sdkGetInstance :: "token_ctx \<Rightarrow> string \<Rightarrow> string \<Rightarrow> 's \<Rightarrow> Instance option reply \<times> 's"
  sdkDeleteInstance ::
    "token_ctx \<Rightarrow> string \<Rightarrow> string \<Rightarrow> InstanceDeleteRequest option \<Rightarrow> 's \<Rightarrow> unit reply \<times> 's"
  sdkUpdateInstance ::
    "token_ctx \<Rightarrow> string \<Rightarrow> string \<Rightarrow> InstanceUpdateRequest option \<Rightarrow> 's
       \<Rightarrow> Instance option reply \<times> 's"
  sdkGetMachine :: "token_ctx \<Rightarrow> string \<Rightarrow> string \<Rightarrow> 's \<Rightarrow> NicoMachine option reply \<times> 's"
  sdkGetCurrentTenant :: "token_ctx \<Rightarrow> string \<Rightarrow> 's \<Rightarrow> Tenant option reply \<times> 's"
  sdkGetInstanceStatusHistory ::
    "token_ctx \<Rightarrow> string \<Rightarrow> string \<Rightarrow> 's \<Rightarrow> StatusDetail list reply \<times> 's"
  sdkGetAllMachineHealthReport ::
    "token_ctx \<Rightarrow> string \<Rightarrow> string \<Rightarrow> 's \<Rightarrow> MachineHealthReportEntry list reply \<times> 's"
  sdkCreateOrUpdateMachineHealthReport ::
    "token_ctx \<Rightarrow> string \<Rightarrow> string \<Rightarrow> MachineHealthReportEntryRequest option \<Rightarrow> 's
       \<Rightarrow> MachineHealthReportEntry option reply \<times> 's"
  sdkDeleteMachineHealthReport ::
    "token_ctx \<Rightarrow> string \<Rightarrow> string \<Rightarrow> string \<Rightarrow> 's \<Rightarrow> unit reply \<times> 's"
  sdkGetAllMachineValidationRuns ::
    "token_ctx \<Rightarrow> string \<Rightarrow> string \<Rightarrow> 's \<Rightarrow> MachineValidationRun list reply \<times> 's"
  sdkGetMachineStatusHistory ::
    "token_ctx \<Rightarrow> string \<Rightarrow> string \<Rightarrow> 's \<Rightarrow> StatusDetail list reply \<times> 's"
  sdkGetAllTenantAccount :: "token_ctx \<Rightarrow> string \<Rightarrow> 's \<Rightarrow> TenantAccount list reply \<times> 's"
  sdkGetAllMachine :: "token_ctx \<Rightarrow> string \<Rightarrow> bool option \<Rightarrow> 's \<Rightarrow> NicoMachine list reply \<times> 's"
  sdkGetAllSku :: "token_ctx \<Rightarrow> string \<Rightarrow> 's \<Rightarrow> Sku list reply \<times> 's"
  sdkGetAllSiteExplorerEndpoint ::
    "token_ctx \<Rightarrow> string \<Rightarrow> 's \<Rightarrow> ExploredEndpoint list reply \<times> 's"

record 's nicoClient =
  ncClient :: "'s SdkApi"
  ncToken :: string

definition authCtx :: "'s nicoClient \<Rightarrow> token_ctx" where
  "authCtx c = Some (ncToken c)"

definition nicoClient_methods :: "'s nicoClient \<Rightarrow> 's NicoClientInterface" where
  "nicoClient_methods c = \<lparr>
     CreateInstance = (\<lambda>org req. sdkCreateInstance (ncClient c) (authCtx c) org (Some req)),
     GetInstance = (\<lambda>org instanceId. sdkGetInstance (ncClient c) (authCtx c) org instanceId),
     DeleteInstance = (\<lambda>org instanceId deleteReq.
       sdkDeleteInstance (ncClient c) (authCtx c) org instanceId
         (case deleteReq of None \<Rightarrow> None | Some r \<Rightarrow> Some r)),
     UpdateInstance = (\<lambda>org instanceId req.
       sdkUpdateInstance (ncClient c) (authCtx c) org instanceId (Some req)),
     GetMachine = (\<lambda>org machineId. sdkGetMachine (ncClient c) (authCtx c) org machineId),
     GetCurrentTenant = (\<lambda>org. sdkGetCurrentTenant (ncClient c) (authCtx c) org),
     GetInstanceStatusHistory = (\<lambda>org instanceId.
       sdkGetInstanceStatusHistory (ncClient c) (authCtx c) org instanceId),
     GetAllMachineHealthReport = (\<lambda>org machineId.
       sdkGetAllMachineHealthReport (ncClient c) (authCtx c) org machineId),
     CreateOrUpdateMachineHealthReport = (\<lambda>org machineId req.
       sdkCreateOrUpdateMachineHealthReport (ncClient c) (authCtx c) org machineId (Some req)),
     DeleteMachineHealthReport = (\<lambda>org machineId source.
       sdkDeleteMachineHealthReport (ncClient c) (authCtx c) org machineId source),
     GetMachineValidationRuns = (\<lambda>org machineId.
       sdkGetAllMachineValidationRuns (ncClient c) (authCtx c) org machineId),
     GetMachineStatusHistory = (\<lambda>org machineId.
       sdkGetMachineStatusHistory (ncClient c) (authCtx c) org machineId),
     GetAllTenantAccount = (\<lambda>org. sdkGetAllTenantAccount (ncClient c) (authCtx c) org),
     GetAllMachine = (\<lambda>org. sdkGetAllMachine (ncClient c) (authCtx c) org (Some True)),
     GetAllSku = (\<lambda>org. sdkGetAllSku (ncClient c) (authCtx c) org),
     GetAllSiteExplorerEndpoint = (\<lambda>org.
       sdkGetAllSiteExplorerEndpoint (ncClient c) (authCtx c) org)\<rparr>"

end
