(* ===== verification/ProviderId.thy ===== *)
theory ProviderId
  imports GoErrors
begin

text \<open>
  Provider IDs: pkg/providerid/providerid.go. The UUID library is a parameter: its type is the
  type variable \<open>'u\<close>, its \<open>Parse\<close> and \<open>String\<close> the fields of \<open>uuid_lib\<close>. What the code relies on is
  the locale \<open>uuid_codec\<close>: a printed UUID parses back to itself, and the printed form (36
  characters, hexadecimal digits and dashes) has no slash.
\<close>

record 'u uuid_lib =
  uuid_parse :: "string \<Rightarrow> go_err + 'u"
  uuid_string :: "'u \<Rightarrow> string"

locale uuid_codec =
  fixes U :: "'u uuid_lib"
  assumes parse_string: "uuid_parse U (uuid_string U u) = Inr u"
    and string_no_slash: "CHR ''/'' \<notin> set (uuid_string U u)"

section \<open>The operations\<close>

definition ProviderPrefix :: string where "ProviderPrefix = ''nico://''"
definition LegacyProviderPrefix :: string where "LegacyProviderPrefix = ''nvidia-carbide://''"

record 'u ProviderID =
  pidOrgName :: string
  pidTenantName :: string
  pidSiteName :: string
  pidInstanceID :: 'u

definition NewProviderID :: "string \<Rightarrow> string \<Rightarrow> string \<Rightarrow> 'u \<Rightarrow> 'u ProviderID" where
  "NewProviderID orgName tenantName siteName instanceID =
     \<lparr>pidOrgName = orgName, pidTenantName = tenantName, pidSiteName = siteName,
      pidInstanceID = instanceID\<rparr>"

definition ProviderID_String :: "'u uuid_lib \<Rightarrow> 'u ProviderID \<Rightarrow> string" where
  "ProviderID_String U p =
     ProviderPrefix @ pidOrgName p @ ''/'' @ pidTenantName p @ ''/'' @ pidSiteName p @ ''/''
       @ uuid_string U (pidInstanceID p)"

text \<open>The part after either prefix; the current one is tried first.\<close>

definition trim_scheme :: "string \<Rightarrow> string option" where
  "trim_scheme s =
     (if has_prefix s ProviderPrefix then Some (trim_prefix s ProviderPrefix)
      else if has_prefix s LegacyProviderPrefix then Some (trim_prefix s LegacyProviderPrefix)
      else None)"

definition instance_id_error :: "string \<Rightarrow> go_err \<Rightarrow> go_err" where
  "instance_id_error part err = ErrWrap (''invalid instance ID '' @ quote part @ '': '') err"

definition ParseProviderID :: "'u uuid_lib \<Rightarrow> string \<Rightarrow> go_err + 'u ProviderID" where
  "ParseProviderID U s =
     (case trim_scheme s of
        None \<Rightarrow> Inl (ErrText (''invalid provider ID prefix, expected '' @ quote ProviderPrefix
                  @ '' or '' @ quote LegacyProviderPrefix @ '': '' @ s))
      | Some trimmed \<Rightarrow>
          (case split_on (CHR ''/'') trimmed of
             [org, site, inst] \<Rightarrow>
               (case uuid_parse U inst of
                  Inl err \<Rightarrow> Inl (instance_id_error inst err)
                | Inr u \<Rightarrow> Inr (NewProviderID org [] site u))
           | [org, tenant, site, inst] \<Rightarrow>
               (case uuid_parse U inst of
                  Inl err \<Rightarrow> Inl (instance_id_error inst err)
                | Inr u \<Rightarrow> Inr (NewProviderID org tenant site u))
           | _ \<Rightarrow> Inl (ErrText
                   (''invalid provider ID format, expected 3 or 4 segments: '' @ s))))"

section \<open>Lemmas\<close>

definition no_slash :: "string \<Rightarrow> bool" where
  "no_slash s \<longleftrightarrow> CHR ''/'' \<notin> set s"

definition pid_wf :: "'u ProviderID \<Rightarrow> bool" where
  "pid_wf p \<longleftrightarrow> no_slash (pidOrgName p) \<and> no_slash (pidTenantName p) \<and> no_slash (pidSiteName p)"

lemma trim_scheme_current [simp]: "trim_scheme (ProviderPrefix @ t) = Some t"
  by (simp add: trim_scheme_def)

lemma trim_scheme_legacy [simp]: "trim_scheme (LegacyProviderPrefix @ t) = Some t"
proof -
  have "\<not> has_prefix (LegacyProviderPrefix @ t) ProviderPrefix"
    by (simp add: LegacyProviderPrefix_def ProviderPrefix_def)
  then show ?thesis by (simp add: trim_scheme_def)
qed

lemma trim_scheme_Some:
  "trim_scheme s = Some t \<longleftrightarrow> s = ProviderPrefix @ t \<or> s = LegacyProviderPrefix @ t"
proof
  assume "trim_scheme s = Some t"
  then show "s = ProviderPrefix @ t \<or> s = LegacyProviderPrefix @ t"
    by (auto simp: trim_scheme_def has_prefix_iff split: if_splits)
next
  assume "s = ProviderPrefix @ t \<or> s = LegacyProviderPrefix @ t"
  then show "trim_scheme s = Some t" by auto
qed

lemma split_four:
  assumes "no_slash a" "no_slash b" "no_slash c" "no_slash d"
  shows "split_on (CHR ''/'') (a @ ''/'' @ b @ ''/'' @ c @ ''/'' @ d) = [a, b, c, d]"
  using assms by (simp add: no_slash_def split_on_append split_on_no_sep)

lemma parse_four:
  assumes "no_slash a" "no_slash b" "no_slash c" "no_slash d"
  shows "ParseProviderID U (ProviderPrefix @ a @ ''/'' @ b @ ''/'' @ c @ ''/'' @ d) =
     (case uuid_parse U d of
        Inl err \<Rightarrow> Inl (instance_id_error d err)
      | Inr u \<Rightarrow> Inr (NewProviderID a b c u))"
  unfolding ParseProviderID_def trim_scheme_current option.case split_four [OF assms] by simp

lemma ParseProviderID_Inr:
  "ParseProviderID U s = Inr p \<longleftrightarrow>
     (\<exists>t. trim_scheme s = Some t
        \<and> (\<exists>inst. uuid_parse U inst = Inr (pidInstanceID p)
             \<and> (split_on (CHR ''/'') t = [pidOrgName p, pidSiteName p, inst] \<and> pidTenantName p = []
                \<or> split_on (CHR ''/'') t = [pidOrgName p, pidTenantName p, pidSiteName p, inst])))"
  (is "?L = ?R")
proof
  assume ?L
  then show ?R
    by (auto simp: ParseProviderID_def NewProviderID_def split: option.splits list.splits sum.splits)
next
  assume ?R
  then show ?L by (cases p) (auto simp: ParseProviderID_def NewProviderID_def)
qed

lemma ParseProviderID_wf: "ParseProviderID U s = Inr p \<Longrightarrow> pid_wf p"
proof -
  assume "ParseProviderID U s = Inr p"
  then obtain t inst where "split_on (CHR ''/'') t = [pidOrgName p, pidSiteName p, inst]
        \<and> pidTenantName p = []
      \<or> split_on (CHR ''/'') t = [pidOrgName p, pidTenantName p, pidSiteName p, inst]"
    unfolding ParseProviderID_Inr by blast
  moreover have "list_all no_slash (split_on (CHR ''/'') t)"
    by (simp add: list_all_iff no_slash_def split_on_pieces)
  moreover have "no_slash []" by (simp add: no_slash_def)
  ultimately show ?thesis unfolding pid_wf_def by (elim disjE conjE) simp_all
qed

context uuid_codec
begin

lemma parse_String: "pid_wf p \<Longrightarrow> ParseProviderID U (ProviderID_String U p) = Inr p"
proof -
  assume wf: "pid_wf p"
  have "no_slash (uuid_string U (pidInstanceID p))" by (simp add: no_slash_def string_no_slash)
  with wf have "ParseProviderID U (ProviderID_String U p)
      = Inr (NewProviderID (pidOrgName p) (pidTenantName p) (pidSiteName p) (pidInstanceID p))"
    unfolding ProviderID_String_def pid_wf_def by (subst parse_four) (auto simp: parse_string)
  then show ?thesis by (simp add: NewProviderID_def)
qed

text \<open>The printed text of any provider ID: it parses when no name has a slash, to what was printed, and
  otherwise not at all, since every slash of a name is one more segment.\<close>

lemma parse_String_iff:
  "ParseProviderID U (ProviderID_String U q) = Inr p \<longleftrightarrow> p = q \<and> pid_wf p"
proof
  assume parsed: "ParseProviderID U (ProviderID_String U q) = Inr p"
  let ?names = "pidOrgName q @ ''/'' @ pidTenantName q @ ''/'' @ pidSiteName q @ ''/'' @ uuid_string U (pidInstanceID q)"
  have "length (split_on (CHR ''/'') ?names) \<le> 4"
    using parsed unfolding ProviderID_String_def ParseProviderID_Inr by auto
  then have "count_list (pidOrgName q) (CHR ''/'') = 0" "count_list (pidTenantName q) (CHR ''/'') = 0"
      "count_list (pidSiteName q) (CHR ''/'') = 0"
    unfolding length_split_on by simp_all
  then have "pid_wf q" by (simp add: pid_wf_def no_slash_def count_list_0_iff)
  with parse_String [of q] parsed show "p = q \<and> pid_wf p" by simp
qed (auto intro: parse_String)

end

sublocale uuid_codec \<subseteq> uuid: text_codec "\<lambda>_. True" "uuid_string U" "uuid_parse U"
  by unfold_locales (simp_all add: parse_string)

sublocale uuid_codec \<subseteq> pid: text_codec pid_wf "ProviderID_String U" "ParseProviderID U"
  by unfold_locales (rule parse_String, assumption, rule ParseProviderID_wf)

context uuid_codec
begin

lemma String_eq_iff: "pid_wf p \<Longrightarrow> pid_wf q \<Longrightarrow> ProviderID_String U p = ProviderID_String U q \<longleftrightarrow> p = q"
  by (rule pid.print_inj)

lemma normal_form_reparses:
  "ParseProviderID U s = Inr p \<Longrightarrow> ParseProviderID U (ProviderID_String U p) = Inr p"
  by (rule pid.reparse)

end

section \<open>A UUID library that keeps the laws\<close>

text \<open>Decimal numbers stand for UUIDs: any text of digits parses.\<close>

definition ref_uuid :: "nat uuid_lib" where
  "ref_uuid = \<lparr>
     uuid_parse = (\<lambda>s. if s \<noteq> [] \<and> snd (span_digits s) = [] then Inr (digits_val 0 s)
                       else Inl (ErrText ''invalid UUID'')),
     uuid_string = show_nat\<rparr>"

interpretation ref_uuids: uuid_codec ref_uuid
proof
  fix u
  show "uuid_parse ref_uuid (uuid_string ref_uuid u) = Inr u"
    by (simp add: ref_uuid_def show_nat_nonempty digits_val_show_nat)
  show "CHR ''/'' \<notin> set (uuid_string ref_uuid u)"
    using non_digits show_nat_digits [of "CHR ''/''" u] by (auto simp: ref_uuid_def)
qed

section \<open>Properties\<close>

definition ref_pid :: "nat ProviderID" where
  "ref_pid = NewProviderID ''org'' ''tenant'' ''site'' 42"

text \<open>C15. A provider ID identifies its instance: two provider IDs with slash-free names print to the same
  text only when they are the same in all four parts, and the printed text parses to the provider
  ID it was printed from.\<close>

theorem provider_ids_identify_instances:
  assumes "uuid_codec U" and "pid_wf p" and "pid_wf q"
  shows "(ProviderID_String U p = ProviderID_String U q \<longleftrightarrow> p = q)
    \<and> ParseProviderID U (ProviderID_String U p) = Inr p"
  using uuid_codec.String_eq_iff [OF assms] uuid_codec.parse_String [OF assms(1,2)] by blast

theorem provider_ids_identify_instances_witness:
  "ProviderID_String ref_uuid ref_pid \<noteq> ProviderID_String ref_uuid (ref_pid\<lparr>pidInstanceID := 43\<rparr>)"
proof -
  have "pid_wf ref_pid" "pid_wf (ref_pid\<lparr>pidInstanceID := 43\<rparr>)" "ref_pid \<noteq> ref_pid\<lparr>pidInstanceID := 43\<rparr>"
    by (simp_all add: pid_wf_def no_slash_def ref_pid_def NewProviderID_def)
  then show ?thesis using provider_ids_identify_instances [OF ref_uuids.uuid_codec_axioms] by blast
qed

text \<open>Round trip: a provider ID whose three names have no slash, printed and parsed, is the same
  provider ID.\<close>

theorem ProviderID_roundtrip:
  assumes "uuid_codec U" and "pid_wf p"
  shows "ParseProviderID U (ProviderID_String U p) = Inr p"
  using assms by (rule uuid_codec.parse_String)

theorem ProviderID_roundtrip_witness:
  "ParseProviderID ref_uuid (ProviderID_String ref_uuid ref_pid) = Inr ref_pid"
  by (rule ProviderID_roundtrip [OF ref_uuids.uuid_codec_axioms])
    (simp add: pid_wf_def no_slash_def ref_pid_def NewProviderID_def)

text \<open>C14. Whatever text parses, the provider ID it gives has slash-free names and prints to a text in
  the current form that parses to it again: legacy and three-segment IDs are normalised without
  loss.\<close>

theorem ProviderID_normal_form:
  assumes "uuid_codec U" and "ParseProviderID U s = Inr p"
  shows "pid_wf p \<and> ParseProviderID U (ProviderID_String U p) = Inr p
    \<and> has_prefix (ProviderID_String U p) ProviderPrefix"
  using assms ParseProviderID_wf [OF assms(2)] uuid_codec.normal_form_reparses [OF assms]
  by (simp_all add: ProviderID_String_def)

theorem ProviderID_normal_form_witness:
  "ParseProviderID ref_uuid (ProviderID_String ref_uuid (NewProviderID ''o'' [] ''s'' 42))
     = Inr (NewProviderID ''o'' [] ''s'' 42)"
proof -
  have "ParseProviderID ref_uuid ''nvidia-carbide://o/s/42'' = Inr (NewProviderID ''o'' [] ''s'' 42)"
    by code_simp
  from ProviderID_normal_form [OF ref_uuids.uuid_codec_axioms this] show ?thesis by simp
qed

text \<open>Both prefixes are read alike: what follows the legacy prefix is accepted exactly when it is
  accepted after the current one, with the same result.\<close>

theorem legacy_prefix_equivalent:
  "ParseProviderID U (LegacyProviderPrefix @ t) = Inr p \<longleftrightarrow> ParseProviderID U (ProviderPrefix @ t) = Inr p"
  unfolding ParseProviderID_Inr by simp

text \<open>The parser accepts exactly one of the two prefixes followed by three segments (organisation,
  site, instance) or four (organisation, tenant, site, instance) of which the last is a UUID.\<close>

theorem ParseProviderID_accepts:
  "(\<exists>p. ParseProviderID U s = Inr p) \<longleftrightarrow>
     (\<exists>t inst u. (s = ProviderPrefix @ t \<or> s = LegacyProviderPrefix @ t) \<and> uuid_parse U inst = Inr u
        \<and> (\<exists>org site. split_on (CHR ''/'') t = [org, site, inst]
           \<or> (\<exists>tenant. split_on (CHR ''/'') t = [org, tenant, site, inst])))" (is "?L \<longleftrightarrow> ?R")
proof
  show "?L \<Longrightarrow> ?R" unfolding ParseProviderID_Inr trim_scheme_Some by blast
next
  assume ?R
  then obtain t inst u org site tenant where
    t: "trim_scheme s = Some t" and u: "uuid_parse U inst = Inr u"
    and "split_on (CHR ''/'') t = [org, site, inst] \<or> split_on (CHR ''/'') t = [org, tenant, site, inst]"
    unfolding trim_scheme_Some by blast
  then consider "split_on (CHR ''/'') t = [org, site, inst]"
    | "split_on (CHR ''/'') t = [org, tenant, site, inst]" by blast
  then show ?L
  proof cases
    case 1
    with t u have "ParseProviderID U s = Inr (NewProviderID org [] site u)"
      by (simp add: ParseProviderID_def)
    then show ?thesis ..
  next
    case 2
    with t u have "ParseProviderID U s = Inr (NewProviderID org tenant site u)"
      by (simp add: ParseProviderID_def)
    then show ?thesis ..
  qed
qed

end
