(* ===== verification/KubeApi.thy ===== *)
theory KubeApi
  imports NicoApi ProviderId
begin

text \<open>
  What the controllers use of Kubernetes. The Machine object is the two forms the actuator
  accepts, a typed Machine and an unstructured object, and anything else; the client, the API
  machinery's helpers, the UUID library, the SDK and the clock are the fields of \<open>env\<close>, the
  parameter of every definition that uses them. The actions are the calls and outputs a trace
  records.
\<close>

section \<open>The Machine object\<close>

record ObjectMeta =
  omName :: string
  omNamespace :: string
  omLabels :: "string gomap option"
  omAnnotations :: "string gomap option"
  omFinalizers :: "string list"
  omDeletionTimestamp :: time

text \<open>\<open>ProviderSpec.Value\<close> and \<open>ProviderStatus\<close> are pointers to raw JSON; a \<open>raw_json\<close> of
  \<open>None\<close> is a text that is not JSON.\<close>

record TypedMachine =
  tmProviderSpecValue :: "raw_json option"
  tmProviderID :: "string option"
  tmProviderStatus :: "raw_json option"
  tmErrorReason :: "string option"
  tmErrorMessage :: "string option"

datatype machine_body =
    MachineBody TypedMachine
  | UnstructuredBody json
  | UnsupportedBody
  | NotClientObject

record MachineObject =
  objMeta :: ObjectMeta
  objBody :: machine_body

section \<open>Clients and libraries\<close>

text \<open>
  The client decodes the server's answer to an update into the object it was given, so a
  successful update gives the object as it is afterwards. A key is a name and a namespace.
\<close>

record 's KubeClient =
  kubeGetMachine :: "string \<times> string \<Rightarrow> 's \<Rightarrow> (go_err + MachineObject) \<times> 's"
  kubeGetSecret :: "string \<times> string \<Rightarrow> 's \<Rightarrow> (go_err + string gomap) \<times> 's"
  kubeUpdate :: "MachineObject \<Rightarrow> 's \<Rightarrow> (go_err + MachineObject) \<times> 's"
  kubeStatusUpdate :: "MachineObject \<Rightarrow> 's \<Rightarrow> (go_err + MachineObject) \<times> 's"

record KubeLib =
  libCodec :: metav1_codec
  libSetStatusCondition :: "time \<Rightarrow> Condition list \<Rightarrow> Condition \<Rightarrow> Condition list"
  libIsNotFound :: "go_err \<Rightarrow> bool"
  libContainsFinalizer :: "string list \<Rightarrow> string \<Rightarrow> bool"
  libAddFinalizer :: "string list \<Rightarrow> string \<Rightarrow> string list"
  libRemoveFinalizer :: "string list \<Rightarrow> string \<Rightarrow> string list"
  libNestedFieldCopy :: "json \<Rightarrow> string list \<Rightarrow> go_err + json option"
  libSetNestedField :: "json \<Rightarrow> json \<Rightarrow> string list \<Rightarrow> go_err + json"
  libRFC3339 :: "time \<Rightarrow> string"

record ('s, 'u) env =
  envKube :: "'s KubeClient"
  envLib :: KubeLib
  envUuid :: "'u uuid_lib"
  envSdk :: "string \<Rightarrow> 's SdkApi"
  envNow :: "'s \<Rightarrow> time"

text \<open>
  What \<open>controllerutil\<close> documents of its finalizer functions, and the functions on lists that keep
  it.
\<close>

locale finalizer_ops =
  fixes contains :: "string list \<Rightarrow> string \<Rightarrow> bool"
    and add :: "string list \<Rightarrow> string \<Rightarrow> string list"
    and remove :: "string list \<Rightarrow> string \<Rightarrow> string list"
  assumes contains_iff: "contains fs f \<longleftrightarrow> f \<in> set fs"
    and add_set: "set (add fs f) = insert f (set fs)"
    and remove_set: "set (remove fs f) = set fs - {f}"
begin

lemma contains_add: "contains (add fs f) g \<longleftrightarrow> g = f \<or> contains fs g"
  by (simp add: contains_iff add_set)

lemma contains_remove: "contains (remove fs f) g \<longleftrightarrow> g \<noteq> f \<and> contains fs g"
  by (auto simp: contains_iff remove_set)

lemma contains_remove_both:
  "contains (remove (remove fs f) g) h \<longleftrightarrow> h \<noteq> f \<and> h \<noteq> g \<and> contains fs h"
  by (auto simp: contains_remove)

end

definition ref_add_finalizer :: "string list \<Rightarrow> string \<Rightarrow> string list" where
  "ref_add_finalizer fs f = (if f \<in> set fs then fs else fs @ [f])"

definition ref_remove_finalizer :: "string list \<Rightarrow> string \<Rightarrow> string list" where
  "ref_remove_finalizer fs f = filter (\<lambda>g. g \<noteq> f) fs"

interpretation ref_finalizers:
  finalizer_ops "\<lambda>fs f. f \<in> set fs" ref_add_finalizer ref_remove_finalizer
  by unfold_locales (auto simp: ref_add_finalizer_def ref_remove_finalizer_def)

text \<open>
  \<open>unstructured.SetNestedField\<close> and \<open>NestedFieldCopy\<close>: a field that has been set is what is read at
  the same path. The functions on JSON values below keep it.
\<close>

locale nested_fields =
  fixes get :: "json \<Rightarrow> string list \<Rightarrow> go_err + json option"
    and set_at :: "json \<Rightarrow> json \<Rightarrow> string list \<Rightarrow> go_err + json"
  assumes get_set: "set_at j v path = Inr j' \<Longrightarrow> get j' path = Inr (Some v)"

fun ref_nested_get :: "json \<Rightarrow> string list \<Rightarrow> go_err + json option" where
  "ref_nested_get j [] = Inr (Some j)"
| "ref_nested_get (JObj ms) (k # ks) =
     (case gomap_get ms k of None \<Rightarrow> Inr None | Some j \<Rightarrow> ref_nested_get j ks)"
| "ref_nested_get _ (k # ks) = Inl type_error"

fun ref_nested_set :: "json \<Rightarrow> json \<Rightarrow> string list \<Rightarrow> go_err + json" where
  "ref_nested_set j v [] = Inr v"
| "ref_nested_set (JObj ms) v (k # ks) =
     (case ref_nested_set (case gomap_get ms k of None \<Rightarrow> JObj [] | Some j \<Rightarrow> j) v ks of
        Inl e \<Rightarrow> Inl e
      | Inr j \<Rightarrow> Inr (JObj (gomap_set k j ms)))"
| "ref_nested_set _ v (k # ks) = Inl type_error"

interpretation ref_fields: nested_fields ref_nested_get ref_nested_set
proof
  show "ref_nested_set j v path = Inr j' \<Longrightarrow> ref_nested_get j' path = Inr (Some v)" for j v path j'
    by (induction j v path arbitrary: j' rule: ref_nested_set.induct) (auto split: sum.splits)
qed

section \<open>Actions\<close>

datatype event_type = EventNormal | EventWarning

datatype metric =
    APILatency string
  | APICallErrorsInc string string
  | InstanceProvisionDuration string time
  | MachinesManagedInc
  | MachinesManagedDec
  | MachinesUnhealthyInc
  | MachinesUnhealthyDec
  | HealthEventsIngestedInc

datatype action =
    Api api_call
  | KubeGetMachine "string \<times> string"
  | KubeGetSecret "string \<times> string"
  | KubeUpdate MachineObject
  | KubeStatusUpdate MachineObject
  | Event event_type string string
  | Metric metric

text \<open>A program of the actuator works on the Machine object it was given.\<close>

type_synonym ('s, 'r) act = "('s, MachineObject, action, 'r) prog"

text \<open>Calls that change the NICo side, and calls that write to the API server.\<close>

fun api_writes :: "api_call \<Rightarrow> bool" where
  "api_writes (CallCreateInstance org req) = True"
| "api_writes (CallDeleteInstance org i req) = True"
| "api_writes (CallUpdateInstance org i req) = True"
| "api_writes (CallCreateOrUpdateMachineHealthReport org m req) = True"
| "api_writes (CallDeleteMachineHealthReport org m src) = True"
| "api_writes _ = False"

fun is_create :: "action \<Rightarrow> bool" where
  "is_create (Api (CallCreateInstance org req)) = True"
| "is_create _ = False"

fun is_delete :: "action \<Rightarrow> bool" where
  "is_delete (Api (CallDeleteInstance org i req)) = True"
| "is_delete _ = False"

fun is_dpu_update :: "action \<Rightarrow> bool" where
  "is_dpu_update (Api (CallUpdateInstance org i req)) = True"
| "is_dpu_update _ = False"

fun is_kube_write :: "action \<Rightarrow> bool" where
  "is_kube_write (KubeUpdate m) = True"
| "is_kube_write (KubeStatusUpdate m) = True"
| "is_kube_write _ = False"

fun is_read :: "action \<Rightarrow> bool" where
  "is_read (Api c) = (\<not> api_writes c)"
| "is_read (KubeUpdate m) = False"
| "is_read (KubeStatusUpdate m) = False"
| "is_read (Event t r n) = False"
| "is_read (Metric m) = False"
| "is_read _ = True"

lemma is_read_no_write:
  "is_read x \<Longrightarrow> \<not> is_create x"
  "is_read x \<Longrightarrow> \<not> is_delete x"
  "is_read x \<Longrightarrow> \<not> is_dpu_update x"
  "is_read x \<Longrightarrow> \<not> is_kube_write x"
  by (auto elim!: is_create.elims is_delete.elims is_dpu_update.elims is_kube_write.elims)

section \<open>Accessors of the object\<close>

definition GetName :: "MachineObject \<Rightarrow> string" where "GetName m = omName (objMeta m)"
definition GetNamespace :: "MachineObject \<Rightarrow> string" where "GetNamespace m = omNamespace (objMeta m)"

definition set_labels :: "string gomap \<Rightarrow> MachineObject \<Rightarrow> MachineObject" where
  "set_labels ls m = m\<lparr>objMeta := (objMeta m)\<lparr>omLabels := Some ls\<rparr>\<rparr>"

definition set_finalizers :: "string list \<Rightarrow> MachineObject \<Rightarrow> MachineObject" where
  "set_finalizers fs m = m\<lparr>objMeta := (objMeta m)\<lparr>omFinalizers := fs\<rparr>\<rparr>"

text \<open>The failure the controllers report to the Machine API, on a typed Machine only.\<close>

definition set_failure :: "string \<Rightarrow> string \<Rightarrow> MachineObject \<Rightarrow> MachineObject" where
  "set_failure reason msg m =
     (case objBody m of
        MachineBody t \<Rightarrow>
          m\<lparr>objBody := MachineBody (t\<lparr>tmErrorReason := Some reason, tmErrorMessage := Some msg\<rparr>)\<rparr>
      | _ \<Rightarrow> m)"

definition error_reason :: "MachineObject \<Rightarrow> string option" where
  "error_reason m = (case objBody m of MachineBody t \<Rightarrow> tmErrorReason t | _ \<Rightarrow> None)"

definition provider_id :: "MachineObject \<Rightarrow> string option" where
  "provider_id m = (case objBody m of MachineBody t \<Rightarrow> tmProviderID t | _ \<Rightarrow> None)"

lemma set_failure_meta [simp]: "objMeta (set_failure r g m) = objMeta m"
  by (simp add: set_failure_def split: machine_body.split)

lemma set_failure_provider_id [simp]: "provider_id (set_failure r g m) = provider_id m"
  by (simp add: set_failure_def provider_id_def split: machine_body.split)

lemma set_labels_body [simp]: "objBody (set_labels ls m) = objBody m"
  by (simp add: set_labels_def)

lemma set_finalizers_body [simp]: "objBody (set_finalizers fs m) = objBody m"
  by (simp add: set_finalizers_def)

end
