(* ===== verification/Conditions.thy ===== *)
theory Conditions
  imports KubeApi
begin

text \<open>
  Status conditions: \<open>setCondition\<close>, \<open>setInstanceStateConditions\<close> and \<open>isConditionFalse\<close> of
  pkg/actuators/machine/actuator.go over the API machinery's \<open>meta.SetStatusCondition\<close>, which is
  a parameter. Its documentation is the locale \<open>status_conditions\<close>: the condition of the given
  type gets the new status, reason and message; its transition time moves to now when it is new
  or its status changes; every other condition stays as it is.
\<close>

section \<open>Condition names\<close>

definition condInstanceProvisioned :: string where "condInstanceProvisioned = ''InstanceProvisioned''"
definition condMachineHealthy :: string where "condMachineHealthy = ''MachineHealthy''"
definition condNicoFaultRemediation :: string where
  "condNicoFaultRemediation = ''NicoFaultRemediation''"

lemmas cond_name_defs =
  condInstanceProvisioned_def condMachineHealthy_def condNicoFaultRemediation_def

section \<open>The operations\<close>

definition new_condition :: "string \<Rightarrow> ConditionStatus \<Rightarrow> string \<Rightarrow> string \<Rightarrow> Condition" where
  "new_condition condType status reason message =
     \<lparr>cType = condType, cStatus = status, cReason = reason, cMessage = message,
      cLastTransitionTime = 0\<rparr>"

definition setCondition ::
  "KubeLib \<Rightarrow> time \<Rightarrow> string \<Rightarrow> ConditionStatus \<Rightarrow> string \<Rightarrow> string
     \<Rightarrow> NicoMachineProviderStatus \<Rightarrow> NicoMachineProviderStatus" where
  "setCondition L now condType status reason message ps =
     ps\<lparr>psConditions := libSetStatusCondition L now (psConditions ps)
          (new_condition condType status reason message)\<rparr>"

fun find_condition :: "string \<Rightarrow> Condition list \<Rightarrow> Condition option" where
  "find_condition t [] = None"
| "find_condition t (c # cs) = (if cType c = t then Some c else find_condition t cs)"

definition isConditionFalse :: "NicoMachineProviderStatus \<Rightarrow> string \<Rightarrow> bool" where
  "isConditionFalse ps condType =
     (case find_condition condType (psConditions ps) of
        None \<Rightarrow> False
      | Some c \<Rightarrow> cStatus c = ConditionFalse)"

definition setInstanceStateConditions ::
  "KubeLib \<Rightarrow> time \<Rightarrow> InstanceStatus \<Rightarrow> NicoMachineProviderStatus \<Rightarrow> NicoMachineProviderStatus" where
  "setInstanceStateConditions L now status ps =
     (if status = INSTANCESTATUS_PENDING then
        setCondition L now ''InstanceReady'' ConditionFalse ''Pending''
          ''Instance is pending allocation''
          (setCondition L now ''InstanceAllocating'' ConditionTrue ''Pending''
            ''Instance creation request sent, awaiting allocation'' ps)
      else if status = INSTANCESTATUS_PROVISIONING then
        setCondition L now ''InstanceReady'' ConditionFalse ''Provisioning''
          ''Instance is being provisioned''
          (setCondition L now ''InstanceProvisioning'' ConditionTrue ''Provisioning''
            ''NICo is provisioning the machine''
            (setCondition L now ''InstanceAllocating'' ConditionFalse ''Allocated''
              ''Instance has been allocated'' ps))
      else if status = INSTANCESTATUS_CONFIGURING then
        setCondition L now ''InstanceReady'' ConditionFalse ''Configuring''
          ''Instance is being configured''
          (setCondition L now ''InstanceBootstrapping'' ConditionTrue ''Configuring''
            ''OS installed, configuration in progress''
            (setCondition L now ''InstanceProvisioning'' ConditionFalse ''Provisioned''
              ''Machine has been provisioned'' ps))
      else if status = INSTANCESTATUS_READY then
        setCondition L now ''InstanceReady'' ConditionTrue ''InstanceRunning''
          ''Instance is fully operational''
          (setCondition L now ''InstanceBootstrapping'' ConditionFalse ''Complete''
            ''Bootstrap completed'' ps)
      else if status = INSTANCESTATUS_UPDATING then
        setCondition L now ''InstanceReady'' ConditionFalse ''Updating''
          ''Instance is being updated'' ps
      else if status = INSTANCESTATUS_REBOOTING then
        setCondition L now ''InstanceReady'' ConditionFalse ''Rebooting''
          ''Instance is rebooting'' ps
      else if status = INSTANCESTATUS_TERMINATING then
        setCondition L now ''InstanceReady'' ConditionFalse ''Terminating''
          ''Instance is terminating''
          (setCondition L now ''InstanceTerminating'' ConditionTrue ''Terminating''
            ''Instance deletion in progress'' ps)
      else if status = INSTANCESTATUS_ERROR then
        setCondition L now ''InstanceReady'' ConditionFalse ''Error''
          ''Instance encountered an error''
          (setCondition L now ''InstanceError'' ConditionTrue ''Error''
            ''Instance is in a terminal error state'' ps)
      else
        setCondition L now ''InstanceReady'' ConditionFalse ''Unknown''
          (''Instance is in unknown state: '' @ status) ps)"

section \<open>The contract of SetStatusCondition\<close>

definition transition_time :: "time \<Rightarrow> Condition option \<Rightarrow> Condition \<Rightarrow> time" where
  "transition_time now old c =
     (case old of
        None \<Rightarrow> if cLastTransitionTime c = 0 then now else cLastTransitionTime c
      | Some o1 \<Rightarrow>
          if cStatus o1 = cStatus c then cLastTransitionTime o1
          else if cLastTransitionTime c = 0 then now else cLastTransitionTime c)"

locale status_conditions =
  fixes set_cond :: "time \<Rightarrow> Condition list \<Rightarrow> Condition \<Rightarrow> Condition list"
  assumes find_set_same: "find_condition (cType c) (set_cond now cs c) =
      Some (c\<lparr>cLastTransitionTime := transition_time now (find_condition (cType c) cs) c\<rparr>)"
    and find_set_other: "t \<noteq> cType c \<Longrightarrow> find_condition t (set_cond now cs c) = find_condition t cs"
    and types_set: "map cType (set_cond now cs c) =
      (if cType c \<in> set (map cType cs) then map cType cs else map cType cs @ [cType c])"
begin

lemma find_set:
  "find_condition t (set_cond now cs c) =
     (if t = cType c
      then Some (c\<lparr>cLastTransitionTime := transition_time now (find_condition (cType c) cs) c\<rparr>)
      else find_condition t cs)"
  by (simp add: find_set_same find_set_other)

lemma types_distinct: "distinct (map cType cs) \<Longrightarrow> distinct (map cType (set_cond now cs c))"
  by (simp add: types_set)

text \<open>Setting the same condition twice, the second time at any later time, changes nothing.\<close>

lemma find_set_twice:
  "find_condition t (set_cond now' (set_cond now cs c) c) = find_condition t (set_cond now cs c)"
  by (auto simp: find_set transition_time_def)

end

text \<open>The reference implementation of the contract, as the library documents the function.\<close>

fun ref_set_status_condition :: "time \<Rightarrow> Condition list \<Rightarrow> Condition \<Rightarrow> Condition list" where
  "ref_set_status_condition now [] c =
     [c\<lparr>cLastTransitionTime := transition_time now None c\<rparr>]"
| "ref_set_status_condition now (o1 # cs) c =
     (if cType o1 = cType c
      then c\<lparr>cLastTransitionTime := transition_time now (Some o1) c\<rparr> # cs
      else o1 # ref_set_status_condition now cs c)"

interpretation ref_conditions: status_conditions ref_set_status_condition
proof
  fix now cs c t
  show "find_condition (cType c) (ref_set_status_condition now cs c) =
      Some (c\<lparr>cLastTransitionTime := transition_time now (find_condition (cType c) cs) c\<rparr>)"
    by (induction now cs c rule: ref_set_status_condition.induct) auto
  show "t \<noteq> cType c \<Longrightarrow> find_condition t (ref_set_status_condition now cs c) = find_condition t cs"
    by (induction now cs c rule: ref_set_status_condition.induct) auto
  show "map cType (ref_set_status_condition now cs c) =
      (if cType c \<in> set (map cType cs) then map cType cs else map cType cs @ [cType c])"
    by (induction now cs c rule: ref_set_status_condition.induct) auto
qed

section \<open>Lemmas under the contract\<close>

text \<open>The status of a condition, where there is one.\<close>

definition cond_status :: "string \<Rightarrow> NicoMachineProviderStatus \<Rightarrow> ConditionStatus option" where
  "cond_status t ps = map_option cStatus (find_condition t (psConditions ps))"

lemma isConditionFalse_iff: "isConditionFalse ps t \<longleftrightarrow> cond_status t ps = Some ConditionFalse"
  by (auto simp: isConditionFalse_def cond_status_def split: option.split)

text \<open>A library whose \<open>SetStatusCondition\<close> keeps the contract.\<close>

abbreviation conditions_ok :: "KubeLib \<Rightarrow> bool" where
  "conditions_ok L \<equiv> status_conditions (libSetStatusCondition L)"

lemma find_setCondition:
  assumes "conditions_ok L"
  shows "find_condition t (psConditions (setCondition L now ty s r m ps)) =
     (if t = ty
      then Some (new_condition ty s r m
             \<lparr>cLastTransitionTime := transition_time now (find_condition ty (psConditions ps))
                (new_condition ty s r m)\<rparr>)
      else find_condition t (psConditions ps))"
  using status_conditions.find_set [OF assms, of t now "psConditions ps" "new_condition ty s r m"]
  by (simp add: setCondition_def new_condition_def)

lemma cond_status_setCondition:
  "conditions_ok L \<Longrightarrow>
     cond_status t (setCondition L now ty s r m ps) = (if t = ty then Some s else cond_status t ps)"
  by (simp add: cond_status_def find_setCondition) (simp add: new_condition_def)

lemma setCondition_fields [simp]:
  "psInstanceID (setCondition L now ty s r m ps) = psInstanceID ps"
  "psMachineID (setCondition L now ty s r m ps) = psMachineID ps"
  "psInstanceState (setCondition L now ty s r m ps) = psInstanceState ps"
  "psAddresses (setCondition L now ty s r m ps) = psAddresses ps"
  "psHealthLabels (setCondition L now ty s r m ps) = psHealthLabels ps"
  "psKind (setCondition L now ty s r m ps) = psKind ps"
  "psAPIVersion (setCondition L now ty s r m ps) = psAPIVersion ps"
  by (simp_all add: setCondition_def)

lemma setInstanceStateConditions_fields [simp]:
  "psInstanceID (setInstanceStateConditions L now st ps) = psInstanceID ps"
  "psMachineID (setInstanceStateConditions L now st ps) = psMachineID ps"
  "psHealthLabels (setInstanceStateConditions L now st ps) = psHealthLabels ps"
  "psInstanceState (setInstanceStateConditions L now st ps) = psInstanceState ps"
  by (simp_all add: setInstanceStateConditions_def)

lemma InstanceReady_after_state:
  assumes "conditions_ok L"
  shows "cond_status ''InstanceReady'' (setInstanceStateConditions L now st ps) =
     Some (if st = INSTANCESTATUS_READY then ConditionTrue else ConditionFalse)"
  by (simp add: setInstanceStateConditions_def cond_status_setCondition [OF assms]
      instance_status_defs)

text \<open>The conditions the state machine never touches.\<close>

definition instance_conditions :: "string set" where
  "instance_conditions =
     {''InstanceReady'', ''InstanceAllocating'', ''InstanceProvisioning'', ''InstanceBootstrapping'',
      ''InstanceTerminating'', ''InstanceError''}"

lemma state_keeps_other_conditions:
  assumes "conditions_ok L" and "t \<notin> instance_conditions"
  shows "find_condition t (psConditions (setInstanceStateConditions L now st ps))
    = find_condition t (psConditions ps)"
  using assms(2)
  by (simp add: setInstanceStateConditions_def find_setCondition [OF assms(1)]
      instance_conditions_def)

section \<open>Libraries that keep all the laws\<close>

text \<open>The reference library, with which the hypotheses of the properties are discharged.\<close>

definition ref_lib :: KubeLib where
  "ref_lib = \<lparr>libCodec = ref_metav1, libSetStatusCondition = ref_set_status_condition,
     libIsNotFound = (\<lambda>e. e = ErrText ''not found''),
     libContainsFinalizer = (\<lambda>fs f. f \<in> set fs), libAddFinalizer = ref_add_finalizer,
     libRemoveFinalizer = ref_remove_finalizer, libNestedFieldCopy = ref_nested_get,
     libSetNestedField = ref_nested_set, libRFC3339 = show_int\<rparr>"

lemma ref_lib_conditions: "conditions_ok ref_lib"
  by (simp add: ref_lib_def ref_conditions.status_conditions_axioms)

lemma ref_lib_codec: "codec_ok (libCodec ref_lib) ref_condition_norm"
  by (simp add: ref_lib_def ref_metav1_def ref_condition_codec.condition_codec_axioms)

section \<open>Properties\<close>

text \<open>The state machine of an instance: after a state is recorded, \<open>InstanceReady\<close> is true exactly
  when the state is Ready and false for every other state, known or not; conditions that are not
  about the instance's state stay as they were, transition times included.\<close>

theorem instance_state_conditions:
  assumes "conditions_ok L"
  shows "cond_status ''InstanceReady'' (setInstanceStateConditions L now st ps)
      = Some (if st = INSTANCESTATUS_READY then ConditionTrue else ConditionFalse)
    \<and> (\<forall>t. t \<notin> instance_conditions \<longrightarrow>
         find_condition t (psConditions (setInstanceStateConditions L now st ps))
           = find_condition t (psConditions ps))"
  using InstanceReady_after_state [OF assms] state_keeps_other_conditions [OF assms] by simp

theorem instance_state_conditions_witness:
  "cond_status ''InstanceReady'' (setInstanceStateConditions ref_lib 5 ''Lost'' zero_status)
     = Some ConditionFalse"
  using instance_state_conditions [OF ref_lib_conditions, of 5 "''Lost''" zero_status]
  by (simp add: INSTANCESTATUS_READY_def)

text \<open>The states an instance goes through, with the times at which they are recorded.\<close>

fun record_states ::
  "KubeLib \<Rightarrow> (time \<times> InstanceStatus) list \<Rightarrow> NicoMachineProviderStatus \<Rightarrow> NicoMachineProviderStatus" where
  "record_states L [] ps = ps"
| "record_states L ((now, st) # hist) ps = record_states L hist (setInstanceStateConditions L now st ps)"

lemma InstanceError_after_state:
  "conditions_ok L \<Longrightarrow>
     cond_status ''InstanceError'' (setInstanceStateConditions L now st ps) =
       (if st = INSTANCESTATUS_ERROR then Some ConditionTrue else cond_status ''InstanceError'' ps)"
  by (simp add: setInstanceStateConditions_def cond_status_setCondition instance_status_defs)

lemma InstanceTerminating_after_state:
  "conditions_ok L \<Longrightarrow>
     cond_status ''InstanceTerminating'' (setInstanceStateConditions L now st ps) =
       (if st = INSTANCESTATUS_TERMINATING then Some ConditionTrue
        else cond_status ''InstanceTerminating'' ps)"
  by (simp add: setInstanceStateConditions_def cond_status_setCondition instance_status_defs)

lemma InstanceError_after_history:
  assumes "conditions_ok L"
  shows "cond_status ''InstanceError'' (record_states L hist ps)
    = (if INSTANCESTATUS_ERROR \<in> set (map snd hist) then Some ConditionTrue
       else cond_status ''InstanceError'' ps)"
proof (induction hist arbitrary: ps)
  case (Cons e hist)
  then show ?case by (cases e) (simp add: InstanceError_after_state [OF assms])
qed simp

lemma InstanceTerminating_after_history:
  assumes "conditions_ok L"
  shows "cond_status ''InstanceTerminating'' (record_states L hist ps)
    = (if INSTANCESTATUS_TERMINATING \<in> set (map snd hist) then Some ConditionTrue
       else cond_status ''InstanceTerminating'' ps)"
proof (induction hist arbitrary: ps)
  case (Cons e hist)
  then show ?case by (cases e) (simp add: InstanceTerminating_after_state [OF assms])
qed simp

lemma record_states_snoc:
  "record_states L (hist @ [(now, st)]) ps = setInstanceStateConditions L now st (record_states L hist ps)"
  by (induction L hist ps rule: record_states.induct) simp_all

lemma InstanceReady_after_history:
  assumes "conditions_ok L" and "hist \<noteq> []"
  shows "cond_status ''InstanceReady'' (record_states L hist ps)
    = Some (if snd (last hist) = INSTANCESTATUS_READY then ConditionTrue else ConditionFalse)"
  using assms(2)
proof (cases hist rule: rev_cases)
  case (snoc hist' e)
  then show ?thesis
    by (cases e) (simp add: record_states_snoc InstanceReady_after_state [OF assms(1)])
qed simp

text \<open>C32. Over any history of states, \<open>InstanceReady\<close> follows the last state, but \<open>InstanceError\<close> and
  \<open>InstanceTerminating\<close> are never taken back: once an instance has been in Error, the condition
  stays true, also when the instance is Ready again.\<close>

theorem instance_error_is_sticky:
  assumes "conditions_ok L"
  shows "cond_status ''InstanceError'' (record_states L hist ps)
      = (if INSTANCESTATUS_ERROR \<in> set (map snd hist) then Some ConditionTrue
         else cond_status ''InstanceError'' ps)
    \<and> cond_status ''InstanceTerminating'' (record_states L hist ps)
      = (if INSTANCESTATUS_TERMINATING \<in> set (map snd hist) then Some ConditionTrue
         else cond_status ''InstanceTerminating'' ps)
    \<and> (hist \<noteq> [] \<longrightarrow> cond_status ''InstanceReady'' (record_states L hist ps)
      = Some (if snd (last hist) = INSTANCESTATUS_READY then ConditionTrue else ConditionFalse))"
  by (intro conjI impI InstanceError_after_history InstanceTerminating_after_history
      InstanceReady_after_history assms)

theorem instance_error_is_sticky_witness:
  "cond_status ''InstanceError''
     (record_states ref_lib [(1, INSTANCESTATUS_ERROR), (2, INSTANCESTATUS_READY)] zero_status)
     = Some ConditionTrue
   \<and> cond_status ''InstanceReady''
     (record_states ref_lib [(1, INSTANCESTATUS_ERROR), (2, INSTANCESTATUS_READY)] zero_status)
     = Some ConditionTrue"
  using instance_error_is_sticky [OF ref_lib_conditions,
      of "[(1, INSTANCESTATUS_ERROR), (2, INSTANCESTATUS_READY)]" zero_status]
  by simp

end
