(* ===== verification/ActuatorBase.thy ===== *)
theory ActuatorBase
  imports Conditions
begin

text \<open>
  The actuator's state and the helpers every operation uses: \<open>getProviderSpec\<close>,
  \<open>getProviderStatus\<close>, \<open>setProviderStatus\<close>, \<open>setProviderID\<close>, \<open>getNicoClient\<close> of
  pkg/actuators/machine/actuator.go, and the calls of the NICo client as programs that record
  the call. \<open>json.Marshal\<close> does not fail on the values it is given here.
\<close>

section \<open>The actuator\<close>

text \<open>The event recorder may be nil; the NICo client and its organisation may be injected.\<close>

record 's Actuator =
  actRecorder :: bool
  actNicoAPIClient :: "'s NicoClientInterface option"
  actOrgName :: string

text \<open>The actuator of the process has no client of its own; the Kubernetes client is in \<open>env\<close>.\<close>

definition NewActuator :: "bool \<Rightarrow> 's Actuator" where
  "NewActuator eventRecorder = \<lparr>actRecorder = eventRecorder, actNicoAPIClient = None, actOrgName = []\<rparr>"

definition NewActuatorWithClient :: "bool \<Rightarrow> 's NicoClientInterface \<Rightarrow> string \<Rightarrow> 's Actuator" where
  "NewActuatorWithClient eventRecorder nicoAPIClient orgName =
     \<lparr>actRecorder = eventRecorder, actNicoAPIClient = Some nicoAPIClient, actOrgName = orgName\<rparr>"

definition eventf :: "'s Actuator \<Rightarrow> event_type \<Rightarrow> string \<Rightarrow> string \<Rightarrow> ('s, unit) act" where
  "eventf a ty reason note = whenp (actRecorder a) (emit (Event ty reason note))"

definition metricp :: "metric \<Rightarrow> ('s, unit) act" where
  "metricp m = emit (Metric m)"

section \<open>Spec and status of the machine\<close>

definition unsupported_type :: go_err where
  "unsupported_type = ErrText ''unsupported machine type''"

definition getProviderSpec :: "KubeLib \<Rightarrow> MachineObject \<Rightarrow> go_err + NicoMachineProviderSpec" where
  "getProviderSpec L m =
     (let decode = (\<lambda>raw. case unmarshal (dec_ProviderSpec (libCodec L)) raw of
            Inl e \<Rightarrow> Inl (ErrWrap ''failed to unmarshal providerSpec: '' e)
          | Inr spec \<Rightarrow> Inr spec)
      in case objBody m of
           MachineBody t \<Rightarrow>
             (case tmProviderSpecValue t of
                None \<Rightarrow> Inl (ErrText ''providerSpec.value is nil'')
              | Some raw \<Rightarrow> decode raw)
         | UnstructuredBody j \<Rightarrow>
             (case libNestedFieldCopy L j [''spec'', ''providerSpec'', ''value''] of
                Inl e \<Rightarrow> Inl (ErrWrap ''providerSpec.value not found: '' e)
              | Inr None \<Rightarrow> Inl (ErrText ''providerSpec.value not found: %!w(<nil>)'')
              | Inr (Some v) \<Rightarrow> decode (Some v))
         | _ \<Rightarrow> Inl unsupported_type)"

definition getProviderStatus :: "KubeLib \<Rightarrow> MachineObject \<Rightarrow> go_err + NicoMachineProviderStatus" where
  "getProviderStatus L m =
     (let decode = (\<lambda>raw. case unmarshal (dec_ProviderStatus (libCodec L)) raw of
            Inl e \<Rightarrow> Inl (ErrWrap ''failed to unmarshal providerStatus: '' e)
          | Inr ps \<Rightarrow> Inr ps)
      in case objBody m of
           MachineBody t \<Rightarrow>
             (case tmProviderStatus t of None \<Rightarrow> Inr zero_status | Some raw \<Rightarrow> decode raw)
         | UnstructuredBody j \<Rightarrow>
             (case libNestedFieldCopy L j [''status'', ''providerStatus''] of
                Inl e \<Rightarrow> Inl (ErrWrap ''failed to get providerStatus: '' e)
              | Inr None \<Rightarrow> Inr zero_status
              | Inr (Some v) \<Rightarrow> decode (Some v))
         | _ \<Rightarrow> Inl unsupported_type)"

section \<open>Writing the machine back\<close>

text \<open>
  A successful update leaves in memory the object as the server answered it; a failed one leaves
  the object as it was sent.
\<close>

definition kube_update :: "('s, 'u) env \<Rightarrow> ('s, go_err option) act" where
  "kube_update E =
     andthen getobj (\<lambda>m.
     andthen (extcall (KubeUpdate m) (kubeUpdate (envKube E) m)) (\<lambda>r.
       case r of Inl e \<Rightarrow> ret (Some e) | Inr m' \<Rightarrow> seqp (modobj (\<lambda>_. m')) (ret None)))"

definition kube_status_update :: "('s, 'u) env \<Rightarrow> ('s, go_err option) act" where
  "kube_status_update E =
     andthen getobj (\<lambda>m.
     andthen (extcall (KubeStatusUpdate m) (kubeStatusUpdate (envKube E) m)) (\<lambda>r.
       case r of Inl e \<Rightarrow> ret (Some e) | Inr m' \<Rightarrow> seqp (modobj (\<lambda>_. m')) (ret None)))"

definition put_provider_status :: "raw_json \<Rightarrow> TypedMachine \<Rightarrow> MachineObject \<Rightarrow> MachineObject" where
  "put_provider_status raw t m = m\<lparr>objBody := MachineBody (t\<lparr>tmProviderStatus := Some raw\<rparr>)\<rparr>"

definition setProviderStatus ::
  "('s, 'u) env \<Rightarrow> NicoMachineProviderStatus \<Rightarrow> ('s, go_err option) act" where
  "setProviderStatus E status =
     (let j = enc_ProviderStatus (libCodec (envLib E)) status;
          failed = (\<lambda>e. Some (ErrWrap ''failed to update machine status: '' e))
      in andthen getobj (\<lambda>m.
         case objBody m of
           MachineBody t \<Rightarrow>
             seqp (modobj (put_provider_status (Some j) t))
               (guardp (kube_status_update E) failed (ret None))
         | UnstructuredBody u \<Rightarrow>
             (case libSetNestedField (envLib E) u j [''status'', ''providerStatus''] of
                Inl e \<Rightarrow> ret (Some (ErrWrap ''failed to set providerStatus: '' e))
              | Inr u' \<Rightarrow>
                  seqp (modobj (\<lambda>m. m\<lparr>objBody := UnstructuredBody u'\<rparr>))
                    (guardp (kube_status_update E) failed (ret None)))
         | _ \<Rightarrow> ret (Some unsupported_type)))"

definition setProviderID :: "('s, 'u) env \<Rightarrow> string \<Rightarrow> ('s, go_err option) act" where
  "setProviderID E providerID =
     (let failed = (\<lambda>e. Some (ErrWrap ''failed to update machine: '' e))
      in andthen getobj (\<lambda>m.
         case objBody m of
           MachineBody t \<Rightarrow>
             seqp (modobj (\<lambda>m. m\<lparr>objBody := MachineBody (t\<lparr>tmProviderID := Some providerID\<rparr>)\<rparr>))
               (guardp (kube_update E) failed (ret None))
         | UnstructuredBody u \<Rightarrow>
             (case libSetNestedField (envLib E) u (JStr providerID) [''spec'', ''providerID''] of
                Inl e \<Rightarrow> ret (Some (ErrWrap ''failed to set providerID: '' e))
              | Inr u' \<Rightarrow>
                  seqp (modobj (\<lambda>m. m\<lparr>objBody := UnstructuredBody u'\<rparr>))
                    (guardp (kube_update E) failed (ret None)))
         | _ \<Rightarrow> ret (Some unsupported_type)))"

section \<open>The NICo client of a machine\<close>

definition missing_field :: "string \<Rightarrow> string \<Rightarrow> go_err" where
  "missing_field secret field =
     ErrText (''secret '' @ secret @ '' is missing '' @ [CHR 0x27] @ field @ [CHR 0x27] @ '' field'')"

definition getNicoClient ::
  "('s, 'u) env \<Rightarrow> 's Actuator \<Rightarrow> NicoMachineProviderSpec
     \<Rightarrow> ('s, go_err + 's NicoClientInterface \<times> string) act" where
  "getNicoClient E a spec =
     (case actNicoAPIClient a of
        Some c \<Rightarrow> ret (Inr (c, actOrgName a))
      | None \<Rightarrow>
          (let name = csName (CredentialsSecret spec);
               key = (name, csNamespace (CredentialsSecret spec))
           in tryp (extcall (KubeGetSecret key) (kubeGetSecret (envKube E) key))
                (\<lambda>e. Inl (ErrWrap ''failed to get credentials secret: '' e)) (\<lambda>data.
              case gomap_get data ''endpoint'' of
                None \<Rightarrow> ret (Inl (missing_field name ''endpoint''))
              | Some endpoint \<Rightarrow>
                  (case gomap_get data ''orgName'' of
                     None \<Rightarrow> ret (Inl (missing_field name ''orgName''))
                   | Some orgName \<Rightarrow>
                       (case gomap_get data ''token'' of
                          None \<Rightarrow> ret (Inl (missing_field name ''token''))
                        | Some token \<Rightarrow>
                            ret (Inr (nicoClient_methods
                                   \<lparr>ncClient = envSdk E endpoint, ncToken = token\<rparr>,
                                 orgName)))))))"

section \<open>Calls of the NICo client\<close>

definition call_CreateInstance where
  "call_CreateInstance c org req =
     (extcall (Api (CallCreateInstance org req)) (CreateInstance c org req)
        :: ('s, Instance option reply) act)"

definition call_GetInstance where
  "call_GetInstance c org i =
     (extcall (Api (CallGetInstance org i)) (GetInstance c org i)
        :: ('s, Instance option reply) act)"

definition call_DeleteInstance where
  "call_DeleteInstance c org i req =
     (extcall (Api (CallDeleteInstance org i req)) (DeleteInstance c org i req)
        :: ('s, unit reply) act)"

definition call_UpdateInstance where
  "call_UpdateInstance c org i req =
     (extcall (Api (CallUpdateInstance org i req)) (UpdateInstance c org i req)
        :: ('s, Instance option reply) act)"

definition call_GetMachine where
  "call_GetMachine c org m =
     (extcall (Api (CallGetMachine org m)) (GetMachine c org m) :: ('s, NicoMachine option reply) act)"

definition call_GetCurrentTenant where
  "call_GetCurrentTenant c org =
     (extcall (Api (CallGetCurrentTenant org)) (GetCurrentTenant c org)
        :: ('s, Tenant option reply) act)"

definition call_GetInstanceStatusHistory where
  "call_GetInstanceStatusHistory c org i =
     (extcall (Api (CallGetInstanceStatusHistory org i)) (GetInstanceStatusHistory c org i)
        :: ('s, StatusDetail list reply) act)"

definition call_GetAllMachineHealthReport where
  "call_GetAllMachineHealthReport c org m =
     (extcall (Api (CallGetAllMachineHealthReport org m)) (GetAllMachineHealthReport c org m)
        :: ('s, MachineHealthReportEntry list reply) act)"

definition call_CreateOrUpdateMachineHealthReport where
  "call_CreateOrUpdateMachineHealthReport c org m req =
     (extcall (Api (CallCreateOrUpdateMachineHealthReport org m req))
        (CreateOrUpdateMachineHealthReport c org m req)
        :: ('s, MachineHealthReportEntry option reply) act)"

definition call_DeleteMachineHealthReport where
  "call_DeleteMachineHealthReport c org m src =
     (extcall (Api (CallDeleteMachineHealthReport org m src)) (DeleteMachineHealthReport c org m src)
        :: ('s, unit reply) act)"

definition call_GetMachineValidationRuns where
  "call_GetMachineValidationRuns c org m =
     (extcall (Api (CallGetMachineValidationRuns org m)) (GetMachineValidationRuns c org m)
        :: ('s, MachineValidationRun list reply) act)"

definition call_GetMachineStatusHistory where
  "call_GetMachineStatusHistory c org m =
     (extcall (Api (CallGetMachineStatusHistory org m)) (GetMachineStatusHistory c org m)
        :: ('s, StatusDetail list reply) act)"

definition call_GetAllTenantAccount where
  "call_GetAllTenantAccount c org =
     (extcall (Api (CallGetAllTenantAccount org)) (GetAllTenantAccount c org)
        :: ('s, TenantAccount list reply) act)"

lemmas call_defs =
  call_CreateInstance_def call_GetInstance_def call_DeleteInstance_def call_UpdateInstance_def
  call_GetMachine_def call_GetCurrentTenant_def call_GetInstanceStatusHistory_def
  call_GetAllMachineHealthReport_def call_CreateOrUpdateMachineHealthReport_def
  call_DeleteMachineHealthReport_def call_GetMachineValidationRuns_def
  call_GetMachineStatusHistory_def call_GetAllTenantAccount_def

text \<open>Status codes: \<open>resp != nil && resp.StatusCode < 300\<close> and the like.\<close>

definition resp_ok :: "HttpResponse option \<Rightarrow> bool" where
  "resp_ok r \<longleftrightarrow> (case r of None \<Rightarrow> False | Some h \<Rightarrow> StatusCode h < 300)"

definition resp_is :: "HttpResponse option \<Rightarrow> int \<Rightarrow> bool" where
  "resp_is r n \<longleftrightarrow> (case r of None \<Rightarrow> False | Some h \<Rightarrow> StatusCode h = n)"

definition statusCodeUnknown :: string where "statusCodeUnknown = ''unknown''"

definition status_code_text :: "HttpResponse option \<Rightarrow> string" where
  "status_code_text r =
     (case r of None \<Rightarrow> statusCodeUnknown | Some h \<Rightarrow> show_int (StatusCode h))"

section \<open>What the helpers emit and keep\<close>

lemma emits_eventf [emits_intros]:
  "(actRecorder a \<Longrightarrow> \<phi> (Event ty r n)) \<Longrightarrow> emits \<phi> (eventf a ty r n)"
  unfolding eventf_def by (intro emits_intros)

lemma keeps_eventf [keeps_intros]: "keeps f (eventf a ty r n)"
  unfolding eventf_def by (intro keeps_intros)

lemma emits_metricp [emits_intros]: "\<phi> (Metric m) \<Longrightarrow> emits \<phi> (metricp m)"
  unfolding metricp_def by (rule emits_emit)

lemma keeps_metricp [keeps_intros]: "keeps f (metricp m)"
  unfolding metricp_def by (rule keeps_emit)

lemma emits_kube_update [emits_intros]: "(\<And>m. \<phi> (KubeUpdate m)) \<Longrightarrow> emits \<phi> (kube_update E)"
  unfolding kube_update_def by (intro emits_intros) auto

lemma emits_kube_status_update [emits_intros]:
  "(\<And>m. \<phi> (KubeStatusUpdate m)) \<Longrightarrow> emits \<phi> (kube_status_update E)"
  unfolding kube_status_update_def by (intro emits_intros) auto

lemma emits_setProviderStatus [emits_intros]:
  "(\<And>m. \<phi> (KubeStatusUpdate m)) \<Longrightarrow> emits \<phi> (setProviderStatus E ps)"
  unfolding setProviderStatus_def Let_def
  by (rule emits_andthen) (auto split: machine_body.split intro!: emits_intros)

lemma emits_setProviderID [emits_intros]:
  "(\<And>m. \<phi> (KubeUpdate m)) \<Longrightarrow> emits \<phi> (setProviderID E pid)"
  unfolding setProviderID_def Let_def
  by (rule emits_andthen) (auto split: machine_body.split intro!: emits_intros)

lemma emits_getNicoClient [emits_intros]:
  "(\<And>k. \<phi> (KubeGetSecret k)) \<Longrightarrow> emits \<phi> (getNicoClient E a spec)"
  unfolding getNicoClient_def Let_def by (intro emits_intros) auto

lemma keeps_getNicoClient [keeps_intros]: "keeps f (getNicoClient E a spec)"
  unfolding getNicoClient_def Let_def by (intro keeps_intros)

lemma emits_calls [emits_intros]:
  "\<phi> (Api (CallCreateInstance org req)) \<Longrightarrow> emits \<phi> (call_CreateInstance c org req)"
  "\<phi> (Api (CallGetInstance org i)) \<Longrightarrow> emits \<phi> (call_GetInstance c org i)"
  "\<phi> (Api (CallDeleteInstance org i dreq)) \<Longrightarrow> emits \<phi> (call_DeleteInstance c org i dreq)"
  "\<phi> (Api (CallUpdateInstance org i ureq)) \<Longrightarrow> emits \<phi> (call_UpdateInstance c org i ureq)"
  "\<phi> (Api (CallGetMachine org i)) \<Longrightarrow> emits \<phi> (call_GetMachine c org i)"
  "\<phi> (Api (CallGetCurrentTenant org)) \<Longrightarrow> emits \<phi> (call_GetCurrentTenant c org)"
  "\<phi> (Api (CallGetInstanceStatusHistory org i)) \<Longrightarrow> emits \<phi> (call_GetInstanceStatusHistory c org i)"
  "\<phi> (Api (CallGetAllMachineHealthReport org i)) \<Longrightarrow> emits \<phi> (call_GetAllMachineHealthReport c org i)"
  "\<phi> (Api (CallCreateOrUpdateMachineHealthReport org i hreq)) \<Longrightarrow>
     emits \<phi> (call_CreateOrUpdateMachineHealthReport c org i hreq)"
  "\<phi> (Api (CallDeleteMachineHealthReport org i src)) \<Longrightarrow>
     emits \<phi> (call_DeleteMachineHealthReport c org i src)"
  "\<phi> (Api (CallGetMachineValidationRuns org i)) \<Longrightarrow> emits \<phi> (call_GetMachineValidationRuns c org i)"
  "\<phi> (Api (CallGetMachineStatusHistory org i)) \<Longrightarrow> emits \<phi> (call_GetMachineStatusHistory c org i)"
  "\<phi> (Api (CallGetAllTenantAccount org)) \<Longrightarrow> emits \<phi> (call_GetAllTenantAccount c org)"
  unfolding call_defs by (intro emits_extcall; assumption)+

lemma keeps_calls [keeps_intros]:
  "keeps f (call_CreateInstance c org req)" "keeps f (call_GetInstance c org i)"
  "keeps f (call_DeleteInstance c org i dreq)" "keeps f (call_UpdateInstance c org i ureq)"
  "keeps f (call_GetMachine c org i)" "keeps f (call_GetCurrentTenant c org)"
  "keeps f (call_GetInstanceStatusHistory c org i)" "keeps f (call_GetAllMachineHealthReport c org i)"
  "keeps f (call_CreateOrUpdateMachineHealthReport c org i hreq)"
  "keeps f (call_DeleteMachineHealthReport c org i src)"
  "keeps f (call_GetMachineValidationRuns c org i)" "keeps f (call_GetMachineStatusHistory c org i)"
  "keeps f (call_GetAllTenantAccount c org)"
  unfolding call_defs by (intro keeps_extcall)+

lemma total_outputs [total_intros]: "total (eventf a ty r n)" "total (metricp m)"
  unfolding eventf_def metricp_def by (intro total_intros)+

lemma total_calls [total_intros]:
  "total (call_CreateInstance c org req)" "total (call_GetInstance c org i)"
  "total (call_DeleteInstance c org i dreq)" "total (call_UpdateInstance c org i ureq)"
  "total (call_GetMachine c org i)" "total (call_GetCurrentTenant c org)"
  "total (call_GetInstanceStatusHistory c org i)" "total (call_GetAllMachineHealthReport c org i)"
  "total (call_CreateOrUpdateMachineHealthReport c org i hreq)"
  "total (call_DeleteMachineHealthReport c org i src)"
  "total (call_GetMachineValidationRuns c org i)" "total (call_GetMachineStatusHistory c org i)"
  "total (call_GetAllTenantAccount c org)"
  unfolding call_defs by (intro total_intros)+

lemma total_kube_writes [total_intros]: "total (kube_update E)" "total (kube_status_update E)"
  unfolding kube_update_def kube_status_update_def by (intro total_intros)+

lemma total_setters [total_intros]: "total (setProviderStatus E ps)" "total (setProviderID E pid)"
  unfolding setProviderStatus_def setProviderID_def Let_def
  by (rule total_andthen; (simp split: machine_body.split)?; intro total_intros allI impI conjI)+

lemma total_getNicoClient [total_intros]: "total (getNicoClient E a spec)"
  unfolding getNicoClient_def Let_def by (intro total_intros)

section \<open>The helpers on a typed machine\<close>

text \<open>An API server that answers an update with the object it was sent.\<close>

definition echoes :: "'s KubeClient \<Rightarrow> bool" where
  "echoes K \<longleftrightarrow> (\<forall>m s. fst (kubeStatusUpdate K m s) = Inr m \<and> fst (kubeUpdate K m s) = Inr m)"

lemma run_kube_update:
  "kube_update E st =
     (let a = kubeUpdate (envKube E) (obj st) (ext st);
          st1 = st\<lparr>ext := snd a, trace := trace st @ [KubeUpdate (obj st)]\<rparr>
      in case fst a of Inl e \<Rightarrow> (Val (Some e), st1) | Inr m \<Rightarrow> (Val None, st1\<lparr>obj := m\<rparr>))"
  by (simp add: kube_update_def run_simps Let_def split: sum.split)

lemma echoed_setProviderStatus:
  assumes "echoes (envKube E)" and "objBody (obj st) = MachineBody t"
  shows "\<exists>st'. setProviderStatus E ps st = (Val None, st')
    \<and> obj st' = put_provider_status (Some (enc_ProviderStatus (libCodec (envLib E)) ps)) t (obj st)"
  using assms
  by (simp add: echoes_def setProviderStatus_def kube_status_update_def run_simps Let_def)

lemma echoed_setProviderID:
  assumes "echoes (envKube E)" and "objBody (obj st) = MachineBody t"
  shows "\<exists>st'. setProviderID E pid st = (Val None, st')
    \<and> obj st' = (obj st)\<lparr>objBody := MachineBody (t\<lparr>tmProviderID := Some pid\<rparr>)\<rparr>"
  using assms by (simp add: echoes_def setProviderID_def kube_update_def run_simps Let_def)

text \<open>An API server whose answer to a successful update is the object it was sent; an update may fail.\<close>

definition truthful :: "'s KubeClient \<Rightarrow> bool" where
  "truthful K \<longleftrightarrow> (\<forall>m s m'. (fst (kubeStatusUpdate K m s) = Inr m' \<or> fst (kubeUpdate K m s) = Inr m') \<longrightarrow> m' = m)"

lemma truthfulD:
  "truthful K \<Longrightarrow> fst (kubeStatusUpdate K m s) = Inr m' \<Longrightarrow> m' = m"
  "truthful K \<Longrightarrow> fst (kubeUpdate K m s) = Inr m' \<Longrightarrow> m' = m"
  unfolding truthful_def by blast+

lemma echoes_truthful: "echoes K \<Longrightarrow> truthful K"
  by (simp add: echoes_def truthful_def)

text \<open>A typed machine after a write that succeeded.\<close>

lemma written_setProviderStatus:
  assumes "truthful (envKube E)" and "objBody (obj st) = MachineBody t"
    and "setProviderStatus E ps st = (Val None, st')"
  shows "obj st' = put_provider_status (Some (enc_ProviderStatus (libCodec (envLib E)) ps)) t (obj st)"
  using assms truthfulD(1) [OF assms(1)]
  by (fastforce simp: setProviderStatus_def kube_status_update_def run_simps Let_def split: sum.splits)

lemma written_setProviderID:
  assumes "truthful (envKube E)" and "objBody (obj st) = MachineBody t"
    and "setProviderID E pid st = (Val None, st')"
  shows "obj st' = (obj st)\<lparr>objBody := MachineBody (t\<lparr>tmProviderID := Some pid\<rparr>)\<rparr>"
  using assms truthfulD(2) [OF assms(1)]
  by (fastforce simp: setProviderID_def kube_update_def run_simps Let_def split: sum.splits)

lemma getProviderStatus_put:
  assumes "codec_ok (libCodec L) norm" and "distinct (map fst (psHealthLabels ps))"
  shows "getProviderStatus L (put_provider_status (Some (enc_ProviderStatus (libCodec L) ps)) t m)
    = Inr (ps\<lparr>psConditions := map norm (psConditions ps)\<rparr>)"
  using dec_enc_ProviderStatus [OF condition_codec.axioms(1) [OF assms(1)] assms(2)]
  by (simp add: getProviderStatus_def put_provider_status_def unmarshal_def)

end
