(* ===== verification/RefWorld.thy ===== *)
theory RefWorld
  imports ActuatorBase
begin

text \<open>
  A small outside world in which the properties' hypotheses are met: a NICo service that keeps
  instances in a table and numbers them, an API server that stores one machine and echoes
  updates, and a clock that stands still. It is no model of either service; it instantiates the
  parameters of the model so that its programs can be run on concrete inputs.
\<close>

record ref_world =
  rwMachine :: MachineObject
  rwInstances :: "Instance gomap"
  rwNext :: nat
  rwAlerts :: "MachineHealthProbeAlert list"
  rwRuns :: "MachineValidationRun list"
  rwNow :: time

definition ref_ok :: "HttpResponse option" where
  "ref_ok = Some \<lparr>StatusCode = 200, Body = None\<rparr>"

definition ref_missing :: "'a \<Rightarrow> 'a reply" where
  "ref_missing x = (x, Some \<lparr>StatusCode = 404, Body = None\<rparr>, Some (ErrText ''not found''))"

definition ref_instance :: "nat \<Rightarrow> Instance" where
  "ref_instance n = \<lparr>instId = Some (show_nat n), instMachineId = Some ''m-1'', instMachineIdSet = True,
     instStatus = Some INSTANCESTATUS_READY, instSiteId = Some ''7'', instInterfaces = [[''10.0.0.1'']],
     instNvLinkInterfaces = [], instInfinibandInterfaces = []\<rparr>"

definition ref_client :: "ref_world NicoClientInterface" where
  "ref_client = \<lparr>
     CreateInstance = (\<lambda>org req w.
       ((Some (ref_instance (rwNext w)), ref_ok, None),
        w\<lparr>rwInstances := gomap_set (show_nat (rwNext w)) (ref_instance (rwNext w)) (rwInstances w),
          rwNext := Suc (rwNext w)\<rparr>)),
     GetInstance = (\<lambda>org i w.
       (case gomap_get (rwInstances w) i of
          None \<Rightarrow> ref_missing None
        | Some inst \<Rightarrow> (Some inst, ref_ok, None), w)),
     DeleteInstance = (\<lambda>org i req w.
       (case gomap_get (rwInstances w) i of
          None \<Rightarrow> ref_missing ()
        | Some inst \<Rightarrow> ((), ref_ok, None),
        w\<lparr>rwInstances := filter (\<lambda>(k, v). k \<noteq> i) (rwInstances w)\<rparr>)),
     UpdateInstance = (\<lambda>org i req w.
       (case gomap_get (rwInstances w) i of
          None \<Rightarrow> ref_missing None
        | Some inst \<Rightarrow> (Some inst, ref_ok, None), w)),
     GetMachine = (\<lambda>org m w. (ref_missing None, w)),
     GetCurrentTenant = (\<lambda>org w. (ref_missing None, w)),
     GetInstanceStatusHistory = (\<lambda>org i w. (([], ref_ok, None), w)),
     GetAllMachineHealthReport = (\<lambda>org m w. (([\<lparr>hreAlerts = rwAlerts w\<rparr>], ref_ok, None), w)),
     CreateOrUpdateMachineHealthReport = (\<lambda>org m req w. ((None, ref_ok, None), w)),
     DeleteMachineHealthReport = (\<lambda>org m src w. (((), ref_ok, None), w)),
     GetMachineValidationRuns = (\<lambda>org m w. ((rwRuns w, ref_ok, None), w)),
     GetMachineStatusHistory = (\<lambda>org m w. (([], ref_ok, None), w)),
     GetAllTenantAccount = (\<lambda>org w. (ref_missing [], w)),
     GetAllMachine = (\<lambda>org w. (([], ref_ok, None), w)),
     GetAllSku = (\<lambda>org w. (([], ref_ok, None), w)),
     GetAllSiteExplorerEndpoint = (\<lambda>org w. (([], ref_ok, None), w))\<rparr>"

definition ref_kube :: "ref_world KubeClient" where
  "ref_kube = \<lparr>
     kubeGetMachine = (\<lambda>key w. (Inr (rwMachine w), w)),
     kubeGetSecret = (\<lambda>key w. (Inl (ErrText ''not found''), w)),
     kubeUpdate = (\<lambda>m w. (Inr m, w\<lparr>rwMachine := m\<rparr>)),
     kubeStatusUpdate = (\<lambda>m w. (Inr m, w\<lparr>rwMachine := m\<rparr>))\<rparr>"

definition ref_sdk :: "ref_world SdkApi" where
  "ref_sdk = \<lparr>
     sdkCreateInstance = (\<lambda>t org req w. (ref_missing None, w)),
     sdkGetInstance = (\<lambda>t. GetInstance ref_client),
     sdkDeleteInstance = (\<lambda>t. DeleteInstance ref_client),
     sdkUpdateInstance = (\<lambda>t org i req w. (ref_missing None, w)),
     sdkGetMachine = (\<lambda>t. GetMachine ref_client),
     sdkGetCurrentTenant = (\<lambda>t. GetCurrentTenant ref_client),
     sdkGetInstanceStatusHistory = (\<lambda>t. GetInstanceStatusHistory ref_client),
     sdkGetAllMachineHealthReport = (\<lambda>t. GetAllMachineHealthReport ref_client),
     sdkCreateOrUpdateMachineHealthReport = (\<lambda>t org m req w. (ref_missing None, w)),
     sdkDeleteMachineHealthReport = (\<lambda>t. DeleteMachineHealthReport ref_client),
     sdkGetAllMachineValidationRuns = (\<lambda>t. GetMachineValidationRuns ref_client),
     sdkGetMachineStatusHistory = (\<lambda>t. GetMachineStatusHistory ref_client),
     sdkGetAllTenantAccount = (\<lambda>t. GetAllTenantAccount ref_client),
     sdkGetAllMachine = (\<lambda>t org inc. GetAllMachine ref_client org),
     sdkGetAllSku = (\<lambda>t. GetAllSku ref_client),
     sdkGetAllSiteExplorerEndpoint = (\<lambda>t. GetAllSiteExplorerEndpoint ref_client)\<rparr>"

definition ref_env :: "(ref_world, nat) env" where
  "ref_env = \<lparr>envKube = ref_kube, envLib = ref_lib, envUuid = ref_uuid, envSdk = (\<lambda>_. ref_sdk),
     envNow = rwNow\<rparr>"

definition ref_actuator :: "ref_world Actuator" where
  "ref_actuator = \<lparr>actRecorder = True, actNicoAPIClient = Some ref_client, actOrgName = ''org''\<rparr>"

section \<open>A machine and its spec\<close>

definition ref_spec_json :: json where
  "ref_spec_json = JObj [(''siteId'', JStr ''7''), (''tenantId'', JStr ''8''), (''vpcId'', JStr ''9''),
     (''subnetId'', JStr ''10''), (''machineId'', JStr ''11'')]"

definition ref_spec :: NicoMachineProviderSpec where
  "ref_spec = zero_spec\<lparr>SiteID := ''7'', TenantID := ''8'', VpcID := ''9'', SubnetID := ''10'',
     MachineID := ''11''\<rparr>"

lemma ref_spec_decodes: "dec_ProviderSpec ref_metav1 ref_spec_json = Inr ref_spec"
  by code_simp

definition ref_typed :: TypedMachine where
  "ref_typed = \<lparr>tmProviderSpecValue = Some (Some ref_spec_json), tmProviderID = None,
     tmProviderStatus = None, tmErrorReason = None, tmErrorMessage = None\<rparr>"

definition ref_machine :: MachineObject where
  "ref_machine = \<lparr>objMeta = \<lparr>omName = ''worker'', omNamespace = ''ns'', omLabels = None,
      omAnnotations = None, omFinalizers = [''machine.openshift.io/nico''],
      omDeletionTimestamp = 0\<rparr>, objBody = MachineBody ref_typed\<rparr>"

definition ref_world0 :: ref_world where
  "ref_world0 = \<lparr>rwMachine = ref_machine, rwInstances = [], rwNext = 1, rwAlerts = [], rwRuns = [],
     rwNow = 1000000000000\<rparr>"

definition ref_state :: "ref_world \<Rightarrow> (ref_world, MachineObject, action) st" where
  "ref_state w = \<lparr>ext = w, obj = rwMachine w, trace = []\<rparr>"

lemma ref_env_simps [simp]:
  "envKube ref_env = ref_kube" "envLib ref_env = ref_lib" "envUuid ref_env = ref_uuid"
  "envNow ref_env = rwNow" "envSdk ref_env e = ref_sdk"
  by (simp_all add: ref_env_def)

lemma ref_actuator_simps [simp]:
  "actRecorder ref_actuator" "actNicoAPIClient ref_actuator = Some ref_client"
  "actOrgName ref_actuator = ''org''"
  by (simp_all add: ref_actuator_def)

lemma ref_client_simps [simp]:
  "CreateInstance ref_client org req w =
     ((Some (ref_instance (rwNext w)), ref_ok, None),
      w\<lparr>rwInstances := gomap_set (show_nat (rwNext w)) (ref_instance (rwNext w)) (rwInstances w),
        rwNext := Suc (rwNext w)\<rparr>)"
  "GetInstance ref_client org i w =
     (case gomap_get (rwInstances w) i of
        None \<Rightarrow> ref_missing None
      | Some inst \<Rightarrow> (Some inst, ref_ok, None), w)"
  "DeleteInstance ref_client org i dreq w =
     (case gomap_get (rwInstances w) i of
        None \<Rightarrow> ref_missing ()
      | Some inst \<Rightarrow> ((), ref_ok, None),
      w\<lparr>rwInstances := filter (\<lambda>(k, v). k \<noteq> i) (rwInstances w)\<rparr>)"
  "GetMachine ref_client org m w = (ref_missing None, w)"
  "GetCurrentTenant ref_client org w = (ref_missing None, w)"
  "GetInstanceStatusHistory ref_client org i w = (([], ref_ok, None), w)"
  "GetAllMachineHealthReport ref_client org m w = (([\<lparr>hreAlerts = rwAlerts w\<rparr>], ref_ok, None), w)"
  "CreateOrUpdateMachineHealthReport ref_client org m hreq w = ((None, ref_ok, None), w)"
  "DeleteMachineHealthReport ref_client org m src w = (((), ref_ok, None), w)"
  "GetMachineValidationRuns ref_client org m w = ((rwRuns w, ref_ok, None), w)"
  "GetAllTenantAccount ref_client org w = (ref_missing [], w)"
  by (simp_all add: ref_client_def)

lemma ref_replies [simp]:
  "resp_ok ref_ok" "resp_is ref_ok 200" "\<not> resp_is ref_ok 404"
  "ref_missing x = (x, Some \<lparr>StatusCode = 404, Body = None\<rparr>, Some (ErrText ''not found''))"
  by (simp_all add: ref_ok_def ref_missing_def resp_ok_def resp_is_def)

lemma ref_uuid_parse [simp]: "uuid_parse ref_uuid (show_nat n) = Inr n"
  using ref_uuids.parse_string [of n] by (simp add: ref_uuid_def)

lemma ref_spec_simps [simp]:
  "MachineID ref_spec = ''11''" "\<not> AllowUnhealthyMachine ref_spec" "SiteID ref_spec = ''7''"
  "TenantID ref_spec = ''8''" "DpuExtensionServices ref_spec = []"
  by (simp_all add: ref_spec_def zero_spec_def)

lemma ref_getProviderSpec:
  "objBody m = MachineBody t \<Longrightarrow> tmProviderSpecValue t = Some (Some ref_spec_json) \<Longrightarrow>
     getProviderSpec ref_lib m = Inr ref_spec"
  using ref_spec_decodes by (simp add: getProviderSpec_def unmarshal_def ref_lib_def)

lemma ref_getProviderStatus:
  "objBody m = MachineBody t \<Longrightarrow> tmProviderStatus t = None \<Longrightarrow>
     getProviderStatus ref_lib m = Inr zero_status"
  by (simp add: getProviderStatus_def)

lemma ref_env_codec: "codec_ok (libCodec (envLib ref_env)) ref_condition_norm"
  by (simp add: ref_lib_codec)

lemma ref_kube_echo [simp]:
  "kubeStatusUpdate ref_kube m w = (Inr m, w\<lparr>rwMachine := m\<rparr>)"
  "kubeUpdate ref_kube m w = (Inr m, w\<lparr>rwMachine := m\<rparr>)"
  "kubeGetMachine ref_kube key w = (Inr (rwMachine w), w)"
  by (simp_all add: ref_kube_def)

lemma ref_kube_echoes: "echoes (envKube ref_env)"
  by (simp add: echoes_def)

lemma ref_state_simps [simp]:
  "ext (ref_state w) = w" "obj (ref_state w) = rwMachine w" "trace (ref_state w) = []"
  by (simp_all add: ref_state_def)

lemma ref_world0_simps [simp]:
  "rwMachine ref_world0 = ref_machine" "rwInstances ref_world0 = []" "rwNext ref_world0 = 1"
  "rwAlerts ref_world0 = []" "rwRuns ref_world0 = []" "rwNow ref_world0 = 1000000000000"
  by (simp_all add: ref_world0_def)

lemma ref_machine_simps [simp]:
  "objBody ref_machine = MachineBody ref_typed" "omDeletionTimestamp (objMeta ref_machine) = 0"
  "omFinalizers (objMeta ref_machine) = [''machine.openshift.io/nico'']"
  "GetName ref_machine = ''worker''" "omAnnotations (objMeta ref_machine) = None"
  by (simp_all add: ref_machine_def GetName_def)

lemma ref_typed_simps [simp]:
  "tmProviderSpecValue ref_typed = Some (Some ref_spec_json)" "tmProviderID ref_typed = None"
  "tmProviderStatus ref_typed = None" "tmErrorReason ref_typed = None"
  by (simp_all add: ref_typed_def)

lemma ref_machine_reads [simp]:
  "getProviderSpec ref_lib ref_machine = Inr ref_spec"
  "getProviderStatus ref_lib ref_machine = Inr zero_status"
  by (rule ref_getProviderSpec [where t = ref_typed] ref_getProviderStatus [where t = ref_typed]; simp)+

section \<open>Properties of the actuator's helpers\<close>

text \<open>C34. A status that has been written is the status the next reconcile reads, on a typed and on an
  unstructured machine alike, up to the precision of its transition times.\<close>

theorem status_persists:
  assumes "codec_ok (libCodec (envLib E)) norm"
    and "nested_fields (libNestedFieldCopy (envLib E)) (libSetNestedField (envLib E))"
    and "\<And>m s. fst (kubeStatusUpdate (envKube E) m s) = Inr m"
    and "distinct (map fst (psHealthLabels ps))"
    and "setProviderStatus E ps st = (Val None, st')"
  shows "getProviderStatus (envLib E) (obj st') = Inr (ps\<lparr>psConditions := map norm (psConditions ps)\<rparr>)"
proof -
  let ?j = "enc_ProviderStatus (libCodec (envLib E)) ps"
  have dec: "unmarshal (dec_ProviderStatus (libCodec (envLib E))) (Some ?j)
      = Inr (ps\<lparr>psConditions := map norm (psConditions ps)\<rparr>)"
    using dec_enc_ProviderStatus [OF condition_codec.axioms(1) [OF assms(1)] assms(4)]
    by (simp add: unmarshal_def)
  show ?thesis
  proof (cases "objBody (obj st)")
    case (MachineBody t)
    then show ?thesis
      using assms(3,5) dec
      by (auto simp: setProviderStatus_def kube_status_update_def run_simps getProviderStatus_def
          put_provider_status_def Let_def)
  next
    case (UnstructuredBody u)
    then obtain u' where u': "libSetNestedField (envLib E) u ?j [''status'', ''providerStatus''] = Inr u'"
      using assms(5) by (auto simp: setProviderStatus_def run_simps Let_def split: sum.splits)
    note got = nested_fields.get_set [OF assms(2) u']
    show ?thesis
      using UnstructuredBody u' got assms(3,5) dec
      by (auto simp: setProviderStatus_def kube_status_update_def run_simps getProviderStatus_def
          Let_def)
  qed (use assms(5) in \<open>simp_all add: setProviderStatus_def run_simps Let_def\<close>)
qed

theorem status_persists_witness:
  "getProviderStatus ref_lib (obj (snd (setProviderStatus ref_env
       (zero_status\<lparr>psInstanceID := Some ''1''\<rparr>) (ref_state ref_world0))))
     = Inr (zero_status\<lparr>psInstanceID := Some ''1''\<rparr>)"
proof -
  let ?ps = "zero_status\<lparr>psInstanceID := Some ''1''\<rparr>"
  have "fst (setProviderStatus ref_env ?ps (ref_state ref_world0)) = Val None"
    by (simp add: setProviderStatus_def kube_status_update_def run_simps Let_def)
  then obtain st' where *: "setProviderStatus ref_env ?ps (ref_state ref_world0) = (Val None, st')"
    by (metis prod.collapse)
  have "nested_fields (libNestedFieldCopy (envLib ref_env)) (libSetNestedField (envLib ref_env))"
    by (simp add: ref_lib_def ref_fields.nested_fields_axioms)
  from status_persists [OF ref_env_codec this _ _ *] * show ?thesis
    by (simp add: zero_status_def)
qed

text \<open>The client of a machine: an injected one is used as it is; otherwise the credentials secret
  must be readable and hold endpoint, organisation and token, and the client talks to that
  endpoint with that token.\<close>

theorem client_credentials:
  "fst (getNicoClient E a spec st) = Val (Inr (c, org)) \<longleftrightarrow>
     (case actNicoAPIClient a of
        Some c' \<Rightarrow> c = c' \<and> org = actOrgName a
      | None \<Rightarrow>
          (\<exists>data endpoint token.
             fst (kubeGetSecret (envKube E)
               (csName (CredentialsSecret spec), csNamespace (CredentialsSecret spec)) (ext st)) = Inr data
             \<and> gomap_get data ''endpoint'' = Some endpoint \<and> gomap_get data ''orgName'' = Some org
             \<and> gomap_get data ''token'' = Some token
             \<and> c = nicoClient_methods \<lparr>ncClient = envSdk E endpoint, ncToken = token\<rparr>))"
  by (auto simp: getNicoClient_def run_simps Let_def split: option.split sum.split)

end
