(* ===== verification/MachineHealth.thy ===== *)
theory MachineHealth
  imports RefWorld
begin

text \<open>
  Health of physical machines, in pkg/actuators/machine/actuator.go: the classification of
  alerts, the pre-flight questions (\<open>checkCriticalFaults\<close>, \<open>checkMachineValidation\<close>,
  \<open>hasTargetedInstanceCreation\<close>), and the mapping of alerts to the conditions \<open>MachineHealthy\<close>
  and \<open>NicoFaultRemediation\<close> from the health reports or, when those cannot be read, from the
  machine's own health record. \<open>severity\<close> is the abstract reading of an alert's classifications
  that \<open>classifyAlert\<close> implements.
\<close>

section \<open>Classification of alerts\<close>

definition severityCritical :: string where "severityCritical = ''critical''"
definition severityWarning :: string where "severityWarning = ''warning''"
definition severityRemediating :: string where "severityRemediating = ''remediating''"

definition labelHealthy :: string where "labelHealthy = ''infra.nvidia.com/healthy''"
definition labelAlertCount :: string where "labelAlertCount = ''infra.nvidia.com/health-alert-count''"
definition labelTrue :: string where "labelTrue = ''true''"
definition labelFalse :: string where "labelFalse = ''false''"

lemmas severity_text_defs = severityCritical_def severityWarning_def severityRemediating_def

fun classes_loop :: "bool \<Rightarrow> bool \<Rightarrow> string list \<Rightarrow> bool \<times> bool" where
  "classes_loop hasCritical hasWarning [] = (hasCritical, hasWarning)"
| "classes_loop hasCritical hasWarning (c # cs) =
     (if c = severityCritical then classes_loop True hasWarning cs
      else if c = severityWarning then classes_loop hasCritical True cs
      else classes_loop hasCritical hasWarning cs)"

definition classifyAlert :: "MachineHealthProbeAlert \<Rightarrow> string" where
  "classifyAlert alert =
     (let (hasCritical, hasWarning) = classes_loop False False (alertClassifications alert)
      in if hasCritical then severityCritical
         else if hasWarning then severityWarning
         else severityCritical)"

fun classifyAlerts_loop ::
  "MachineHealthProbeAlert list \<Rightarrow> MachineHealthProbeAlert list \<Rightarrow> MachineHealthProbeAlert list
     \<Rightarrow> MachineHealthProbeAlert list \<times> MachineHealthProbeAlert list" where
  "classifyAlerts_loop critical warning [] = (critical, warning)"
| "classifyAlerts_loop critical warning (alert # alerts) =
     (if classifyAlert alert = severityWarning
      then classifyAlerts_loop critical (warning @ [alert]) alerts
      else classifyAlerts_loop (critical @ [alert]) warning alerts)"

definition classifyAlerts ::
  "MachineHealthProbeAlert list \<Rightarrow> MachineHealthProbeAlert list \<times> MachineHealthProbeAlert list" where
  "classifyAlerts alerts = classifyAlerts_loop [] [] alerts"

definition hasRemediatingAlert :: "MachineHealthProbeAlert list \<Rightarrow> bool" where
  "hasRemediatingAlert alerts \<longleftrightarrow>
     list_ex (\<lambda>alert. list_ex (\<lambda>c. c = severityRemediating) (alertClassifications alert)) alerts"

section \<open>Questions before creating an instance\<close>

definition collect_alerts :: "MachineHealthReportEntry list \<Rightarrow> MachineHealthProbeAlert list" where
  "collect_alerts reports = concat (map hreAlerts reports)"

text \<open>The verdict on a list of alerts, with its message.\<close>

definition critical_verdict :: "string \<Rightarrow> MachineHealthProbeAlert list \<Rightarrow> bool \<times> string" where
  "critical_verdict machineID alerts =
     (case fst (classifyAlerts alerts) of
        [] \<Rightarrow> (False, [])
      | a # rest \<Rightarrow>
          (True, if alertMessage a \<noteq> [] then alertMessage a
                 else ''Machine '' @ machineID @ '' has '' @ show_nat (length (a # rest))
                        @ '' critical health alert(s)''))"

definition checkCriticalFaults ::
  "'s NicoClientInterface \<Rightarrow> string \<Rightarrow> string \<Rightarrow> ('s, bool \<times> string) act" where
  "checkCriticalFaults c orgName machineID =
     andthen (call_GetAllMachineHealthReport c orgName machineID) (\<lambda>(reports, httpResp, err).
       if err = None \<and> resp_ok httpResp then
         ret (critical_verdict machineID (collect_alerts reports))
       else
         andthen (call_GetMachine c orgName machineID) (\<lambda>(machine, mhResp, mhErr).
           if mhErr \<noteq> None \<or> \<not> resp_is mhResp 200 then ret (False, [])
           else (case machine of
                   None \<Rightarrow> ret (False, [])
                 | Some m \<Rightarrow>
                     (case nmHealth m of
                        None \<Rightarrow> ret (False, [])
                      | Some alerts \<Rightarrow>
                          if alerts = [] then ret (False, [])
                          else ret (critical_verdict machineID alerts)))))"

text \<open>The most recent run by end time: the first of the latest; a run without an end time is
  replaced by any that has one.\<close>

definition later_run :: "MachineValidationRun \<Rightarrow> MachineValidationRun \<Rightarrow> bool" where
  "later_run r latest =
     (case mvrEndTime r of
        None \<Rightarrow> False
      | Some t \<Rightarrow> (case mvrEndTime latest of None \<Rightarrow> True | Some t' \<Rightarrow> t > t'))"

fun latest_run :: "MachineValidationRun \<Rightarrow> MachineValidationRun list \<Rightarrow> MachineValidationRun" where
  "latest_run latest [] = latest"
| "latest_run latest (r # rs) = latest_run (if later_run r latest then r else latest) rs"

definition validation_verdict :: "string \<Rightarrow> MachineValidationRun \<Rightarrow> bool \<times> string" where
  "validation_verdict machineID latest =
     (if mvrState latest \<noteq> ''completed'' then
        (True, ''Machine '' @ machineID @ '' has a validation run in state '' @ quote (mvrState latest))
      else if mvrCompleted latest < mvrTotal latest then
        (True, ''Machine '' @ machineID @ '' validation: '' @ show_int (mvrCompleted latest) @ ''/''
                 @ show_int (mvrTotal latest) @ '' tests passed'')
      else (False, []))"

definition checkMachineValidation ::
  "'s NicoClientInterface \<Rightarrow> string \<Rightarrow> string \<Rightarrow> ('s, bool \<times> string) act" where
  "checkMachineValidation c orgName machineID =
     andthen (call_GetMachineValidationRuns c orgName machineID) (\<lambda>(runs, httpResp, err).
       if err \<noteq> None \<or> \<not> resp_ok httpResp then ret (False, [])
       else (case runs of
               [] \<Rightarrow> ret (False, [])
             | r # rs \<Rightarrow> ret (validation_verdict machineID (latest_run r rs))))"

definition capability_allows :: "string \<Rightarrow> SiteCapability \<Rightarrow> bool" where
  "capability_allows siteID cap \<longleftrightarrow> scTargetedInstanceCreation cap
     \<and> (scSiteIds cap = [] \<or> list_ex (\<lambda>i. i = siteID) (scSiteIds cap))"

definition account_allows :: "string \<Rightarrow> TenantAccount \<Rightarrow> bool" where
  "account_allows siteID acct \<longleftrightarrow> taStatus acct = TENANTACCOUNTSTATUS_READY
     \<and> list_ex (capability_allows siteID) (taSiteCapabilities acct)"

definition hasTargetedInstanceCreation ::
  "'s NicoClientInterface \<Rightarrow> string \<Rightarrow> string \<Rightarrow> ('s, bool) act" where
  "hasTargetedInstanceCreation c orgName siteID =
     andthen (call_GetAllTenantAccount c orgName) (\<lambda>(accounts, httpResp, err).
       if err = None \<and> resp_ok httpResp then ret (list_ex (account_allows siteID) accounts)
       else
         andthen (call_GetCurrentTenant c orgName) (\<lambda>(tenant, _, tenantErr).
           if tenantErr \<noteq> None then ret True
           else (case tenant of
                   None \<Rightarrow> ret True
                 | Some t \<Rightarrow>
                     (case tenCapabilities t of
                        None \<Rightarrow> ret True
                      | Some None \<Rightarrow> ret True
                      | Some (Some b) \<Rightarrow> ret b))))"

section \<open>Health conditions of a machine in use\<close>

definition set_health_labels :: "string gomap \<Rightarrow> NicoMachineProviderStatus \<Rightarrow> NicoMachineProviderStatus" where
  "set_health_labels ls ps = ps\<lparr>psHealthLabels := ls\<rparr>"

text \<open>
  The code maps alerts to conditions twice, once for the alerts of the health reports and once for
  those of the machine's own record. The two definitions follow their own copies; the property
  \<open>health_sources_agree\<close> compares them.
\<close>

definition report_health ::
  "KubeLib \<Rightarrow> time \<Rightarrow> MachineHealthProbeAlert list \<Rightarrow> NicoMachineProviderStatus
     \<Rightarrow> NicoMachineProviderStatus" where
  "report_health L now allAlerts ps =
     (if length allAlerts = 0 then
        setCondition L now condNicoFaultRemediation ConditionFalse ''NoRemediation''
          ''No active fault remediation''
          (set_health_labels [(labelHealthy, labelTrue)]
            (setCondition L now condMachineHealthy ConditionTrue ''Healthy'' ''No health alerts'' ps))
      else
        (let (critical, warning) = classifyAlerts allAlerts;
             ps1 =
               (if length critical > 0 then
                  (let first = hd critical;
                       reason = (if length (alertClassifications first) > 0
                         then hd (alertClassifications first) else ''CriticalFault'');
                       msg = (if alertMessage first \<noteq> [] then alertMessage first
                         else ''Machine has '' @ show_nat (length critical) @ '' critical health alert(s)'')
                   in set_health_labels
                        [(labelHealthy, labelFalse), (labelAlertCount, show_nat (length allAlerts))]
                        (setCondition L now condMachineHealthy ConditionFalse reason msg ps))
                else if length warning > 0 then
                  (let warnMsg = ''Machine has '' @ show_nat (length warning) @ '' warning alert(s)''
                   in set_health_labels
                        [(labelHealthy, labelTrue), (labelAlertCount, show_nat (length warning))]
                        (setCondition L now condMachineHealthy ConditionTrue ''HealthyWithWarnings''
                          warnMsg ps))
                else ps)
         in if hasRemediatingAlert allAlerts then
              setCondition L now condNicoFaultRemediation ConditionTrue ''RemediationInProgress''
                ''Automated fault remediation in progress'' ps1
            else
              setCondition L now condNicoFaultRemediation ConditionFalse ''NoRemediation''
                ''No active fault remediation'' ps1))"

definition jsonb_health ::
  "KubeLib \<Rightarrow> time \<Rightarrow> MachineHealthProbeAlert list \<Rightarrow> NicoMachineProviderStatus
     \<Rightarrow> NicoMachineProviderStatus" where
  "jsonb_health L now alerts ps =
     (if length alerts = 0 then
        setCondition L now condNicoFaultRemediation ConditionFalse ''NoRemediation''
          ''No active fault remediation''
          (set_health_labels [(labelHealthy, labelTrue)]
            (setCondition L now condMachineHealthy ConditionTrue ''Healthy''
              ''Machine has no health alerts'' ps))
      else
        (let (critical, warning) = classifyAlerts alerts;
             ps1 =
               (if length critical > 0 then
                  (let first = hd critical;
                       msg = (if alertMessage first \<noteq> [] then alertMessage first
                         else ''Machine has '' @ show_nat (length critical) @ '' critical health alert(s)'');
                       reason = (if length (alertClassifications first) > 0
                         then hd (alertClassifications first) else ''CriticalFault'')
                   in set_health_labels
                        [(labelHealthy, labelFalse), (labelAlertCount, show_nat (length alerts))]
                        (setCondition L now condMachineHealthy ConditionFalse reason msg ps))
                else if length warning > 0 then
                  (let warnMsg = ''Machine has '' @ show_nat (length warning) @ '' warning alert(s)''
                   in set_health_labels
                        [(labelHealthy, labelTrue), (labelAlertCount, show_nat (length warning))]
                        (setCondition L now condMachineHealthy ConditionTrue ''HealthyWithWarnings''
                          warnMsg ps))
                else ps)
         in if hasRemediatingAlert alerts then
              setCondition L now condNicoFaultRemediation ConditionTrue ''RemediationInProgress''
                ''Automated fault remediation in progress'' ps1
            else
              setCondition L now condNicoFaultRemediation ConditionFalse ''NoRemediation''
                ''No active fault remediation'' ps1))"

text \<open>The result is whether the reports could be read, with the status as it is then.\<close>

definition updateMachineHealthFromReports ::
  "('s, 'u) env \<Rightarrow> 's Actuator \<Rightarrow> 's NicoClientInterface \<Rightarrow> string \<Rightarrow> string
     \<Rightarrow> NicoMachineProviderStatus \<Rightarrow> bool \<Rightarrow> ('s, bool \<times> NicoMachineProviderStatus) act" where
  "updateMachineHealthFromReports E a c orgName machineID ps wasUnhealthy =
     andthen (call_GetAllMachineHealthReport c orgName machineID) (\<lambda>(reports, httpResp, err).
       if err \<noteq> None \<or> \<not> resp_ok httpResp then ret (False, ps)
       else
         andthen (readext (envNow E)) (\<lambda>now.
         let ps' = report_health (envLib E) now (collect_alerts reports) ps;
             isUnhealthy = isConditionFalse ps' condMachineHealthy
         in seqp
              (whenp (wasUnhealthy \<and> \<not> isUnhealthy)
                (andthen (call_DeleteMachineHealthReport c orgName machineID ''k8s-mhc'')
                  (\<lambda>(_, resp, delErr).
                    whenp (delErr = None \<and> resp_ok resp)
                      (eventf a EventNormal ''MHCHealthReportCleared''
                        (''Cleared k8s-mhc health report for machine '' @ machineID
                           @ '' after recovery'')))))
              (ret (True, ps'))))"

definition updateMachineHealthFromJSONB ::
  "('s, 'u) env \<Rightarrow> 's NicoClientInterface \<Rightarrow> string \<Rightarrow> string \<Rightarrow> NicoMachineProviderStatus
     \<Rightarrow> ('s, NicoMachineProviderStatus) act" where
  "updateMachineHealthFromJSONB E c orgName machineID ps =
     andthen (call_GetMachine c orgName machineID) (\<lambda>(machine, httpResp, err).
       if err \<noteq> None \<or> \<not> resp_is httpResp 200 then ret ps
       else (case machine of
               None \<Rightarrow> ret ps
             | Some m \<Rightarrow>
                 (case nmHealth m of
                    None \<Rightarrow> ret ps
                  | Some alerts \<Rightarrow>
                      andthen (readext (envNow E)) (\<lambda>now.
                        ret (jsonb_health (envLib E) now alerts ps)))))"

definition trackUnhealthyGauge :: "bool \<Rightarrow> NicoMachineProviderStatus \<Rightarrow> ('s, unit) act" where
  "trackUnhealthyGauge wasUnhealthy ps =
     (let isUnhealthy = isConditionFalse ps condMachineHealthy
      in if \<not> wasUnhealthy \<and> isUnhealthy then metricp MachinesUnhealthyInc
         else if wasUnhealthy \<and> \<not> isUnhealthy then metricp MachinesUnhealthyDec
         else ret ())"

definition updateMachineHealth ::
  "('s, 'u) env \<Rightarrow> 's Actuator \<Rightarrow> 's NicoClientInterface \<Rightarrow> string \<Rightarrow> Instance
     \<Rightarrow> NicoMachineProviderStatus \<Rightarrow> ('s, NicoMachineProviderStatus) act" where
  "updateMachineHealth E a c orgName inst ps =
     (case (if instMachineIdSet inst then instMachineId inst else None) of
        None \<Rightarrow> ret ps
      | Some machineID \<Rightarrow>
          if machineID = [] then ret ps
          else
            (let wasUnhealthy = isConditionFalse ps condMachineHealthy
             in andthen (updateMachineHealthFromReports E a c orgName machineID ps wasUnhealthy)
                  (\<lambda>(available, ps1).
                    if available then seqp (trackUnhealthyGauge wasUnhealthy ps1) (ret ps1)
                    else
                      andthen (updateMachineHealthFromJSONB E c orgName machineID ps1) (\<lambda>ps2.
                        seqp (trackUnhealthyGauge wasUnhealthy ps2) (ret ps2)))))"

section \<open>The abstract severity of an alert\<close>

text \<open>
  What the classifications of an alert mean: the greatest of the severities they name, and the
  greatest severity of all when they name none.
\<close>

datatype severity = SevWarning | SevCritical

instantiation severity :: linorder
begin

definition less_eq_severity :: "severity \<Rightarrow> severity \<Rightarrow> bool" where
  "less_eq_severity a b \<longleftrightarrow> a = SevWarning \<or> b = SevCritical"

definition less_severity :: "severity \<Rightarrow> severity \<Rightarrow> bool" where
  "less_severity a b \<longleftrightarrow> a = SevWarning \<and> b = SevCritical"

instance
proof
  fix a b c :: severity
  show "(a < b) = (a \<le> b \<and> \<not> b \<le> a)"
    by (cases a; cases b) (auto simp: less_eq_severity_def less_severity_def)
  show "a \<le> a" by (cases a) (auto simp: less_eq_severity_def)
  show "a \<le> b \<Longrightarrow> b \<le> c \<Longrightarrow> a \<le> c"
    by (cases a; cases b; cases c) (auto simp: less_eq_severity_def)
  show "a \<le> b \<Longrightarrow> b \<le> a \<Longrightarrow> a = b" by (cases a; cases b) (auto simp: less_eq_severity_def)
  show "a \<le> b \<or> b \<le> a" by (cases a; cases b) (auto simp: less_eq_severity_def)
qed

end

definition named_severity :: "string \<Rightarrow> severity list" where
  "named_severity c =
     (if c = severityCritical then [SevCritical]
      else if c = severityWarning then [SevWarning] else [])"

definition alert_severity :: "MachineHealthProbeAlert \<Rightarrow> severity" where
  "alert_severity a =
     (let S = concat (map named_severity (alertClassifications a))
      in if S = [] then SevCritical else Max (set S))"

definition severity_text :: "severity \<Rightarrow> string" where
  "severity_text s = (case s of SevCritical \<Rightarrow> severityCritical | SevWarning \<Rightarrow> severityWarning)"

definition is_critical :: "MachineHealthProbeAlert \<Rightarrow> bool" where
  "is_critical a \<longleftrightarrow> alert_severity a = SevCritical"

lemma severity_texts_distinct [simp]:
  "severityCritical \<noteq> severityWarning" "severityWarning \<noteq> severityCritical"
  by (simp_all add: severity_text_defs)

lemma classes_loop_eq:
  "classes_loop hc hw cs = (hc \<or> severityCritical \<in> set cs, hw \<or> severityWarning \<in> set cs)"
  by (induction hc hw cs rule: classes_loop.induct) auto

lemma named_severities:
  "SevCritical \<in> set (concat (map named_severity cs)) \<longleftrightarrow> severityCritical \<in> set cs"
  "SevWarning \<in> set (concat (map named_severity cs)) \<longleftrightarrow> severityWarning \<in> set cs"
  by (auto simp: named_severity_def split: if_splits)

lemma Max_severity:
  assumes "S \<noteq> {}" shows "Max S = (if SevCritical \<in> S then SevCritical else SevWarning)"
proof -
  have fin: "finite S"
    by (rule finite_subset [of _ "{SevWarning, SevCritical}"]) (auto intro: severity.exhaust)
  have "Max S \<in> S" using fin assms by (rule Max_in)
  moreover have "SevCritical \<in> S \<Longrightarrow> SevCritical \<le> Max S" using fin by (rule Max_ge)
  ultimately show ?thesis by (cases "Max S") (auto simp: less_eq_severity_def)
qed

lemma alert_severity_eq:
  "alert_severity a =
     (if severityCritical \<in> set (alertClassifications a)
         \<or> severityWarning \<notin> set (alertClassifications a)
      then SevCritical else SevWarning)"
proof -
  let ?S = "concat (map named_severity (alertClassifications a))"
  show ?thesis
  proof (cases "?S = []")
    case True
    then have "SevCritical \<notin> set ?S" "SevWarning \<notin> set ?S" by simp_all
    then have "severityWarning \<notin> set (alertClassifications a)"
      by (simp only: named_severities not_False_eq_True)
    moreover have "alert_severity a = SevCritical"
      unfolding alert_severity_def Let_def True by simp
    ultimately show ?thesis by presburger
  next
    case False
    then have "set ?S \<noteq> {}" by simp
    from Max_severity [OF this] False
    have "alert_severity a = (if SevCritical \<in> set ?S then SevCritical else SevWarning)"
      unfolding alert_severity_def Let_def by simp
    moreover have "SevCritical \<in> set ?S \<or> SevWarning \<in> set ?S"
      using False by (cases ?S; cases "hd ?S") auto
    ultimately show ?thesis by (simp only: named_severities) auto
  qed
qed

lemma classifyAlert_severity: "classifyAlert a = severity_text (alert_severity a)"
  by (simp add: classifyAlert_def classes_loop_eq alert_severity_eq severity_text_def)

lemma classifyAlert_warning: "classifyAlert a = severityWarning \<longleftrightarrow> \<not> is_critical a"
  by (cases "alert_severity a") (simp_all add: classifyAlert_severity severity_text_def is_critical_def)

lemma classifyAlerts_loop_eq:
  "classifyAlerts_loop cr wa as = (cr @ filter is_critical as, wa @ filter (\<lambda>a. \<not> is_critical a) as)"
  by (induction cr wa as rule: classifyAlerts_loop.induct) (auto simp: classifyAlert_warning)

lemma classifyAlerts_eq:
  "classifyAlerts as = (filter is_critical as, filter (\<lambda>a. \<not> is_critical a) as)"
  by (simp add: classifyAlerts_def classifyAlerts_loop_eq)

lemma critical_verdict_blocked: "fst (critical_verdict m as) \<longleftrightarrow> (\<exists>a \<in> set as. is_critical a)"
  by (auto simp: critical_verdict_def classifyAlerts_eq filter_empty_conv split: list.split)
    (metis filter_empty_conv list.distinct(1))

section \<open>The most recent validation run\<close>

lemma latest_run_mem: "latest_run r rs \<in> set (r # rs)"
  by (induction r rs rule: latest_run.induct) auto

definition run_le :: "MachineValidationRun \<Rightarrow> MachineValidationRun \<Rightarrow> bool" where
  "run_le r r' \<longleftrightarrow>
     (case mvrEndTime r of
        None \<Rightarrow> True
      | Some t \<Rightarrow> (case mvrEndTime r' of None \<Rightarrow> False | Some t' \<Rightarrow> t \<le> t'))"

lemma later_run_iff: "later_run r r' \<longleftrightarrow> \<not> run_le r r'"
  by (auto simp: later_run_def run_le_def split: option.split)

lemma run_le_trans: "run_le a b \<Longrightarrow> run_le b c \<Longrightarrow> run_le a c"
  by (auto simp: run_le_def split: option.splits)

lemma run_le_total: "run_le a b \<or> run_le b a"
  by (auto simp: run_le_def split: option.split)

lemma latest_run_max: "q \<in> set (r # rs) \<Longrightarrow> run_le q (latest_run r rs)"
proof (induction r rs arbitrary: q rule: latest_run.induct)
  case (1 latest)
  then show ?case using run_le_total by auto
next
  case (2 latest r rs)
  let ?m = "if later_run r latest then r else latest"
  have m: "run_le ?m (latest_run ?m rs)" by (rule "2.IH") simp
  have "run_le latest ?m" "run_le r ?m"
    using run_le_total [of latest r] run_le_total [of latest latest] run_le_total [of r r]
    by (auto simp: later_run_iff)
  with m "2.IH" [of q] "2.prems" show ?case
    by (auto intro: run_le_trans)
qed

section \<open>Health conditions\<close>

lemma set_health_labels_simps [simp]:
  "psConditions (set_health_labels ls ps) = psConditions ps"
  "psHealthLabels (set_health_labels ls ps) = ls"
  "psInstanceID (set_health_labels ls ps) = psInstanceID ps"
  "psMachineID (set_health_labels ls ps) = psMachineID ps"
  "cond_status t (set_health_labels ls ps) = cond_status t ps"
  by (simp_all add: set_health_labels_def cond_status_def)

lemma cond_names_distinct [simp]:
  "condMachineHealthy \<noteq> condNicoFaultRemediation" "condNicoFaultRemediation \<noteq> condMachineHealthy"
  "condInstanceProvisioned \<noteq> condMachineHealthy" "condInstanceProvisioned \<noteq> condNicoFaultRemediation"
  by (simp_all add: cond_name_defs)

lemma report_health_status:
  assumes "conditions_ok L"
  shows "cond_status condMachineHealthy (report_health L now as ps)
      = Some (if \<exists>a \<in> set as. is_critical a then ConditionFalse else ConditionTrue)"
    and "cond_status condNicoFaultRemediation (report_health L now as ps)
      = Some (if hasRemediatingAlert as then ConditionTrue else ConditionFalse)"
    and "gomap_get (psHealthLabels (report_health L now as ps)) labelHealthy
      = Some (if \<exists>a \<in> set as. is_critical a then labelFalse else labelTrue)"
  using hasRemediatingAlert_def [of "[]"]
  by (auto simp: report_health_def classifyAlerts_eq filter_empty_conv
      cond_status_setCondition [OF assms] gomap_get_def Let_def)

lemma jsonb_health_report: "alerts \<noteq> [] \<Longrightarrow> jsonb_health L now alerts ps = report_health L now alerts ps"
  by (simp add: jsonb_health_def report_health_def Let_def split: prod.split)

text \<open>Whatever the single changes keep, both mappings keep.\<close>

lemma health_rule:
  assumes set: "\<And>ty s r m q. ty \<in> {condMachineHealthy, condNicoFaultRemediation} \<Longrightarrow> P q \<Longrightarrow>
      P (setCondition L now ty s r m q)"
    and labels: "\<And>h n q. P q \<Longrightarrow> P (set_health_labels [(labelHealthy, h)] q)
      \<and> P (set_health_labels [(labelHealthy, h), (labelAlertCount, n)] q)"
    and ps: "P ps"
  shows "P (report_health L now as ps)" and "P (jsonb_health L now as ps)"
proof -
  show report: "P (report_health L now as ps)"
    using set labels ps by (simp add: report_health_def Let_def split: prod.split)
  have "P (jsonb_health L now [] ps)" using set labels ps by (simp add: jsonb_health_def)
  then show "P (jsonb_health L now as ps)"
    using report jsonb_health_report [of "as" L now ps] by (cases "as = []") simp_all
qed

lemma health_fields [simp]:
  "psInstanceID (report_health L now as ps) = psInstanceID ps"
  "psInstanceID (jsonb_health L now as ps) = psInstanceID ps"
  by (rule health_rule [where P = "\<lambda>q. psInstanceID q = psInstanceID ps"]; simp)+

text \<open>What a condition says, its message apart.\<close>

definition verdict :: "string \<Rightarrow> NicoMachineProviderStatus \<Rightarrow> Condition option" where
  "verdict t ps = map_option (cMessage_update (\<lambda>_. [])) (find_condition t (psConditions ps))"

lemma verdict_labels [simp]: "verdict t (set_health_labels ls ps) = verdict t ps"
  by (simp add: verdict_def)

lemma verdict_setCondition:
  assumes "conditions_ok L"
  shows "verdict t (setCondition L now ty s r m ps) =
     (if t = ty
      then Some ((new_condition ty s r [])\<lparr>cLastTransitionTime :=
        transition_time now (verdict ty ps) (new_condition ty s r [])\<rparr>)
      else verdict t ps)"
  by (auto simp: verdict_def find_setCondition [OF assms] new_condition_def transition_time_def
      split: option.split)

section \<open>What the health programs emit and keep\<close>

lemma emits_checkCriticalFaults [emits_intros]:
  "(\<And>x. is_read x \<Longrightarrow> \<phi> x) \<Longrightarrow> emits \<phi> (checkCriticalFaults c org m)"
  unfolding checkCriticalFaults_def by (intro emits_intros) simp_all

lemma emits_checkMachineValidation [emits_intros]:
  "(\<And>x. is_read x \<Longrightarrow> \<phi> x) \<Longrightarrow> emits \<phi> (checkMachineValidation c org m)"
  unfolding checkMachineValidation_def by (intro emits_intros) simp_all

lemma emits_hasTargetedInstanceCreation [emits_intros]:
  "(\<And>x. is_read x \<Longrightarrow> \<phi> x) \<Longrightarrow> emits \<phi> (hasTargetedInstanceCreation c org site)"
  unfolding hasTargetedInstanceCreation_def by (intro emits_intros) simp_all

lemma keeps_questions [keeps_intros]:
  "keeps f (checkCriticalFaults c org m)"
  "keeps f (checkMachineValidation c org m)"
  "keeps f (hasTargetedInstanceCreation c org site)"
  unfolding checkCriticalFaults_def checkMachineValidation_def hasTargetedInstanceCreation_def
  by (intro keeps_intros)+

text \<open>
  A health update reads the NICo side, and otherwise only clears its own report there, moves the
  gauge and records an event.
\<close>

fun is_health_action :: "action \<Rightarrow> bool" where
  "is_health_action (Api (CallDeleteMachineHealthReport org m src)) = (src = ''k8s-mhc'')"
| "is_health_action (Event t r n) = (r = ''MHCHealthReportCleared'')"
| "is_health_action (Metric m) = (m = MachinesUnhealthyInc \<or> m = MachinesUnhealthyDec)"
| "is_health_action x = is_read x"

lemma emits_updateMachineHealth [emits_intros]:
  "(\<And>x. is_health_action x \<Longrightarrow> \<phi> x) \<Longrightarrow> emits \<phi> (updateMachineHealth E a c org inst ps)"
  unfolding updateMachineHealth_def updateMachineHealthFromReports_def
    updateMachineHealthFromJSONB_def trackUnhealthyGauge_def Let_def
  by (intro emits_intros) simp_all

lemma keeps_updateMachineHealth [keeps_intros]: "keeps f (updateMachineHealth E a c org inst ps)"
  unfolding updateMachineHealth_def updateMachineHealthFromReports_def
    updateMachineHealthFromJSONB_def trackUnhealthyGauge_def Let_def
  by (intro keeps_intros)

section \<open>The gauge of unhealthy machines\<close>

text \<open>What the actions of a run add to the gauge \<open>MachinesUnhealthy\<close>.\<close>

fun gauge_delta :: "action list \<Rightarrow> int" where
  "gauge_delta [] = 0"
| "gauge_delta (Metric MachinesUnhealthyInc # xs) = gauge_delta xs + 1"
| "gauge_delta (Metric MachinesUnhealthyDec # xs) = gauge_delta xs - 1"
| "gauge_delta (_ # xs) = gauge_delta xs"

lemma gauge_delta_append [simp]: "gauge_delta (xs @ ys) = gauge_delta xs + gauge_delta ys"
  by (induction xs rule: gauge_delta.induct) auto

definition unhealthy :: "NicoMachineProviderStatus \<Rightarrow> int" where
  "unhealthy ps = of_bool (isConditionFalse ps condMachineHealthy)"

lemma run_trackUnhealthyGauge:
  "trackUnhealthyGauge w ps st = (Val (), st\<lparr>trace := trace st @
     (if \<not> w \<and> isConditionFalse ps condMachineHealthy then [Metric MachinesUnhealthyInc]
      else if w \<and> \<not> isConditionFalse ps condMachineHealthy then [Metric MachinesUnhealthyDec]
      else [])\<rparr>)"
  by (simp add: trackUnhealthyGauge_def metricp_def run_simps Let_def)

lemma total_health_updates [total_intros]:
  "total (updateMachineHealthFromReports E a c org mid ps w)"
  "total (updateMachineHealthFromJSONB E c org mid ps)"
  unfolding updateMachineHealthFromReports_def updateMachineHealthFromJSONB_def Let_def
  by (intro total_intros)+

fun is_gauge :: "action \<Rightarrow> bool" where
  "is_gauge (Metric m) = (m = MachinesUnhealthyInc \<or> m = MachinesUnhealthyDec)"
| "is_gauge _ = False"

lemma gauge_delta_none: "list_all (\<lambda>x. \<not> is_gauge x) es \<Longrightarrow> gauge_delta es = 0"
  by (induction es rule: gauge_delta.induct) auto

lemma emits_health_no_gauge:
  "emits (\<lambda>x. \<not> is_gauge x) (updateMachineHealthFromReports E a c org mid ps w)"
  "emits (\<lambda>x. \<not> is_gauge x) (updateMachineHealthFromJSONB E c org mid ps)"
  unfolding updateMachineHealthFromReports_def updateMachineHealthFromJSONB_def Let_def
  by (intro emits_intros; simp)+

lemma quiet_run:
  assumes "total m" and "emits (\<lambda>x. \<not> is_gauge x) m"
  shows "\<exists>x st' es. m st = (Val x, st') \<and> trace st' = trace st @ es \<and> gauge_delta es = 0"
proof -
  obtain x st' where "m st = (Val x, st')" using totalD [OF assms(1)] by blast
  moreover obtain es where "trace (snd (m st)) = trace st @ es" "list_all (\<lambda>x. \<not> is_gauge x) es"
    using emitsD [OF assms(2)] by blast
  ultimately show ?thesis using gauge_delta_none by auto
qed

lemma health_gauge_step:
  "\<exists>ps' st' es. updateMachineHealth E a c org inst ps st = (Val ps', st') \<and> trace st' = trace st @ es
     \<and> gauge_delta es = unhealthy ps' - unhealthy ps"
proof (cases "(if instMachineIdSet inst then instMachineId inst else None) \<in> {None, Some []}")
  case True
  then show ?thesis
    by (auto simp: updateMachineHealth_def ret_def split: if_splits option.split)
next
  case False
  then obtain mid where mid: "instMachineIdSet inst" "instMachineId inst = Some mid" "mid \<noteq> []"
    by (auto split: if_splits)
  let ?w = "isConditionFalse ps condMachineHealthy"
  obtain b ps1 st1 es1 where r: "updateMachineHealthFromReports E a c org mid ps ?w st = (Val (b, ps1), st1)"
      "trace st1 = trace st @ es1" "gauge_delta es1 = 0"
    using quiet_run [OF total_health_updates(1) emits_health_no_gauge(1), of E a c org mid ps ?w st]
    by (metis surj_pair)
  obtain ps2 st2 es2 where j: "updateMachineHealthFromJSONB E c org mid ps1 st1 = (Val ps2, st2)"
      "trace st2 = trace st1 @ es2" "gauge_delta es2 = 0"
    using quiet_run [OF total_health_updates(2) emits_health_no_gauge(2), of E c org mid ps1 st1]
    by metis
  show ?thesis
    using mid r j
    by (cases b) (auto simp: updateMachineHealth_def run_simps run_trackUnhealthyGauge unhealthy_def)
qed

text \<open>Consecutive health updates of one machine, each starting from the status the last one left.\<close>

fun health_updates ::
  "('s, 'u) env \<Rightarrow> 's Actuator \<Rightarrow> 's NicoClientInterface \<Rightarrow> string \<Rightarrow> Instance list
     \<Rightarrow> NicoMachineProviderStatus \<Rightarrow> ('s, NicoMachineProviderStatus) act" where
  "health_updates E a c org [] ps = ret ps"
| "health_updates E a c org (i # is) ps =
     andthen (updateMachineHealth E a c org i ps) (health_updates E a c org is)"

lemma health_updates_gauge:
  "\<exists>ps' st' es. health_updates E a c org is ps st = (Val ps', st') \<and> trace st' = trace st @ es
     \<and> gauge_delta es = unhealthy ps' - unhealthy ps"
proof (induction "is" arbitrary: ps st)
  case (Cons i "is")
  obtain ps1 st1 es1 where 1: "updateMachineHealth E a c org i ps st = (Val ps1, st1)"
      "trace st1 = trace st @ es1" "gauge_delta es1 = unhealthy ps1 - unhealthy ps"
    using health_gauge_step [of E a c org i ps st] by blast
  obtain ps2 st2 es2 where 2: "health_updates E a c org is ps1 st1 = (Val ps2, st2)"
      "trace st2 = trace st1 @ es2" "gauge_delta es2 = unhealthy ps2 - unhealthy ps1"
    using Cons.IH [of ps1 st1] by blast
  from 1 2 show ?case by (simp add: run_simps)
qed (simp add: run_simps)

section \<open>How the questions are answered\<close>

lemma run_checkMachineValidation:
  "fst (checkMachineValidation c org m st) =
     (case fst (GetMachineValidationRuns c org m (ext st)) of (runs, resp, err) \<Rightarrow>
        Val (if err = None \<and> resp_ok resp
             then (case runs of [] \<Rightarrow> (False, []) | r # rs \<Rightarrow> validation_verdict m (latest_run r rs))
             else (False, [])))"
  by (auto simp: checkMachineValidation_def call_GetMachineValidationRuns_def run_simps
      split: prod.split list.split)

lemma run_checkCriticalFaults:
  "fst (checkCriticalFaults c org m st) =
     (case GetAllMachineHealthReport c org m (ext st) of ((reports, resp, err), s1) \<Rightarrow>
        Val (if err = None \<and> resp_ok resp then critical_verdict m (collect_alerts reports)
             else (case fst (GetMachine c org m s1) of (machine, resp', err') \<Rightarrow>
               (case (if err' = None \<and> resp_is resp' 200 then machine else None) of
                  None \<Rightarrow> (False, [])
                | Some nm \<Rightarrow> critical_verdict m (case nmHealth nm of None \<Rightarrow> [] | Some alerts \<Rightarrow> alerts)))))"
  by (auto simp: checkCriticalFaults_def call_defs run_simps critical_verdict_def classifyAlerts_def
      split: prod.split option.split)

section \<open>Properties\<close>

text \<open>The severity of an alert is the greatest of the severities its classifications name, and
  critical when they name none; the two lists the alerts are split into are those of critical
  severity and the others, in their order, so no alert is lost or counted twice.\<close>

theorem alert_classification:
  "classifyAlert alert = severity_text (alert_severity alert)
   \<and> classifyAlerts alerts = (filter is_critical alerts, filter (\<lambda>a. \<not> is_critical a) alerts)"
  by (simp add: classifyAlert_severity classifyAlerts_eq)

text \<open>C28. The health conditions after the reports have been read: \<open>MachineHealthy\<close> is false exactly
  when some alert is critical, \<open>NicoFaultRemediation\<close> true exactly when some alert is being
  remediated, and the label for the scheduler says the same as the condition.\<close>

theorem health_conditions_sound:
  assumes "conditions_ok L"
  shows "cond_status condMachineHealthy (report_health L now alerts ps)
      = Some (if list_ex is_critical alerts then ConditionFalse else ConditionTrue)
    \<and> cond_status condNicoFaultRemediation (report_health L now alerts ps)
      = Some (if hasRemediatingAlert alerts then ConditionTrue else ConditionFalse)
    \<and> gomap_get (psHealthLabels (report_health L now alerts ps)) labelHealthy
      = Some (if list_ex is_critical alerts then labelFalse else labelTrue)"
  using report_health_status [OF assms, of now alerts ps] by (simp add: list_ex_iff)

definition ref_alert :: "string \<Rightarrow> MachineHealthProbeAlert" where
  "ref_alert c = \<lparr>alertId = ''a'', alertMessage = ''fan failed'', alertClassifications = [c]\<rparr>"

lemma ref_alert_critical [simp]:
  "is_critical (ref_alert ''critical'')" "\<not> is_critical (ref_alert ''warning'')"
  by (simp_all add: is_critical_def alert_severity_eq ref_alert_def severity_text_defs)

theorem health_conditions_sound_witness:
  "cond_status condMachineHealthy
     (report_health ref_lib 5 [ref_alert ''warning'', ref_alert ''critical''] zero_status)
     = Some ConditionFalse"
  using health_conditions_sound [OF ref_lib_conditions, of 5 "[ref_alert ''warning'', ref_alert ''critical'']"
      zero_status]
  by simp

text \<open>C29. The two sources of health agree, although the code maps their alerts twice: for the same
  alerts they leave the same status, and when there are none a status that differs in no more
  than the message of a condition.\<close>

theorem health_sources_agree:
  assumes "conditions_ok L"
  shows "verdict t (jsonb_health L now alerts ps) = verdict t (report_health L now alerts ps)
    \<and> psHealthLabels (jsonb_health L now alerts ps) = psHealthLabels (report_health L now alerts ps)
    \<and> (alerts = [] \<or> jsonb_health L now alerts ps = report_health L now alerts ps)"
proof (cases "alerts = []")
  case True
  then show ?thesis
    by (simp add: jsonb_health_def report_health_def verdict_setCondition [OF assms])
qed (simp add: jsonb_health_report)

theorem health_sources_agree_witness:
  "verdict condMachineHealthy (jsonb_health ref_lib 5 [] zero_status)
     = verdict condMachineHealthy (report_health ref_lib 5 [] zero_status)
   \<and> jsonb_health ref_lib 5 [ref_alert ''critical''] zero_status
     = report_health ref_lib 5 [ref_alert ''critical''] zero_status"
  using health_sources_agree [OF ref_lib_conditions, of condMachineHealthy 5 "[]" zero_status]
    health_sources_agree [OF ref_lib_conditions, of condMachineHealthy 5 "[ref_alert ''critical'']" zero_status]
  by simp

text \<open>Health updates never panic, and what they add to the gauge of unhealthy machines over any
  sequence is the change of the machine's own unhealthiness: the gauge counts each machine once
  while it is unhealthy.\<close>

theorem unhealthy_gauge_tracks:
  "\<exists>ps' st'. health_updates E a c org insts ps st = (Val ps', st')
     \<and> gauge_delta (new_actions (health_updates E a c org insts ps) st) = unhealthy ps' - unhealthy ps"
  using health_updates_gauge [of E a c org insts ps st] by (auto simp: new_actions_def)

text \<open>C27. A machine is held back for its validation exactly when its runs can be read and the latest
  of them, by end time and first among equals, is not completed or has tests that did not
  complete; runs that cannot be read hold nothing back.\<close>

theorem validation_gate:
  "(\<exists>msg. fst (checkMachineValidation c org m st) = Val (True, msg)) \<longleftrightarrow>
     (\<exists>r rs resp. fst (GetMachineValidationRuns c org m (ext st)) = (r # rs, resp, None) \<and> resp_ok resp
        \<and> latest_run r rs \<in> set (r # rs) \<and> list_all (\<lambda>q. run_le q (latest_run r rs)) (r # rs)
        \<and> \<not> (mvrState (latest_run r rs) = ''completed''
               \<and> mvrTotal (latest_run r rs) \<le> mvrCompleted (latest_run r rs)))"
proof -
  have max: "latest_run r rs \<in> set (r # rs) \<and> list_all (\<lambda>q. run_le q (latest_run r rs)) (r # rs)" for r rs
    using latest_run_mem [of r rs] latest_run_max [of _ r rs] by (simp add: list_all_iff)
  obtain runs resp err where *: "fst (GetMachineValidationRuns c org m (ext st)) = (runs, resp, err)"
    by (metis surj_pair)
  show ?thesis
    using max unfolding run_checkMachineValidation *
    by (cases runs) (auto simp: validation_verdict_def)
qed

text \<open>C26. A machine is held back for its health exactly when the health reports can be read and hold
  a critical alert, or they cannot and the machine's own record can and holds one.\<close>

theorem critical_fault_gate:
  "(\<exists>msg. fst (checkCriticalFaults c org m st) = Val (True, msg)) \<longleftrightarrow>
     (case GetAllMachineHealthReport c org m (ext st) of ((reports, resp, err), s1) \<Rightarrow>
        if err = None \<and> resp_ok resp then list_ex (\<lambda>r. list_ex is_critical (hreAlerts r)) reports
        else (\<exists>nm alerts resp'. fst (GetMachine c org m s1) = (Some nm, resp', None) \<and> resp_is resp' 200
                \<and> nmHealth nm = Some alerts \<and> list_ex is_critical alerts))"
proof -
  have v: "(\<exists>msg. critical_verdict m as = (True, msg)) \<longleftrightarrow> list_ex is_critical as" for as
    using critical_verdict_blocked [of m as] by (cases "critical_verdict m as") (auto simp: list_ex_iff)
  have c: "list_ex is_critical (collect_alerts reports)
      \<longleftrightarrow> list_ex (\<lambda>r. list_ex is_critical (hreAlerts r)) reports" for reports
    by (auto simp: collect_alerts_def list_ex_iff)
  show ?thesis
    unfolding run_checkCriticalFaults by (auto simp: v c split: prod.splits option.splits)
qed

text \<open>Creation on a chosen machine is allowed exactly when, with the tenant accounts readable,
  some ready account has a capability for it that is unrestricted or names the site; with the
  accounts unreadable, unless the tenant itself says no.\<close>

theorem targeted_creation_gate:
  "fst (hasTargetedInstanceCreation c org site st) =
     (case GetAllTenantAccount c org (ext st) of ((accounts, resp, err), s1) \<Rightarrow>
        Val (if err = None \<and> resp_ok resp then
               (\<exists>acct cap. acct \<in> set accounts \<and> taStatus acct = TENANTACCOUNTSTATUS_READY
                  \<and> cap \<in> set (taSiteCapabilities acct) \<and> scTargetedInstanceCreation cap
                  \<and> (scSiteIds cap = [] \<or> site \<in> set (scSiteIds cap)))
             else (case fst (GetCurrentTenant c org s1) of (tenant, _, err') \<Rightarrow>
                 err' \<noteq> None \<or> map_option tenCapabilities tenant \<noteq> Some (Some (Some False)))))"
  by (auto simp: hasTargetedInstanceCreation_def call_defs run_simps account_allows_def
      capability_allows_def list_ex_iff split: prod.split option.split)

end
