(* ===== verification/Webhook.thy ===== *)
theory Webhook
  imports ProviderTypes ProviderId "HOL-Library.Multiset"
begin

text \<open>
  The validating admission webhook: pkg/apis/nicoprovider/v1beta1/webhook.go. The API
  machinery's decoder is a parameter that gives the \<open>providerSpec.value\<close> of the machine in a
  request (or the error of decoding it), the UUID library is the parameter of \<open>ProviderId\<close>, and
  the order in which Go visits the entries of a map literal is the parameter \<open>order\<close>, any
  rearrangement of the entries.
\<close>

section \<open>The checks\<close>

definition validateProviderSpec :: "NicoMachineProviderSpec \<Rightarrow> go_err option" where
  "validateProviderSpec spec =
     (if InstanceTypeID spec \<noteq> [] \<and> MachineID spec \<noteq> [] then
        Some (ErrText ''specify either instanceTypeId or machineId, not both'')
      else if InstanceTypeID spec = [] \<and> MachineID spec = [] then
        Some (ErrText ''either instanceTypeId or machineId is required'')
      else if SiteID spec = [] then Some (ErrText ''siteId is required'')
      else if TenantID spec = [] then Some (ErrText ''tenantId is required'')
      else if VpcID spec = [] then Some (ErrText ''vpcId is required'')
      else if SubnetID spec = [] then Some (ErrText ''subnetId is required'')
      else if length (AdditionalSubnetIDs spec) > 10 then
        Some (ErrText (''too many additional subnets (max 10, got ''
          @ show_nat (length (AdditionalSubnetIDs spec)) @ '')''))
      else None)"

definition uuid_fields :: "NicoMachineProviderSpec \<Rightarrow> (string \<times> string) list" where
  "uuid_fields spec =
     [(''siteId'', SiteID spec), (''tenantId'', TenantID spec), (''vpcId'', VpcID spec),
      (''subnetId'', SubnetID spec)]"

definition bad_uuid :: "string \<Rightarrow> string \<Rightarrow> go_err" where
  "bad_uuid name v = ErrText (''invalid UUID for '' @ name @ '': '' @ v)"

definition is_uuid :: "'u uuid_lib \<Rightarrow> string \<Rightarrow> bool" where
  "is_uuid U v = (case uuid_parse U v of Inl _ \<Rightarrow> False | Inr _ \<Rightarrow> True)"

fun check_fields :: "'u uuid_lib \<Rightarrow> (string \<times> string) list \<Rightarrow> go_err option" where
  "check_fields U [] = None"
| "check_fields U ((name, v) # fs) =
     (if \<not> is_uuid U v then Some (bad_uuid name v) else check_fields U fs)"

text \<open>The loops over the subnets and the DPU services carry the index of the element.\<close>

fun check_subnets :: "'u uuid_lib \<Rightarrow> nat \<Rightarrow> AdditionalSubnet list \<Rightarrow> go_err option" where
  "check_subnets U i [] = None"
| "check_subnets U i (sub # subs) =
     (if \<not> is_uuid U (asSubnetID sub) then
        Some (bad_uuid (''additionalSubnetIds['' @ show_nat i @ ''].subnetId'') (asSubnetID sub))
      else check_subnets U (Suc i) subs)"

fun check_services :: "'u uuid_lib \<Rightarrow> nat \<Rightarrow> DpuExtensionServiceSpec list \<Rightarrow> go_err option" where
  "check_services U i [] = None"
| "check_services U i (svc # svcs) =
     (if dpuServiceID svc = [] then
        Some (ErrText (''dpuExtensionServices['' @ show_nat i @ ''].serviceId is required''))
      else if \<not> is_uuid U (dpuServiceID svc) then
        Some (bad_uuid (''dpuExtensionServices['' @ show_nat i @ ''].serviceId'') (dpuServiceID svc))
      else check_services U (Suc i) svcs)"

definition validateUUIDs ::
  "'u uuid_lib \<Rightarrow> ((string \<times> string) list \<Rightarrow> (string \<times> string) list)
     \<Rightarrow> NicoMachineProviderSpec \<Rightarrow> go_err option" where
  "validateUUIDs U order spec =
     (case check_fields U (order (uuid_fields spec)) of
        Some e \<Rightarrow> Some e
      | None \<Rightarrow>
          if InstanceTypeID spec \<noteq> [] \<and> \<not> is_uuid U (InstanceTypeID spec) then
            Some (bad_uuid ''instanceTypeId'' (InstanceTypeID spec))
          else if MachineID spec \<noteq> [] \<and> \<not> is_uuid U (MachineID spec) then
            Some (bad_uuid ''machineId'' (MachineID spec))
          else if OperatingSystemID spec \<noteq> [] \<and> \<not> is_uuid U (OperatingSystemID spec) then
            Some (bad_uuid ''operatingSystemId'' (OperatingSystemID spec))
          else if NetworkSecurityGroupID spec \<noteq> [] \<and> \<not> is_uuid U (NetworkSecurityGroupID spec) then
            Some (bad_uuid ''networkSecurityGroupId'' (NetworkSecurityGroupID spec))
          else (case check_subnets U 0 (AdditionalSubnetIDs spec) of
                  Some e \<Rightarrow> Some e
                | None \<Rightarrow> check_services U 0 (DpuExtensionServices spec)))"

definition immutable_error :: "string \<Rightarrow> string \<Rightarrow> string \<Rightarrow> go_err" where
  "immutable_error name old new =
     ErrText (name @ '' is immutable (was '' @ quote old @ '', got '' @ quote new @ '')'')"

definition validateImmutableFields ::
  "NicoMachineProviderSpec \<Rightarrow> NicoMachineProviderSpec \<Rightarrow> go_err option" where
  "validateImmutableFields oldSpec newSpec =
     (if SiteID oldSpec \<noteq> SiteID newSpec then
        Some (immutable_error ''siteId'' (SiteID oldSpec) (SiteID newSpec))
      else if TenantID oldSpec \<noteq> TenantID newSpec then
        Some (immutable_error ''tenantId'' (TenantID oldSpec) (TenantID newSpec))
      else None)"

section \<open>The handler\<close>

datatype Response = Allowed string | Denied string | Errored int go_err

record 'r admission_request =
  reqObject :: 'r
  reqOldObjectRaw :: "'r option"

definition is_blank_spec :: "NicoMachineProviderSpec \<Rightarrow> bool" where
  "is_blank_spec s \<longleftrightarrow> SiteID s = [] \<and> TenantID s = [] \<and> VpcID s = [] \<and> SubnetID s = []
     \<and> InstanceTypeID s = [] \<and> MachineID s = []"

text \<open>The last step of the handler: an update must keep the immutable fields of the old spec,
  when the old object has one that decodes.\<close>

definition check_update ::
  "metav1_codec \<Rightarrow> ('r \<Rightarrow> go_err + raw_json option) \<Rightarrow> 'r option \<Rightarrow> NicoMachineProviderSpec
     \<Rightarrow> Response" where
  "check_update C decode oldRaw providerSpec =
     (case oldRaw of
        None \<Rightarrow> Allowed ''valid provider spec''
      | Some r \<Rightarrow>
          (case decode r of
             Inl e \<Rightarrow> Errored 400 (ErrWrap ''failed to decode old machine: '' e)
           | Inr None \<Rightarrow> Allowed ''valid provider spec''
           | Inr (Some oldValue) \<Rightarrow>
               (case unmarshal (dec_ProviderSpec C) oldValue of
                  Inl e \<Rightarrow> Allowed ''valid provider spec''
                | Inr oldSpec \<Rightarrow>
                    (case validateImmutableFields oldSpec providerSpec of
                       Some e \<Rightarrow> Denied (err_string e)
                     | None \<Rightarrow> Allowed ''valid provider spec''))))"

definition Handle ::
  "'u uuid_lib \<Rightarrow> metav1_codec \<Rightarrow> ('r \<Rightarrow> go_err + raw_json option)
     \<Rightarrow> ((string \<times> string) list \<Rightarrow> (string \<times> string) list) \<Rightarrow> 'r admission_request \<Rightarrow> Response" where
  "Handle U C decode order req =
     (case decode (reqObject req) of
        Inl e \<Rightarrow> Errored 400 (ErrWrap ''failed to decode machine: '' e)
      | Inr None \<Rightarrow> Allowed ''no providerSpec to validate''
      | Inr (Some value_raw) \<Rightarrow>
          (case unmarshal (dec_ProviderSpec C) value_raw of
             Inl e \<Rightarrow> Denied (''failed to unmarshal providerSpec: '' @ err_string e)
           | Inr providerSpec \<Rightarrow>
               if is_blank_spec providerSpec then Allowed ''not a NICo provider spec''
               else (case validateProviderSpec providerSpec of
                       Some e \<Rightarrow> Denied (err_string e)
                     | None \<Rightarrow>
                         (case validateUUIDs U order providerSpec of
                            Some e \<Rightarrow> Denied (err_string e)
                          | None \<Rightarrow> check_update C decode (reqOldObjectRaw req) providerSpec))))"

fun is_allowed :: "Response \<Rightarrow> bool" where
  "is_allowed (Allowed m) = True"
| "is_allowed _ = False"

section \<open>What the checks accept\<close>

definition spec_wf :: "NicoMachineProviderSpec \<Rightarrow> bool" where
  "spec_wf s \<longleftrightarrow> (InstanceTypeID s = [] \<longleftrightarrow> MachineID s \<noteq> []) \<and> SiteID s \<noteq> [] \<and> TenantID s \<noteq> []
     \<and> VpcID s \<noteq> [] \<and> SubnetID s \<noteq> [] \<and> length (AdditionalSubnetIDs s) \<le> 10"

text \<open>The texts a spec holds that must be UUIDs.\<close>

definition spec_uuids :: "NicoMachineProviderSpec \<Rightarrow> string list" where
  "spec_uuids s =
     [SiteID s, TenantID s, VpcID s, SubnetID s]
     @ filter (\<lambda>x. x \<noteq> []) [InstanceTypeID s, MachineID s, OperatingSystemID s, NetworkSecurityGroupID s]
     @ map asSubnetID (AdditionalSubnetIDs s) @ map dpuServiceID (DpuExtensionServices s)"

definition uuids_wf :: "'u uuid_lib \<Rightarrow> NicoMachineProviderSpec \<Rightarrow> bool" where
  "uuids_wf U s \<longleftrightarrow> list_all (is_uuid U) (spec_uuids s)
     \<and> list_all (\<lambda>v. dpuServiceID v \<noteq> []) (DpuExtensionServices s)"

lemma validateProviderSpec_None: "validateProviderSpec s = None \<longleftrightarrow> spec_wf s"
  unfolding validateProviderSpec_def spec_wf_def check_simps by auto

lemma check_fields_None: "check_fields U fs = None \<longleftrightarrow> list_all (\<lambda>(n, v). is_uuid U v) fs"
  by (induction U fs rule: check_fields.induct) auto

lemma check_subnets_None:
  "check_subnets U i subs = None \<longleftrightarrow> list_all (is_uuid U) (map asSubnetID subs)"
  by (induction U i subs rule: check_subnets.induct) auto

lemma check_services_None:
  "check_services U i svcs = None \<longleftrightarrow>
     list_all (is_uuid U) (map dpuServiceID svcs) \<and> list_all (\<lambda>v. dpuServiceID v \<noteq> []) svcs"
  by (induction U i svcs rule: check_services.induct) auto

lemma list_all_filter: "list_all P (filter Q xs) \<longleftrightarrow> list_all (\<lambda>x. Q x \<longrightarrow> P x) xs"
  by (induction xs) auto

lemma list_all_mset: "mset xs = mset ys \<Longrightarrow> list_all P xs = list_all P ys"
  by (metis list_all_iff mset_eq_setD)

lemma validateUUIDs_None:
  assumes "mset (order (uuid_fields s)) = mset (uuid_fields s)"
  shows "validateUUIDs U order s = None \<longleftrightarrow> uuids_wf U s"
proof -
  have "check_fields U (order (uuid_fields s)) = None \<longleftrightarrow>
      list_all (is_uuid U) [SiteID s, TenantID s, VpcID s, SubnetID s]"
    using list_all_mset [OF assms, of "\<lambda>(n, v). is_uuid U v"]
    by (simp add: check_fields_None uuid_fields_def)
  then have "validateUUIDs U order s = None \<longleftrightarrow>
      list_all (is_uuid U) [SiteID s, TenantID s, VpcID s, SubnetID s]
      \<and> (InstanceTypeID s \<noteq> [] \<longrightarrow> is_uuid U (InstanceTypeID s))
      \<and> (MachineID s \<noteq> [] \<longrightarrow> is_uuid U (MachineID s))
      \<and> (OperatingSystemID s \<noteq> [] \<longrightarrow> is_uuid U (OperatingSystemID s))
      \<and> (NetworkSecurityGroupID s \<noteq> [] \<longrightarrow> is_uuid U (NetworkSecurityGroupID s))
      \<and> check_subnets U 0 (AdditionalSubnetIDs s) = None
      \<and> check_services U 0 (DpuExtensionServices s) = None"
    by (simp only: validateUUIDs_def check_simps de_Morgan_conj not_not imp_conv_disj simp_thms)
  then show ?thesis
    by (simp only: uuids_wf_def spec_uuids_def check_subnets_None check_services_None
        list_all_append list_all_filter list.pred_inject conj_assoc simp_thms)
qed

lemma validateImmutableFields_None:
  "validateImmutableFields o1 n = None \<longleftrightarrow> SiteID o1 = SiteID n \<and> TenantID o1 = TenantID n"
  by (simp add: validateImmutableFields_def)

text \<open>The spec an object carries, when it carries one that decodes.\<close>

definition spec_of ::
  "metav1_codec \<Rightarrow> ('r \<Rightarrow> go_err + raw_json option) \<Rightarrow> 'r \<Rightarrow> NicoMachineProviderSpec option" where
  "spec_of C decode r =
     (case decode r of
        Inr (Some v) \<Rightarrow> (case unmarshal (dec_ProviderSpec C) v of Inr s \<Rightarrow> Some s | Inl e \<Rightarrow> None)
      | _ \<Rightarrow> None)"

lemma check_update_allowed:
  "is_allowed (check_update C decode oldRaw s) \<longleftrightarrow>
     (case oldRaw of
        None \<Rightarrow> True
      | Some r \<Rightarrow> (\<exists>v. decode r = Inr v)
          \<and> (case spec_of C decode r of
               None \<Rightarrow> True
             | Some old \<Rightarrow> SiteID old = SiteID s \<and> TenantID old = TenantID s))"
  by (auto simp: check_update_def spec_of_def validateImmutableFields_None [symmetric]
      split: option.split sum.split)

lemma Handle_allowed:
  assumes "\<And>xs. mset (order xs) = mset xs"
  shows "is_allowed (Handle U C decode order req) \<longleftrightarrow>
     (\<exists>v. decode (reqObject req) = Inr v
        \<and> (v = None
           \<or> (\<exists>s. spec_of C decode (reqObject req) = Some s
                \<and> (is_blank_spec s
                   \<or> spec_wf s \<and> uuids_wf U s
                      \<and> is_allowed (check_update C decode (reqOldObjectRaw req) s)))))"
proof -
  have "uuids_wf U s \<longleftrightarrow> validateUUIDs U order s = None" for s
    by (rule validateUUIDs_None [symmetric]) (rule assms)
  then show ?thesis
    by (auto simp: Handle_def spec_of_def validateProviderSpec_None [symmetric]
        split: option.split sum.split)
qed

lemma Handle_allowed_spec:
  assumes "\<And>xs. mset (order xs) = mset xs"
    and "is_allowed (Handle U C decode order req)"
    and "spec_of C decode (reqObject req) = Some s" and "\<not> is_blank_spec s"
  shows "spec_wf s" and "uuids_wf U s"
    and "is_allowed (check_update C decode (reqOldObjectRaw req) s)"
proof -
  have "decode (reqObject req) \<noteq> Inr None" using assms(3) by (auto simp: spec_of_def)
  then show "spec_wf s" "uuids_wf U s" "is_allowed (check_update C decode (reqOldObjectRaw req) s)"
    using assms(2-4) unfolding Handle_allowed [OF assms(1)] by auto
qed

section \<open>Histories of a machine\<close>

text \<open>The versions of one machine, oldest first, each admitted as an update of the one before.\<close>

fun admitted_updates ::
  "'u uuid_lib \<Rightarrow> metav1_codec \<Rightarrow> ('r \<Rightarrow> go_err + raw_json option)
     \<Rightarrow> ((string \<times> string) list \<Rightarrow> (string \<times> string) list) \<Rightarrow> 'r list \<Rightarrow> bool" where
  "admitted_updates U C decode order (r # r' # rs) \<longleftrightarrow>
     is_allowed (Handle U C decode order \<lparr>reqObject = r', reqOldObjectRaw = Some r\<rparr>)
     \<and> admitted_updates U C decode order (r' # rs)"
| "admitted_updates U C decode order _ \<longleftrightarrow> True"

text \<open>The object carries a spec of this provider.\<close>

definition carries_spec :: "metav1_codec \<Rightarrow> ('r \<Rightarrow> go_err + raw_json option) \<Rightarrow> 'r \<Rightarrow> bool" where
  "carries_spec C decode r \<longleftrightarrow>
     (case spec_of C decode r of None \<Rightarrow> False | Some s \<Rightarrow> \<not> is_blank_spec s)"

definition spec_ids ::
  "metav1_codec \<Rightarrow> ('r \<Rightarrow> go_err + raw_json option) \<Rightarrow> 'r \<Rightarrow> (string \<times> string) option" where
  "spec_ids C decode r = map_option (\<lambda>s. (SiteID s, TenantID s)) (spec_of C decode r)"

lemma admitted_update_ids:
  assumes "\<And>xs. mset (order xs) = mset xs"
    and "is_allowed (Handle U C decode order \<lparr>reqObject = r', reqOldObjectRaw = Some r\<rparr>)"
    and "carries_spec C decode r" and "carries_spec C decode r'"
  shows "spec_ids C decode r' = spec_ids C decode r"
proof -
  obtain s s' where s: "spec_of C decode r = Some s" "spec_of C decode r' = Some s'" "\<not> is_blank_spec s'"
    using assms(3,4) by (auto simp: carries_spec_def split: option.splits)
  then have "is_allowed (check_update C decode (Some r) s')"
    using Handle_allowed_spec(3) [OF assms(1,2), of s'] by simp
  with s show ?thesis by (auto simp: check_update_allowed spec_ids_def)
qed

section \<open>Properties\<close>

text \<open>The reference decoder: a request carries its spec as it is.\<close>

definition ref_decode :: "json \<Rightarrow> go_err + raw_json option" where
  "ref_decode j = Inr (if j = JNull then None else Some (Some j))"

definition ref_admitted_spec :: "string \<Rightarrow> json" where
  "ref_admitted_spec site = JObj [(''siteId'', JStr site), (''tenantId'', JStr ''2''),
     (''vpcId'', JStr ''3''), (''subnetId'', JStr ''4''), (''machineId'', JStr ''5'')]"

lemma ref_admitted:
  "spec_of ref_metav1 ref_decode (ref_admitted_spec ''1'') =
     Some (zero_spec\<lparr>SiteID := ''1'', TenantID := ''2'', VpcID := ''3'', SubnetID := ''4'',
       MachineID := ''5''\<rparr>)"
  by code_simp

lemma ref_admitted_Handle:
  "is_allowed (Handle ref_uuid ref_metav1 ref_decode id
     \<lparr>reqObject = ref_admitted_spec ''1'', reqOldObjectRaw = Some (ref_admitted_spec ''1'')\<rparr>)"
proof -
  have "list_all (is_uuid ref_uuid) [''1'', ''2'', ''3'', ''4'', ''5'']" by code_simp
  moreover have "ref_decode (ref_admitted_spec ''1'') = Inr (Some (Some (ref_admitted_spec ''1'')))"
    by (simp add: ref_decode_def ref_admitted_spec_def)
  ultimately show ?thesis
    by (subst Handle_allowed)
      (simp_all add: ref_admitted check_update_allowed spec_wf_def uuids_wf_def spec_uuids_def
         zero_spec_def)
qed

text \<open>C11. The webhook admits exactly: objects without a provider spec, specs that name none of the
  identifying fields, and well-formed specs whose identifiers are UUIDs and, on an update, keep
  site and tenant of the old spec (an old object that does not decode is an error). The verdict
  does not depend on the order in which Go visits the map of UUID fields.\<close>

theorem webhook_admits:
  assumes "\<And>xs. mset (order xs) = mset xs"
  shows "is_allowed (Handle U C decode order req) \<longleftrightarrow>
     (\<exists>v. decode (reqObject req) = Inr v
        \<and> (v = None
           \<or> (\<exists>s. spec_of C decode (reqObject req) = Some s
                \<and> (is_blank_spec s
                   \<or> spec_wf s \<and> uuids_wf U s
                      \<and> (case reqOldObjectRaw req of
                           None \<Rightarrow> True
                         | Some r \<Rightarrow> (\<exists>v. decode r = Inr v)
                             \<and> (case spec_of C decode r of
                                  None \<Rightarrow> True
                                | Some old \<Rightarrow> SiteID old = SiteID s \<and> TenantID old = TenantID s))))))"
  unfolding Handle_allowed [OF assms] check_update_allowed ..

theorem webhook_admits_witness:
  "\<not> is_allowed (Handle ref_uuid ref_metav1 ref_decode rev
      \<lparr>reqObject = JObj [(''siteId'', JStr ''1'')], reqOldObjectRaw = None\<rparr>)"
proof -
  have *: "spec_of ref_metav1 ref_decode (JObj [(''siteId'', JStr ''1'')]) = Some (zero_spec\<lparr>SiteID := ''1''\<rparr>)"
    by code_simp
  show ?thesis
    by (subst webhook_admits) (simp_all add: * is_blank_spec_def spec_wf_def zero_spec_def ref_decode_def)
qed

text \<open>C12. Immutability over a whole history: as long as every version of a machine carries a spec of
  this provider, no sequence of admitted updates changes its site or its tenant.\<close>

theorem webhook_ids_immutable:
  assumes "\<And>xs. mset (order xs) = mset xs"
    and "admitted_updates U C decode order (r # rs)"
    and "list_all (carries_spec C decode) (r # rs)" and "r' \<in> set rs"
  shows "spec_ids C decode r' = spec_ids C decode r"
  using assms(2-4)
proof (induction rs arbitrary: r)
  case (Cons q rs)
  have "spec_ids C decode q = spec_ids C decode r"
    using Cons.prems by (intro admitted_update_ids [OF assms(1)]) auto
  moreover have "r' \<noteq> q \<Longrightarrow> spec_ids C decode r' = spec_ids C decode q"
    using Cons.prems by (intro Cons.IH) auto
  ultimately show ?case by (cases "r' = q") simp_all
qed simp

theorem webhook_ids_immutable_witness:
  "spec_ids ref_metav1 ref_decode (ref_admitted_spec ''1'') = spec_ids ref_metav1 ref_decode (ref_admitted_spec ''1'')
   \<and> admitted_updates ref_uuid ref_metav1 ref_decode id [ref_admitted_spec ''1'', ref_admitted_spec ''1'']"
proof -
  have *: "admitted_updates ref_uuid ref_metav1 ref_decode id [ref_admitted_spec ''1'', ref_admitted_spec ''1'']"
    using ref_admitted_Handle by simp
  moreover have "list_all (carries_spec ref_metav1 ref_decode) [ref_admitted_spec ''1'', ref_admitted_spec ''1'']"
    by (simp add: carries_spec_def ref_admitted is_blank_spec_def)
  ultimately show ?thesis
    using webhook_ids_immutable [of id ref_uuid ref_metav1 ref_decode "ref_admitted_spec ''1''"
        "[ref_admitted_spec ''1'']" "ref_admitted_spec ''1''"] by simp
qed

text \<open>C13. The check is per update only: an update to an object without provider spec is always
  admitted when the new object decodes, and the update after it is judged like a creation, so two
  updates can change site and tenant.\<close>

theorem webhook_reset:
  assumes "decode blank = Inr None"
  shows "is_allowed (Handle U C decode order \<lparr>reqObject = blank, reqOldObjectRaw = old\<rparr>)
    \<and> Handle U C decode order \<lparr>reqObject = r, reqOldObjectRaw = Some blank\<rparr>
       = Handle U C decode order \<lparr>reqObject = r, reqOldObjectRaw = None\<rparr>"
  using assms by (auto simp: Handle_def check_update_def split: sum.split option.split)

theorem webhook_reset_witness:
  "admitted_updates ref_uuid ref_metav1 ref_decode id [ref_admitted_spec ''9'', JNull]"
  using webhook_reset [of ref_decode JNull ref_uuid ref_metav1 id "Some (ref_admitted_spec ''9'')"]
  by (simp add: ref_decode_def)

end
