(* ===== verification/InstanceRequest.thy ===== *)
theory InstanceRequest
  imports NicoApi Webhook
begin

text \<open>
  \<open>buildInstanceRequest\<close> of pkg/actuators/machine/actuator.go: the API request for a provider
  spec, and the actuator's own copy of \<open>validateProviderSpec\<close>. What a request says is stated apart
  from how it is built: \<open>request_spec\<close> reads it back as the service does.
\<close>

definition actuator_validateProviderSpec :: "NicoMachineProviderSpec \<Rightarrow> go_err option" where
  "actuator_validateProviderSpec spec =
     (if InstanceTypeID spec \<noteq> [] \<and> MachineID spec \<noteq> [] then
        Some (ErrText ''specify either instanceTypeId or machineId, not both'')
      else if InstanceTypeID spec = [] \<and> MachineID spec = [] then
        Some (ErrText ''either instanceTypeId or machineId is required'')
      else if SiteID spec = [] then Some (ErrText ''siteId is required'')
      else if TenantID spec = [] then Some (ErrText ''tenantId is required'')
      else if VpcID spec = [] then Some (ErrText ''vpcId is required'')
      else if SubnetID spec = [] then Some (ErrText ''subnetId is required'')
      else if length (AdditionalSubnetIDs spec) > 10 then
        Some (ErrText (''too many additional subnets (max 10, got ''
          @ show_nat (length (AdditionalSubnetIDs spec)) @ '')''))
      else None)"

text \<open>\<open>if s != "" { field = &s }\<close> and \<open>if b { field = ptr(true) }\<close>.\<close>

definition when_set :: "string \<Rightarrow> string option" where
  "when_set s = (if s \<noteq> [] then Some s else None)"

definition when_true :: "bool \<Rightarrow> bool option" where
  "when_true b = (if b then Some True else None)"

definition default_ipxe_script :: string where
  "default_ipxe_script = ''#!ipxe'' @ [CHR 0x0A] @ ''echo Booting via NICo''"

definition interface_requests :: "NicoMachineProviderSpec \<Rightarrow> InterfaceCreateRequest list" where
  "interface_requests spec =
     \<lparr>icrSubnetId = Some (SubnetID spec), icrIsPhysical = Some False\<rparr>
     # map (\<lambda>sub. \<lparr>icrSubnetId = Some (asSubnetID sub), icrIsPhysical = Some (asIsPhysical sub)\<rparr>)
         (AdditionalSubnetIDs spec)"

definition infiniband_request :: "InfiniBandInterfaceSpec \<Rightarrow> InfiniBandInterfaceCreateRequest" where
  "infiniband_request ib =
     \<lparr>ibrPartitionId = when_set (ibPartitionID ib), ibrDevice = when_set (ibDevice ib),
      ibrIsPhysical = when_true (ibIsPhysical ib), ibrDeviceInstance = ibDeviceInstance ib\<rparr>"

definition nvlink_request :: "NVLinkInterfaceSpec \<Rightarrow> NVLinkInterfaceCreateOrUpdateRequest" where
  "nvlink_request nvl =
     \<lparr>nvrNvLinkLogicalPartitionId = when_set (nvlNVLinkLogicalPartitionID nvl),
      nvrDeviceInstance = nvlDeviceInstance nvl\<rparr>"

definition buildInstanceRequest :: "string \<Rightarrow> NicoMachineProviderSpec \<Rightarrow> InstanceCreateRequest" where
  "buildInstanceRequest name spec =
     \<lparr>reqName = name,
      reqTenantId = TenantID spec,
      reqVpcId = VpcID spec,
      reqInterfaces = interface_requests spec,
      reqPhoneHomeEnabled = Some True,
      reqInstanceTypeId = when_set (InstanceTypeID spec),
      reqMachineId = when_set (MachineID spec),
      reqAllowUnhealthyMachine = when_true (AllowUnhealthyMachine spec),
      reqUserData = when_set (UserData spec),
      reqOperatingSystemId = when_set (OperatingSystemID spec),
      reqIpxeScript = (if OperatingSystemID spec \<noteq> [] then None else Some default_ipxe_script),
      reqSshKeyGroupIds = SSHKeyGroupIDs spec,
      reqLabels = Labels spec,
      reqNetworkSecurityGroupId = when_set (NetworkSecurityGroupID spec),
      reqDescription = when_set (Description spec),
      reqAlwaysBootWithCustomIpxe = when_true (AlwaysBootWithCustomIpxe spec),
      reqInfinibandInterfaces = map infiniband_request (InfiniBandInterfaces spec),
      reqNvLinkInterfaces = map nvlink_request (NVLinkInterfaces spec)\<rparr>"

section \<open>Lemmas\<close>

lemma when_set_None [simp]: "when_set s = None \<longleftrightarrow> s = []"
  by (simp add: when_set_def)

section \<open>Reading a request back\<close>

text \<open>
  What the service is told by a request, apart from how the code makes one: an absent text is the
  empty one and an absent flag is off, the first interface is the main one. \<open>request_spec\<close> is the
  spec that a request describes, \<open>canonical\<close> that it says each thing in the one way the service
  documents: nothing empty is sent, the main interface is virtual, the instance phones home, and
  it boots from an operating system or else from the default script.
\<close>

definition text_of :: "string option \<Rightarrow> string" where
  "text_of x = (case x of None \<Rightarrow> [] | Some s \<Rightarrow> s)"

definition flag_of :: "bool option \<Rightarrow> bool" where
  "flag_of x \<longleftrightarrow> x = Some True"

definition request_spec :: "InstanceCreateRequest \<Rightarrow> NicoMachineProviderSpec" where
  "request_spec r = zero_spec\<lparr>
     TenantID := reqTenantId r, VpcID := reqVpcId r,
     SubnetID := text_of (icrSubnetId (hd (reqInterfaces r))),
     AdditionalSubnetIDs :=
       map (\<lambda>i. \<lparr>asSubnetID = text_of (icrSubnetId i), asIsPhysical = flag_of (icrIsPhysical i)\<rparr>)
         (tl (reqInterfaces r)),
     InstanceTypeID := text_of (reqInstanceTypeId r), MachineID := text_of (reqMachineId r),
     AllowUnhealthyMachine := flag_of (reqAllowUnhealthyMachine r),
     UserData := text_of (reqUserData r), OperatingSystemID := text_of (reqOperatingSystemId r),
     SSHKeyGroupIDs := reqSshKeyGroupIds r, Labels := reqLabels r,
     NetworkSecurityGroupID := text_of (reqNetworkSecurityGroupId r),
     Description := text_of (reqDescription r),
     AlwaysBootWithCustomIpxe := flag_of (reqAlwaysBootWithCustomIpxe r),
     InfiniBandInterfaces :=
       map (\<lambda>i. \<lparr>ibPartitionID = text_of (ibrPartitionId i), ibDevice = text_of (ibrDevice i),
                ibIsPhysical = flag_of (ibrIsPhysical i), ibDeviceInstance = ibrDeviceInstance i\<rparr>)
         (reqInfinibandInterfaces r),
     NVLinkInterfaces :=
       map (\<lambda>i. \<lparr>nvlNVLinkLogicalPartitionID = text_of (nvrNvLinkLogicalPartitionId i),
                nvlDeviceInstance = nvrDeviceInstance i\<rparr>) (reqNvLinkInterfaces r)\<rparr>"

definition canonical :: "InstanceCreateRequest \<Rightarrow> bool" where
  "canonical r \<longleftrightarrow>
     reqPhoneHomeEnabled r = Some True
     \<and> reqInterfaces r \<noteq> [] \<and> icrIsPhysical (hd (reqInterfaces r)) = Some False
     \<and> list_all (\<lambda>i. icrSubnetId i \<noteq> None \<and> icrIsPhysical i \<noteq> None) (reqInterfaces r)
     \<and> Some [] \<notin> {reqInstanceTypeId r, reqMachineId r, reqUserData r, reqOperatingSystemId r,
         reqNetworkSecurityGroupId r, reqDescription r}
     \<and> Some False \<notin> {reqAllowUnhealthyMachine r, reqAlwaysBootWithCustomIpxe r}
     \<and> list_all (\<lambda>i. Some [] \<notin> {ibrPartitionId i, ibrDevice i} \<and> ibrIsPhysical i \<noteq> Some False)
         (reqInfinibandInterfaces r)
     \<and> list_all (\<lambda>i. nvrNvLinkLogicalPartitionId i \<noteq> Some []) (reqNvLinkInterfaces r)
     \<and> reqIpxeScript r = (if reqOperatingSystemId r = None
          then Some (''#!ipxe'' @ CHR 0x0A # ''echo Booting via NICo'') else None)"

text \<open>The part of a spec that is about the instance; the rest is for the controller.\<close>

definition instance_part :: "NicoMachineProviderSpec \<Rightarrow> NicoMachineProviderSpec" where
  "instance_part s = s\<lparr>specKind := [], specAPIVersion := [], SiteID := [], DpuExtensionServices := [],
     CredentialsSecret := \<lparr>csName = [], csNamespace = []\<rparr>\<rparr>"

lemma text_of_simps [simp]: "text_of (Some s) = s" "text_of (when_set s) = s"
  by (simp_all add: text_of_def when_set_def)

lemma flag_of_simps [simp]: "flag_of (Some b) = b" "flag_of (when_true b) = b"
  by (simp_all add: flag_of_def when_true_def)

lemma omitted_simps [simp]:
  "when_set s \<noteq> Some []" "Some [] \<noteq> when_set s" "when_true b \<noteq> Some False" "Some False \<noteq> when_true b"
  by (simp_all add: when_set_def when_true_def)

lemma read_infiniband:
  "\<lparr>ibPartitionID = text_of (ibrPartitionId (infiniband_request i)),
    ibDevice = text_of (ibrDevice (infiniband_request i)),
    ibIsPhysical = flag_of (ibrIsPhysical (infiniband_request i)),
    ibDeviceInstance = ibrDeviceInstance (infiniband_request i)\<rparr> = i"
  by (cases i) (simp add: infiniband_request_def)

lemma read_nvlink:
  "\<lparr>nvlNVLinkLogicalPartitionID = text_of (nvrNvLinkLogicalPartitionId (nvlink_request i)),
    nvlDeviceInstance = nvrDeviceInstance (nvlink_request i)\<rparr> = i"
  by (cases i) (simp add: nvlink_request_def)

lemma read_subnets:
  "map (\<lambda>i. \<lparr>asSubnetID = text_of (icrSubnetId i), asIsPhysical = flag_of (icrIsPhysical i)\<rparr>)
     (tl (interface_requests s)) = AdditionalSubnetIDs s"
  by (simp add: interface_requests_def o_def map_idI)

lemma build_canonical: "canonical (buildInstanceRequest n s)"
  by (auto simp: canonical_def buildInstanceRequest_def interface_requests_def list_all_iff
      infiniband_request_def nvlink_request_def default_ipxe_script_def)

lemma build_read: "request_spec (buildInstanceRequest n s) = instance_part s"
proof -
  have "SubnetID s = text_of (icrSubnetId (hd (interface_requests s)))"
    by (simp add: interface_requests_def)
  then show ?thesis
    by (cases s) (simp add: request_spec_def instance_part_def zero_spec_def buildInstanceRequest_def
        read_subnets o_def read_infiniband read_nvlink)
qed

lemma validators_equal: "actuator_validateProviderSpec = validateProviderSpec"
  by (rule ext) (simp add: actuator_validateProviderSpec_def validateProviderSpec_def)

section \<open>Properties\<close>

text \<open>C24. The request says what the spec says: it carries the name given and, read back as the service
  reads it, describes the instance part of the spec field by field; it is canonical, so nothing
  empty is sent, the main interface is virtual, the instance phones home, and without an operating
  system it boots the default script.\<close>

theorem request_faithful:
  "reqName (buildInstanceRequest n s) = n \<and> request_spec (buildInstanceRequest n s) = instance_part s
    \<and> canonical (buildInstanceRequest n s)"
  using build_read [of n s] build_canonical [of n s] by (simp add: buildInstanceRequest_def)

text \<open>C25. A spec that passes the validation gives a request the API accepts: exactly one of instance
  type and machine, exactly one of operating system and boot script, between one and eleven
  interfaces of which the first is virtual and on the main subnet, and the tenant and VPC of the
  spec, neither of them empty.\<close>

theorem request_well_formed:
  assumes "actuator_validateProviderSpec s = None"
  shows "(reqInstanceTypeId (buildInstanceRequest n s) = None)
        = (reqMachineId (buildInstanceRequest n s) \<noteq> None)
    \<and> (reqOperatingSystemId (buildInstanceRequest n s) = None)
        = (reqIpxeScript (buildInstanceRequest n s) \<noteq> None)
    \<and> (\<exists>rest. reqInterfaces (buildInstanceRequest n s)
          = \<lparr>icrSubnetId = Some (SubnetID s), icrIsPhysical = Some False\<rparr> # rest \<and> length rest \<le> 10)
    \<and> reqTenantId (buildInstanceRequest n s) = TenantID s \<and> TenantID s \<noteq> []
    \<and> reqVpcId (buildInstanceRequest n s) = VpcID s \<and> VpcID s \<noteq> []"
proof -
  have "spec_wf s" using assms by (simp add: validators_equal validateProviderSpec_None)
  then show ?thesis
    by (auto simp: spec_wf_def buildInstanceRequest_def interface_requests_def)
qed

definition ref_request_spec :: NicoMachineProviderSpec where
  "ref_request_spec = zero_spec\<lparr>SiteID := ''1'', TenantID := ''2'', VpcID := ''3'', SubnetID := ''4'',
     MachineID := ''5''\<rparr>"

theorem request_well_formed_witness:
  "reqInstanceTypeId (buildInstanceRequest ''worker'' ref_request_spec) = None
   \<and> reqIpxeScript (buildInstanceRequest ''worker'' ref_request_spec) \<noteq> None"
proof -
  have "actuator_validateProviderSpec ref_request_spec = None" by code_simp
  from request_well_formed [OF this, of "''worker''"] show ?thesis
    by (simp add: buildInstanceRequest_def ref_request_spec_def zero_spec_def)
qed

text \<open>C22. The two validators agree on what the webhook lets through: of the provider specs it has
  admitted the actuator rejects exactly the blank ones, which the webhook takes for another
  provider's.\<close>

theorem admitted_spec_is_valid:
  assumes "\<And>xs. mset (order xs) = mset xs"
    and "is_allowed (Handle U C decode order req)"
    and "spec_of C decode (reqObject req) = Some s"
  shows "actuator_validateProviderSpec s = None \<longleftrightarrow> \<not> is_blank_spec s"
  using Handle_allowed_spec(1) [OF assms]
  by (auto simp: validators_equal validateProviderSpec_None spec_wf_def is_blank_spec_def)

theorem admitted_spec_is_valid_witness:
  "actuator_validateProviderSpec ref_request_spec = None"
proof -
  have "mset (id xs) = mset xs" for xs :: "(string \<times> string) list" by simp
  moreover have "spec_of ref_metav1 ref_decode
      (reqObject \<lparr>reqObject = ref_admitted_spec ''1'', reqOldObjectRaw = Some (ref_admitted_spec ''1'')\<rparr>)
      = Some ref_request_spec"
    by (simp add: ref_admitted ref_request_spec_def)
  ultimately show ?thesis
    using admitted_spec_is_valid [of id, OF _ ref_admitted_Handle]
    by (auto simp: is_blank_spec_def ref_request_spec_def)
qed

end
