(* ===== verification/ActuatorCreate.thy ===== *)
theory ActuatorCreate
  imports MachineHealth InstanceRequest
begin

text \<open>
  \<open>Create\<close> of pkg/actuators/machine/actuator.go with its helpers \<open>checkPreFlightHealth\<close>,
  \<open>handleCreateError\<close> and \<open>deployDpuExtensionServices\<close>. A nil dereference of the code is a
  \<open>panic\<close> here: an answer without instance and without response, an instance without ID, and
  a status that does not decode when creation is blocked.
\<close>

section \<open>The pre-flight health gate\<close>

definition MaxFaultBlockedAttempts :: int where "MaxFaultBlockedAttempts = 3"

definition faultBlockedType :: string where "faultBlockedType = ''FaultBlockedCreation''"
definition faultBlockedPrefix :: string where "faultBlockedPrefix = ''FaultBlocked_''"

text \<open>The attempt this is, counted in the reason of the condition an earlier one left.\<close>

fun next_attempt :: "Condition list \<Rightarrow> int" where
  "next_attempt [] = 1"
| "next_attempt (c # cs) =
     (if cType c = faultBlockedType \<and> cStatus c = ConditionTrue then
        wrap64 ((case sscanf_prefix_int faultBlockedPrefix (cReason c) of None \<Rightarrow> 1 | Some n \<Rightarrow> n) + 1)
      else next_attempt cs)"

definition blocked_status ::
  "KubeLib \<Rightarrow> time \<Rightarrow> int \<Rightarrow> string \<Rightarrow> NicoMachineProviderStatus \<Rightarrow> NicoMachineProviderStatus" where
  "blocked_status L now attempt alertMsg ps =
     setCondition L now condMachineHealthy ConditionFalse ''CriticalFault'' alertMsg
       (setCondition L now faultBlockedType ConditionTrue (faultBlockedPrefix @ show_int attempt)
         (''Attempt '' @ show_int attempt @ '' of '' @ show_int MaxFaultBlockedAttempts @ '': ''
            @ alertMsg) ps)"

definition fault_message :: "string \<Rightarrow> int \<Rightarrow> string \<Rightarrow> string" where
  "fault_message machineID attempt alertMsg =
     ''Machine '' @ machineID @ '' has persistent critical faults after '' @ show_int attempt
       @ '' attempts: '' @ alertMsg"

text \<open>What happens once creation is known to be blocked.\<close>

definition block_creation ::
  "('s, 'u) env \<Rightarrow> 's Actuator \<Rightarrow> string \<Rightarrow> string \<Rightarrow> ('s, bool \<times> go_err option) act" where
  "block_creation E a machineID alertMsg =
     andthen getobj (\<lambda>m.
     case getProviderStatus (envLib E) m of
       Inl _ \<Rightarrow> panic
     | Inr ps \<Rightarrow>
         andthen (readext (envNow E)) (\<lambda>now.
         let attempt = next_attempt (psConditions ps);
             counter = show_int attempt @ ''/'' @ show_int MaxFaultBlockedAttempts @ '')''
         in seqp
              (whenp (attempt \<ge> MaxFaultBlockedAttempts)
                (modobj (set_failure ''PreFlightHealthCheckFailed''
                  (fault_message machineID attempt alertMsg))))
              (guardp (setProviderStatus E (blocked_status (envLib E) now attempt alertMsg ps))
                (\<lambda>e. (True, Some (ErrWrap ''failed to update provider status: '' e)))
                (seqp
                  (eventf a EventWarning ''FaultBlockedCreation''
                    (''Instance creation blocked: '' @ alertMsg @ '' (attempt '' @ counter))
                  (ret (True, Some (ErrText
                    (''instance creation blocked by critical health faults on machine ''
                       @ machineID @ '' (attempt '' @ counter))))))))"

definition checkPreFlightHealth ::
  "('s, 'u) env \<Rightarrow> 's Actuator \<Rightarrow> 's NicoClientInterface \<Rightarrow> string \<Rightarrow> NicoMachineProviderSpec
     \<Rightarrow> ('s, bool \<times> go_err option) act" where
  "checkPreFlightHealth E a c orgName spec =
     andthen (checkCriticalFaults c orgName (MachineID spec)) (\<lambda>(hasCritical, alertMsg).
       if hasCritical then block_creation E a (MachineID spec) alertMsg
       else
         andthen (checkMachineValidation c orgName (MachineID spec))
           (\<lambda>(hasValidationFailure, validationMsg).
             if \<not> hasValidationFailure then ret (False, None)
             else block_creation E a (MachineID spec) validationMsg))"

section \<open>Errors of CreateInstance\<close>

record apiError =
  aeMessage :: string
  aeCode :: string

definition member_apiError :: "string \<Rightarrow> json \<Rightarrow> apiError \<Rightarrow> go_err + apiError" where
  "member_apiError k j x =
     (if is_field k ''message'' then upd_field (dec_string (aeMessage x) j) (\<lambda>v. x\<lparr>aeMessage := v\<rparr>)
      else if is_field k ''code'' then upd_field (dec_string (aeCode x) j) (\<lambda>v. x\<lparr>aeCode := v\<rparr>)
      else Inr x)"

definition dec_apiError :: "json \<Rightarrow> go_err + apiError" where
  "dec_apiError = dec_struct member_apiError \<lparr>aeMessage = [], aeCode = []\<rparr>"

definition create_error :: "HttpResponse option \<Rightarrow> go_err \<Rightarrow> go_err" where
  "create_error httpResp err =
     (case httpResp of
        None \<Rightarrow> ErrWrap ''failed to create instance: '' err
      | Some h \<Rightarrow>
          (case Body h of
             None \<Rightarrow> ErrWrap ''failed to create instance: '' err
           | Some body \<Rightarrow>
               (let st = ''failed to create instance (status '' @ show_int (StatusCode h) @ '')''
                in case unmarshal dec_apiError body of
                     Inr parsed \<Rightarrow>
                       if aeMessage parsed \<noteq> [] then
                         ErrWrap (st @ '': '' @ aeMessage parsed @ '': '') err
                       else ErrWrap (st @ '': '') err
                   | Inl _ \<Rightarrow> ErrWrap (st @ '': '') err)))"

definition handleCreateError ::
  "'s Actuator \<Rightarrow> HttpResponse option \<Rightarrow> go_err \<Rightarrow> ('s, go_err option) act" where
  "handleCreateError a httpResp err =
     (let errKind = (if errors_As (classifyHTTPError httpResp err) = Some ErrorTerminal
                     then ''terminal'' else ''transient'')
      in seqp (metricp (APICallErrorsInc ''CreateInstance'' (status_code_text httpResp)))
         (seqp (eventf a EventWarning ''FailedCreate''
                  (''NICo API error ('' @ errKind @ ''): '' @ err_string err))
            (ret (Some (classifyHTTPError httpResp (create_error httpResp err))))))"

section \<open>DPU extension services\<close>

definition dpu_deployment :: "DpuExtensionServiceSpec \<Rightarrow> DpuExtensionServiceDeploymentRequest" where
  "dpu_deployment svc =
     \<lparr>dprDpuExtensionServiceId = Some (dpuServiceID svc), dprVersion = when_set (dpuVersion svc)\<rparr>"

definition deployDpuExtensionServices ::
  "'s Actuator \<Rightarrow> 's NicoClientInterface \<Rightarrow> string \<Rightarrow> string \<Rightarrow> NicoMachineProviderSpec
     \<Rightarrow> ('s, go_err option) act" where
  "deployDpuExtensionServices a c orgName instanceID spec =
     andthen (call_UpdateInstance c orgName instanceID
         \<lparr>iurDpuExtensionServiceDeployments = map dpu_deployment (DpuExtensionServices spec)\<rparr>)
       (\<lambda>(_, updateResp, updateErr).
         case updateErr of
           Some err \<Rightarrow>
             seqp (metricp (APICallErrorsInc ''UpdateInstance'' (status_code_text updateResp)))
               (seqp (eventf a EventWarning ''DPUDeployFailed''
                        (''Failed to deploy DPU extension services: '' @ err_string err))
                  (ret (Some (ErrWrap ''failed to deploy DPU extension services: '' err))))
         | None \<Rightarrow>
             seqp (eventf a EventNormal ''DPUDeployed''
                     (''Deployed '' @ show_nat (length (DpuExtensionServices spec))
                        @ '' DPU extension service(s)''))
               (ret None))"

section \<open>Create\<close>

definition instance_addresses :: "Instance \<Rightarrow> MachineAddress list" where
  "instance_addresses inst =
     concat (map (map (\<lambda>ip. \<lparr>addrType = ''InternalIP'', addrAddress = ip\<rparr>)) (instInterfaces inst))"

definition created_status ::
  "KubeLib \<Rightarrow> time \<Rightarrow> string \<Rightarrow> Instance \<Rightarrow> NicoMachineProviderStatus" where
  "created_status L now instanceID inst =
     setCondition L now condInstanceProvisioned ConditionTrue ''InstanceCreated''
       (''Instance '' @ instanceID @ '' created successfully'')
       (zero_status\<lparr>psInstanceID := instId inst, psMachineID := instMachineId inst,
          psInstanceState := instStatus inst, psAddresses := instance_addresses inst\<rparr>)"

text \<open>The steps after the API has answered with an instance.\<close>

definition finish_create ::
  "('s, 'u) env \<Rightarrow> 's Actuator \<Rightarrow> 's NicoClientInterface \<Rightarrow> string \<Rightarrow> NicoMachineProviderSpec
     \<Rightarrow> Instance \<Rightarrow> ('s, go_err option) act" where
  "finish_create E a c orgName spec inst =
     (case instId inst of
        None \<Rightarrow> panic
      | Some instanceID \<Rightarrow>
          andthen (readext (envNow E)) (\<lambda>now.
          guardp (setProviderStatus E (created_status (envLib E) now instanceID inst))
            (\<lambda>e. Some (ErrWrap ''failed to update provider status: '' e))
          (case uuid_parse (envUuid E) instanceID of
             Inl e \<Rightarrow> ret (Some (ErrWrap ''failed to parse instance ID from response: '' e))
           | Inr instanceUUID \<Rightarrow>
               (let pid = NewProviderID orgName (TenantID spec) (SiteID spec) instanceUUID
                in guardp (setProviderID E (ProviderID_String (envUuid E) pid))
                     (\<lambda>e. Some (ErrWrap ''failed to set provider ID: '' e))
                   (guardp
                     (if DpuExtensionServices spec \<noteq> []
                      then deployDpuExtensionServices a c orgName instanceID spec
                      else ret None) Some
                   (seqp (metricp MachinesManagedInc)
                     (seqp (eventf a EventNormal ''Created'' (''Created instance '' @ instanceID))
                       (ret None))))))))"

text \<open>What is made of the answer of the API.\<close>

definition after_create ::
  "('s, 'u) env \<Rightarrow> 's Actuator \<Rightarrow> 's NicoClientInterface \<Rightarrow> string \<Rightarrow> NicoMachineProviderSpec
     \<Rightarrow> Instance option \<Rightarrow> HttpResponse option \<Rightarrow> go_err option \<Rightarrow> ('s, go_err option) act" where
  "after_create E a c orgName spec inst httpResp err =
     (case err of
        Some e \<Rightarrow> handleCreateError a httpResp e
      | None \<Rightarrow>
          (case inst of
             None \<Rightarrow>
               seqp (eventf a EventWarning ''FailedCreate'' ''Create instance returned no data'')
                 (case httpResp of
                    None \<Rightarrow> panic
                  | Some h \<Rightarrow> ret (Some (ErrText
                      (''create instance returned no data, status code: '' @ show_int (StatusCode h)))))
           | Some i \<Rightarrow> finish_create E a c orgName spec i))"

definition create_instance ::
  "('s, 'u) env \<Rightarrow> 's Actuator \<Rightarrow> 's NicoClientInterface \<Rightarrow> string \<Rightarrow> NicoMachineProviderSpec
     \<Rightarrow> ('s, go_err option) act" where
  "create_instance E a c orgName spec =
     andthen getobj (\<lambda>m.
     andthen (call_CreateInstance c orgName (buildInstanceRequest (GetName m) spec))
       (\<lambda>(inst, httpResp, err).
         seqp (metricp (APILatency ''CreateInstance''))
           (after_create E a c orgName spec inst httpResp err)))"

definition no_targeted_creation :: go_err where
  "no_targeted_creation =
     ErrText ''tenant does not have targeted instance creation enabled; cannot use machineId''"

text \<open>The checks of a creation on a chosen machine, and the creation itself when they let it pass.\<close>

definition gated_create ::
  "('s, 'u) env \<Rightarrow> 's Actuator \<Rightarrow> 's NicoClientInterface \<Rightarrow> string \<Rightarrow> NicoMachineProviderSpec
     \<Rightarrow> ('s, go_err option) act" where
  "gated_create E a c orgName spec =
     andthen
       (if MachineID spec \<noteq> [] then hasTargetedInstanceCreation c orgName (SiteID spec) else ret True)
       (\<lambda>targeted.
         if \<not> targeted then ret (Some no_targeted_creation)
         else
           andthen
             (if MachineID spec \<noteq> [] \<and> \<not> AllowUnhealthyMachine spec
              then checkPreFlightHealth E a c orgName spec else ret (False, None))
             (\<lambda>(blocked, blockErr).
               if blocked then ret blockErr else create_instance E a c orgName spec))"

definition Create :: "('s, 'u) env \<Rightarrow> 's Actuator \<Rightarrow> ('s, go_err option) act" where
  "Create E a =
     andthen getobj (\<lambda>m.
     if objBody m = NotClientObject then ret (Some (ErrText ''machine is not a client.Object''))
     else
       (case getProviderSpec (envLib E) m of
          Inl e \<Rightarrow> ret (Some (ErrWrap ''failed to get provider spec: '' e))
        | Inr spec \<Rightarrow>
            (case actuator_validateProviderSpec spec of
               Some e \<Rightarrow>
                 seqp (eventf a EventWarning ''InvalidSpec'' (''Invalid provider spec: '' @ err_string e))
                   (ret (Some (ErrWrap ''invalid provider spec: '' e)))
             | None \<Rightarrow>
                 tryp (getNicoClient E a spec)
                   (\<lambda>e. Some (ErrWrap ''failed to create NICo client: '' e))
                   (\<lambda>(c, orgName). gated_create E a c orgName spec))))"

section \<open>What a creation emits\<close>

lemma emits_block_creation [emits_intros]:
  "(\<And>m. \<phi> (KubeStatusUpdate m)) \<Longrightarrow> (\<And>n. \<phi> (Event EventWarning ''FaultBlockedCreation'' n)) \<Longrightarrow>
     emits \<phi> (block_creation E a mid msg)"
  unfolding block_creation_def Let_def by (intro emits_intros) auto

lemma emits_checkPreFlightHealth [emits_intros]:
  "(\<And>x. is_read x \<Longrightarrow> \<phi> x) \<Longrightarrow> (\<And>m. \<phi> (KubeStatusUpdate m)) \<Longrightarrow>
     (\<And>n. \<phi> (Event EventWarning ''FaultBlockedCreation'' n)) \<Longrightarrow>
     emits \<phi> (checkPreFlightHealth E a c org spec)"
  unfolding checkPreFlightHealth_def by (intro emits_intros) auto

lemma emits_finish_create [emits_intros]:
  "(\<And>m. \<phi> (KubeStatusUpdate m)) \<Longrightarrow> (\<And>m. \<phi> (KubeUpdate m)) \<Longrightarrow> (\<And>m. \<phi> (Metric m)) \<Longrightarrow>
     (\<And>t r n. \<phi> (Event t r n)) \<Longrightarrow> (\<And>i req. \<phi> (Api (CallUpdateInstance org i req))) \<Longrightarrow>
     emits \<phi> (finish_create E a c org spec i)"
  unfolding finish_create_def deployDpuExtensionServices_def Let_def by (intro emits_intros) auto

lemma emits_after_create [emits_intros]:
  "(\<And>m. \<phi> (KubeStatusUpdate m)) \<Longrightarrow> (\<And>m. \<phi> (KubeUpdate m)) \<Longrightarrow> (\<And>m. \<phi> (Metric m)) \<Longrightarrow>
     (\<And>t r n. \<phi> (Event t r n)) \<Longrightarrow> (\<And>i req. \<phi> (Api (CallUpdateInstance org i req))) \<Longrightarrow>
     emits \<phi> (after_create E a c org spec inst httpResp err)"
  unfolding after_create_def handleCreateError_def Let_def by (intro emits_intros) auto

lemma create_instance_once: "at_most is_create 1 (create_instance E a c org spec)"
  unfolding create_instance_def call_CreateInstance_def
  by (rule at_most_rest [OF emits_getobj], rule at_most_head [OF at_most_extcall])
    (intro emits_intros; simp)

lemma emits_create_instance [emits_intros]:
  "(\<And>m. \<phi> (KubeStatusUpdate m)) \<Longrightarrow> (\<And>m. \<phi> (KubeUpdate m)) \<Longrightarrow> (\<And>m. \<phi> (Metric m)) \<Longrightarrow>
     (\<And>t r n. \<phi> (Event t r n)) \<Longrightarrow> (\<And>i req. \<phi> (Api (CallUpdateInstance org i req))) \<Longrightarrow>
     (\<And>req. \<phi> (Api (CallCreateInstance org req))) \<Longrightarrow> emits \<phi> (create_instance E a c org spec)"
  unfolding create_instance_def by (intro emits_intros) auto

lemma gated_create_once: "at_most is_create 1 (gated_create E a c org spec)"
  unfolding gated_create_def
  by (rule at_most_rest; (intro emits_intros; auto dest: is_read_no_write)?)
    (auto intro!: at_most_rest create_instance_once [unfolded One_nat_def]
       at_most_none [OF emits_ret] emits_intros dest: is_read_no_write)

text \<open>What a creation may do, apart from asking for an instance.\<close>

lemma emits_gated_create [emits_intros]:
  "(\<And>x. is_read x \<Longrightarrow> \<phi> x) \<Longrightarrow> (\<And>m. \<phi> (KubeStatusUpdate m)) \<Longrightarrow> (\<And>m. \<phi> (KubeUpdate m)) \<Longrightarrow>
     (\<And>m. \<phi> (Metric m)) \<Longrightarrow> (\<And>t r n. \<phi> (Event t r n)) \<Longrightarrow>
     (\<And>i req. \<phi> (Api (CallUpdateInstance org i req))) \<Longrightarrow>
     (\<And>req. \<phi> (Api (CallCreateInstance org req))) \<Longrightarrow> emits \<phi> (gated_create E a c org spec)"
  unfolding gated_create_def by (intro emits_intros) auto

lemma emits_Create_no_delete: "emits (\<lambda>x. \<not> is_delete x) (Create E a)"
  unfolding Create_def by (intro emits_intros) (auto dest: is_read_no_write)

lemma Create_once: "at_most is_create 1 (Create E a)"
  unfolding Create_def
  by (rule at_most_rest [OF emits_getobj])
    (auto split: sum.split option.split intro!: at_most_none [OF emits_ret] at_most_tryp_rest
       gated_create_once [unfolded One_nat_def] at_most_none [OF emits_seqp] emits_intros)

section \<open>The gates a creation passes\<close>

lemma block_creation_blocks: "returns fst (block_creation E a mid msg)"
  unfolding block_creation_def by (intro returns_intros; simp)

lemma block_creation_never_passes: "block_creation E a mid msg st \<noteq> (Val (False, e), st')"
  using returnsD [OF block_creation_blocks] by fastforce

text \<open>When the pre-flight check lets a creation pass, both of its questions were answered no, and it
  has left the machine as it was.\<close>

lemma preflight_passed:
  assumes "checkPreFlightHealth E a c org spec st = (Val (False, e), st')"
  obtains m1 m2 st1 where "checkCriticalFaults c org (MachineID spec) st = (Val (False, m1), st1)"
    and "checkMachineValidation c org (MachineID spec) st1 = (Val (False, m2), st')"
    and "obj st' = obj st"
proof -
  obtain r st1 where 1: "checkCriticalFaults c org (MachineID spec) st = (r, st1)"
    by (cases "checkCriticalFaults c org (MachineID spec) st")
  obtain r' st2 where 2: "checkMachineValidation c org (MachineID spec) st1 = (r', st2)"
    by (cases "checkMachineValidation c org (MachineID spec) st1")
  have "obj st1 = obj st" "obj st2 = obj st1"
    using keepsD [OF keeps_questions(1), of "\<lambda>m. m" c org "MachineID spec" st]
      keepsD [OF keeps_questions(2), of "\<lambda>m. m" c org "MachineID spec" st1] 1 2 by simp_all
  then show thesis
    using assms 1 2 that
    by (auto simp: checkPreFlightHealth_def run_simps block_creation_never_passes
        split: res.splits if_splits)
qed

text \<open>The answers that let a creation pass, each asked in the state the one before it left.\<close>

definition flight_gates ::
  "'s NicoClientInterface \<Rightarrow> string \<Rightarrow> NicoMachineProviderSpec
     \<Rightarrow> ('s, MachineObject, action) st \<Rightarrow> bool" where
  "flight_gates c org spec st \<longleftrightarrow>
     (\<exists>st1. (if MachineID spec \<noteq> []
            then hasTargetedInstanceCreation c org (SiteID spec) st = (Val True, st1) else st1 = st)
        \<and> (MachineID spec \<noteq> [] \<and> \<not> AllowUnhealthyMachine spec \<longrightarrow>
             (\<exists>m1 m2 st2. checkCriticalFaults c org (MachineID spec) st1 = (Val (False, m1), st2)
                \<and> fst (checkMachineValidation c org (MachineID spec) st2) = Val (False, m2))))"

text \<open>What must have happened before an instance is asked for.\<close>

definition creation_gates ::
  "('s, 'u) env \<Rightarrow> 's Actuator \<Rightarrow> ('s, MachineObject, action) st \<Rightarrow> NicoMachineProviderSpec
     \<Rightarrow> 's NicoClientInterface \<Rightarrow> string \<Rightarrow> bool" where
  "creation_gates E a st spec c org \<longleftrightarrow>
     getProviderSpec (envLib E) (obj st) = Inr spec \<and> actuator_validateProviderSpec spec = None
     \<and> (\<exists>st1. getNicoClient E a spec st = (Val (Inr (c, org)), st1) \<and> flight_gates c org spec st1)"

lemma create_instance_sends:
  assumes "x \<in> set (new_actions (create_instance E a c org spec) st)" and "is_create x"
  shows "x = Api (CallCreateInstance org (buildInstanceRequest (GetName (obj st)) spec))"
proof -
  let ?sent = "\<lambda>x. is_create x \<longrightarrow> x = Api (CallCreateInstance org (buildInstanceRequest (GetName (obj st)) spec))"
  have "emits ?sent (andthen (call_CreateInstance c org (buildInstanceRequest (GetName (obj st)) spec))
       (\<lambda>(inst, httpResp, err). seqp (metricp (APILatency ''CreateInstance''))
         (after_create E a c org spec inst httpResp err)))"
    by (intro emits_intros; simp)
  from new_actions_mem [OF this] assms show ?thesis
    by (simp add: create_instance_def new_actions_getobj)
qed

lemma gated_create_passed:
  assumes x: "x \<in> set (new_actions (gated_create E a c org spec) st)" "is_create x"
  shows "flight_gates c org spec st
    \<and> x = Api (CallCreateInstance org (buildInstanceRequest (GetName (obj st)) spec))"
proof -
  let ?flight = "if MachineID spec \<noteq> [] \<and> \<not> AllowUnhealthyMachine spec
    then checkPreFlightHealth E a c org spec else ret (False, None)"
  let ?q = "if MachineID spec \<noteq> [] then hasTargetedInstanceCreation c org (SiteID spec) else ret True"
  obtain t st1 where 1: "?q st = (Val t, st1)"
      "x \<in> set (new_actions (if \<not> t then ret (Some no_targeted_creation)
         else andthen ?flight (\<lambda>(blocked, blockErr).
           if blocked then ret blockErr else create_instance E a c org spec)) st1)"
    using x(1) unfolding gated_create_def
    by (rule new_actions_peel [where P = is_create])
      (use x(2) in \<open>auto intro!: emits_intros dest: is_read_no_write\<close>)
  then have t: "t" by (cases t) simp_all
  with 1(2) have "x \<in> set (new_actions (andthen ?flight (\<lambda>(blocked, blockErr).
      if blocked then ret blockErr else create_instance E a c org spec)) st1)" by simp
  then obtain v st2 where 2: "?flight st1 = (Val v, st2)"
      "x \<in> set (new_actions (case v of (blocked, blockErr) \<Rightarrow>
         if blocked then ret blockErr else create_instance E a c org spec) st2)"
    by (rule new_actions_peel [where P = is_create])
      (use x(2) in \<open>auto intro!: emits_intros dest: is_read_no_write\<close>)
  then obtain e where v: "v = (False, e)" by (cases v) (auto split: if_splits)
  have o1: "obj st1 = obj st"
    using 1(1) keepsD [OF keeps_questions(3), of "\<lambda>m. m" c org "SiteID spec" st]
    by (auto simp: run_simps split: if_splits)
  have sends: "obj st2 = obj st \<Longrightarrow>
      x = Api (CallCreateInstance org (buildInstanceRequest (GetName (obj st)) spec))"
    using create_instance_sends [of x E a c org spec st2] 2(2) v x(2) by simp
  have q: "if MachineID spec \<noteq> []
      then hasTargetedInstanceCreation c org (SiteID spec) st = (Val True, st1) else st1 = st"
    using 1(1) t by (cases "MachineID spec = []") (simp_all add: run_simps)
  show ?thesis
  proof (cases "MachineID spec \<noteq> [] \<and> \<not> AllowUnhealthyMachine spec")
    case True
    with 2(1) v have "checkPreFlightHealth E a c org spec st1 = (Val (False, e), st2)" by simp
    then obtain m1 m2 st' where
      "checkCriticalFaults c org (MachineID spec) st1 = (Val (False, m1), st')"
      "checkMachineValidation c org (MachineID spec) st' = (Val (False, m2), st2)" "obj st2 = obj st1"
      by (rule preflight_passed)
    then have "checkCriticalFaults c org (MachineID spec) st1 = (Val (False, m1), st')"
      "fst (checkMachineValidation c org (MachineID spec) st') = Val (False, m2)" "obj st2 = obj st"
      using o1 by simp_all
    then show ?thesis using q sends unfolding flight_gates_def by blast
  next
    case False
    then have "obj st2 = obj st" using 2(1) o1 by (auto simp: run_simps)
    then show ?thesis using False q sends unfolding flight_gates_def by blast
  qed
qed

lemma Create_gated:
  assumes x: "x \<in> set (new_actions (Create E a) st)" "is_create x"
  obtains spec c org where "creation_gates E a st spec c org"
    and "x = Api (CallCreateInstance org (buildInstanceRequest (GetName (obj st)) spec))"
proof -
  have body: "objBody (obj st) \<noteq> NotClientObject"
    using x by (auto simp: Create_def new_actions_getobj)
  obtain spec where spec: "getProviderSpec (envLib E) (obj st) = Inr spec"
    using x body by (cases "getProviderSpec (envLib E) (obj st)") (auto simp: Create_def new_actions_getobj)
  have invalid: "emits (\<lambda>x. \<not> is_create x)
      (seqp (eventf a EventWarning ''InvalidSpec'' (''Invalid provider spec: '' @ err_string e))
         (ret (Some (ErrWrap ''invalid provider spec: '' e))) :: ('a, go_err option) act)" for e
    by (intro emits_intros; simp)
  have valid: "actuator_validateProviderSpec spec = None"
    using x body spec new_actions_mem [OF invalid]
    by (cases "actuator_validateProviderSpec spec") (auto simp: Create_def new_actions_getobj)
  have "x \<in> set (new_actions (tryp (getNicoClient E a spec)
      (\<lambda>e. Some (ErrWrap ''failed to create NICo client: '' e))
      (\<lambda>(c, orgName). gated_create E a c orgName spec)) st)"
    using x(1) body spec valid by (simp add: Create_def new_actions_getobj)
  then obtain v st1 where 1: "getNicoClient E a spec st = (Val (Inr v), st1)"
      "x \<in> set (new_actions (case v of (c, orgName) \<Rightarrow> gated_create E a c orgName spec) st1)"
    by (rule new_actions_peel_tryp [where P = is_create])
      (use x(2) in \<open>auto intro!: emits_intros\<close>)
  obtain c org where v: "v = (c, org)" by (cases v)
  have "obj st1 = obj st"
    using keepsD [OF keeps_getNicoClient, of "\<lambda>m. m" E a spec st] 1(1) by simp
  with gated_create_passed [of x E a c org spec st1] 1 v x(2) spec valid show thesis
    by (intro that [of spec c org]) (simp_all add: creation_gates_def)
qed

section \<open>The count of blocked attempts\<close>

lemma find_condition_map:
  "(\<And>c. cType (f c) = cType c) \<Longrightarrow> find_condition t (map f cs) = map_option f (find_condition t cs)"
  by (induction cs) auto

lemma next_attempt_first:
  "find_condition faultBlockedType cs = Some c \<Longrightarrow> cStatus c = ConditionTrue \<Longrightarrow>
     next_attempt cs =
       wrap64 ((case sscanf_prefix_int faultBlockedPrefix (cReason c) of None \<Rightarrow> 1 | Some n \<Rightarrow> n) + 1)"
  by (induction cs) (auto split: if_splits)

lemma next_attempt_none: "find_condition faultBlockedType cs = None \<Longrightarrow> next_attempt cs = 1"
  by (induction cs) (auto split: if_splits)

lemma fault_condition_name [simp]: "faultBlockedType \<noteq> condMachineHealthy"
  by (simp add: faultBlockedType_def condMachineHealthy_def)

text \<open>The condition an attempt leaves says which attempt it was.\<close>

lemma find_blocked_status:
  assumes "conditions_ok L"
  shows "\<exists>c. find_condition faultBlockedType (psConditions (blocked_status L now n msg ps)) = Some c
     \<and> cStatus c = ConditionTrue \<and> cReason c = faultBlockedPrefix @ show_int n"
  by (simp add: blocked_status_def find_setCondition [OF assms]) (simp add: new_condition_def)

section \<open>Properties\<close>

text \<open>C6. An instance is asked for only when every gate has let the creation pass: the provider spec
  decodes and is valid, the client could be made, and for a chosen machine the tenant may target
  it and, unless the spec accepts an unhealthy machine, neither its health nor its validation
  holds it back. The request is the one the spec describes, under the machine's name.\<close>

theorem creation_is_gated:
  assumes "x \<in> set (new_actions (Create E a) st)" and "is_create x"
  shows "\<exists>spec c org. creation_gates E a st spec c org
    \<and> x = Api (CallCreateInstance org (buildInstanceRequest (GetName (obj st)) spec))"
  using assms by (rule Create_gated) blast

lemma ref_spec_valid [simp]: "actuator_validateProviderSpec ref_spec = None"
  by code_simp

lemma ref_create_reaches:
  "Create ref_env ref_actuator (ref_state ref_world0)
     = create_instance ref_env ref_actuator ref_client ''org'' ref_spec
         (ref_state ref_world0\<lparr>ext := ref_world0, trace := [Api (CallGetAllTenantAccount ''org''),
            Api (CallGetCurrentTenant ''org''), Api (CallGetAllMachineHealthReport ''org'' ''11''),
            Api (CallGetMachineValidationRuns ''org'' ''11'')]\<rparr>)"
  by (simp add: Create_def run_simps getNicoClient_def gated_create_def call_defs
      hasTargetedInstanceCreation_def checkPreFlightHealth_def checkCriticalFaults_def
      checkMachineValidation_def collect_alerts_def critical_verdict_def classifyAlerts_def)

text \<open>The creation of an instance in the reference world, action by action.\<close>

lemma ref_create_run:
  "fst (Create ref_env ref_actuator (ref_state ref_world0)) = Val None"
  "Api (CallCreateInstance ''org'' (buildInstanceRequest ''worker'' ref_spec))
     \<in> set (new_actions (Create ref_env ref_actuator) (ref_state ref_world0))"
  unfolding new_actions_def ref_create_reaches
  by (simp_all add: create_instance_def after_create_def finish_create_def ref_instance_def run_simps
      call_defs metricp_def eventf_def setProviderStatus_def setProviderID_def kube_update_def
      kube_status_update_def put_provider_status_def Let_def)

theorem creation_is_gated_witness:
  "\<exists>c org. creation_gates ref_env ref_actuator (ref_state ref_world0) ref_spec c org"
  using creation_is_gated [OF ref_create_run(2)] by (auto simp: creation_gates_def)

text \<open>After the API's answer the instance is recorded, in the status and then in the provider ID,
  before anything else is done with it.\<close>

lemma finish_create_recorded:
  assumes "uuid_codec (envUuid E)" and "codec_ok (libCodec (envLib E)) norm" and "echoes (envKube E)"
    and "objBody (obj st) = MachineBody t"
    and "no_slash org" and "no_slash (TenantID spec)" and "no_slash (SiteID spec)"
    and i: "instId inst = Some i" and u: "uuid_parse (envUuid E) i = Inr u"
  obtains st2 pid ps where "finish_create E a c org spec inst st =
      guardp (if DpuExtensionServices spec \<noteq> [] then deployDpuExtensionServices a c org i spec else ret None)
         Some (seqp (metricp MachinesManagedInc)
           (seqp (eventf a EventNormal ''Created'' (''Created instance '' @ i)) (ret None))) st2"
    and "provider_id (obj st2) = Some pid"
    and "ParseProviderID (envUuid E) pid = Inr (NewProviderID org (TenantID spec) (SiteID spec) u)"
    and "getProviderStatus (envLib E) (obj st2) = Inr ps" and "psInstanceID ps = Some i"
    and "psAddresses ps = instance_addresses inst"
proof -
  let ?ps = "created_status (envLib E) (envNow E (ext st)) i inst"
  obtain st1 where 1: "setProviderStatus E ?ps st = (Val None, st1)"
      "obj st1 = put_provider_status (Some (enc_ProviderStatus (libCodec (envLib E)) ?ps)) t (obj st)"
    using echoed_setProviderStatus [OF assms(3,4)] by blast
  let ?pid = "ProviderID_String (envUuid E) (NewProviderID org (TenantID spec) (SiteID spec) u)"
  let ?t1 = "t\<lparr>tmProviderStatus := Some (Some (enc_ProviderStatus (libCodec (envLib E)) ?ps))\<rparr>"
  have body: "objBody (obj st1) = MachineBody ?t1" by (simp add: 1(2) put_provider_status_def)
  obtain st2 where 2: "setProviderID E ?pid st1 = (Val None, st2)"
      "obj st2 = (obj st1)\<lparr>objBody := MachineBody (?t1\<lparr>tmProviderID := Some ?pid\<rparr>)\<rparr>"
    using echoed_setProviderID [OF assms(3) body] by blast
  have run: "finish_create E a c org spec inst st =
      guardp (if DpuExtensionServices spec \<noteq> [] then deployDpuExtensionServices a c org i spec else ret None)
         Some (seqp (metricp MachinesManagedInc)
           (seqp (eventf a EventNormal ''Created'' (''Created instance '' @ i)) (ret None))) st2"
    using i u 1(1) 2(1) by (simp add: finish_create_def run_andthen run_guardp run_readext Let_def)
  have "obj st2 = put_provider_status (Some (enc_ProviderStatus (libCodec (envLib E)) ?ps))
      (t\<lparr>tmProviderID := Some ?pid\<rparr>) (obj st)"
    by (simp add: 1(2) 2(2) put_provider_status_def)
  moreover have "distinct (map fst (psHealthLabels ?ps))"
    by (simp add: created_status_def zero_status_def)
  ultimately have read: "getProviderStatus (envLib E) (obj st2)
      = Inr (?ps\<lparr>psConditions := map norm (psConditions ?ps)\<rparr>)"
    using getProviderStatus_put [OF assms(2)] by presburger
  have parse: "ParseProviderID (envUuid E) ?pid = Inr (NewProviderID org (TenantID spec) (SiteID spec) u)"
    using assms(5-7) by (intro uuid_codec.parse_String [OF assms(1)]) (simp add: pid_wf_def NewProviderID_def)
  have id: "provider_id (obj st2) = Some ?pid" by (simp add: 2(2) provider_id_def)
  show thesis
    by (rule that [OF run id parse read]) (simp_all add: created_status_def zero_status_def i)
qed

text \<open>What must have gone well for a creation to report success.\<close>

lemma finish_create_success:
  assumes "finish_create E a c org spec inst st = (Val None, st')"
  obtains i u st1 st2 where "instId inst = Some i" and "uuid_parse (envUuid E) i = Inr u"
    and "setProviderStatus E (created_status (envLib E) (envNow E (ext st)) i inst) st = (Val None, st1)"
    and "setProviderID E (ProviderID_String (envUuid E) (NewProviderID org (TenantID spec) (SiteID spec) u)) st1
      = (Val None, st2)"
    and "obj st' = obj st2"
proof -
  obtain i where i: "instId inst = Some i"
    using assms by (cases "instId inst") (simp_all add: finish_create_def run_simps)
  let ?ps = "created_status (envLib E) (envNow E (ext st)) i inst"
  obtain st1 where 1: "setProviderStatus E ?ps st = (Val None, st1)"
    using assms i by (cases "setProviderStatus E ?ps st")
      (auto simp: finish_create_def run_simps split: res.splits option.splits)
  obtain u where u: "uuid_parse (envUuid E) i = Inr u"
    using assms i 1 by (cases "uuid_parse (envUuid E) i") (auto simp: finish_create_def run_simps)
  let ?id = "ProviderID_String (envUuid E) (NewProviderID org (TenantID spec) (SiteID spec) u)"
  obtain st2 where 2: "setProviderID E ?id st1 = (Val None, st2)"
    using assms i u 1 by (cases "setProviderID E ?id st1")
      (auto simp: finish_create_def run_simps split: res.splits option.splits)
  let ?rest = "guardp (if DpuExtensionServices spec \<noteq> [] then deployDpuExtensionServices a c org i spec else ret None)
      Some (seqp (metricp MachinesManagedInc)
        (seqp (eventf a EventNormal ''Created'' (''Created instance '' @ i)) (ret None)))"
  have "?rest st2 = (Val None, st')"
    using assms i u 1 2 by (simp add: finish_create_def run_andthen run_guardp run_readext Let_def)
  moreover have "keeps (\<lambda>m. m) ?rest" unfolding deployDpuExtensionServices_def by (intro keeps_intros)
  ultimately have "obj st' = obj st2" using keepsD [of "\<lambda>m. m" ?rest st2] by simp
  with i u 1 2 show thesis by (rule that)
qed

text \<open>C8. A creation that reports success has recorded the instance: the machine's status names it, so
  that the next reconcile finds it, with its addresses; and the provider ID is that of organisation,
  tenant, site and the instance's UUID, which parses back to them exactly when none of the three
  names has a slash, and otherwise does not parse.\<close>

theorem created_instance_is_recorded:
  assumes "uuid_codec (envUuid E)" and "codec_ok (libCodec (envLib E)) norm" and "truthful (envKube E)"
    and "objBody (obj st) = MachineBody t"
    and "finish_create E a c org spec inst st = (Val None, st')"
  shows "\<exists>i u pid ps. instId inst = Some i \<and> uuid_parse (envUuid E) i = Inr u
    \<and> provider_id (obj st') = Some pid
    \<and> (\<forall>p. ParseProviderID (envUuid E) pid = Inr p
         \<longleftrightarrow> p = NewProviderID org (TenantID spec) (SiteID spec) u
           \<and> no_slash org \<and> no_slash (TenantID spec) \<and> no_slash (SiteID spec))
    \<and> getProviderStatus (envLib E) (obj st') = Inr ps \<and> psInstanceID ps = Some i
    \<and> psAddresses ps = instance_addresses inst"
proof -
  obtain i u st1 st2 where i: "instId inst = Some i" and u: "uuid_parse (envUuid E) i = Inr u"
    and 1: "setProviderStatus E (created_status (envLib E) (envNow E (ext st)) i inst) st = (Val None, st1)"
    and 2: "setProviderID E (ProviderID_String (envUuid E) (NewProviderID org (TenantID spec) (SiteID spec) u)) st1
        = (Val None, st2)"
    and 3: "obj st' = obj st2"
    using finish_create_success [OF assms(5)] .
  let ?ps = "created_status (envLib E) (envNow E (ext st)) i inst"
  let ?id = "NewProviderID org (TenantID spec) (SiteID spec) u"
  let ?t1 = "t\<lparr>tmProviderStatus := Some (Some (enc_ProviderStatus (libCodec (envLib E)) ?ps))\<rparr>"
  note o1 = written_setProviderStatus [OF assms(3,4) 1]
  have body: "objBody (obj st1) = MachineBody ?t1" by (simp add: o1 put_provider_status_def)
  note o2 = written_setProviderID [OF assms(3) body 2]
  have "obj st' = put_provider_status (Some (enc_ProviderStatus (libCodec (envLib E)) ?ps))
      (t\<lparr>tmProviderID := Some (ProviderID_String (envUuid E) ?id)\<rparr>) (obj st)"
    by (simp add: 3 o1 o2 put_provider_status_def)
  moreover have "distinct (map fst (psHealthLabels ?ps))"
    by (simp add: created_status_def zero_status_def)
  ultimately have "getProviderStatus (envLib E) (obj st') = Inr (?ps\<lparr>psConditions := map norm (psConditions ?ps)\<rparr>)"
    using getProviderStatus_put [OF assms(2)] by presburger
  moreover have "provider_id (obj st') = Some (ProviderID_String (envUuid E) ?id)"
    by (simp add: 3 o2 provider_id_def)
  moreover have "ParseProviderID (envUuid E) (ProviderID_String (envUuid E) ?id) = Inr p
      \<longleftrightarrow> p = ?id \<and> no_slash org \<and> no_slash (TenantID spec) \<and> no_slash (SiteID spec)" for p
    unfolding uuid_codec.parse_String_iff [OF assms(1)] by (auto simp: pid_wf_def NewProviderID_def)
  moreover have "psInstanceID (?ps\<lparr>psConditions := map norm (psConditions ?ps)\<rparr>) = Some i"
      "psAddresses (?ps\<lparr>psConditions := map norm (psConditions ?ps)\<rparr>) = instance_addresses inst"
    by (simp_all add: created_status_def zero_status_def i)
  ultimately show ?thesis using i u by blast
qed

theorem created_instance_is_recorded_witness:
  "\<exists>pid. provider_id (obj (snd (finish_create ref_env ref_actuator ref_client ''org'' ref_spec
        (ref_instance 1) (ref_state ref_world0)))) = Some pid
    \<and> ParseProviderID ref_uuid pid = Inr (NewProviderID ''org'' ''8'' ''7'' 1)"
proof -
  have "fst (finish_create ref_env ref_actuator ref_client ''org'' ref_spec (ref_instance 1)
      (ref_state ref_world0)) = Val None"
    by (simp add: finish_create_def ref_instance_def run_simps metricp_def eventf_def
        setProviderStatus_def setProviderID_def kube_update_def kube_status_update_def
        put_provider_status_def Let_def)
  then obtain st' where *: "finish_create ref_env ref_actuator ref_client ''org'' ref_spec
      (ref_instance 1) (ref_state ref_world0) = (Val None, st')"
    by (metis prod.collapse)
  have "uuid_codec (envUuid ref_env)" by (simp add: ref_uuids.uuid_codec_axioms)
  from created_instance_is_recorded [OF this ref_env_codec echoes_truthful [OF ref_kube_echoes] _ *] *
  show ?thesis by (auto simp: no_slash_def ref_instance_def)
qed

text \<open>C35. When the DPU services of a new instance cannot be deployed, the creation fails although the
  instance is made and recorded: the machine's status names it, so the next reconcile takes it as
  existing and updates it, and an update never deploys DPU services.\<close>

theorem failed_dpu_deployment_leaves_instance:
  assumes "uuid_codec (envUuid E)" and "codec_ok (libCodec (envLib E)) norm" and "echoes (envKube E)"
    and "objBody (obj st) = MachineBody t"
    and "no_slash org" and "no_slash (TenantID spec)" and "no_slash (SiteID spec)"
    and "instId inst = Some i" and "uuid_parse (envUuid E) i = Inr u"
    and "DpuExtensionServices spec \<noteq> []"
    and "\<And>req s. snd (snd (fst (UpdateInstance c org i req s))) = Some e"
  shows "\<exists>st' ps. finish_create E a c org spec inst st
      = (Val (Some (ErrWrap ''failed to deploy DPU extension services: '' e)), st')
    \<and> getProviderStatus (envLib E) (obj st') = Inr ps \<and> psInstanceID ps = Some i"
proof -
  from finish_create_recorded [OF assms(1-9), of a c] obtain st2 ps where
    2: "finish_create E a c org spec inst st =
      guardp (if DpuExtensionServices spec \<noteq> [] then deployDpuExtensionServices a c org i spec else ret None)
         Some (seqp (metricp MachinesManagedInc)
           (seqp (eventf a EventNormal ''Created'' (''Created instance '' @ i)) (ret None))) st2"
      "getProviderStatus (envLib E) (obj st2) = Inr ps" "psInstanceID ps = Some i" .
  let ?r = "UpdateInstance c org i
    \<lparr>iurDpuExtensionServiceDeployments = map dpu_deployment (DpuExtensionServices spec)\<rparr> (ext st2)"
  obtain x resp s where r: "?r = ((x, resp, Some e), s)"
    using assms(11) by (metis surj_pair fst_conv snd_conv)
  have "deployDpuExtensionServices a c org i spec st2 =
      (Val (Some (ErrWrap ''failed to deploy DPU extension services: '' e)),
       snd (deployDpuExtensionServices a c org i spec st2))
    \<and> obj (snd (deployDpuExtensionServices a c org i spec st2)) = obj st2"
    by (simp add: deployDpuExtensionServices_def call_UpdateInstance_def run_simps r metricp_def eventf_def)
  then show ?thesis using 2 assms(10) by (auto simp: run_guardp split: prod.split)
qed

definition ref_dpu_spec :: NicoMachineProviderSpec where
  "ref_dpu_spec = ref_spec\<lparr>DpuExtensionServices := [\<lparr>dpuServiceID = ''3'', dpuVersion = []\<rparr>]\<rparr>"

definition ref_dpu_client :: "ref_world NicoClientInterface" where
  "ref_dpu_client = ref_client\<lparr>UpdateInstance := (\<lambda>org i req w. ((None, None, Some (ErrText ''timeout'')), w))\<rparr>"

theorem failed_dpu_deployment_leaves_instance_witness:
  "fst (finish_create ref_env ref_actuator ref_dpu_client ''org'' ref_dpu_spec (ref_instance 1)
     (ref_state ref_world0))
   = Val (Some (ErrWrap ''failed to deploy DPU extension services: '' (ErrText ''timeout'')))"
proof -
  have "uuid_codec (envUuid ref_env)" by (simp add: ref_uuids.uuid_codec_axioms)
  from failed_dpu_deployment_leaves_instance [OF this ref_env_codec ref_kube_echoes,
      of "ref_state ref_world0" ref_typed "''org''" ref_dpu_spec "ref_instance 1" "show_nat 1" 1
        ref_dpu_client "ErrText ''timeout''" ref_actuator]
  show ?thesis
    by (auto simp: no_slash_def ref_dpu_spec_def ref_dpu_client_def ref_instance_def)
qed

text \<open>An invalid provider spec stops a creation before it reaches anything outside: no call is
  made, the machine is left as it is, and the error says what is wrong.\<close>

theorem invalid_spec_calls_nothing:
  assumes "getProviderSpec (envLib E) (obj st) = Inr spec" and "objBody (obj st) \<noteq> NotClientObject"
    and "actuator_validateProviderSpec spec = Some e"
  shows "fst (Create E a st) = Val (Some (ErrWrap ''invalid provider spec: '' e))
    \<and> obj (snd (Create E a st)) = obj st \<and> ext (snd (Create E a st)) = ext st
    \<and> new_actions (Create E a) st =
        (if actRecorder a
         then [Event EventWarning ''InvalidSpec'' (''Invalid provider spec: '' @ err_string e)] else [])"
  using assms by (simp add: Create_def run_simps eventf_def new_actions_def)

theorem invalid_spec_calls_nothing_witness:
  "fst (Create (ref_env\<lparr>envLib := ref_lib\<lparr>libNestedFieldCopy := (\<lambda>_ _. Inr (Some (JObj [])))\<rparr>\<rparr>) ref_actuator
     (ref_state (ref_world0\<lparr>rwMachine := ref_machine\<lparr>objBody := UnstructuredBody JNull\<rparr>\<rparr>)))
   = Val (Some (ErrWrap ''invalid provider spec: ''
       (ErrText ''either instanceTypeId or machineId is required'')))"
proof -
  let ?L = "ref_lib\<lparr>libNestedFieldCopy := (\<lambda>_ _. Inr (Some (JObj [])))\<rparr>"
  let ?w = "ref_world0\<lparr>rwMachine := ref_machine\<lparr>objBody := UnstructuredBody JNull\<rparr>\<rparr>"
  have "getProviderSpec (envLib (ref_env\<lparr>envLib := ?L\<rparr>)) (obj (ref_state ?w)) = Inr zero_spec"
    by (simp add: getProviderSpec_def dec_ProviderSpec_def unmarshal_def)
  moreover have "actuator_validateProviderSpec zero_spec
      = Some (ErrText ''either instanceTypeId or machineId is required'')"
    by (simp add: actuator_validateProviderSpec_def zero_spec_def)
  ultimately show ?thesis
    by (subst invalid_spec_calls_nothing [THEN conjunct1]) simp_all
qed

end
