(* ===== verification/ActuatorUpdate.thy ===== *)
theory ActuatorUpdate
  imports ActuatorCreate
begin

text \<open>
  \<open>Update\<close> of pkg/actuators/machine/actuator.go with its helpers \<open>setTopologyLabels\<close>,
  \<open>checkStatusHistory\<close>, \<open>emitMachineStatusHistory\<close> and \<open>checkProvisioningTimeout\<close>. The durations
  are constants in nanoseconds; \<open>time_since\<close> saturates as \<open>time.Time.Sub\<close> does.
\<close>

section \<open>Topology labels\<close>

definition topoLabelZone :: string where "topoLabelZone = ''topology.kubernetes.io/zone''"
definition topoLabelInstanceType :: string where
  "topoLabelInstanceType = ''node.kubernetes.io/instance-type''"
definition topoLabelMachineID :: string where "topoLabelMachineID = ''infra.nvidia.com/machine-id''"
definition topoLabelNVLinkPartition :: string where
  "topoLabelNVLinkPartition = ''infra.nvidia.com/nvlink-partition''"
definition topoLabelNVLinkDomain :: string where
  "topoLabelNVLinkDomain = ''infra.nvidia.com/nvlink-domain''"
definition topoLabelIBPartition :: string where
  "topoLabelIBPartition = ''infra.nvidia.com/infiniband-partition''"

lemmas topo_label_defs =
  topoLabelZone_def topoLabelInstanceType_def topoLabelMachineID_def
  topoLabelNVLinkPartition_def topoLabelNVLinkDomain_def topoLabelIBPartition_def

definition opt_entry :: "string \<Rightarrow> string option \<Rightarrow> (string \<times> string) list" where
  "opt_entry k v = (case v of None \<Rightarrow> [] | Some x \<Rightarrow> [(k, x)])"

text \<open>The calls of \<open>set\<close> the function makes, in order.\<close>

definition topology_entries :: "Instance \<Rightarrow> NicoMachineProviderSpec \<Rightarrow> (string \<times> string) list" where
  "topology_entries inst spec =
     opt_entry topoLabelZone (instSiteId inst)
     @ (if InstanceTypeID spec \<noteq> [] then [(topoLabelInstanceType, InstanceTypeID spec)] else [])
     @ opt_entry topoLabelMachineID (instMachineId inst)
     @ (case instNvLinkInterfaces inst of
          [] \<Rightarrow> []
        | nvl # _ \<Rightarrow> opt_entry topoLabelNVLinkPartition (nvliLogicalPartitionId nvl)
                     @ opt_entry topoLabelNVLinkDomain (nvliDomainId nvl))
     @ (case instInfinibandInterfaces inst of
          [] \<Rightarrow> []
        | ib # _ \<Rightarrow> opt_entry topoLabelIBPartition ib)"

definition label_value :: "string gomap \<Rightarrow> string \<Rightarrow> string" where
  "label_value ls k = (case gomap_get ls k of None \<Rightarrow> [] | Some v \<Rightarrow> v)"

fun apply_labels :: "(string \<times> string) list \<Rightarrow> string gomap \<times> bool \<Rightarrow> string gomap \<times> bool" where
  "apply_labels [] st = st"
| "apply_labels ((k, v) # kvs) (labels, changed) =
     (if v \<noteq> [] \<and> label_value labels k \<noteq> v then apply_labels kvs (gomap_set k v labels, True)
      else apply_labels kvs (labels, changed))"

definition current_labels :: "MachineObject \<Rightarrow> string gomap" where
  "current_labels m = (case omLabels (objMeta m) of None \<Rightarrow> [] | Some ls \<Rightarrow> ls)"

definition setTopologyLabels ::
  "Instance \<Rightarrow> NicoMachineProviderSpec \<Rightarrow> MachineObject \<Rightarrow> bool \<times> MachineObject" where
  "setTopologyLabels inst spec m =
     (let (labels, changed) = apply_labels (topology_entries inst spec) (current_labels m, False)
      in (changed, if changed then set_labels labels m else m))"

section \<open>Time\<close>

definition minute :: time where "minute = 60 * 1000000000"
definition provisioningStuckThreshold :: time where "provisioningStuckThreshold = 5 * minute"
definition ProvisioningTimeout :: time where "ProvisioningTimeout = 30 * minute"

definition time_since :: "time \<Rightarrow> time \<Rightarrow> time" where
  "time_since now t = max min_int64 (min max_int64 (now - t))"

section \<open>Status history\<close>

definition history_note :: "KubeLib \<Rightarrow> string \<Rightarrow> StatusDetail \<Rightarrow> string" where
  "history_note L prefix entry =
     (let status = (case sdStatus entry of None \<Rightarrow> ''unknown'' | Some s \<Rightarrow> s);
          msg = (case sdMessage entry of None \<Rightarrow> [] | Some s \<Rightarrow> s);
          ts = (case sdCreated entry of None \<Rightarrow> [] | Some t \<Rightarrow> libRFC3339 L t)
      in ''['' @ ts @ ''] '' @ prefix @ status @ (if msg \<noteq> [] then '': '' @ msg else []))"

definition emitMachineStatusHistory ::
  "('s, 'u) env \<Rightarrow> 's Actuator \<Rightarrow> 's NicoClientInterface \<Rightarrow> string \<Rightarrow> string \<Rightarrow> ('s, unit) act" where
  "emitMachineStatusHistory E a c orgName machineID =
     (if \<not> actRecorder a then ret ()
      else
        andthen (call_GetMachineStatusHistory c orgName machineID) (\<lambda>(history, httpResp, err).
          if err \<noteq> None \<or> \<not> resp_is httpResp 200 \<or> history = [] then ret ()
          else forp history (\<lambda>entry. eventf a EventWarning ''MachineStatusHistory''
                 (history_note (envLib E) (''machine '' @ machineID @ '': '') entry))))"

text \<open>Whether the first entry that tells when provisioning began is older than the threshold.\<close>

fun provisioning_stuck :: "time \<Rightarrow> StatusDetail list \<Rightarrow> bool" where
  "provisioning_stuck now [] = False"
| "provisioning_stuck now (e # es) =
     (if sdStatus e = Some INSTANCESTATUS_PROVISIONING \<and> sdCreated e \<noteq> None then
        (case sdCreated e of
           None \<Rightarrow> False
         | Some t \<Rightarrow> time_since now t > provisioningStuckThreshold)
      else provisioning_stuck now es)"

definition record_history ::
  "('s, 'u) env \<Rightarrow> 's Actuator \<Rightarrow> StatusDetail list \<Rightarrow> ('s, unit) act" where
  "record_history E a history =
     forp history (\<lambda>entry. eventf a EventWarning ''StatusHistory'' (history_note (envLib E) [] entry))"

definition checkStatusHistory ::
  "('s, 'u) env \<Rightarrow> 's Actuator \<Rightarrow> 's NicoClientInterface \<Rightarrow> string \<Rightarrow> Instance \<Rightarrow> ('s, unit) act" where
  "checkStatusHistory E a c orgName inst =
     (case instStatus inst of
        None \<Rightarrow> ret ()
      | Some status \<Rightarrow>
          if \<not> actRecorder a then ret ()
          else if status \<noteq> INSTANCESTATUS_ERROR \<and> status \<noteq> INSTANCESTATUS_PROVISIONING then ret ()
          else
            (case instId inst of
               None \<Rightarrow> panic
             | Some instanceID \<Rightarrow>
                 andthen (call_GetInstanceStatusHistory c orgName instanceID)
                   (\<lambda>(history, httpResp, err).
                   if err \<noteq> None \<or> \<not> resp_is httpResp 200 \<or> history = [] then ret ()
                   else if status = INSTANCESTATUS_PROVISIONING then
                     andthen (readext (envNow E)) (\<lambda>now.
                       if \<not> provisioning_stuck now history then ret ()
                       else
                         seqp (eventf a EventWarning ''ProvisioningStuck''
                                 ''Instance has been in Provisioning state for more than 5m0s'')
                         (seqp
                           (case (if instMachineIdSet inst then instMachineId inst else None) of
                              None \<Rightarrow> ret ()
                            | Some machineID \<Rightarrow>
                                whenp (machineID \<noteq> [])
                                  (emitMachineStatusHistory E a c orgName machineID))
                         (record_history E a history)))
                   else record_history E a history)))"

section \<open>The provisioning timeout\<close>

fun find_provisioned :: "Condition list \<Rightarrow> Condition option" where
  "find_provisioned [] = None"
| "find_provisioned (c # cs) =
     (if cType c = condInstanceProvisioned \<and> cLastTransitionTime c \<noteq> 0 then Some c
      else find_provisioned cs)"

definition timeout_applies :: "InstanceStatus \<Rightarrow> bool" where
  "timeout_applies status \<longleftrightarrow> status = INSTANCESTATUS_PENDING \<or> status = INSTANCESTATUS_PROVISIONING
     \<or> status = INSTANCESTATUS_CONFIGURING"

definition checkProvisioningTimeout ::
  "('s, 'u) env \<Rightarrow> 's Actuator \<Rightarrow> Instance \<Rightarrow> NicoMachineProviderStatus
     \<Rightarrow> ('s, NicoMachineProviderStatus) act" where
  "checkProvisioningTimeout E a inst ps =
     (case instStatus inst of
        None \<Rightarrow> ret ps
      | Some status \<Rightarrow>
          if \<not> timeout_applies status then ret ps
          else
            (case find_provisioned (psConditions ps) of
               None \<Rightarrow> ret ps
             | Some c \<Rightarrow>
                 andthen (readext (envNow E)) (\<lambda>now.
                   if time_since now (cLastTransitionTime c) > ProvisioningTimeout then
                     seqp (modobj (set_failure ''ProvisioningTimeout''
                             (''Instance stuck in '' @ status @ '' state for more than 30m0s'')))
                     (seqp (eventf a EventWarning ''ProvisioningTimeout''
                        ''Instance has not reached Ready state after 30m0s, setting FailureReason'')
                     (ret (setCondition (envLib E) now ''InstanceReady'' ConditionFalse
                        ''ProvisioningTimeout''
                        ''Instance has not reached Ready state after 30m0s'' ps)))
                   else ret ps)))"

section \<open>Update\<close>

definition record_provision_duration ::
  "('s, 'u) env \<Rightarrow> InstanceStatus \<Rightarrow> NicoMachineProviderStatus \<Rightarrow> ('s, unit) act" where
  "record_provision_duration E status ps =
     (if status = INSTANCESTATUS_READY then
        (case find_provisioned (psConditions ps) of
           None \<Rightarrow> ret ()
         | Some c \<Rightarrow> andthen (readext (envNow E)) (\<lambda>now.
             metricp (InstanceProvisionDuration [] (time_since now (cLastTransitionTime c)))))
      else ret ())"

text \<open>The status as the instance's state and machine say it.\<close>

definition track_state ::
  "('s, 'u) env \<Rightarrow> Instance \<Rightarrow> NicoMachineProviderStatus \<Rightarrow> ('s, NicoMachineProviderStatus) act" where
  "track_state E inst ps =
     andthen
       (case instStatus inst of
          None \<Rightarrow> ret ps
        | Some status \<Rightarrow>
            andthen (readext (envNow E)) (\<lambda>now.
            let ps' = setInstanceStateConditions (envLib E) now status
                        (ps\<lparr>psInstanceState := Some status\<rparr>)
            in seqp (record_provision_duration E status ps') (ret ps')))
       (\<lambda>ps1. ret (case instMachineId inst of
                      None \<Rightarrow> ps1
                    | Some mid \<Rightarrow> ps1\<lparr>psMachineID := Some mid\<rparr>))"

text \<open>Everything after the instance has been read.\<close>

definition apply_instance ::
  "('s, 'u) env \<Rightarrow> 's Actuator \<Rightarrow> 's NicoClientInterface \<Rightarrow> string \<Rightarrow> NicoMachineProviderSpec
     \<Rightarrow> NicoMachineProviderStatus \<Rightarrow> Instance \<Rightarrow> ('s, go_err option) act" where
  "apply_instance E a c orgName spec ps inst =
     andthen (track_state E inst ps) (\<lambda>ps1.
     andthen getobj (\<lambda>m.
     guardp
       (if fst (setTopologyLabels inst spec m)
        then seqp (modobj (\<lambda>_. snd (setTopologyLabels inst spec m))) (kube_update E)
        else ret None)
       (\<lambda>e. Some (ErrWrap ''failed to update machine labels: '' e))
     (andthen (updateMachineHealth E a c orgName inst ps1) (\<lambda>ps2.
      seqp (checkStatusHistory E a c orgName inst)
      (andthen (checkProvisioningTimeout E a inst ps2) (\<lambda>ps3.
       guardp (setProviderStatus E (ps3\<lparr>psAddresses := instance_addresses inst\<rparr>))
         (\<lambda>e. Some (ErrWrap ''failed to update provider status: '' e))
       (ret None)))))))"

definition Update :: "('s, 'u) env \<Rightarrow> 's Actuator \<Rightarrow> ('s, go_err option) act" where
  "Update E a =
     andthen getobj (\<lambda>m.
     if objBody m = NotClientObject then ret (Some (ErrText ''machine is not a client.Object''))
     else
       (case getProviderSpec (envLib E) m of
          Inl e \<Rightarrow> ret (Some (ErrWrap ''failed to get provider spec: '' e))
        | Inr spec \<Rightarrow>
            (case getProviderStatus (envLib E) m of
               Inl e \<Rightarrow> ret (Some (ErrWrap ''failed to get provider status: '' e))
             | Inr ps \<Rightarrow>
                 (case psInstanceID ps of
                    None \<Rightarrow> ret (Some (ErrText ''instance ID not set in provider status''))
                  | Some instanceID \<Rightarrow>
                      tryp (getNicoClient E a spec)
                        (\<lambda>e. Some (ErrWrap ''failed to create NICo client: '' e)) (\<lambda>(c, orgName).
                      andthen (call_GetInstance c orgName instanceID) (\<lambda>(inst, httpResp, err).
                      seqp (metricp (APILatency ''GetInstance''))
                      (case err of
                         Some e \<Rightarrow> ret (Some (ErrWrap ''failed to get instance: '' e))
                       | None \<Rightarrow>
                           (case inst of
                              None \<Rightarrow>
                                (case httpResp of
                                   None \<Rightarrow> panic
                                 | Some h \<Rightarrow> ret (Some (ErrText
                                     (''get instance returned no data, status code: ''
                                        @ show_int (StatusCode h)))))
                            | Some i \<Rightarrow> apply_instance E a c orgName spec ps i))))))))"

section \<open>What an update emits\<close>

lemma emits_Update_api:
  "emits (\<lambda>x. \<not> is_create x \<and> \<not> is_delete x \<and> \<not> is_dpu_update x) (Update E a)"
  unfolding Update_def apply_instance_def track_state_def record_provision_duration_def
    checkStatusHistory_def emitMachineStatusHistory_def record_history_def
    checkProvisioningTimeout_def Let_def
  by (intro emits_intros; (simp; fail)?) (auto dest: is_read_no_write elim!: is_health_action.elims)

section \<open>Topology labels\<close>

definition wanted :: "(string \<times> string) list \<Rightarrow> (string \<times> string) list" where
  "wanted kvs = filter (\<lambda>(k, v). v \<noteq> []) kvs"

lemma wanted_simps [simp]:
  "wanted [] = []" "wanted ((k, v) # kvs) = (if v \<noteq> [] then (k, v) # wanted kvs else wanted kvs)"
  by (simp_all add: wanted_def)

lemma map_of_wanted: "map_of (wanted kvs) k = Some v \<Longrightarrow> (k, v) \<in> set kvs \<and> v \<noteq> []"
  by (auto simp: wanted_def dest: map_of_SomeD)

lemma label_value_eq: "v \<noteq> [] \<Longrightarrow> label_value ls k = v \<longleftrightarrow> gomap_get ls k = Some v"
  by (auto simp: label_value_def split: option.split)

lemma apply_labels_get:
  "distinct (map fst kvs) \<Longrightarrow>
     gomap_get (fst (apply_labels kvs (ls, ch))) k =
       (case map_of (wanted kvs) k of Some v \<Rightarrow> Some v | None \<Rightarrow> gomap_get ls k)"
proof (induction kvs arbitrary: ls ch)
  case (Cons kv kvs)
  obtain k' v where kv: "kv = (k', v)" by (cases kv)
  have "map_of (wanted kvs) k' = None"
    using Cons.prems kv by (auto simp: wanted_def map_of_eq_None_iff)
  with Cons kv show ?case by (auto simp: label_value_eq split: option.split)
qed simp

lemma apply_labels_changed:
  "distinct (map fst kvs) \<Longrightarrow>
     snd (apply_labels kvs (ls, ch)) \<longleftrightarrow> ch \<or> list_ex (\<lambda>(k, v). gomap_get ls k \<noteq> Some v) (wanted kvs)"
proof (induction kvs arbitrary: ls ch)
  case (Cons kv kvs)
  obtain k' v where kv: "kv = (k', v)" by (cases kv)
  have "(k, w) \<in> set (wanted kvs) \<Longrightarrow> k' \<noteq> k" for k w
    using Cons.prems kv by (force simp: wanted_def)
  then have other: "list_ex (\<lambda>(k, w). gomap_get (gomap_set k' v ls) k \<noteq> Some w) (wanted kvs)
      \<longleftrightarrow> list_ex (\<lambda>(k, w). gomap_get ls k \<noteq> Some w) (wanted kvs)"
    unfolding list_ex_iff by (intro bex_cong refl) auto
  have IH: "snd (apply_labels kvs (ls', ch'))
      \<longleftrightarrow> ch' \<or> list_ex (\<lambda>(k, w). gomap_get ls' k \<noteq> Some w) (wanted kvs)" for ls' ch'
    using Cons.IH Cons.prems by simp
  show ?case
    by (cases "v = []"; cases "gomap_get ls k' = Some v") (simp_all add: kv IH other label_value_eq)
qed simp

lemma apply_labels_unchanged:
  "list_all (\<lambda>(k, v). gomap_get ls k = Some v) (wanted kvs) \<Longrightarrow> apply_labels kvs (ls, ch) = (ls, ch)"
  by (induction kvs) (auto simp: label_value_eq split: if_splits)

lemma topology_keys_distinct: "distinct (map fst (topology_entries inst spec))"
proof -
  have "distinct [topoLabelZone, topoLabelInstanceType, topoLabelMachineID, topoLabelNVLinkPartition,
      topoLabelNVLinkDomain, topoLabelIBPartition]"
    by (simp add: topo_label_defs)
  then show ?thesis
    by (auto simp: topology_entries_def opt_entry_def split: option.split list.split)
qed

section \<open>What the steps of an update return\<close>

text \<open>The part of the status that only the instance's state decides.\<close>

definition reports_state :: "Instance \<Rightarrow> string option \<Rightarrow> NicoMachineProviderStatus \<Rightarrow> bool" where
  "reports_state inst iid ps \<longleftrightarrow> psInstanceID ps = iid \<and> distinct (map fst (psHealthLabels ps))
     \<and> (\<forall>s. instStatus inst = Some s \<longrightarrow> psInstanceState ps = Some s
          \<and> cond_status ''InstanceReady'' ps
            = Some (if s = INSTANCESTATUS_READY then ConditionTrue else ConditionFalse))
     \<and> (\<forall>mid. instMachineId inst = Some mid \<longrightarrow> psMachineID ps = Some mid)"

lemma cond_status_fields [simp]:
  "cond_status t (ps\<lparr>psMachineID := x\<rparr>) = cond_status t ps"
  "cond_status t (ps\<lparr>psInstanceState := y\<rparr>) = cond_status t ps"
  "cond_status t (ps\<lparr>psAddresses := z\<rparr>) = cond_status t ps"
  by (simp_all add: cond_status_def)

lemma track_state_reports:
  assumes "conditions_ok (envLib E)" and "distinct (map fst (psHealthLabels ps))"
  shows "returns (reports_state inst (psInstanceID ps)) (track_state E inst ps)"
proof -
  let ?P = "\<lambda>ps1. psInstanceID ps1 = psInstanceID ps \<and> distinct (map fst (psHealthLabels ps1))
    \<and> (\<forall>s. instStatus inst = Some s \<longrightarrow> psInstanceState ps1 = Some s
          \<and> cond_status ''InstanceReady'' ps1
            = Some (if s = INSTANCESTATUS_READY then ConditionTrue else ConditionFalse))"
  show ?thesis
    unfolding track_state_def
    by (rule returns_andthen [of ?P])
      (auto intro!: returns_intros simp: Let_def assms(2) InstanceReady_after_state [OF assms(1)]
         reports_state_def split: option.split)
qed

lemma InstanceReady_names [simp]:
  "condMachineHealthy \<noteq> ''InstanceReady''" "condNicoFaultRemediation \<noteq> ''InstanceReady''"
  by (simp_all add: cond_name_defs)

lemma reports_state_setCondition:
  "conditions_ok L \<Longrightarrow> ty \<noteq> ''InstanceReady'' \<Longrightarrow> reports_state inst iid ps \<Longrightarrow>
     reports_state inst iid (setCondition L now ty s r m ps)"
  by (simp add: reports_state_def cond_status_setCondition)

lemma reports_state_labels:
  "distinct (map fst ls) \<Longrightarrow> reports_state inst iid ps \<Longrightarrow> reports_state inst iid (set_health_labels ls ps)"
  by (simp add: reports_state_def set_health_labels_def cond_status_def)

lemma health_keeps_state:
  assumes "conditions_ok L" and "reports_state inst iid ps"
  shows "reports_state inst iid (report_health L now as ps)"
    and "reports_state inst iid (jsonb_health L now as ps)"
proof -
  have "labelHealthy \<noteq> labelAlertCount" by (simp add: labelHealthy_def labelAlertCount_def)
  then have labels: "reports_state inst iid q \<Longrightarrow> reports_state inst iid (set_health_labels [(labelHealthy, h)] q)
      \<and> reports_state inst iid (set_health_labels [(labelHealthy, h), (labelAlertCount, n)] q)" for h n q
    by (simp add: reports_state_labels)
  have set: "reports_state inst iid (setCondition L now ty s r m q)"
    if "ty \<in> {condMachineHealthy, condNicoFaultRemediation}" "reports_state inst iid q" for ty s r m q
    using that InstanceReady_names by (intro reports_state_setCondition [OF assms(1)]) (fastforce simp: cond_name_defs, simp)
  note rules = health_rule [where P = "reports_state inst iid" and L = L and now = now and as = "as" and ps = ps,
      OF set labels assms(2)]
  show "reports_state inst iid (report_health L now as ps)" by (rule rules(1))
  show "reports_state inst iid (jsonb_health L now as ps)" by (rule rules(2))
qed

lemma updateMachineHealth_reports:
  assumes "conditions_ok (envLib E)" and "reports_state inst iid ps"
  shows "returns (reports_state inst iid) (updateMachineHealth E a c org inst' ps)"
proof -
  have reports: "returns (\<lambda>(b, q). reports_state inst iid q)
      (updateMachineHealthFromReports E a c org mid ps w)" for mid w
    unfolding updateMachineHealthFromReports_def
    by (intro returns_intros) (simp_all add: assms(2) health_keeps_state [OF assms])
  have jsonb: "reports_state inst iid q \<Longrightarrow>
      returns (reports_state inst iid) (updateMachineHealthFromJSONB E c org mid q)" for mid q
    unfolding updateMachineHealthFromJSONB_def
    by (intro returns_intros) (simp_all add: health_keeps_state [OF assms(1)])
  show ?thesis
    unfolding updateMachineHealth_def Let_def
    by (intro returns_case_option returns_if returns_ret assms(2) returns_andthen [OF reports])
      (auto intro!: returns_seqp returns_ret returns_andthen [OF jsonb])
qed

lemma checkProvisioningTimeout_reports:
  assumes "conditions_ok (envLib E)" and "reports_state inst iid ps"
  shows "returns (reports_state inst iid) (checkProvisioningTimeout E a inst ps)"
proof -
  have "reports_state inst iid (setCondition (envLib E) now ''InstanceReady'' ConditionFalse r m ps)"
    if "instStatus inst = Some s" "timeout_applies s" for now r m s
  proof -
    have "s \<noteq> INSTANCESTATUS_READY" using that(2) by (auto simp: timeout_applies_def instance_status_defs)
    then show ?thesis
      using assms(2) that by (simp add: reports_state_def cond_status_setCondition [OF assms(1)])
  qed
  then show ?thesis
    unfolding checkProvisioningTimeout_def using assms(2) by (intro returns_intros) auto
qed

text \<open>A status write whose content reads back as a status with the given property.\<close>

definition writes_status :: "KubeLib \<Rightarrow> (NicoMachineProviderStatus \<Rightarrow> bool) \<Rightarrow> action \<Rightarrow> bool" where
  "writes_status L P x \<longleftrightarrow>
     (case x of KubeStatusUpdate m \<Rightarrow> (\<exists>ps. getProviderStatus L m = Inr ps \<and> P ps) | _ \<Rightarrow> True)"

lemma writes_status_simps [simp]:
  "writes_status L P (Api ac)" "writes_status L P (KubeUpdate m)" "writes_status L P (Event t r n)"
  "writes_status L P (Metric me)" "writes_status L P (KubeGetSecret key)"
  by (simp_all add: writes_status_def)

lemma setProviderStatus_writes:
  assumes "codec_ok (libCodec (envLib E)) norm"
    and "nested_fields (libNestedFieldCopy (envLib E)) (libSetNestedField (envLib E))"
    and "distinct (map fst (psHealthLabels ps))" and "P (ps\<lparr>psConditions := map norm (psConditions ps)\<rparr>)"
  shows "emits (writes_status (envLib E) P) (setProviderStatus E ps)"
proof (rule emitsI)
  fix st :: "('a, MachineObject, action) st"
  let ?j = "enc_ProviderStatus (libCodec (envLib E)) ps"
  have typed: "writes_status (envLib E) P (KubeStatusUpdate (put_provider_status (Some ?j) t m))" for t m
    using getProviderStatus_put [OF assms(1,3)] assms(4) by (simp add: writes_status_def)
  have unstructured: "writes_status (envLib E) P (KubeStatusUpdate (m\<lparr>objBody := UnstructuredBody u'\<rparr>))"
    if "libSetNestedField (envLib E) u ?j [''status'', ''providerStatus''] = Inr u'" for u u' m
    using nested_fields.get_set [OF assms(2) that] assms(4)
      dec_enc_ProviderStatus [OF condition_codec.axioms(1) [OF assms(1)] assms(3)]
    by (simp add: writes_status_def getProviderStatus_def unmarshal_def)
  show "\<exists>es. trace (snd (setProviderStatus E ps st)) = trace st @ es
      \<and> list_all (writes_status (envLib E) P) es"
    by (auto simp: setProviderStatus_def kube_status_update_def run_simps Let_def typed unstructured
        split: machine_body.split sum.split)
qed

text \<open>What the label updates and the health check may do, beside the final status write.\<close>

lemma apply_instance_writes:
  assumes "conditions_ok (envLib E)" and "codec_ok (libCodec (envLib E)) norm"
    and "nested_fields (libNestedFieldCopy (envLib E)) (libSetNestedField (envLib E))"
    and "distinct (map fst (psHealthLabels ps))"
    and P: "\<And>q. reports_state inst (psInstanceID ps) q \<Longrightarrow>
      P (q\<lparr>psAddresses := instance_addresses inst, psConditions := map norm (psConditions q)\<rparr>)"
  shows "emits (writes_status (envLib E) P) (apply_instance E a c org spec ps inst)"
proof -
  let ?r = "reports_state inst (psInstanceID ps)"
  have wr: "emits (writes_status (envLib E) P)
      (setProviderStatus E (q\<lparr>psAddresses := instance_addresses inst\<rparr>))" if "?r q" for q
    using that P [OF that] by (intro setProviderStatus_writes [OF assms(2,3)])
      (simp_all add: reports_state_def)
  have quiet: "writes_status (envLib E) P x" if "is_health_action x" for x
    using that by (cases x) (simp_all add: writes_status_def)
  have track: "emits (writes_status (envLib E) P) (track_state E inst ps)"
    unfolding track_state_def record_provision_duration_def Let_def by (intro emits_intros; simp)
  have history: "emits (writes_status (envLib E) P) (checkStatusHistory E a c org inst)"
    unfolding checkStatusHistory_def emitMachineStatusHistory_def record_history_def
    by (intro emits_intros; simp)
  have timeout: "emits (writes_status (envLib E) P) (checkProvisioningTimeout E a inst q)" for q
    unfolding checkProvisioningTimeout_def by (intro emits_intros; simp)
  have last: "emits (writes_status (envLib E) P)
      (andthen (checkProvisioningTimeout E a inst q) (\<lambda>q'.
         guardp (setProviderStatus E (q'\<lparr>psAddresses := instance_addresses inst\<rparr>))
           (\<lambda>e. Some (ErrWrap ''failed to update provider status: '' e)) (ret None)))" if "?r q" for q
    by (rule emits_andthen_returns [OF timeout checkProvisioningTimeout_reports [OF assms(1) that]])
      (intro emits_guardp wr emits_ret)
  show ?thesis
    unfolding apply_instance_def
    by (rule emits_andthen_returns [OF track track_state_reports [OF assms(1,4)]])
      (intro emits_intros emits_andthen_returns [OF _ updateMachineHealth_reports [OF assms(1)]]
         history last; simp add: quiet)
qed

section \<open>Properties\<close>

text \<open>C19. An update neither makes nor deletes an instance and deploys nothing on it: all it changes on
  the NICo side is its own health report.\<close>

theorem update_never_provisions:
  "list_all (\<lambda>x. \<not> is_create x \<and> \<not> is_delete x \<and> \<not> is_dpu_update x) (new_actions (Update E a) st)"
  by (rule new_actions_emits [OF emits_Update_api])

text \<open>The topology labels: afterwards every label the instance and the spec have a value for has
  that value and every other label is as it was; a change is reported exactly when a label
  differed; nothing else of the machine changes, and a second run changes nothing.\<close>

theorem topology_labels_applied:
  "gomap_get (current_labels (snd (setTopologyLabels inst spec m))) k =
     (case map_of (wanted (topology_entries inst spec)) k of
        Some v \<Rightarrow> Some v | None \<Rightarrow> gomap_get (current_labels m) k)
   \<and> fst (setTopologyLabels inst spec m) =
       list_ex (\<lambda>(k, v). gomap_get (current_labels m) k \<noteq> Some v) (wanted (topology_entries inst spec))
   \<and> objBody (snd (setTopologyLabels inst spec m)) = objBody m
   \<and> setTopologyLabels inst spec (snd (setTopologyLabels inst spec m))
       = (False, snd (setTopologyLabels inst spec m))"
proof -
  let ?kvs = "topology_entries inst spec"
  obtain ls ch where ap: "apply_labels ?kvs (current_labels m, False) = (ls, ch)"
    by (cases "apply_labels ?kvs (current_labels m, False)")
  have ch: "ch \<longleftrightarrow> list_ex (\<lambda>(k, v). gomap_get (current_labels m) k \<noteq> Some v) (wanted ?kvs)"
    using apply_labels_changed [OF topology_keys_distinct, of inst spec "current_labels m" False] ap by simp
  have get: "gomap_get ls k = (case map_of (wanted ?kvs) k of Some v \<Rightarrow> Some v
      | None \<Rightarrow> gomap_get (current_labels m) k)" for k
    using apply_labels_get [OF topology_keys_distinct, of inst spec "current_labels m" False k] ap by simp
  have same: "\<not> ch \<Longrightarrow> ls = current_labels m"
    using apply_labels_unchanged [of "current_labels m" ?kvs False] ap ch
    by (auto simp: list_ex_iff list_all_iff)
  have now: "current_labels (snd (setTopologyLabels inst spec m)) = ls"
    using ap same by (auto simp: setTopologyLabels_def current_labels_def set_labels_def)
  have "map_of (wanted ?kvs) k = Some v" if "(k, v) \<in> set (wanted ?kvs)" for k v
    using that topology_keys_distinct [of inst spec] by (simp add: wanted_def distinct_map_filter)
  then have "list_all (\<lambda>(k, v). gomap_get ls k = Some v) (wanted ?kvs)"
    by (auto simp: list_all_iff get)
  from apply_labels_unchanged [OF this, of False]
  have again: "setTopologyLabels inst spec (snd (setTopologyLabels inst spec m))
      = (False, snd (setTopologyLabels inst spec m))"
    by (simp add: setTopologyLabels_def [of inst spec "snd (setTopologyLabels inst spec m)"] now)
  have "fst (setTopologyLabels inst spec m) = ch" "objBody (snd (setTopologyLabels inst spec m)) = objBody m"
    using ap by (simp_all add: setTopologyLabels_def)
  with again ch now get show ?thesis by simp
qed

text \<open>C18. Whatever status an update writes names the same instance as before, lists the instance's
  addresses and machine, and says that it is ready exactly when the service says so; neither the
  health check nor the provisioning timeout can overrule that.\<close>

theorem update_reports_instance:
  assumes "conditions_ok (envLib E)" and "codec_ok (libCodec (envLib E)) norm"
    and "nested_fields (libNestedFieldCopy (envLib E)) (libSetNestedField (envLib E))"
    and "distinct (map fst (psHealthLabels ps))"
    and "KubeStatusUpdate m \<in> set (new_actions (apply_instance E a c org spec ps inst) st)"
  shows "\<exists>ps'. getProviderStatus (envLib E) m = Inr ps' \<and> psInstanceID ps' = psInstanceID ps
    \<and> psAddresses ps' = instance_addresses inst
    \<and> (\<forall>s. instStatus inst = Some s \<longrightarrow> psInstanceState ps' = Some s
         \<and> cond_status ''InstanceReady'' ps'
           = Some (if s = INSTANCESTATUS_READY then ConditionTrue else ConditionFalse))
    \<and> (\<forall>mid. instMachineId inst = Some mid \<longrightarrow> psMachineID ps' = Some mid)"
proof -
  have norm: "cond_status t (q\<lparr>psAddresses := as, psConditions := map norm (psConditions q)\<rparr>) = Some s"
    if "cond_status t q = Some s" "s = ConditionTrue \<or> s = ConditionFalse" for t q as s
    using that condition_codec.norm_status [OF assms(2)]
      find_condition_map [of norm, OF condition_codec.norm_type [OF assms(2)]]
    by (auto simp: cond_status_def)
  have "emits (writes_status (envLib E) (\<lambda>ps'. psInstanceID ps' = psInstanceID ps
      \<and> psAddresses ps' = instance_addresses inst
      \<and> (\<forall>s. instStatus inst = Some s \<longrightarrow> psInstanceState ps' = Some s
           \<and> cond_status ''InstanceReady'' ps'
             = Some (if s = INSTANCESTATUS_READY then ConditionTrue else ConditionFalse))
      \<and> (\<forall>mid. instMachineId inst = Some mid \<longrightarrow> psMachineID ps' = Some mid)))
      (apply_instance E a c org spec ps inst)"
    by (rule apply_instance_writes [OF assms(1-4)]) (auto simp: reports_state_def intro!: norm)
  from new_actions_mem [OF this assms(5)] show ?thesis by (simp add: writes_status_def)
qed

definition ref_plain_instance :: "InstanceStatus \<Rightarrow> Instance" where
  "ref_plain_instance s = (ref_instance 1)\<lparr>instMachineId := None, instMachineIdSet := False,
     instSiteId := None, instStatus := Some s\<rparr>"

lemma ref_apply_instance_run:
  "\<exists>m. KubeStatusUpdate m \<in> set (new_actions (apply_instance ref_env ref_actuator ref_client ''org''
     ref_spec zero_status (ref_plain_instance ''Rebooting'')) (ref_state ref_world0))"
  by (simp add: new_actions_def apply_instance_def track_state_def record_provision_duration_def
      ref_plain_instance_def ref_instance_def ref_spec_def zero_spec_def topology_entries_def opt_entry_def
      setTopologyLabels_def updateMachineHealth_def checkStatusHistory_def checkProvisioningTimeout_def
      timeout_applies_def instance_status_defs setProviderStatus_def kube_status_update_def run_simps Let_def)

theorem update_reports_instance_witness:
  "\<exists>m ps'. getProviderStatus ref_lib m = Inr ps' \<and> psAddresses ps' \<noteq> []
     \<and> cond_status ''InstanceReady'' ps' = Some ConditionFalse"
proof -
  obtain m where m: "KubeStatusUpdate m \<in> set (new_actions (apply_instance ref_env ref_actuator ref_client
      ''org'' ref_spec zero_status (ref_plain_instance ''Rebooting'')) (ref_state ref_world0))"
    using ref_apply_instance_run by blast
  have "nested_fields (libNestedFieldCopy (envLib ref_env)) (libSetNestedField (envLib ref_env))"
    by (simp add: ref_lib_def ref_fields.nested_fields_axioms)
  from update_reports_instance [OF _ ref_env_codec this _ m] obtain ps' where
    "getProviderStatus ref_lib m = Inr ps'"
    "psAddresses ps' = instance_addresses (ref_plain_instance ''Rebooting'')"
    "cond_status ''InstanceReady'' ps' = Some ConditionFalse"
    by (auto simp: ref_lib_conditions zero_status_def ref_plain_instance_def INSTANCESTATUS_READY_def)
  then show ?thesis
    by (intro exI [of _ m] exI [of _ ps'])
      (simp add: instance_addresses_def ref_plain_instance_def ref_instance_def)
qed

text \<open>When provisioning has taken too long.\<close>

definition timed_out :: "Instance \<Rightarrow> NicoMachineProviderStatus \<Rightarrow> time \<Rightarrow> bool" where
  "timed_out inst ps now \<longleftrightarrow>
     (\<exists>s c. instStatus inst = Some s
        \<and> s \<in> {INSTANCESTATUS_PENDING, INSTANCESTATUS_PROVISIONING, INSTANCESTATUS_CONFIGURING}
        \<and> find_provisioned (psConditions ps) = Some c
        \<and> time_since now (cLastTransitionTime c) > 30 * 60 * 1000000000)"

text \<open>C33. The provisioning timeout: a machine whose instance is still on its way to Ready more than
  thirty minutes after it was provisioned is declared failed and not ready, with the reason; in
  every other case the machine and its status stay as they are.\<close>

theorem provisioning_timeout:
  assumes "conditions_ok (envLib E)" and "objBody (obj st) = MachineBody t"
  shows "\<exists>ps' st'. checkProvisioningTimeout E a inst ps st = (Val ps', st')
    \<and> (if timed_out inst ps (envNow E (ext st))
       then error_reason (obj st') = Some ''ProvisioningTimeout''
         \<and> cond_status ''InstanceReady'' ps' = Some ConditionFalse
       else obj st' = obj st \<and> ps' = ps)"
proof (cases "timed_out inst ps (envNow E (ext st))")
  case True
  then obtain s c where "instStatus inst = Some s" "timeout_applies s"
      "find_provisioned (psConditions ps) = Some c"
      "time_since (envNow E (ext st)) (cLastTransitionTime c) > ProvisioningTimeout"
    by (auto simp: timed_out_def timeout_applies_def ProvisioningTimeout_def minute_def)
  then show ?thesis
    using True assms(2)
    by (simp add: checkProvisioningTimeout_def run_simps eventf_def error_reason_def set_failure_def
        cond_status_setCondition [OF assms(1)])
next
  case False
  have "checkProvisioningTimeout E a inst ps st = (Val ps, st)"
  proof (rule ccontr)
    assume "\<not> ?thesis"
    then show False
      using False by (auto simp: checkProvisioningTimeout_def run_simps timed_out_def
          timeout_applies_def ProvisioningTimeout_def minute_def split: option.splits if_splits)
  qed
  with False show ?thesis by simp
qed

definition ref_old_status :: NicoMachineProviderStatus where
  "ref_old_status = zero_status\<lparr>psConditions := [\<lparr>cType = condInstanceProvisioned,
     cStatus = ConditionTrue, cReason = [], cMessage = [], cLastTransitionTime = - 1000000000000\<rparr>]\<rparr>"

theorem provisioning_timeout_witness:
  "\<exists>ps' st'. checkProvisioningTimeout ref_env ref_actuator (ref_plain_instance INSTANCESTATUS_PENDING)
      ref_old_status (ref_state ref_world0) = (Val ps', st')
    \<and> error_reason (obj st') = Some ''ProvisioningTimeout''"
proof -
  have "timed_out (ref_plain_instance INSTANCESTATUS_PENDING) ref_old_status
      (envNow ref_env (ext (ref_state ref_world0)))"
    by (simp add: timed_out_def ref_plain_instance_def ref_old_status_def time_since_def
        min_int64_def max_int64_def)
  then show ?thesis
    using provisioning_timeout [of ref_env "ref_state ref_world0" ref_typed ref_actuator
        "ref_plain_instance INSTANCESTATUS_PENDING" ref_old_status]
    by (auto simp: ref_lib_conditions)
qed

end
