(* ===== verification/ActuatorDelete.thy ===== *)
theory ActuatorDelete
  imports ActuatorCreate
begin

text \<open>
  \<open>Exists\<close> and \<open>Delete\<close> of pkg/actuators/machine/actuator.go, with \<open>isMHCRemediation\<close> and
  \<open>reportMHCHealthIssue\<close>. An answer of DeleteInstance without error and without response is a
  nil dereference.
\<close>

section \<open>Exists\<close>

definition Exists :: "('s, 'u) env \<Rightarrow> 's Actuator \<Rightarrow> ('s, go_err + bool) act" where
  "Exists E a =
     andthen getobj (\<lambda>m.
     if objBody m = NotClientObject then ret (Inl (ErrText ''machine is not a client.Object''))
     else
       (case getProviderStatus (envLib E) m of
          Inl e \<Rightarrow> ret (Inl (ErrWrap ''failed to get provider status: '' e))
        | Inr ps \<Rightarrow>
            (case psInstanceID ps of
               None \<Rightarrow> ret (Inr False)
             | Some instanceID \<Rightarrow>
                 (case getProviderSpec (envLib E) m of
                    Inl e \<Rightarrow> ret (Inl (ErrWrap ''failed to get provider spec: '' e))
                  | Inr spec \<Rightarrow>
                      tryp (getNicoClient E a spec)
                        (\<lambda>e. Inl (ErrWrap ''failed to create NICo client: '' e)) (\<lambda>(c, orgName).
                      andthen (call_GetInstance c orgName instanceID) (\<lambda>(inst, httpResp, err).
                      case err of
                        Some e \<Rightarrow>
                          if resp_is httpResp 404 then ret (Inr False)
                          else ret (Inl (ErrWrap ''failed to check instance existence: '' e))
                      | None \<Rightarrow> ret (Inr (inst \<noteq> None))))))))"

section \<open>Deletion by a health check\<close>

definition isMHCRemediation :: "MachineObject \<Rightarrow> bool" where
  "isMHCRemediation m =
     (case omAnnotations (objMeta m) of
        None \<Rightarrow> False
      | Some annotations \<Rightarrow> gomap_get annotations ''machine.openshift.io/unhealthy'' \<noteq> None)"

definition mhc_summary :: "MachineObject \<Rightarrow> string" where
  "mhc_summary m = ''MachineHealthCheck triggered remediation for machine '' @ GetName m"

definition mhc_details :: "KubeLib \<Rightarrow> time \<Rightarrow> MachineObject \<Rightarrow> string" where
  "mhc_details L now m =
     ''{\"machine_name\":'' @ quote (GetName m) @ '',\"namespace\":'' @ quote (GetNamespace m)
       @ '',\"annotation\":\"machine.openshift.io/unhealthy\",\"detected_at\":''
       @ quote (libRFC3339 L now) @ ''}''"

definition mhc_report :: "MachineObject \<Rightarrow> MachineHealthReportEntryRequest" where
  "mhc_report m =
     \<lparr>hrrSource = ''k8s-mhc'',
      hrrAlerts = [\<lparr>alertId = ''mhc-remediation-triggered'', alertMessage = mhc_summary m,
                    alertClassifications = [severityCritical]\<rparr>],
      hrrMode = ''replace''\<rparr>"

definition reportMHCHealthIssue ::
  "'s Actuator \<Rightarrow> 's NicoClientInterface \<Rightarrow> string \<Rightarrow> MachineObject \<Rightarrow> string \<Rightarrow> ('s, unit) act" where
  "reportMHCHealthIssue a c orgName m machineID =
     andthen (call_CreateOrUpdateMachineHealthReport c orgName machineID (mhc_report m))
       (\<lambda>(_, resp, err).
         whenp (err = None \<and> resp_ok resp)
           (seqp (metricp HealthEventsIngestedInc)
             (eventf a EventNormal ''MHCHealthReported''
               ''Reported MHC health issue to NICo HealthReport API'')))"

definition mhc_delete_request :: "KubeLib \<Rightarrow> time \<Rightarrow> MachineObject \<Rightarrow> InstanceDeleteRequest" where
  "mhc_delete_request L now m =
     \<lparr>idrMachineHealthIssue = Some
        \<lparr>mhiCategory = ''MachineHealthCheck'', mhiSummary = Some (mhc_summary m),
         mhiDetails = Some (mhc_details L now m)\<rparr>\<rparr>"

text \<open>The delete request: none, unless a health check asked for the deletion.\<close>

definition prepare_delete ::
  "('s, 'u) env \<Rightarrow> 's Actuator \<Rightarrow> 's NicoClientInterface \<Rightarrow> string \<Rightarrow> MachineObject
     \<Rightarrow> NicoMachineProviderStatus \<Rightarrow> ('s, InstanceDeleteRequest option) act" where
  "prepare_delete E a c orgName m ps =
     (if \<not> isMHCRemediation m then ret None
      else
        andthen (readext (envNow E)) (\<lambda>now.
        seqp (case psMachineID ps of
                None \<Rightarrow> ret ()
              | Some machineID \<Rightarrow> reportMHCHealthIssue a c orgName m machineID)
        (seqp (eventf a EventNormal ''MHCRemediation''
                 ''Reporting machine health issue to NICo for break-fix workflow'')
          (ret (Some (mhc_delete_request (envLib E) now m))))))"

section \<open>Delete\<close>

definition deleted ::
  "'s Actuator \<Rightarrow> string \<Rightarrow> ('s, go_err option) act" where
  "deleted a instanceID =
     seqp (metricp MachinesManagedDec)
       (seqp (eventf a EventNormal ''Deleted'' (''Deleted instance '' @ instanceID)) (ret None))"

definition accepted_delete_codes :: "int list" where
  "accepted_delete_codes = [200, 202, 204, 404]"

definition finish_delete ::
  "'s Actuator \<Rightarrow> string \<Rightarrow> HttpResponse option \<Rightarrow> go_err option \<Rightarrow> ('s, go_err option) act" where
  "finish_delete a instanceID httpResp err =
     (case err of
        Some e \<Rightarrow>
          if resp_is httpResp 404 then
            seqp (eventf a EventNormal ''Deleted''
                    (''Instance '' @ instanceID @ '' already deleted (404)''))
              (deleted a instanceID)
          else
            seqp (metricp (APICallErrorsInc ''DeleteInstance'' (status_code_text httpResp)))
              (seqp (eventf a EventWarning ''FailedDelete''
                       (''Failed to delete instance: '' @ err_string e))
                (ret (Some (ErrWrap ''failed to delete instance: '' e))))
      | None \<Rightarrow>
          (case httpResp of
             None \<Rightarrow> panic
           | Some h \<Rightarrow>
               if StatusCode h \<notin> set accepted_delete_codes then
                 seqp (eventf a EventWarning ''FailedDelete''
                         (''Delete instance returned unexpected status: '' @ show_int (StatusCode h)))
                   (ret (Some (ErrText (''delete instance returned unexpected status: ''
                      @ show_int (StatusCode h)))))
               else deleted a instanceID))"

definition Delete :: "('s, 'u) env \<Rightarrow> 's Actuator \<Rightarrow> ('s, go_err option) act" where
  "Delete E a =
     andthen getobj (\<lambda>m.
     if objBody m = NotClientObject then ret (Some (ErrText ''machine is not a client.Object''))
     else
       (case getProviderSpec (envLib E) m of
          Inl e \<Rightarrow> ret (Some (ErrWrap ''failed to get provider spec: '' e))
        | Inr spec \<Rightarrow>
            (case getProviderStatus (envLib E) m of
               Inl e \<Rightarrow> ret (Some (ErrWrap ''failed to get provider status: '' e))
             | Inr ps \<Rightarrow>
                 (case psInstanceID ps of
                    None \<Rightarrow> ret None
                  | Some instanceID \<Rightarrow>
                      tryp (getNicoClient E a spec)
                        (\<lambda>e. Some (ErrWrap ''failed to create NICo client: '' e)) (\<lambda>(c, orgName).
                      andthen (prepare_delete E a c orgName m ps) (\<lambda>deleteReq.
                      andthen (call_DeleteInstance c orgName instanceID deleteReq)
                        (\<lambda>(_, httpResp, err).
                      seqp (metricp (APILatency ''DeleteInstance''))
                        (finish_delete a instanceID httpResp err))))))))"

section \<open>What the operations emit and keep\<close>

lemma emits_Exists_reads: "emits is_read (Exists E a)"
  unfolding Exists_def by (intro emits_intros) simp_all

lemma keeps_Exists: "keeps f (Exists E a)"
  unfolding Exists_def by (intro keeps_intros)

lemma emits_Delete_no_create: "emits (\<lambda>x. \<not> is_create x \<and> \<not> is_kube_write x) (Delete E a)"
  unfolding Delete_def prepare_delete_def reportMHCHealthIssue_def finish_delete_def deleted_def Let_def
  by (intro emits_intros; (simp; fail)?)

lemma keeps_Delete: "keeps f (Delete E a)"
  unfolding Delete_def prepare_delete_def reportMHCHealthIssue_def finish_delete_def deleted_def Let_def
  by (intro keeps_intros)

lemma Delete_once: "at_most is_delete 1 (Delete E a)"
  unfolding Delete_def prepare_delete_def reportMHCHealthIssue_def finish_delete_def deleted_def
    call_DeleteInstance_def Let_def
  by (rule at_most_rest [OF emits_getobj])
    (auto split: sum.split option.split
       intro!: at_most_none [OF emits_ret] at_most_tryp_rest at_most_rest
         at_most_head [OF at_most_extcall [unfolded One_nat_def]] emits_intros)

section \<open>What a deletion sends\<close>

lemma emits_prepare_delete [emits_intros]:
  "(\<And>i req. \<phi> (Api (CallCreateOrUpdateMachineHealthReport org i req))) \<Longrightarrow> (\<And>me. \<phi> (Metric me)) \<Longrightarrow>
     (\<And>t r n. \<phi> (Event t r n)) \<Longrightarrow> emits \<phi> (prepare_delete E a c org m ps)"
  unfolding prepare_delete_def reportMHCHealthIssue_def by (intro emits_intros) auto

lemma emits_finish_delete [emits_intros]:
  "(\<And>me. \<phi> (Metric me)) \<Longrightarrow> (\<And>t r n. \<phi> (Event t r n)) \<Longrightarrow> emits \<phi> (finish_delete a i resp err)"
  unfolding finish_delete_def deleted_def by (intro emits_intros) auto

lemma prepare_delete_request:
  assumes "prepare_delete E a c org m ps st = (Val req, st')"
  shows "req = (if isMHCRemediation m then Some (mhc_delete_request (envLib E) (envNow E (ext st)) m) else None)"
  using assms
  by (auto simp: prepare_delete_def reportMHCHealthIssue_def call_defs run_simps metricp_def eventf_def
      split: option.splits prod.splits if_splits)

text \<open>
  A deletion as it should be asked for: of the instance the status names, in the organisation of
  the machine's client, and for a remediation with the health issue that the break-fix workflow
  reads: its category, the machine's name, and as JSON the name, the namespace, the annotation and
  the time at which the request was made.
\<close>

definition remediation_issue :: "KubeLib \<Rightarrow> time \<Rightarrow> MachineObject \<Rightarrow> MachineHealthIssue" where
  "remediation_issue L now m =
     \<lparr>mhiCategory = ''MachineHealthCheck'',
      mhiSummary = Some (''MachineHealthCheck triggered remediation for machine '' @ GetName m),
      mhiDetails = Some (concat
        [''{'', quote ''machine_name'', '':'', quote (GetName m),
         '','', quote ''namespace'', '':'', quote (GetNamespace m),
         '','', quote ''annotation'', '':'', quote ''machine.openshift.io/unhealthy'',
         '','', quote ''detected_at'', '':'', quote (libRFC3339 L now), ''}''])\<rparr>"

definition recorded_deletion ::
  "('s, 'u) env \<Rightarrow> 's Actuator \<Rightarrow> ('s, MachineObject, action) st \<Rightarrow> action \<Rightarrow> bool" where
  "recorded_deletion E a st x \<longleftrightarrow>
     (\<exists>spec c org st1 ps i.
        getProviderSpec (envLib E) (obj st) = Inr spec
        \<and> getNicoClient E a spec st = (Val (Inr (c, org)), st1)
        \<and> getProviderStatus (envLib E) (obj st) = Inr ps \<and> psInstanceID ps = Some i
        \<and> x = Api (CallDeleteInstance org i
            (if isMHCRemediation (obj st)
             then Some \<lparr>idrMachineHealthIssue =
               Some (remediation_issue (envLib E) (envNow E (ext st1)) (obj st))\<rparr>
             else None)))"

lemma mhc_delete_request_issue:
  "mhc_delete_request L now m = \<lparr>idrMachineHealthIssue = Some (remediation_issue L now m)\<rparr>"
proof -
  have "quote ''machine_name'' = ''\"machine_name\"''" "quote ''namespace'' = ''\"namespace\"''"
      "quote ''annotation'' = ''\"annotation\"''" "quote ''detected_at'' = ''\"detected_at\"''"
      "quote ''machine.openshift.io/unhealthy'' = ''\"machine.openshift.io/unhealthy\"''"
    by code_simp+
  then show ?thesis
    by (simp add: mhc_delete_request_def remediation_issue_def mhc_summary_def mhc_details_def)
qed

lemma Delete_sends:
  assumes x: "x \<in> set (new_actions (Delete E a) st)" "is_delete x"
  shows "recorded_deletion E a st x"
proof -
  have body: "objBody (obj st) \<noteq> NotClientObject"
    using x by (auto simp: Delete_def new_actions_getobj)
  obtain spec where spec: "getProviderSpec (envLib E) (obj st) = Inr spec"
    using x body by (cases "getProviderSpec (envLib E) (obj st)") (auto simp: Delete_def new_actions_getobj)
  obtain ps where ps: "getProviderStatus (envLib E) (obj st) = Inr ps"
    using x body spec by (cases "getProviderStatus (envLib E) (obj st)") (auto simp: Delete_def new_actions_getobj)
  obtain i where i: "psInstanceID ps = Some i"
    using x body spec ps by (cases "psInstanceID ps") (auto simp: Delete_def new_actions_getobj)
  let ?k = "\<lambda>c org. andthen (prepare_delete E a c org (obj st) ps) (\<lambda>deleteReq.
      andthen (call_DeleteInstance c org i deleteReq) (\<lambda>(_, httpResp, err).
        seqp (metricp (APILatency ''DeleteInstance'')) (finish_delete a i httpResp err)))"
  have "x \<in> set (new_actions (tryp (getNicoClient E a spec)
      (\<lambda>e. Some (ErrWrap ''failed to create NICo client: '' e)) (\<lambda>(c, orgName). ?k c orgName)) st)"
    using x(1) body spec ps i by (simp add: Delete_def new_actions_getobj)
  then obtain v st1 where 1: "getNicoClient E a spec st = (Val (Inr v), st1)"
      "x \<in> set (new_actions (case v of (c, orgName) \<Rightarrow> ?k c orgName) st1)"
    by (rule new_actions_peel_tryp [where P = is_delete]) (use x(2) in \<open>auto intro!: emits_intros\<close>)
  obtain c org where v: "v = (c, org)" by (cases v)
  from 1(2) v have "x \<in> set (new_actions (?k c org) st1)" by simp
  then obtain req st2 where 2: "prepare_delete E a c org (obj st) ps st1 = (Val req, st2)"
      "x \<in> set (new_actions (andthen (call_DeleteInstance c org i req) (\<lambda>(_, httpResp, err).
        seqp (metricp (APILatency ''DeleteInstance'')) (finish_delete a i httpResp err))) st2)"
    by (rule new_actions_peel [where P = is_delete]) (use x(2) in \<open>auto intro!: emits_intros\<close>)
  have "emits (\<lambda>x. is_delete x \<longrightarrow> x = Api (CallDeleteInstance org i req))
      (andthen (call_DeleteInstance c org i req) (\<lambda>(_, httpResp, err).
        seqp (metricp (APILatency ''DeleteInstance'')) (finish_delete a i httpResp err)))"
    by (intro emits_intros; simp)
  from new_actions_mem [OF this 2(2)] x(2) have "x = Api (CallDeleteInstance org i req)" by simp
  then show ?thesis
    using spec ps i 1(1) v prepare_delete_request [OF 2(1)]
    unfolding recorded_deletion_def mhc_delete_request_issue by blast
qed

fun is_health_report :: "action \<Rightarrow> bool" where
  "is_health_report (Api (CallCreateOrUpdateMachineHealthReport org i req)) = True"
| "is_health_report _ = False"

section \<open>Properties\<close>

text \<open>C20. A deletion asks for the deletion of no instance but the one the machine's status names, in the
  organisation of its client. The request is empty unless a health check asked for the deletion;
  then it carries the health issue of the machine, with its summary and details.\<close>

theorem deletes_only_recorded_instance:
  "set (filter is_delete (new_actions (Delete E a) st)) \<subseteq> {x. recorded_deletion E a st x}"
  using Delete_sends by auto

text \<open>C21. The outcome of a deletion: success exactly when the instance is gone or going (the API
  answers 200, 202, 204 or 404, or fails with 404), an error for every other answer, and a nil
  dereference when the API client gives neither response nor error. The gauge of managed machines
  is lowered once for every success.\<close>

theorem deletion_outcome:
  "fst (finish_delete a i resp err st) =
     (case err of
        Some e \<Rightarrow> Val (if resp_is resp 404 then None else Some (ErrWrap ''failed to delete instance: '' e))
      | None \<Rightarrow>
          (case resp of
             None \<Rightarrow> Panic
           | Some h \<Rightarrow> Val (if StatusCode h \<in> {200, 202, 204, 404} then None
               else Some (ErrText (''delete instance returned unexpected status: ''
                      @ show_int (StatusCode h))))))
   \<and> length (filter (\<lambda>x. x = Metric MachinesManagedDec) (new_actions (finish_delete a i resp err) st))
     = of_bool (fst (finish_delete a i resp err st) = Val None)"
  by (cases err; cases resp)
    (simp_all add: finish_delete_def deleted_def accepted_delete_codes_def run_simps metricp_def
       eventf_def new_actions_def)

text \<open>Whether the instance exists: without a recorded instance the answer is no and nothing is
  asked; otherwise the service's answer decides, and only its 404 counts as no, every other
  failure being passed on. The machine is left as it is either way.\<close>

theorem existence_answer:
  assumes "objBody (obj st) \<noteq> NotClientObject" and "actNicoAPIClient a = Some c"
    and "getProviderStatus (envLib E) (obj st) = Inr ps" and "getProviderSpec (envLib E) (obj st) = Inr spec"
  shows "fst (Exists E a st) =
      (case psInstanceID ps of
         None \<Rightarrow> Val (Inr False)
       | Some i \<Rightarrow>
           (case fst (GetInstance c (actOrgName a) i (ext st)) of
              (inst, resp, None) \<Rightarrow> Val (Inr (inst \<noteq> None))
            | (inst, resp, Some e) \<Rightarrow>
                Val (if resp_is resp 404 then Inr False
                     else Inl (ErrWrap ''failed to check instance existence: '' e))))
    \<and> obj (snd (Exists E a st)) = obj st
    \<and> new_actions (Exists E a) st =
        (case psInstanceID ps of None \<Rightarrow> [] | Some i \<Rightarrow> [Api (CallGetInstance (actOrgName a) i)])"
  using assms
  by (auto simp: Exists_def getNicoClient_def call_GetInstance_def run_simps new_actions_def
      split: option.split prod.split)

theorem existence_answer_witness:
  "fst (Exists ref_env ref_actuator (ref_state ref_world0)) = Val (Inr False)"
  using existence_answer [of "ref_state ref_world0" ref_actuator ref_client ref_env zero_status ref_spec]
  by (simp add: zero_status_def)

text \<open>A deletion a health check asked for first reports the machine, where one is known, to the
  service: exactly one report, under the source the recovery clears again, with an alert that
  counts as critical and so holds back the next creation on that machine. No other deletion
  reports anything.\<close>

theorem remediation_reports_machine:
  "filter is_health_report (new_actions (prepare_delete E a c org m ps) st) =
     (case psMachineID ps of
        None \<Rightarrow> []
      | Some mid \<Rightarrow> if isMHCRemediation m
          then [Api (CallCreateOrUpdateMachineHealthReport org mid (mhc_report m))] else [])
   \<and> hrrSource (mhc_report m) = ''k8s-mhc'' \<and> list_ex is_critical (hrrAlerts (mhc_report m))"
proof (intro conjI)
  show "filter is_health_report (new_actions (prepare_delete E a c org m ps) st) =
     (case psMachineID ps of
        None \<Rightarrow> []
      | Some mid \<Rightarrow> if isMHCRemediation m
          then [Api (CallCreateOrUpdateMachineHealthReport org mid (mhc_report m))] else [])"
    by (cases "psMachineID ps")
      (simp_all add: prepare_delete_def reportMHCHealthIssue_def call_defs run_simps metricp_def
         eventf_def new_actions_def split: prod.split)
qed (simp_all add: mhc_report_def is_critical_def alert_severity_eq)

end
