(* ===== verification/MachineController.thy ===== *)
theory MachineController
  imports ActuatorUpdate ActuatorDelete
begin

text \<open>
  The Machine reconciler: pkg/controllers/machine/controller.go. It drives the actuator through
  its four operations, the fields of \<open>actuator_ops\<close>; what it relies on in them is the locale
  \<open>actuator_contract\<close>, interpreted below on the actuator's own operations. A result is the delay
  the reconciler asks for, zero for none, and the error or nil; what controller-runtime makes of it,
  which ignores the delay beside an error, is not modelled.
\<close>

section \<open>The reconciler\<close>

definition MachineFinalizer :: string where "MachineFinalizer = ''machine.openshift.io/nico''"
definition LegacyMachineFinalizer :: string where
  "LegacyMachineFinalizer = ''machine.openshift.io/nvidia-carbide''"

definition second :: time where "second = 1000000000"
definition RequeueAfterSeconds :: int where "RequeueAfterSeconds = 30"

type_synonym reconcile_result = "time \<times> go_err option"

record 's actuator_ops =
  opExists :: "('s, go_err + bool) act"
  opCreate :: "('s, go_err option) act"
  opUpdate :: "('s, go_err option) act"
  opDelete :: "('s, go_err option) act"

definition actuator_ops_of :: "('s, 'u) env \<Rightarrow> 's Actuator \<Rightarrow> 's actuator_ops" where
  "actuator_ops_of E a =
     \<lparr>opExists = Exists E a, opCreate = Create E a, opUpdate = Update E a, opDelete = Delete E a\<rparr>"

definition handleActuatorError :: "go_err \<Rightarrow> reconcile_result" where
  "handleActuatorError err =
     (if errors_As err = Some ErrorTerminal then (0, None)
      else (RequeueAfterSeconds * second, Some err))"

definition reconcileNormal ::
  "('s, 'u) env \<Rightarrow> 's actuator_ops \<Rightarrow> ('s, reconcile_result) act" where
  "reconcileNormal E ops =
     andthen getobj (\<lambda>m.
     if \<not> libContainsFinalizer (envLib E) (omFinalizers (objMeta m)) MachineFinalizer then
       seqp (modobj (\<lambda>m. set_finalizers
               (libAddFinalizer (envLib E) (omFinalizers (objMeta m)) MachineFinalizer) m))
         (guardp (kube_update E) (\<lambda>e. (0, Some (ErrWrap ''failed to add finalizer: '' e)))
           (ret (1 * second, None)))
     else
       tryp (opExists ops) (\<lambda>e. (RequeueAfterSeconds * second, Some e)) (\<lambda>exists.
       if \<not> exists then
         guardp (opCreate ops) handleActuatorError (ret (10 * second, None))
       else
         guardp (opUpdate ops) handleActuatorError (ret (RequeueAfterSeconds * second, None))))"

definition remove_finalizers :: "KubeLib \<Rightarrow> MachineObject \<Rightarrow> MachineObject" where
  "remove_finalizers L m =
     set_finalizers
       (libRemoveFinalizer L (libRemoveFinalizer L (omFinalizers (objMeta m)) MachineFinalizer)
          LegacyMachineFinalizer) m"

definition reconcileDelete ::
  "('s, 'u) env \<Rightarrow> 's actuator_ops \<Rightarrow> ('s, reconcile_result) act" where
  "reconcileDelete E ops =
     guardp (opDelete ops) (\<lambda>e. (0, Some e))
       (seqp (modobj (remove_finalizers (envLib E)))
         (guardp (kube_update E) (\<lambda>e. (0, Some (ErrWrap ''failed to remove finalizer: '' e)))
           (ret (0, None))))"

definition Reconcile ::
  "('s, 'u) env \<Rightarrow> 's actuator_ops \<Rightarrow> string \<times> string \<Rightarrow> ('s, reconcile_result) act" where
  "Reconcile E ops key =
     andthen (extcall (KubeGetMachine key) (kubeGetMachine (envKube E) key)) (\<lambda>r.
     case r of
       Inl e \<Rightarrow> if libIsNotFound (envLib E) e then ret (0, None) else ret (0, Some e)
     | Inr m \<Rightarrow>
         seqp (modobj (\<lambda>_. m))
           (if omDeletionTimestamp (objMeta m) \<noteq> 0 then reconcileDelete E ops
            else reconcileNormal E ops))"

text \<open>
  The reconciler as an object, and its registration: the controller-runtime's builder is the
  parameter \<open>complete\<close>, given the kind that is watched and the reconciler. The scheme is read by no
  method.
\<close>

record 's MachineReconciler =
  mrClient :: "'s KubeClient"
  mrActuator :: "'s Actuator"
  mrEventRecorder :: string

definition MachineReconciler_SetupWithManager ::
  "(string \<Rightarrow> 's MachineReconciler \<Rightarrow> 's \<Rightarrow> go_err option \<times> 's) \<Rightarrow> 's MachineReconciler
     \<Rightarrow> 's \<Rightarrow> go_err option \<times> 's" where
  "MachineReconciler_SetupWithManager complete r = complete ''Machine'' r"

definition setup_machine_controller ::
  "(string \<Rightarrow> 's MachineReconciler \<Rightarrow> 's \<Rightarrow> go_err option \<times> 's) \<Rightarrow> 's KubeClient \<Rightarrow> 's Actuator
     \<Rightarrow> 's \<Rightarrow> go_err option \<times> 's" where
  "setup_machine_controller complete mgr_client actuator =
     MachineReconciler_SetupWithManager complete
       \<lparr>mrClient = mgr_client, mrActuator = actuator, mrEventRecorder = ''nico-machine-controller''\<rparr>"

section \<open>How the reconciler runs\<close>

lemma Reconcile_run:
  "Reconcile E ops key st =
     (let a = kubeGetMachine (envKube E) key (ext st);
          st1 = st\<lparr>ext := snd a, trace := trace st @ [KubeGetMachine key]\<rparr>
      in case fst a of
           Inl e \<Rightarrow> (Val (0, if libIsNotFound (envLib E) e then None else Some e), st1)
         | Inr m \<Rightarrow>
             (if omDeletionTimestamp (objMeta m) \<noteq> 0 then reconcileDelete E ops (st1\<lparr>obj := m\<rparr>)
              else reconcileNormal E ops (st1\<lparr>obj := m\<rparr>)))"
  by (simp add: Reconcile_def run_simps Let_def split: sum.split)

text \<open>Before the finalizer is there, a reconcile does nothing but add it.\<close>

lemma reconcileNormal_run:
  "reconcileNormal E ops st =
     (if \<not> libContainsFinalizer (envLib E) (omFinalizers (objMeta (obj st))) MachineFinalizer then
        (case kube_update E (st\<lparr>obj := set_finalizers (libAddFinalizer (envLib E)
                (omFinalizers (objMeta (obj st))) MachineFinalizer) (obj st)\<rparr>) of
           (Val None, st') \<Rightarrow> (Val (second, None), st')
         | (Val (Some e), st') \<Rightarrow> (Val (0, Some (ErrWrap ''failed to add finalizer: '' e)), st')
         | (Panic, st') \<Rightarrow> (Panic, st'))
      else
        (case opExists ops st of
           (Val (Inl e), st') \<Rightarrow> (Val (RequeueAfterSeconds * second, Some e), st')
         | (Val (Inr exists), st') \<Rightarrow>
             (case (if exists then opUpdate ops else opCreate ops) st' of
                (Val None, st'') \<Rightarrow>
                  (Val ((if exists then RequeueAfterSeconds else 10) * second, None), st'')
              | (Val (Some e), st'') \<Rightarrow> (Val (handleActuatorError e), st'')
              | (Panic, st'') \<Rightarrow> (Panic, st''))
         | (Panic, st') \<Rightarrow> (Panic, st')))"
proof (cases "libContainsFinalizer (envLib E) (omFinalizers (objMeta (obj st))) MachineFinalizer")
  case True
  then show ?thesis
    by (auto simp: reconcileNormal_def run_simps split: res.split sum.split prod.split option.split)
next
  case False
  then show ?thesis
    by (simp add: reconcileNormal_def run_simps split: res.split prod.split option.split)
qed

lemma reconcileDelete_run:
  "reconcileDelete E ops st =
     (case opDelete ops st of
        (Val None, st') \<Rightarrow>
          (case kube_update E (st'\<lparr>obj := remove_finalizers (envLib E) (obj st')\<rparr>) of
             (Val None, st'') \<Rightarrow> (Val (0, None), st'')
           | (Val (Some e), st'') \<Rightarrow> (Val (0, Some (ErrWrap ''failed to remove finalizer: '' e)), st'')
           | (Panic, st'') \<Rightarrow> (Panic, st''))
      | (Val (Some e), st') \<Rightarrow> (Val (0, Some e), st')
      | (Panic, st') \<Rightarrow> (Panic, st'))"
  by (auto simp: reconcileDelete_def run_simps split: res.split prod.split option.split)

lemma kube_update_new: "new_actions (kube_update E) st = [KubeUpdate (obj st)]"
  by (simp add: new_actions_def run_kube_update Let_def split: sum.split)

section \<open>The contract of the actuator\<close>

text \<open>
  What the reconciler relies on: asking whether the instance exists only reads and leaves the
  machine alone; a creation makes at most one instance and deletes none; an update neither
  makes, deletes nor reconfigures an instance; a deletion makes none, asks for at most one
  deletion and leaves the machine and its record at the API server alone.
\<close>

locale actuator_contract =
  fixes ops :: "'s actuator_ops"
  assumes exists_reads: "emits is_read (opExists ops)"
    and exists_keeps: "keeps (\<lambda>m. m) (opExists ops)"
    and create_once: "at_most is_create 1 (opCreate ops)"
    and create_no_delete: "emits (\<lambda>x. \<not> is_delete x) (opCreate ops)"
    and update_no_provision:
      "emits (\<lambda>x. \<not> is_create x \<and> \<not> is_delete x \<and> \<not> is_dpu_update x) (opUpdate ops)"
    and delete_once: "at_most is_delete 1 (opDelete ops)"
    and delete_no_create: "emits (\<lambda>x. \<not> is_create x \<and> \<not> is_kube_write x) (opDelete ops)"
    and delete_keeps: "keeps (\<lambda>m. m) (opDelete ops)"
begin

lemma exists_no_write: "emits (\<lambda>x. \<not> is_create x \<and> \<not> is_delete x) (opExists ops)"
  by (rule emits_mono [OF exists_reads]) (simp add: is_read_no_write)

lemma exists_run: "obj (snd (opExists ops st)) = obj st"
  using keepsD [OF exists_keeps] by simp

lemma delete_run: "obj (snd (opDelete ops st)) = obj st"
  using keepsD [OF delete_keeps] by simp

lemma normal_no_delete: "emits (\<lambda>x. \<not> is_delete x) (reconcileNormal E ops)"
  unfolding reconcileNormal_def
  by (intro emits_intros emits_mono [OF exists_no_write] create_no_delete
      emits_mono [OF update_no_provision]) simp_all

lemma normal_once: "at_most is_create 1 (reconcileNormal E ops)"
  unfolding reconcileNormal_def
  by (rule at_most_rest [OF emits_getobj])
    (auto intro!: at_most_tryp_rest at_most_guardp_head create_once [unfolded One_nat_def]
       at_most_none [OF emits_seqp] at_most_none [OF emits_guardp [OF emits_mono [OF update_no_provision]]]
       emits_intros intro: emits_mono [OF exists_no_write])

lemma deleting_no_create: "emits (\<lambda>x. \<not> is_create x) (reconcileDelete E ops)"
  unfolding reconcileDelete_def
  by (intro emits_intros emits_mono [OF delete_no_create]) simp_all

lemma deleting_once: "at_most is_delete 1 (reconcileDelete E ops)"
  unfolding reconcileDelete_def
  by (rule at_most_guardp_head [OF delete_once]) (intro emits_intros; simp)

text \<open>One reconcile never both makes and deletes an instance, and does either at most once.\<close>

lemma reconcile_once: "at_most is_create 1 (Reconcile E ops key)"
  unfolding Reconcile_def
  by (rule at_most_rest)
    (auto split: sum.split intro!: at_most_none [OF emits_ret] at_most_rest emits_intros simp: seqp_def
       intro: at_most_none deleting_no_create normal_once [unfolded One_nat_def])

lemma reconcile_delete_once: "at_most is_delete 1 (Reconcile E ops key)"
  unfolding Reconcile_def
  by (rule at_most_rest)
    (auto split: sum.split intro!: at_most_none [OF emits_ret] at_most_rest emits_intros simp: seqp_def
       intro: at_most_none normal_no_delete deleting_once [unfolded One_nat_def])

lemma reconcile_new:
  "new_actions (Reconcile E ops key) st =
     KubeGetMachine key #
       (case fst (kubeGetMachine (envKube E) key (ext st)) of
          Inl e \<Rightarrow> []
        | Inr m \<Rightarrow>
            new_actions (if omDeletionTimestamp (objMeta m) \<noteq> 0 then reconcileDelete E ops
                         else reconcileNormal E ops)
              (st\<lparr>ext := snd (kubeGetMachine (envKube E) key (ext st)),
                 trace := trace st @ [KubeGetMachine key], obj := m\<rparr>))"
proof (cases "fst (kubeGetMachine (envKube E) key (ext st))")
  case (Inr m)
  let ?p = "if omDeletionTimestamp (objMeta m) \<noteq> 0 then reconcileDelete E ops else reconcileNormal E ops"
  let ?st = "st\<lparr>ext := snd (kubeGetMachine (envKube E) key (ext st)),
               trace := trace st @ [KubeGetMachine key], obj := m\<rparr>"
  have "emits (\<lambda>x. \<not> is_create x \<or> \<not> is_delete x) ?p"
    by (auto intro: emits_mono [OF deleting_no_create] emits_mono [OF normal_no_delete])
  from emitsD [OF this, of ?st] show ?thesis
    using Inr by (auto simp: new_actions_def Reconcile_run Let_def)
qed (simp add: new_actions_def Reconcile_run Let_def)

text \<open>
  An instance is made only for a machine that is not being deleted, that carries the finalizer,
  and of which the actuator has just said that it has no instance.
\<close>

lemma normal_create_requires:
  assumes "x \<in> set (new_actions (reconcileNormal E ops) st)" and "is_create x"
  shows "libContainsFinalizer (envLib E) (omFinalizers (objMeta (obj st))) MachineFinalizer"
    and "fst (opExists ops st) = Val (Inr False)"
proof -
  show fin: "libContainsFinalizer (envLib E) (omFinalizers (objMeta (obj st))) MachineFinalizer"
  proof (rule ccontr)
    assume *: "\<not> ?thesis"
    have "x \<in> set (new_actions (kube_update E) (st\<lparr>obj := set_finalizers (libAddFinalizer (envLib E)
                (omFinalizers (objMeta (obj st))) MachineFinalizer) (obj st)\<rparr>))"
      using assms(1) * by (auto simp: new_actions_def reconcileNormal_run
          split: prod.splits res.splits option.splits)
    then show False using assms(2) by (simp add: kube_update_new)
  qed
  show "fst (opExists ops st) = Val (Inr False)"
  proof (cases "opExists ops st")
    case (Pair r st')
    obtain es where es: "trace st' = trace st @ es" "list_all is_read es"
      using emitsD [OF exists_reads, of st] Pair by auto
    then have no: "x \<notin> set es"
      using assms(2) by (auto simp: list_all_iff dest: is_read_no_write)
    have upd: "r = Val (Inr True) \<Longrightarrow> x \<in> set (new_actions (opUpdate ops) st')"
      using assms(1) fin Pair es(1) no new_actions_then [OF update_no_provision es(1)]
      by (cases "opUpdate ops st'") (auto simp: new_actions_def [of "reconcileNormal E ops"]
          reconcileNormal_run split: res.splits option.splits)
    show ?thesis
    proof (cases r)
      case (Val v)
      then show ?thesis
        using assms fin Pair es no upd new_actions_mem [OF update_no_provision, of x st']
        by (cases v) (auto simp: new_actions_def reconcileNormal_run)
    next
      case Panic
      then show ?thesis
        using assms(1) fin Pair es no by (simp add: new_actions_def reconcileNormal_run)
    qed
  qed
qed

text \<open>
  Once a machine is being deleted, its record is written only after the deletion has succeeded,
  and then with exactly the two finalizers gone.
\<close>

lemma deleting_writes:
  assumes "x \<in> set (new_actions (reconcileDelete E ops) st)" and "is_kube_write x"
  shows "fst (opDelete ops st) = Val None"
    and "x = KubeUpdate (remove_finalizers (envLib E) (obj st))"
proof -
  obtain r st' where *: "opDelete ops st = (r, st')" by (cases "opDelete ops st")
  obtain es where es: "trace st' = trace st @ es"
      "list_all (\<lambda>x. \<not> is_create x \<and> \<not> is_kube_write x) es"
    using emitsD [OF delete_no_create, of st] * by auto
  then have no: "x \<notin> set es" using assms(2) by (auto simp: list_all_iff)
  have keep: "obj st' = obj st" using delete_run [of st] * by simp
  show "fst (opDelete ops st) = Val None"
    using assms(1) * es no
    by (cases r) (auto simp: new_actions_def reconcileDelete_run split: option.splits)
  then have "r = Val None" using * by simp
  then have "x \<in> set (new_actions (kube_update E)
      (st'\<lparr>obj := remove_finalizers (envLib E) (obj st')\<rparr>))"
    using assms(1) * es(1) no new_actions_then [where k = "kube_update E" and st = st and es = es
        and st' = "st'\<lparr>obj := remove_finalizers (envLib E) (obj st')\<rparr>",
        OF emits_kube_update [of "\<lambda>_. True"]]
    by (cases "kube_update E (st'\<lparr>obj := remove_finalizers (envLib E) (obj st')\<rparr>)")
      (auto simp: new_actions_def [of "reconcileDelete E ops"] reconcileDelete_run
        split: res.splits option.splits)
  then show "x = KubeUpdate (remove_finalizers (envLib E) (obj st))"
    by (simp add: kube_update_new keep)
qed

end

interpretation nico: actuator_contract "actuator_ops_of E a" for E a
proof
  let ?ops = "actuator_ops_of E a"
  show "emits is_read (opExists ?ops)" by (simp add: actuator_ops_of_def emits_Exists_reads)
  show "keeps (\<lambda>m. m) (opExists ?ops)" by (simp add: actuator_ops_of_def keeps_Exists)
  show "at_most is_create 1 (opCreate ?ops)"
    unfolding actuator_ops_of_def actuator_ops.select_convs by (rule Create_once)
  show "emits (\<lambda>x. \<not> is_delete x) (opCreate ?ops)"
    by (simp add: actuator_ops_of_def emits_Create_no_delete)
  show "emits (\<lambda>x. \<not> is_create x \<and> \<not> is_delete x \<and> \<not> is_dpu_update x) (opUpdate ?ops)"
    unfolding actuator_ops_of_def actuator_ops.select_convs by (rule emits_Update_api)
  show "at_most is_delete 1 (opDelete ?ops)"
    unfolding actuator_ops_of_def actuator_ops.select_convs by (rule Delete_once)
  show "emits (\<lambda>x. \<not> is_create x \<and> \<not> is_kube_write x) (opDelete ?ops)"
    unfolding actuator_ops_of_def actuator_ops.select_convs by (rule emits_Delete_no_create)
  show "keeps (\<lambda>m. m) (opDelete ?ops)" by (simp add: actuator_ops_of_def keeps_Delete)
qed

section \<open>Properties\<close>

text \<open>The state in which the reconciler works on a machine it has fetched.\<close>

definition fetched ::
  "('s, 'u) env \<Rightarrow> string \<times> string \<Rightarrow> MachineObject \<Rightarrow> ('s, MachineObject, action) st
     \<Rightarrow> ('s, MachineObject, action) st" where
  "fetched E key m st = st\<lparr>ext := snd (kubeGetMachine (envKube E) key (ext st)),
     trace := trace st @ [KubeGetMachine key], obj := m\<rparr>"

definition may_create ::
  "('s, 'u) env \<Rightarrow> 's Actuator \<Rightarrow> string \<times> string \<Rightarrow> ('s, MachineObject, action) st \<Rightarrow> bool" where
  "may_create E a key st \<longleftrightarrow>
     (\<exists>m. fst (kubeGetMachine (envKube E) key (ext st)) = Inr m \<and> omDeletionTimestamp (objMeta m) = 0
        \<and> libContainsFinalizer (envLib E) (omFinalizers (objMeta m)) MachineFinalizer
        \<and> fst (Exists E a (fetched E key m st)) = Val (Inr False))"

lemma reconcile_create_requires:
  assumes "x \<in> set (new_actions (Reconcile E (actuator_ops_of E a) key) st)" and "is_create x"
  shows "may_create E a key st"
proof -
  obtain m where m: "fst (kubeGetMachine (envKube E) key (ext st)) = Inr m"
    using assms by (cases "fst (kubeGetMachine (envKube E) key (ext st))") (auto simp: nico.reconcile_new)
  have x: "x \<in> set (new_actions (if omDeletionTimestamp (objMeta m) \<noteq> 0
      then reconcileDelete E (actuator_ops_of E a) else reconcileNormal E (actuator_ops_of E a))
      (fetched E key m st))"
    using assms m by (auto simp: nico.reconcile_new fetched_def)
  then have "omDeletionTimestamp (objMeta m) = 0"
    using assms(2) by (cases "omDeletionTimestamp (objMeta m) = 0")
      (auto dest: new_actions_mem [OF nico.deleting_no_create])
  with x have x': "x \<in> set (new_actions (reconcileNormal E (actuator_ops_of E a)) (fetched E key m st))"
    by simp
  from nico.normal_create_requires [OF x' assms(2)] m \<open>omDeletionTimestamp (objMeta m) = 0\<close> show ?thesis
    by (auto simp: may_create_def fetched_def actuator_ops_of_def)
qed

text \<open>C1. One reconcile asks for at most one instance, and only for a machine that it could fetch,
  that is not being deleted, that carries the finalizer, and of which the actuator has just
  answered that it has no instance.\<close>

theorem reconcile_creates_safely:
  "length (filter is_create (new_actions (Reconcile E (actuator_ops_of E a) key) st))
     \<le> of_bool (may_create E a key st)"
proof (cases "may_create E a key st")
  case True
  then show ?thesis using new_actions_at_most [OF nico.reconcile_once] by simp
next
  case False
  then have "filter is_create (new_actions (Reconcile E (actuator_ops_of E a) key) st) = []"
    using reconcile_create_requires [where key = key and st = st] unfolding filter_empty_conv by blast
  then show ?thesis by simp
qed

text \<open>C23. One reconcile never both makes and deletes an instance, and asks for at most one deletion.\<close>

theorem reconcile_creates_or_deletes:
  "(filter is_create (new_actions (Reconcile E (actuator_ops_of E a) key) st) = []
    \<or> filter is_delete (new_actions (Reconcile E (actuator_ops_of E a) key) st) = [])
   \<and> length (filter is_delete (new_actions (Reconcile E (actuator_ops_of E a) key) st)) \<le> 1"
proof -
  have del: "filter is_create (new_actions (reconcileDelete E (actuator_ops_of E a)) st') = []" for st'
    using new_actions_mem [OF nico.deleting_no_create] unfolding filter_empty_conv by blast
  have nor: "filter is_delete (new_actions (reconcileNormal E (actuator_ops_of E a)) st') = []" for st'
    using new_actions_mem [OF nico.normal_no_delete] unfolding filter_empty_conv by blast
  have "filter is_create (new_actions (Reconcile E (actuator_ops_of E a) key) st) = []
    \<or> filter is_delete (new_actions (Reconcile E (actuator_ops_of E a) key) st) = []"
    unfolding nico.reconcile_new
    by (cases "fst (kubeGetMachine (envKube E) key (ext st))") (simp_all add: del nor)
  then show ?thesis using new_actions_at_most [OF nico.reconcile_delete_once] by simp
qed

text \<open>C7. While a machine is being deleted, the API server is written to exactly when the actuator
  reports that the instance is deleted, once, and then with the machine as it was fetched less its
  two finalizers: a machine keeps its finalizer until its instance is gone.\<close>

theorem finalizer_kept_until_deleted:
  "filter is_kube_write (new_actions (reconcileDelete E (actuator_ops_of E a)) st) =
     (if fst (Delete E a st) = Val None then [KubeUpdate (remove_finalizers (envLib E) (obj st))] else [])"
proof -
  obtain r st' where r: "Delete E a st = (r, st')" by (cases "Delete E a st")
  obtain es where es: "trace st' = trace st @ es" "filter is_kube_write es = []"
    using emitsD [OF emits_Delete_no_create, of E a st] r by (auto simp: list_all_iff filter_empty_conv)
  have keep: "obj st' = obj st" using keepsD [OF keeps_Delete, of "\<lambda>m. m" E a st] r by simp
  let ?st = "st'\<lparr>obj := remove_finalizers (envLib E) (obj st')\<rparr>"
  obtain v st'' where u: "kube_update E ?st = (Val v, st'')"
    using totalD [OF total_kube_writes(1)] by blast
  have "trace st'' = trace st' @ [KubeUpdate (remove_finalizers (envLib E) (obj st))]"
    using u keep by (auto simp: run_kube_update Let_def split: sum.splits)
  then show ?thesis
    using r es u
    by (cases r) (auto simp: new_actions_def reconcileDelete_run actuator_ops_of_def split: option.split)
qed

text \<open>What is written then no longer carries either finalizer, and keeps all others.\<close>

theorem finalizers_removed:
  assumes "finalizer_ops (libContainsFinalizer L) (libAddFinalizer L) (libRemoveFinalizer L)"
  shows "libContainsFinalizer L (omFinalizers (objMeta (remove_finalizers L m))) f \<longleftrightarrow>
     f \<noteq> MachineFinalizer \<and> f \<noteq> LegacyMachineFinalizer
     \<and> libContainsFinalizer L (omFinalizers (objMeta m)) f"
  using finalizer_ops.contains_remove_both [OF assms]
  by (simp add: remove_finalizers_def set_finalizers_def)

lemma ref_lib_finalizers:
  "finalizer_ops (libContainsFinalizer ref_lib) (libAddFinalizer ref_lib) (libRemoveFinalizer ref_lib)"
  by (simp add: ref_lib_def ref_finalizers.finalizer_ops_axioms)

theorem finalizers_removed_witness:
  "\<not> libContainsFinalizer ref_lib (omFinalizers (objMeta (remove_finalizers ref_lib ref_machine)))
      MachineFinalizer"
  using finalizers_removed [OF ref_lib_finalizers] by simp

text \<open>A machine without the finalizer only gets it: nothing is asked of the NICo service before
  the finalizer is stored, and the machine comes back a second later.\<close>

theorem finalizer_comes_first:
  assumes "\<not> libContainsFinalizer (envLib E) (omFinalizers (objMeta (obj st))) MachineFinalizer"
  shows "new_actions (reconcileNormal E ops) st =
      [KubeUpdate (set_finalizers (libAddFinalizer (envLib E) (omFinalizers (objMeta (obj st)))
         MachineFinalizer) (obj st))]
    \<and> fst (reconcileNormal E ops st) =
      (case fst (kubeUpdate (envKube E) (set_finalizers (libAddFinalizer (envLib E)
          (omFinalizers (objMeta (obj st))) MachineFinalizer) (obj st)) (ext st)) of
         Inl e \<Rightarrow> Val (0, Some (ErrWrap ''failed to add finalizer: '' e))
       | Inr _ \<Rightarrow> Val (1000000000, None))"
  using assms
  by (simp add: new_actions_def reconcileNormal_run run_kube_update Let_def second_def split: sum.split)

theorem finalizer_comes_first_witness:
  "fst (reconcileNormal ref_env (actuator_ops_of ref_env ref_actuator)
      (ref_state (ref_world0\<lparr>rwMachine := set_finalizers [] ref_machine\<rparr>))) = Val (1000000000, None)"
  using finalizer_comes_first [of ref_env "ref_state (ref_world0\<lparr>rwMachine := set_finalizers [] ref_machine\<rparr>)"
      "actuator_ops_of ref_env ref_actuator"]
  by (simp add: set_finalizers_def ref_lib_def)

end
