(* ===== verification/Writes.thy ===== *)
theory Writes
  imports ActuatorBase
begin

text \<open>
  A calculus for what a program of the actuator writes to the API server: an invariant of the
  object in memory is an invariant of every object written, and a program may weaken it only
  together with an action that justifies it. The rules follow the combinators of the prelude.
\<close>

section \<open>Invariants of what is written\<close>

text \<open>
  \<open>maintains I m\<close>: from an object with \<open>I\<close>, the program \<open>m\<close> writes only objects with \<open>I\<close> and leaves
  one behind. \<open>turns P I J m\<close>: the same, or it performs an action \<open>P\<close> and writes and leaves
  objects with the weaker \<open>J\<close>.
\<close>

definition writes :: "(MachineObject \<Rightarrow> bool) \<Rightarrow> action \<Rightarrow> bool" where
  "writes I x = (case x of KubeUpdate m \<Rightarrow> I m | KubeStatusUpdate m \<Rightarrow> I m | _ \<Rightarrow> True)"

lemma writes_simps [simp]:
  "writes I (KubeUpdate m) = I m" "writes I (KubeStatusUpdate m) = I m" "writes I (Api c)"
  "writes I (Event t r n)" "writes I (Metric me)" "writes I (KubeGetSecret k)" "writes I (KubeGetMachine k)"
  by (simp_all add: writes_def)

lemma writes_quiet: "\<not> is_kube_write x \<Longrightarrow> writes I x"
  by (cases x) simp_all

lemma writes_mono: "(\<And>m. I m \<Longrightarrow> J m) \<Longrightarrow> writes I x \<Longrightarrow> writes J x"
  by (cases x) simp_all

definition maintains :: "(MachineObject \<Rightarrow> bool) \<Rightarrow> ('s, 'r) act \<Rightarrow> bool" where
  "maintains I m \<longleftrightarrow> (\<forall>st. I (obj st) \<longrightarrow> I (obj (snd (m st)))
     \<and> (\<exists>es. trace (snd (m st)) = trace st @ es \<and> list_all (writes I) es))"

definition turns ::
  "(action \<Rightarrow> bool) \<Rightarrow> (MachineObject \<Rightarrow> bool) \<Rightarrow> (MachineObject \<Rightarrow> bool) \<Rightarrow> ('s, 'r) act \<Rightarrow> bool" where
  "turns P I J m \<longleftrightarrow> (\<forall>st. I (obj st) \<longrightarrow>
     (\<exists>es. trace (snd (m st)) = trace st @ es
        \<and> (list_all (writes I) es \<and> I (obj (snd (m st)))
           \<or> list_ex P es \<and> list_all (writes J) es \<and> J (obj (snd (m st))))))"

named_theorems maintains_intros \<open>rules for what a program writes\<close>

lemma maintainsD:
  "maintains I m \<Longrightarrow> m st = (r, st') \<Longrightarrow> I (obj st) \<Longrightarrow>
     I (obj st') \<and> (\<exists>es. trace st' = trace st @ es \<and> list_all (writes I) es)"
  unfolding maintains_def by (metis snd_conv)

lemma maintains_quiet:
  assumes "keeps (\<lambda>m. m) m" and "emits (\<lambda>x. \<not> is_kube_write x) m"
  shows "maintains I m"
  unfolding maintains_def
proof (intro allI impI conjI)
  fix st :: "('a, MachineObject, action) st" assume "I (obj st)"
  then show "I (obj (snd (m st)))" using keepsD [OF assms(1)] by simp
  show "\<exists>es. trace (snd (m st)) = trace st @ es \<and> list_all (writes I) es"
    using emitsD [OF assms(2), of st] by (auto simp: list_all_iff intro: writes_quiet)
qed

lemma maintains_ret [maintains_intros]: "maintains I (ret x)"
  by (simp add: maintains_def ret_def)

lemma maintains_panic [maintains_intros]: "maintains I panic"
  by (simp add: maintains_def panic_def)

lemma maintains_andthen_returns:
  assumes m: "maintains I m" and r: "returns \<psi> m" and k: "\<And>x. \<psi> x \<Longrightarrow> maintains I (k x)"
  shows "maintains I (andthen m k)"
  unfolding maintains_def
proof (intro allI impI)
  fix st :: "('a, MachineObject, action) st" assume I: "I (obj st)"
  obtain v st1 where 1: "m st = (v, st1)" by (cases "m st")
  from maintainsD [OF m 1 I] obtain es where
    st1: "I (obj st1)" "trace st1 = trace st @ es" "list_all (writes I) es" by blast
  show "I (obj (snd (andthen m k st)))
      \<and> (\<exists>es. trace (snd (andthen m k st)) = trace st @ es \<and> list_all (writes I) es)"
  proof (cases v)
    case (Val x)
    obtain w st2 where 2: "k x st1 = (w, st2)" by (cases "k x st1")
    have "\<psi> x" using returnsD [OF r] 1 Val by simp
    from maintainsD [OF k [OF this] 2 st1(1)] show ?thesis
      using 1 2 Val st1 by (auto simp: andthen_def)
  qed (use 1 st1 in \<open>auto simp: andthen_def\<close>)
qed

lemma maintains_andthen [maintains_intros]:
  "maintains I m \<Longrightarrow> (\<And>x. maintains I (k x)) \<Longrightarrow> maintains I (andthen m k)"
  by (rule maintains_andthen_returns [OF _ returns_True])

lemma maintains_getobj:
  "(\<And>m. I m \<Longrightarrow> maintains I (k m)) \<Longrightarrow> maintains I (andthen getobj k)"
  by (simp add: maintains_def andthen_def getobj_def)

lemma maintains_seqp [maintains_intros]: "maintains I m \<Longrightarrow> maintains I k \<Longrightarrow> maintains I (seqp m k)"
  unfolding seqp_def by (rule maintains_andthen)

lemma maintains_whenp [maintains_intros]: "(b \<Longrightarrow> maintains I m) \<Longrightarrow> maintains I (whenp b m)"
  by (simp add: whenp_def maintains_ret)

lemma maintains_tryp [maintains_intros]:
  "maintains I m \<Longrightarrow> (\<And>x. maintains I (k x)) \<Longrightarrow> maintains I (tryp m w k)"
  unfolding tryp_def by (rule maintains_andthen) (auto split: sum.split intro: maintains_ret)

lemma maintains_guardp [maintains_intros]:
  "maintains I m \<Longrightarrow> maintains I k \<Longrightarrow> maintains I (guardp m w k)"
  unfolding guardp_def by (rule maintains_andthen) (auto split: option.split intro: maintains_ret)

lemma maintains_modobj [maintains_intros]: "(\<And>m. I m \<Longrightarrow> I (f m)) \<Longrightarrow> maintains I (modobj f)"
  by (simp add: maintains_def modobj_def)

lemma maintains_readext [maintains_intros]: "maintains I (readext f)"
  by (simp add: maintains_def readext_def)

lemma maintains_if [maintains_intros]:
  "(b \<Longrightarrow> maintains I m) \<Longrightarrow> (\<not> b \<Longrightarrow> maintains I k) \<Longrightarrow> maintains I (if b then m else k)"
  by simp

lemma maintains_case_option [maintains_intros]:
  "(x = None \<Longrightarrow> maintains I m) \<Longrightarrow> (\<And>y. x = Some y \<Longrightarrow> maintains I (k y)) \<Longrightarrow>
     maintains I (case x of None \<Rightarrow> m | Some y \<Rightarrow> k y)"
  by (simp split: option.split)

lemma maintains_case_sum [maintains_intros]:
  "(\<And>y. x = Inl y \<Longrightarrow> maintains I (m y)) \<Longrightarrow> (\<And>y. x = Inr y \<Longrightarrow> maintains I (k y)) \<Longrightarrow>
     maintains I (case x of Inl y \<Rightarrow> m y | Inr y \<Rightarrow> k y)"
  by (simp split: sum.split)

lemma maintains_case_prod [maintains_intros]:
  "(\<And>a b. x = (a, b) \<Longrightarrow> maintains I (k a b)) \<Longrightarrow> maintains I (case x of (a, b) \<Rightarrow> k a b)"
  by (simp split: prod.split)

lemma maintains_Let [maintains_intros]: "maintains I (k x) \<Longrightarrow> maintains I (let y = x in k y)"
  by simp

lemma maintains_outputs [maintains_intros]: "maintains I (eventf a ty r n)" "maintains I (metricp me)"
  by (rule maintains_quiet; intro keeps_intros emits_intros; simp)+

lemma maintains_kube_writes:
  assumes "truthful (envKube E)"
  shows "maintains I (kube_update E)" and "maintains I (kube_status_update E)"
  using assms
  by (auto simp: maintains_def kube_update_def kube_status_update_def run_simps split: sum.split
      dest: truthfulD)

lemma turnsD:
  "turns P I J m \<Longrightarrow> m st = (r, st') \<Longrightarrow> I (obj st) \<Longrightarrow>
     \<exists>es. trace st' = trace st @ es
       \<and> (list_all (writes I) es \<and> I (obj st') \<or> list_ex P es \<and> list_all (writes J) es \<and> J (obj st'))"
  unfolding turns_def by (metis snd_conv)

lemma turns_maintains: "maintains I m \<Longrightarrow> turns P I J m"
  unfolding maintains_def turns_def by blast

lemma turns_andthen:
  assumes m: "maintains I m" and k: "\<And>x. turns P I J (k x)" and IJ: "\<And>m. I m \<Longrightarrow> J m"
  shows "turns P I J (andthen m k)"
  unfolding turns_def
proof (intro allI impI)
  fix st :: "('a, MachineObject, action) st" assume I: "I (obj st)"
  obtain v st1 where 1: "m st = (v, st1)" by (cases "m st")
  from maintainsD [OF m 1 I] obtain es where
    st1: "I (obj st1)" "trace st1 = trace st @ es" "list_all (writes I) es" by blast
  then have J: "list_all (writes J) es" using writes_mono [of I J] IJ by (auto simp: list_all_iff)
  show "\<exists>es. trace (snd (andthen m k st)) = trace st @ es
        \<and> (list_all (writes I) es \<and> I (obj (snd (andthen m k st)))
           \<or> list_ex P es \<and> list_all (writes J) es \<and> J (obj (snd (andthen m k st))))"
  proof (cases v)
    case (Val x)
    from k [of x] st1(1) obtain es' where "trace (snd (k x st1)) = trace st1 @ es'"
        "list_all (writes I) es' \<and> I (obj (snd (k x st1)))
           \<or> list_ex P es' \<and> list_all (writes J) es' \<and> J (obj (snd (k x st1)))"
      unfolding turns_def by blast
    then show ?thesis using 1 Val st1 J by (intro exI [of _ "es @ es'"]) (auto simp: andthen_def)
  qed (use 1 st1 in \<open>auto simp: andthen_def\<close>)
qed

lemma turns_tryp:
  "maintains I m \<Longrightarrow> (\<And>x. turns P I J (k x)) \<Longrightarrow> (\<And>m. I m \<Longrightarrow> J m) \<Longrightarrow> turns P I J (tryp m w k)"
  unfolding tryp_def
  by (rule turns_andthen) (auto split: sum.split intro: turns_maintains maintains_ret)

lemma turns_ret: "turns P I J (ret x)"
  by (rule turns_maintains [OF maintains_ret])

lemma turns_if: "(b \<Longrightarrow> turns P I J m) \<Longrightarrow> (\<not> b \<Longrightarrow> turns P I J k) \<Longrightarrow> turns P I J (if b then m else k)"
  by simp

lemma turns_case_prod:
  "(\<And>a b. x = (a, b) \<Longrightarrow> turns P I J (k a b)) \<Longrightarrow> turns P I J (case x of (a, b) \<Rightarrow> k a b)"
  by (simp split: prod.split)

lemma turns_getobj: "(\<And>m. I m \<Longrightarrow> turns P I J (k m)) \<Longrightarrow> turns P I J (andthen getobj k)"
  by (simp add: turns_def andthen_def getobj_def)

text \<open>Once the action has been performed, only \<open>J\<close> is left to show.\<close>

lemma turns_extcall:
  assumes "P a" and "writes J a" and "\<And>x. maintains J (k x)" and "\<And>m. I m \<Longrightarrow> J m"
  shows "turns P I J (andthen (extcall a f) k)"
  unfolding turns_def
proof (intro allI impI)
  fix st :: "('b, MachineObject, action) st" assume I: "I (obj st)"
  let ?st = "st\<lparr>ext := snd (f (ext st)), trace := trace st @ [a]\<rparr>"
  obtain v st1 where 1: "k (fst (f (ext st))) ?st = (v, st1)"
    by (cases "k (fst (f (ext st))) ?st")
  from maintainsD [OF assms(3) 1] I assms(4) obtain es where
    "J (obj st1)" "trace st1 = trace ?st @ es" "list_all (writes J) es" by auto
  then show "\<exists>es. trace (snd (andthen (extcall a f) k st)) = trace st @ es
        \<and> (list_all (writes I) es \<and> I (obj (snd (andthen (extcall a f) k st)))
           \<or> list_ex P es \<and> list_all (writes J) es \<and> J (obj (snd (andthen (extcall a f) k st))))"
    using 1 assms(1,2) by (intro exI [of _ "a # es"]) (simp add: run_simps)
qed

end
