(* ===== verification/Lifecycle.thy ===== *)
theory Lifecycle
  imports MachineController Writes
begin

text \<open>
  The life of a Machine across the reconciler and the actuator: an abstract machine of two facts,
  whether the object carries the finalizer and which instance its status records, with the steps
  a reconcile may take, and the proof that every object a reconcile writes to the API server is
  such a step from the object it fetched. Then the reconciles of a machine that is ready to be
  created, for the properties of the root theory.
\<close>

section \<open>The abstract machine\<close>

record life =
  lfFinalizer :: bool
  lfInstance :: "string option"

definition life_of :: "KubeLib \<Rightarrow> MachineObject \<Rightarrow> life" where
  "life_of L m =
     \<lparr>lfFinalizer = libContainsFinalizer L (omFinalizers (objMeta m)) MachineFinalizer,
      lfInstance = (case getProviderStatus L m of Inl _ \<Rightarrow> None | Inr ps \<Rightarrow> psInstanceID ps)\<rparr>"

text \<open>
  The steps, given whether the object is being deleted and whether an instance has been asked
  for: a live object gets its finalizer, and with it the record of a new instance; an object that
  is being deleted loses its finalizer; anything else changes neither fact.
\<close>

inductive life_step :: "bool \<Rightarrow> bool \<Rightarrow> life \<Rightarrow> life \<Rightarrow> bool" where
  stay: "life_step deleting created l l"
| finalize: "\<not> lfFinalizer l \<Longrightarrow> life_step False created l (l\<lparr>lfFinalizer := True\<rparr>)"
| record_instance: "lfFinalizer l \<Longrightarrow> life_step False True l (l\<lparr>lfInstance := Some i\<rparr>)"
| release: "life_step True created l (l\<lparr>lfFinalizer := False\<rparr>)"

inductive_cases life_step_deleting: "life_step True created l l'"
inductive_cases life_step_quiet: "life_step False False l l'"

text \<open>A recorded instance is never forgotten, and without a new instance never replaced.\<close>

lemma life_step_keeps_record:
  "life_step d c l l' \<Longrightarrow> (lfInstance l \<noteq> None \<longrightarrow> lfInstance l' \<noteq> None) \<and> (\<not> c \<longrightarrow> lfInstance l' = lfInstance l)"
  by (induction rule: life_step.induct) auto

section \<open>Statuses read from an object\<close>

text \<open>A Go map has each key once, so the labels of a decoded status do.\<close>

lemma status_labels_distinct:
  assumes "objBody m = MachineBody t" and "getProviderStatus L m = Inr ps"
  shows "distinct (map fst (psHealthLabels ps))"
proof -
  let ?P = "\<lambda>ps :: NicoMachineProviderStatus. distinct (map fst (psHealthLabels ps))"
  have zero: "?P zero_status" by (simp add: zero_status_def)
  have step: "?P y" if "?P x" "member_ProviderStatus C k j x = Inr y" for C k j x y
    using that by (auto simp: member_ProviderStatus_def upd_field_def split: if_splits sum.splits
        dest: dec_strmap_distinct)
  have "dec_ProviderStatus C j = Inr y \<Longrightarrow> ?P y" for C j y
    unfolding dec_ProviderStatus_def
    by (cases j) (use zero dec_members_invariant [of ?P, OF step zero] in auto)
  then show ?thesis
    using assms zero
    by (auto simp: getProviderStatus_def unmarshal_def split: option.splits sum.splits)
qed

section \<open>What the object carries\<close>

definition carries :: "KubeLib \<Rightarrow> string list \<Rightarrow> string option \<Rightarrow> MachineObject \<Rightarrow> bool" where
  "carries L fs iid m \<longleftrightarrow> (\<exists>t. objBody m = MachineBody t) \<and> omFinalizers (objMeta m) = fs
     \<and> (\<exists>ps. getProviderStatus L m = Inr ps \<and> psInstanceID ps = iid)"

lemma carries_life: "carries L fs iid m \<Longrightarrow>
    life_of L m = \<lparr>lfFinalizer = libContainsFinalizer L fs MachineFinalizer, lfInstance = iid\<rparr>"
  by (auto simp: carries_def life_of_def)

lemma carries_typed: "carries L fs iid m \<Longrightarrow> \<exists>t. objBody m = MachineBody t"
  by (simp add: carries_def)

lemma carries_status:
  "carries L fs iid m \<Longrightarrow> getProviderStatus L m = Inr ps \<Longrightarrow>
     psInstanceID ps = iid \<and> distinct (map fst (psHealthLabels ps))"
  using status_labels_distinct by (auto simp: carries_def)

lemma carries_put:
  assumes "codec_ok (libCodec L) norm" and "distinct (map fst (psHealthLabels ps))"
    and "carries L fs iid m"
  shows "carries L fs (psInstanceID ps) (put_provider_status (Some (enc_ProviderStatus (libCodec L) ps)) t m)"
  using assms(3) getProviderStatus_put [OF assms(1,2)]
  by (auto simp: carries_def) (simp_all add: put_provider_status_def)

lemma getProviderStatus_other:
  "objBody m = MachineBody t \<Longrightarrow> objBody m' = MachineBody t' \<Longrightarrow> tmProviderStatus t' = tmProviderStatus t \<Longrightarrow>
     getProviderStatus L m' = getProviderStatus L m"
  by (simp add: getProviderStatus_def)

lemma carries_failure: "carries L fs iid m \<Longrightarrow> carries L fs iid (set_failure r g m)"
  by (auto simp: carries_def set_failure_def getProviderStatus_def)

lemma carries_labels: "carries L fs iid m \<Longrightarrow> carries L fs iid (snd (setTopologyLabels inst spec m))"
  by (auto simp: carries_def setTopologyLabels_def set_labels_def getProviderStatus_def split: prod.split)

lemma carries_provider_id:
  "carries L fs iid m \<Longrightarrow> objBody m = MachineBody t \<Longrightarrow>
     carries L fs iid (m\<lparr>objBody := MachineBody (t\<lparr>tmProviderID := pid\<rparr>)\<rparr>)"
  by (auto simp: carries_def getProviderStatus_def)

lemma maintains_setProviderStatus:
  assumes "truthful (envKube E)" and "\<And>m. I m \<Longrightarrow> \<exists>t. objBody m = MachineBody t"
    and "\<And>m t. I m \<Longrightarrow> I (put_provider_status (Some (enc_ProviderStatus (libCodec (envLib E)) ps)) t m)"
  shows "maintains I (setProviderStatus E ps)"
  unfolding maintains_def
proof (intro allI impI)
  fix st :: "('a, MachineObject, action) st" assume I: "I (obj st)"
  then obtain t where "objBody (obj st) = MachineBody t" using assms(2) by blast
  then show "I (obj (snd (setProviderStatus E ps st)))
      \<and> (\<exists>es. trace (snd (setProviderStatus E ps st)) = trace st @ es \<and> list_all (writes I) es)"
    using assms(1,3) I
    by (auto simp: setProviderStatus_def kube_status_update_def run_simps Let_def split: sum.split
        dest: truthfulD)
qed

lemma maintains_setProviderID:
  assumes "truthful (envKube E)" and "\<And>m. I m \<Longrightarrow> \<exists>t. objBody m = MachineBody t"
    and "\<And>m t. I m \<Longrightarrow> objBody m = MachineBody t \<Longrightarrow>
      I (m\<lparr>objBody := MachineBody (t\<lparr>tmProviderID := Some pid\<rparr>)\<rparr>)"
  shows "maintains I (setProviderID E pid)"
  unfolding maintains_def
proof (intro allI impI)
  fix st :: "('a, MachineObject, action) st" assume I: "I (obj st)"
  then obtain t where "objBody (obj st) = MachineBody t" using assms(2) by blast
  then show "I (obj (snd (setProviderID E pid st)))
      \<and> (\<exists>es. trace (snd (setProviderID E pid st)) = trace st @ es \<and> list_all (writes I) es)"
    using assms(1,3) I 
    by (auto simp: setProviderID_def kube_update_def run_simps Let_def split: sum.split dest: truthfulD)
qed

section \<open>What the operations of the actuator write\<close>

lemma maintains_Update:
  assumes "conditions_ok (envLib E)" and "codec_ok (libCodec (envLib E)) norm" and "truthful (envKube E)"
  shows "maintains (carries (envLib E) fs iid) (Update E a)"
proof -
  let ?I = "carries (envLib E) fs iid"
  have wr: "maintains ?I (setProviderStatus E (q\<lparr>psAddresses := adr\<rparr>))"
    if "reports_state inst iid q" for q adr inst
    using that carries_put [OF assms(2), of "q\<lparr>psAddresses := adr\<rparr>"] carries_typed
    by (intro maintains_setProviderStatus [OF assms(3)]) (auto simp: reports_state_def)
  have timeout: "maintains ?I (checkProvisioningTimeout E a inst q)" for inst q
    unfolding checkProvisioningTimeout_def by (intro maintains_intros carries_failure)
  have track: "maintains ?I (track_state E inst q)" for inst q
    unfolding track_state_def record_provision_duration_def Let_def
    by (rule maintains_quiet) (intro keeps_intros emits_intros; simp)+
  have history: "maintains ?I (checkStatusHistory E a c org inst)" for c org inst
    unfolding checkStatusHistory_def emitMachineStatusHistory_def record_history_def
    by (rule maintains_quiet) (intro keeps_intros emits_intros; simp)+
  have health: "maintains ?I (updateMachineHealth E a c org inst q)" for c org inst q
    by (rule maintains_quiet)
      (intro keeps_intros emits_intros; auto elim!: is_health_action.elims dest: is_read_no_write)+
  have last: "maintains ?I (andthen (checkProvisioningTimeout E a inst q) (\<lambda>q'.
      guardp (setProviderStatus E (q'\<lparr>psAddresses := instance_addresses inst\<rparr>))
        (\<lambda>e. Some (ErrWrap ''failed to update provider status: '' e)) (ret None)))"
    if "reports_state inst iid q" for q inst
    by (rule maintains_andthen_returns [OF timeout checkProvisioningTimeout_reports [OF assms(1) that]])
      (intro maintains_intros wr)
  have app: "maintains ?I (apply_instance E a c org spec ps inst)"
    if "psInstanceID ps = iid" "distinct (map fst (psHealthLabels ps))" for c org spec ps inst
    unfolding apply_instance_def
    using track_state_reports [OF assms(1) that(2), where inst = inst] that(1)
    by (intro maintains_andthen_returns [OF track] maintains_getobj maintains_guardp maintains_if
        maintains_seqp maintains_modobj carries_labels maintains_kube_writes [OF assms(3)] maintains_ret
        maintains_andthen_returns [OF health updateMachineHealth_reports [OF assms(1)]] history last)
      simp_all
  have quiet: "maintains ?I (getNicoClient E a spec)" "maintains ?I (call_GetInstance c org i)" for spec c org i
    by (rule maintains_quiet; intro keeps_intros emits_intros; simp)+
  show ?thesis
    unfolding Update_def
    by (intro maintains_getobj maintains_intros quiet app) (auto dest: carries_status)
qed

text \<open>The object records the instance it recorded before, or another one.\<close>

definition carries_some :: "KubeLib \<Rightarrow> string list \<Rightarrow> string option \<Rightarrow> MachineObject \<Rightarrow> bool" where
  "carries_some L fs iid m \<longleftrightarrow> carries L fs iid m \<or> (\<exists>i. carries L fs (Some i) m)"

lemma carries_some_typed: "carries_some L fs iid m \<Longrightarrow> \<exists>t. objBody m = MachineBody t"
  by (auto simp: carries_some_def carries_def)

lemma carries_some_life:
  assumes "carries L fs iid m" and "carries_some L fs iid m'" and "libContainsFinalizer L fs MachineFinalizer"
  shows "life_step False True (life_of L m) (life_of L m')"
  using assms life_step.record_instance [of "life_of L m"]
  by (auto simp: carries_some_def carries_life intro: life_step.stay)

lemma maintains_block_creation:
  assumes "codec_ok (libCodec (envLib E)) norm" and "truthful (envKube E)"
  shows "maintains (carries (envLib E) fs iid) (block_creation E a mid msg)"
proof -
  let ?I = "carries (envLib E) fs iid"
  have wr: "maintains ?I (setProviderStatus E (blocked_status (envLib E) now n msg ps))"
    if "?I m" "getProviderStatus (envLib E) m = Inr ps" for m ps now n
    using carries_status [OF that] carries_put [OF assms(1), of "blocked_status (envLib E) now n msg ps"]
      carries_typed
    by (intro maintains_setProviderStatus [OF assms(2)]) (auto simp: blocked_status_def)
  show ?thesis
    unfolding block_creation_def
    by (intro maintains_getobj maintains_intros carries_failure wr)
qed

lemma maintains_finish_create:
  assumes "codec_ok (libCodec (envLib E)) norm" and "truthful (envKube E)"
  shows "maintains (carries_some (envLib E) fs iid) (finish_create E a c org spec inst)"
proof -
  let ?J = "carries_some (envLib E) fs iid"
  have st: "maintains ?J (setProviderStatus E (created_status (envLib E) now i inst))"
    if "instId inst = Some i" for now i
  proof (rule maintains_setProviderStatus [OF assms(2) carries_some_typed])
    fix m t assume "?J m"
    then obtain iid' where "carries (envLib E) fs iid' m" by (auto simp: carries_some_def)
    from carries_put [OF assms(1) _ this, of "created_status (envLib E) now i inst" t]
    show "?J (put_provider_status
        (Some (enc_ProviderStatus (libCodec (envLib E)) (created_status (envLib E) now i inst))) t m)"
      using that by (auto simp: carries_some_def created_status_def zero_status_def)
  qed
  have pid: "maintains ?J (setProviderID E p)" for p
    by (rule maintains_setProviderID [OF assms(2) carries_some_typed])
      (auto simp: carries_some_def intro: carries_provider_id)
  have dpu: "maintains ?J (deployDpuExtensionServices a c org i spec)" for i
    unfolding deployDpuExtensionServices_def
    by (rule maintains_quiet; intro keeps_intros emits_intros; simp)
  show ?thesis
    unfolding finish_create_def by (intro maintains_intros st pid dpu)
qed

lemma turns_create_instance:
  assumes "codec_ok (libCodec (envLib E)) norm" and "truthful (envKube E)"
  shows "turns is_create (carries (envLib E) fs iid) (carries_some (envLib E) fs iid)
    (create_instance E a c org spec)"
proof -
  let ?J = "carries_some (envLib E) fs iid"
  have "maintains ?J (handleCreateError a resp e)" for resp e
    unfolding handleCreateError_def by (intro maintains_intros)
  then have "maintains ?J (after_create E a c org spec inst resp err)" for inst resp err
    unfolding after_create_def
    by (intro maintains_intros maintains_finish_create [OF assms]) simp_all
  then show ?thesis
    unfolding create_instance_def call_CreateInstance_def
    by (intro turns_getobj turns_extcall maintains_intros) (simp_all add: carries_some_def)
qed

lemma turns_Create:
  assumes "codec_ok (libCodec (envLib E)) norm" and "truthful (envKube E)"
  shows "turns is_create (carries (envLib E) fs iid) (carries_some (envLib E) fs iid) (Create E a)"
proof -
  let ?I = "carries (envLib E) fs iid" and ?J = "carries_some (envLib E) fs iid"
  have IJ: "?I m \<Longrightarrow> ?J m" for m by (simp add: carries_some_def)
  have quiet: "maintains ?I (getNicoClient E a spec)" "maintains ?I (checkCriticalFaults c org mid)"
      "maintains ?I (checkMachineValidation c org mid)" "maintains ?I (hasTargetedInstanceCreation c org site)"
    for spec c org mid site
    by (rule maintains_quiet; intro keeps_intros emits_intros; auto dest: is_read_no_write)+
  have flight: "maintains ?I (checkPreFlightHealth E a c org spec)" for c org spec
    unfolding checkPreFlightHealth_def
    by (intro maintains_intros quiet maintains_block_creation [OF assms])
  have gated: "turns is_create ?I ?J (gated_create E a c org spec)" for c org spec
    unfolding gated_create_def
    by (intro turns_andthen [OF _ _ IJ] turns_if turns_case_prod turns_ret maintains_if quiet flight
        maintains_ret turns_create_instance [OF assms])
  have invalid: "maintains ?I (seqp (eventf a EventWarning r n) (ret v))" for r n and v :: "go_err option"
    by (intro maintains_intros)
  show ?thesis
    unfolding Create_def
    by (rule turns_getobj)
      (auto split: sum.split option.split
         intro!: turns_tryp [OF _ _ IJ] quiet gated turns_maintains [OF maintains_ret] turns_maintains [OF invalid])
qed

section \<open>What a reconcile writes\<close>

text \<open>What the proofs assume of the libraries and of the API server.\<close>

definition libraries_ok :: "('s, 'u) env \<Rightarrow> (Condition \<Rightarrow> Condition) \<Rightarrow> bool" where
  "libraries_ok E norm \<longleftrightarrow> conditions_ok (envLib E) \<and> codec_ok (libCodec (envLib E)) norm
     \<and> truthful (envKube E)
     \<and> finalizer_ops (libContainsFinalizer (envLib E)) (libAddFinalizer (envLib E)) (libRemoveFinalizer (envLib E))"

lemma life_of_finalizers:
  "life_of L (set_finalizers fs m) = (life_of L m)\<lparr>lfFinalizer := libContainsFinalizer L fs MachineFinalizer\<rparr>"
  by (simp add: life_of_def getProviderStatus_def set_finalizers_def)

lemma Exists_decodes:
  assumes "Exists E a st = (Val (Inr b), st')"
  shows "\<exists>ps. getProviderStatus (envLib E) (obj st) = Inr ps"
  using assms by (cases "getProviderStatus (envLib E) (obj st)") (auto simp: Exists_def run_simps split: if_splits)

text \<open>The step to an object, given the actions of the run that writes it.\<close>

definition life_writes :: "KubeLib \<Rightarrow> bool \<Rightarrow> MachineObject \<Rightarrow> action list \<Rightarrow> bool" where
  "life_writes L deleting m acts \<longleftrightarrow>
     list_all (writes (\<lambda>m'. life_step deleting (list_ex is_create acts) (life_of L m) (life_of L m'))) acts"

lemma life_writes_quiet: "list_all (\<lambda>x. \<not> is_kube_write x) acts \<Longrightarrow> life_writes L d m acts"
  unfolding life_writes_def list_all_iff by (blast intro: writes_quiet)

lemma life_writes_same:
  assumes "carries L fs iid m" and "list_all (writes (carries L fs iid)) acts"
  shows "life_writes L d m acts"
  unfolding life_writes_def list_all_iff
proof
  fix x assume "x \<in> set acts"
  then have "writes (carries L fs iid) x" using assms(2) by (simp add: list_all_iff)
  then show "writes (\<lambda>m'. life_step d (list_ex is_create acts) (life_of L m) (life_of L m')) x"
    by (rule writes_mono [rotated]) (use assms(1) in \<open>simp add: carries_life life_step.stay\<close>)
qed

lemma life_writes_some:
  assumes "carries L fs iid m" and "libContainsFinalizer L fs MachineFinalizer"
    and "list_ex is_create acts" and "list_all (writes (carries_some L fs iid)) acts"
  shows "life_writes L False m acts"
  unfolding life_writes_def list_all_iff
proof
  fix x assume "x \<in> set acts"
  then have "writes (carries_some L fs iid) x" using assms(4) by (simp add: list_all_iff)
  then show "writes (\<lambda>m'. life_step False (list_ex is_create acts) (life_of L m) (life_of L m')) x"
    by (rule writes_mono [rotated]) (use assms carries_some_life [OF assms(1) _ assms(2)] in simp)
qed

lemma operation_life:
  assumes ok: "libraries_ok E norm" and m: "carries (envLib E) fs iid (obj st)"
    and fin: "libContainsFinalizer (envLib E) fs MachineFinalizer"
    and run: "(if exists then Update E a else Create E a) st = (r, st')"
    and tr: "trace st = trace0 @ es" and es: "list_all is_read es"
  shows "\<exists>acts. trace st' = trace0 @ acts \<and> life_writes (envLib E) False (obj st) acts"
proof -
  have lib: "conditions_ok (envLib E)" "codec_ok (libCodec (envLib E)) norm" "truthful (envKube E)"
    using ok by (simp_all add: libraries_ok_def)
  have quiet: "list_all (writes I) es" for I
    using es by (auto simp: list_all_iff intro: writes_quiet dest: is_read_no_write)
  show ?thesis
  proof (cases exists)
    case True
    then have "Update E a st = (r, st')" using run by simp
    from maintainsD [OF maintains_Update [OF lib] this m] obtain es' where
      "trace st' = trace st @ es'" "list_all (writes (carries (envLib E) fs iid)) es'" by auto
    then show ?thesis
      using tr life_writes_same [OF m, of "es @ es'"] quiet by auto
  next
    case False
    then have "Create E a st = (r, st')" using run by simp
    from turnsD [OF turns_Create [OF lib(2,3)] this m] obtain es' where es':
        "trace st' = trace st @ es'"
        "list_all (writes (carries (envLib E) fs iid)) es'
         \<or> list_ex is_create es' \<and> list_all (writes (carries_some (envLib E) fs iid)) es'"
      by blast
    from es'(2) have "life_writes (envLib E) False (obj st) (es @ es')"
      using life_writes_same [OF m, of "es @ es'"] life_writes_some [OF m fin, of "es @ es'"] quiet by auto
    then show ?thesis using tr es'(1) by auto
  qed
qed

lemma normal_life:
  assumes ok: "libraries_ok E norm" and t: "objBody (obj st) = MachineBody t"
  shows "life_writes (envLib E) False (obj st) (new_actions (reconcileNormal E (actuator_ops_of E a)) st)"
proof (cases "libContainsFinalizer (envLib E) (omFinalizers (objMeta (obj st))) MachineFinalizer")
  case False
  let ?m = "set_finalizers (libAddFinalizer (envLib E) (omFinalizers (objMeta (obj st))) MachineFinalizer) (obj st)"
  have "lfFinalizer (life_of (envLib E) (obj st)) = False" using False by (simp add: life_of_def)
  moreover have "life_of (envLib E) ?m = (life_of (envLib E) (obj st))\<lparr>lfFinalizer := True\<rparr>"
    using ok finalizer_ops.contains_add by (simp add: life_of_finalizers libraries_ok_def) fastforce
  moreover have "new_actions (reconcileNormal E (actuator_ops_of E a)) st = [KubeUpdate ?m]"
    using False by (simp add: new_actions_def reconcileNormal_run run_kube_update Let_def split: sum.split)
  ultimately show ?thesis using life_step.finalize by (simp add: life_writes_def)
next
  case True
  obtain r st1 where ex: "Exists E a st = (r, st1)" by (cases "Exists E a st")
  obtain es where es: "trace st1 = trace st @ es" "list_all is_read es"
    using emitsD [OF emits_Exists_reads, of E a st] ex by auto
  have ob: "obj st1 = obj st" using keepsD [OF keeps_Exists, of "\<lambda>m. m" E a st] ex by simp
  have quiet: "life_writes (envLib E) False (obj st) es"
    using es(2) by (intro life_writes_quiet) (auto simp: list_all_iff dest: is_read_no_write)
  show ?thesis
  proof (cases "\<exists>b. r = Val (Inr b)")
    case False
    then have "trace (snd (reconcileNormal E (actuator_ops_of E a) st)) = trace st1"
      using True ex by (cases r) (auto simp: reconcileNormal_run actuator_ops_of_def split: sum.split)
    then show ?thesis using es(1) quiet by (simp add: new_actions_def)
  next
    case True2: True
    then obtain b where b: "r = Val (Inr b)" by blast
    then obtain ps where "getProviderStatus (envLib E) (obj st) = Inr ps" using Exists_decodes ex by blast
    then have m: "carries (envLib E) (omFinalizers (objMeta (obj st))) (psInstanceID ps) (obj st1)"
      using t ob by (auto simp: carries_def)
    obtain v st2 where op: "(if b then Update E a else Create E a) st1 = (v, st2)"
      by (cases "(if b then Update E a else Create E a) st1")
    from operation_life [OF ok m True op es] ob obtain acts where
      acts: "trace st2 = trace st @ acts" "life_writes (envLib E) False (obj st) acts" by auto
    have "trace (snd (reconcileNormal E (actuator_ops_of E a) st)) = trace st2"
      using True ex b op
      by (cases v) (auto simp: reconcileNormal_run actuator_ops_of_def split: option.split if_splits)
    then show ?thesis using acts by (simp add: new_actions_def)
  qed
qed

lemma deleting_life:
  assumes "libraries_ok E norm"
  shows "life_writes (envLib E) True (obj st) (new_actions (reconcileDelete E (actuator_ops_of E a)) st)"
  unfolding life_writes_def list_all_iff
proof
  let ?m = "remove_finalizers (envLib E) (obj st)"
  have fin: "finalizer_ops (libContainsFinalizer (envLib E)) (libAddFinalizer (envLib E))
      (libRemoveFinalizer (envLib E))"
    using assms by (simp add: libraries_ok_def)
  have life: "life_of (envLib E) ?m = (life_of (envLib E) (obj st))\<lparr>lfFinalizer := False\<rparr>"
    by (simp add: remove_finalizers_def life_of_finalizers finalizer_ops.contains_remove_both [OF fin])
  fix x assume x: "x \<in> set (new_actions (reconcileDelete E (actuator_ops_of E a)) st)"
  show "writes (\<lambda>m'. life_step True (list_ex is_create
      (new_actions (reconcileDelete E (actuator_ops_of E a)) st)) (life_of (envLib E) (obj st))
      (life_of (envLib E) m')) x"
  proof (cases "is_kube_write x")
    case True
    from nico.deleting_writes(2) [OF x True] show ?thesis by (simp add: life life_step.release)
  qed (rule writes_quiet)
qed

lemma life_writes_Cons:
  "\<not> is_kube_write x \<Longrightarrow> \<not> is_create x \<Longrightarrow> life_writes L d m (x # acts) = life_writes L d m acts"
  by (simp add: life_writes_def writes_quiet)

section \<open>Machines of the reference world\<close>

lemma ref_libraries: "libraries_ok ref_env ref_condition_norm"
  using ref_env_codec echoes_truthful [OF ref_kube_echoes] ref_lib_finalizers ref_lib_conditions by (simp add: libraries_ok_def)

definition ref_recorded :: MachineObject where
  "ref_recorded = put_provider_status
     (Some (enc_ProviderStatus ref_metav1 (zero_status\<lparr>psInstanceID := Some ''1''\<rparr>))) ref_typed ref_machine"

lemma ref_recorded_status:
  "getProviderStatus ref_lib ref_recorded = Inr (zero_status\<lparr>psInstanceID := Some ''1''\<rparr>)"
  using getProviderStatus_put [of ref_lib ref_condition_norm "zero_status\<lparr>psInstanceID := Some ''1''\<rparr>"]
    ref_env_codec by (simp add: ref_recorded_def zero_status_def ref_lib_def)

section \<open>A machine that is ready to be created\<close>

text \<open>A live machine with the finalizer and no recorded instance: a reconcile calls \<open>Create\<close>.\<close>

definition unrecorded :: "('s, 'u) env \<Rightarrow> MachineObject \<Rightarrow> bool" where
  "unrecorded E m \<longleftrightarrow>
     omDeletionTimestamp (objMeta m) = 0 \<and> objBody m \<noteq> NotClientObject
     \<and> libContainsFinalizer (envLib E) (omFinalizers (objMeta m)) MachineFinalizer
     \<and> (\<exists>ps. getProviderStatus (envLib E) m = Inr ps \<and> psInstanceID ps = None)"

lemma reconcile_unrecorded:
  assumes "unrecorded E m" and "fst (kubeGetMachine (envKube E) key (ext st)) = Inr m"
  shows "Reconcile E (actuator_ops_of E a) key st =
     (case Create E a (fetched E key m st) of
        (Val None, st') \<Rightarrow> (Val (10 * second, None), st')
      | (Val (Some e), st') \<Rightarrow> (Val (handleActuatorError e), st')
      | (Panic, st') \<Rightarrow> (Panic, st'))"
proof -
  let ?st = "fetched E key m st"
  obtain ps where ps: "getProviderStatus (envLib E) m = Inr ps" "psInstanceID ps = None"
    using assms(1) by (auto simp: unrecorded_def)
  have ob: "obj ?st = m" by (simp add: fetched_def)
  have "Exists E a ?st = (Val (Inr False), ?st)"
    using ps ob assms(1) by (simp add: Exists_def run_simps unrecorded_def)
  then have "reconcileNormal E (actuator_ops_of E a) ?st =
      (case Create E a ?st of
         (Val None, st') \<Rightarrow> (Val (10 * second, None), st')
       | (Val (Some e), st') \<Rightarrow> (Val (handleActuatorError e), st')
       | (Panic, st') \<Rightarrow> (Panic, st'))"
    using assms(1) ob
    by (auto simp: reconcileNormal_run actuator_ops_of_def unrecorded_def
        split: prod.split res.split option.split)
  then show ?thesis
    using assms by (simp add: Reconcile_run Let_def fetched_def unrecorded_def)
qed

text \<open>The gates of a creation let it pass: the questions that are asked, answered from \<open>st\<close> on, and
  the state after them.\<close>

definition gates_pass ::
  "'s NicoClientInterface \<Rightarrow> string \<Rightarrow> NicoMachineProviderSpec
     \<Rightarrow> ('s, MachineObject, action) st \<Rightarrow> ('s, MachineObject, action) st \<Rightarrow> bool" where
  "gates_pass c org spec st st' \<longleftrightarrow>
     (\<exists>st1. (if MachineID spec \<noteq> []
            then hasTargetedInstanceCreation c org (SiteID spec) st = (Val True, st1) else st1 = st)
        \<and> (if MachineID spec \<noteq> [] \<and> \<not> AllowUnhealthyMachine spec
           then \<exists>m1 m2 st2. checkCriticalFaults c org (MachineID spec) st1 = (Val (False, m1), st2)
             \<and> checkMachineValidation c org (MachineID spec) st2 = (Val (False, m2), st')
           else st' = st1))"

text \<open>Programs that only read, one after the other.\<close>

definition reads_to :: "('s, MachineObject, action) st \<Rightarrow> ('s, MachineObject, action) st \<Rightarrow> bool" where
  "reads_to st st' \<longleftrightarrow> obj st' = obj st \<and> (\<exists>es. trace st' = trace st @ es \<and> list_all is_read es)"

lemma reads_to_refl: "reads_to st st" by (simp add: reads_to_def)

lemma reads_to_trans: "reads_to a b \<Longrightarrow> reads_to b c \<Longrightarrow> reads_to a c"
  unfolding reads_to_def by fastforce

lemma reads_to_run:
  assumes "keeps (\<lambda>m. m) p" and "emits is_read p" and "p st = (r, st')"
  shows "reads_to st st'"
  using keepsD [OF assms(1), of st] emitsD [OF assms(2), of st] assms(3) by (simp add: reads_to_def)

lemma questions_read:
  "hasTargetedInstanceCreation c org site st = (r1, st') \<Longrightarrow> reads_to st st'"
  "checkCriticalFaults c org mid st = (r2, st') \<Longrightarrow> reads_to st st'"
  "checkMachineValidation c org mid st = (r2, st') \<Longrightarrow> reads_to st st'"
  "getNicoClient E a spec st = (r3, st') \<Longrightarrow> reads_to st st'"
  by (rule reads_to_run [rotated 2], assumption; intro keeps_intros emits_intros; simp)+

lemma gated_create_passes:
  assumes "gates_pass c org spec st st'"
  shows "gated_create E a c org spec st = create_instance E a c org spec st'" and "reads_to st st'"
proof -
  obtain st1 where 1: "if MachineID spec \<noteq> []
        then hasTargetedInstanceCreation c org (SiteID spec) st = (Val True, st1) else st1 = st"
    and 2: "if MachineID spec \<noteq> [] \<and> \<not> AllowUnhealthyMachine spec
        then \<exists>m1 m2 st2. checkCriticalFaults c org (MachineID spec) st1 = (Val (False, m1), st2)
          \<and> checkMachineValidation c org (MachineID spec) st2 = (Val (False, m2), st')
        else st' = st1"
    using assms unfolding gates_pass_def by blast
  have "reads_to st st1" using 1 questions_read(1) reads_to_refl by (metis (full_types))
  moreover have "reads_to st1 st'"
    using 2 questions_read(2,3) reads_to_trans reads_to_refl by (metis (full_types))
  ultimately show "reads_to st st'" by (rule reads_to_trans)
  show "gated_create E a c org spec st = create_instance E a c org spec st'"
    using 1 2
    by (cases "MachineID spec = []"; cases "AllowUnhealthyMachine spec")
      (auto simp: gated_create_def checkPreFlightHealth_def run_simps)
qed

lemma Create_passes:
  assumes "objBody (obj st) \<noteq> NotClientObject" and "getProviderSpec (envLib E) (obj st) = Inr spec"
    and "actuator_validateProviderSpec spec = None"
    and "getNicoClient E a spec st = (Val (Inr (c, org)), st1)" and "gates_pass c org spec st1 st2"
  shows "Create E a st = create_instance E a c org spec st2" and "reads_to st st2"
proof -
  show "Create E a st = create_instance E a c org spec st2"
    using assms(1-4) gated_create_passes(1) [OF assms(5)] by (simp add: Create_def run_simps)
  show "reads_to st st2"
    by (rule reads_to_trans [OF questions_read(4) [OF assms(4)] gated_create_passes(2) [OF assms(5)]])
qed

text \<open>A machine whose valid spec leaves the choice of the machine to the service: nothing is asked.\<close>

definition ready_to_create ::
  "('s, 'u) env \<Rightarrow> MachineObject \<Rightarrow> NicoMachineProviderSpec \<Rightarrow> bool" where
  "ready_to_create E m spec \<longleftrightarrow>
     omDeletionTimestamp (objMeta m) = 0 \<and> (\<exists>t. objBody m = MachineBody t)
     \<and> libContainsFinalizer (envLib E) (omFinalizers (objMeta m)) MachineFinalizer
     \<and> (\<exists>ps. getProviderStatus (envLib E) m = Inr ps \<and> psInstanceID ps = None)
     \<and> getProviderSpec (envLib E) m = Inr spec \<and> actuator_validateProviderSpec spec = None
     \<and> MachineID spec = []"

lemma ready_unrecorded: "ready_to_create E m spec \<Longrightarrow> unrecorded E m"
  by (auto simp: ready_to_create_def unrecorded_def)

lemma getNicoClient_injected:
  "actNicoAPIClient a = Some c \<Longrightarrow> getNicoClient E a spec st = (Val (Inr (c, actOrgName a)), st)"
  by (simp add: getNicoClient_def run_simps)

lemma reconcile_ready:
  assumes "ready_to_create E m spec" and "actNicoAPIClient a = Some c"
    and "fst (kubeGetMachine (envKube E) key (ext st)) = Inr m"
  shows "Reconcile E (actuator_ops_of E a) key st =
     (case create_instance E a c (actOrgName a) spec (fetched E key m st) of
        (Val None, st') \<Rightarrow> (Val (10 * second, None), st')
      | (Val (Some e), st') \<Rightarrow> (Val (handleActuatorError e), st')
      | (Panic, st') \<Rightarrow> (Panic, st'))"
proof -
  let ?st = "fetched E key m st"
  have "obj ?st = m" by (simp add: fetched_def)
  moreover have "gates_pass c (actOrgName a) spec ?st ?st"
    using assms(1) by (simp add: gates_pass_def ready_to_create_def)
  ultimately have "Create E a ?st = create_instance E a c (actOrgName a) spec ?st"
    using assms(1) by (intro Create_passes(1) [OF _ _ _ getNicoClient_injected [OF assms(2)]])
      (auto simp: ready_to_create_def)
  then show ?thesis using reconcile_unrecorded [OF ready_unrecorded [OF assms(1)] assms(3)] by simp
qed

definition ref_typeless_spec :: NicoMachineProviderSpec where
  "ref_typeless_spec = ref_spec\<lparr>MachineID := [], InstanceTypeID := ''12''\<rparr>"

definition ref_free_json :: json where
  "ref_free_json = JObj [(''siteId'', JStr ''7''), (''tenantId'', JStr ''8''), (''vpcId'', JStr ''9''),
     (''subnetId'', JStr ''10''), (''instanceTypeId'', JStr ''12'')]"

definition ref_free_machine :: MachineObject where
  "ref_free_machine = ref_machine\<lparr>objBody :=
     MachineBody (ref_typed\<lparr>tmProviderSpecValue := Some (Some ref_free_json)\<rparr>)\<rparr>"

lemma ref_free_spec: "dec_ProviderSpec ref_metav1 ref_free_json = Inr ref_typeless_spec"
  by code_simp

lemma ref_free_ready: "ready_to_create ref_env ref_free_machine ref_typeless_spec"
proof -
  have "actuator_validateProviderSpec ref_typeless_spec = None" by code_simp
  moreover have "getProviderSpec ref_lib ref_free_machine = Inr ref_typeless_spec"
    using ref_free_spec by (simp add: getProviderSpec_def unmarshal_def ref_lib_def ref_free_machine_def)
  moreover have "getProviderStatus ref_lib ref_free_machine = Inr zero_status"
    by (simp add: getProviderStatus_def ref_free_machine_def)
  ultimately show ?thesis
    by (simp add: ready_to_create_def ref_free_machine_def ref_typeless_spec_def zero_status_def
        MachineFinalizer_def ref_lib_def)
qed

definition ref_refusing :: "ref_world Actuator" where
  "ref_refusing = ref_actuator\<lparr>actNicoAPIClient := Some (ref_client\<lparr>CreateInstance :=
     (\<lambda>org req w. ((None, Some \<lparr>StatusCode = 400, Body = None\<rparr>, Some (ErrText ''bad request'')), w))\<rparr>)\<rparr>"

section \<open>A record that is lost\<close>

fun reconciles ::
  "('s, 'u) env \<Rightarrow> 's actuator_ops \<Rightarrow> string \<times> string \<Rightarrow> nat \<Rightarrow> ('s, unit) act" where
  "reconciles E ops key 0 = ret ()"
| "reconciles E ops key (Suc n) =
     andthen (Reconcile E ops key) (\<lambda>_. reconciles E ops key n)"

lemma unrecorded_step:
  assumes "ready_to_create E m spec" and "actNicoAPIClient a = Some c"
    and "fst (kubeGetMachine (envKube E) key (ext st)) = Inr m"
    and "\<And>m' s. \<exists>e. fst (kubeStatusUpdate (envKube E) m' s) = Inl e"
    and "\<And>req s. \<exists>inst i resp. fst (CreateInstance c (actOrgName a) req s) = (Some inst, resp, None)
      \<and> instId inst = Some i"
  shows "\<exists>r es. fst (Reconcile E (actuator_ops_of E a) key st) = Val r
    \<and> trace (snd (Reconcile E (actuator_ops_of E a) key st)) = trace st @ es
    \<and> length (filter is_create es) = 1"
proof -
  let ?st = "fetched E key m st"
  obtain t where t: "objBody m = MachineBody t" using assms(1) by (auto simp: ready_to_create_def)
  have ob: "obj ?st = m" "trace ?st = trace st @ [KubeGetMachine key]" by (simp_all add: fetched_def)
  let ?req = "buildInstanceRequest (GetName m) spec"
  obtain inst i resp where cr: "fst (CreateInstance c (actOrgName a) ?req (ext ?st)) = (Some inst, resp, None)"
      "instId inst = Some i" using assms(5) by blast
  let ?s = "snd (CreateInstance c (actOrgName a) ?req (ext ?st))"
  let ?put = "put_provider_status (Some (enc_ProviderStatus (libCodec (envLib E))
    (created_status (envLib E) (envNow E ?s) i inst))) t m"
  obtain e where "fst (kubeStatusUpdate (envKube E) ?put ?s) = Inl e" using assms(4) by blast
  then have "\<exists>v. fst (create_instance E a c (actOrgName a) spec ?st) = Val (Some v)"
    and "trace (snd (create_instance E a c (actOrgName a) spec ?st)) = trace st @ [KubeGetMachine key,
        Api (CallCreateInstance (actOrgName a) ?req), Metric (APILatency ''CreateInstance''),
        KubeStatusUpdate ?put]"
    using cr t ob
    by (simp_all add: create_instance_def after_create_def finish_create_def call_CreateInstance_def
        metricp_def setProviderStatus_def kube_status_update_def run_simps Let_def)
  then show ?thesis
    using reconcile_ready [OF assms(1-3)] by (auto split: prod.split)
qed

definition ref_conflict :: go_err where "ref_conflict = ErrText ''conflict''"

definition ref_stuck_env :: "(ref_world, nat) env" where
  "ref_stuck_env = ref_env\<lparr>envKube := ref_kube\<lparr>kubeGetMachine := (\<lambda>key w. (Inr ref_free_machine, w)),
     kubeStatusUpdate := (\<lambda>m w. (Inl ref_conflict, w))\<rparr>\<rparr>"

end
