(* ===== verification/Tracks.thy ===== *)
theory Tracks
  imports MachineController
begin

text \<open>
  What a run does to the world outside. An effect says for each action how it may change a view of
  the world; a program tracks the effect when the view after any run is what its actions make of
  the view before. The rules follow the combinators, so a reconcile tracks every effect that the
  calls of the API server and of the NICo service obey.
\<close>

section \<open>Effects\<close>

type_synonym 'v effect = "action \<Rightarrow> 'v \<Rightarrow> 'v \<Rightarrow> bool"

text \<open>Events and metrics leave the world alone.\<close>

fun is_output :: "action \<Rightarrow> bool" where
  "is_output (Event t r n) = True"
| "is_output (Metric m) = True"
| "is_output _ = False"

fun chained :: "'v effect \<Rightarrow> action list \<Rightarrow> 'v \<Rightarrow> 'v \<Rightarrow> bool" where
  "chained F [] v v' = (v' = v)"
| "chained F (x # xs) v v' = (\<exists>u. (if is_output x then u = v else F x v u) \<and> chained F xs u v')"

lemma chained_append: "chained F xs v u \<Longrightarrow> chained F ys u v' \<Longrightarrow> chained F (xs @ ys) v v'"
  by (induction xs arbitrary: v) auto

lemma chained_invariant:
  assumes "\<And>x v v'. W x \<Longrightarrow> P v \<Longrightarrow> F x v v' \<Longrightarrow> P v'"
  shows "chained F es v v' \<Longrightarrow> list_all W es \<Longrightarrow> P v \<Longrightarrow> P v'"
proof (induction es arbitrary: v)
  case (Cons x es)
  then obtain u where u: "if is_output x then u = v else F x v u" "chained F es u v'" by auto
  have "P u" using u(1) Cons.prems(2,3) assms by (auto split: if_splits)
  then show ?case using Cons.IH [OF u(2)] Cons.prems(2) by simp
qed simp

section \<open>Programs that track an effect\<close>

definition tracks :: "'v effect \<Rightarrow> ('s \<Rightarrow> 'v) \<Rightarrow> ('s, 'r) act \<Rightarrow> bool" where
  "tracks F view m \<longleftrightarrow> (\<forall>st. \<exists>es. trace (snd (m st)) = trace st @ es
     \<and> chained F es (view (ext st)) (view (ext (snd (m st)))))"

named_theorems tracks_intros \<open>rules for programs that track an effect\<close>

lemma tracksD:
  "tracks F view m \<Longrightarrow> m st = (r, st') \<Longrightarrow>
     \<exists>es. trace st' = trace st @ es \<and> chained F es (view (ext st)) (view (ext st'))"
  unfolding tracks_def by (metis snd_conv)

lemma tracks_new:
  "tracks F view m \<Longrightarrow>
     chained F (new_actions m st) (view (ext st)) (view (ext (snd (m st))))"
  unfolding tracks_def new_actions_def by (metis append_eq_conv_conj)

lemma tracks_silent:
  "(\<And>st. ext (snd (m st)) = ext st \<and> trace (snd (m st)) = trace st) \<Longrightarrow> tracks F view m"
  by (simp add: tracks_def)

lemma tracks_silent_atoms [tracks_intros]:
  "tracks F view (ret x)" "tracks F view panic" "tracks F view getobj"
  "tracks F view (modobj f)" "tracks F view (readext g)"
  by (rule tracks_silent; simp add: run_simps)+

lemma tracks_emit [tracks_intros]: "is_output x \<Longrightarrow> tracks F view (emit x)"
  unfolding tracks_def by (intro allI exI [of _ "[x]"]) (simp add: run_simps)

lemma tracks_extcall:
  "(\<And>s. F x (view s) (view (snd (f s)))) \<Longrightarrow> \<not> is_output x \<Longrightarrow> tracks F view (extcall x f)"
  unfolding tracks_def by (intro allI exI [of _ "[x]"]) (simp add: run_simps)

lemma tracks_andthen_returns:
  assumes m: "tracks F view m" and r: "returns \<psi> m" and k: "\<And>x. \<psi> x \<Longrightarrow> tracks F view (k x)"
  shows "tracks F view (andthen m k)"
  unfolding tracks_def
proof
  fix st
  obtain v st1 where 1: "m st = (v, st1)" by (cases "m st")
  obtain es where es: "trace st1 = trace st @ es" "chained F es (view (ext st)) (view (ext st1))"
    using tracksD [OF m 1] by blast
  show "\<exists>es. trace (snd (andthen m k st)) = trace st @ es
      \<and> chained F es (view (ext st)) (view (ext (snd (andthen m k st))))"
  proof (cases v)
    case (Val x)
    obtain w st2 where 2: "k x st1 = (w, st2)" by (cases "k x st1")
    have "\<psi> x" using returnsD [OF r] 1 Val by simp
    from tracksD [OF k [OF this] 2] show ?thesis
      using 1 2 Val es chained_append by (fastforce simp: andthen_def)
  qed (use 1 es in \<open>auto simp: andthen_def\<close>)
qed

lemma tracks_andthen [tracks_intros]:
  "tracks F view m \<Longrightarrow> (\<And>x. tracks F view (k x)) \<Longrightarrow> tracks F view (andthen m k)"
  by (rule tracks_andthen_returns [OF _ returns_True])

lemma tracks_seqp [tracks_intros]:
  "tracks F view m \<Longrightarrow> tracks F view k \<Longrightarrow> tracks F view (seqp m k)"
  unfolding seqp_def by (rule tracks_andthen)

lemma tracks_whenp [tracks_intros]: "(b \<Longrightarrow> tracks F view m) \<Longrightarrow> tracks F view (whenp b m)"
  by (simp add: whenp_def tracks_silent_atoms)

lemma tracks_tryp_returns:
  "tracks F view m \<Longrightarrow> returns (\<lambda>r. case r of Inl _ \<Rightarrow> True | Inr x \<Rightarrow> \<psi> x) m \<Longrightarrow>
     (\<And>x. \<psi> x \<Longrightarrow> tracks F view (k x)) \<Longrightarrow> tracks F view (tryp m w k)"
  unfolding tryp_def
  by (rule tracks_andthen_returns, assumption, assumption)
    (auto split: sum.splits intro: tracks_silent_atoms)

lemma tracks_tryp [tracks_intros]:
  "tracks F view m \<Longrightarrow> (\<And>x. tracks F view (k x)) \<Longrightarrow> tracks F view (tryp m w k)"
  unfolding tryp_def by (rule tracks_andthen) (auto split: sum.split intro: tracks_silent_atoms)

lemma tracks_guardp [tracks_intros]:
  "tracks F view m \<Longrightarrow> tracks F view k \<Longrightarrow> tracks F view (guardp m w k)"
  unfolding guardp_def by (rule tracks_andthen) (auto split: option.split intro: tracks_silent_atoms)

lemma tracks_forp [tracks_intros]: "(\<And>x. tracks F view (f x)) \<Longrightarrow> tracks F view (forp xs f)"
  by (induction xs) (simp_all add: forp.simps tracks_silent_atoms tracks_seqp)

lemma tracks_if [tracks_intros]:
  "(b \<Longrightarrow> tracks F view m) \<Longrightarrow> (\<not> b \<Longrightarrow> tracks F view k) \<Longrightarrow> tracks F view (if b then m else k)"
  by simp

lemma tracks_case_option [tracks_intros]:
  "(x = None \<Longrightarrow> tracks F view m) \<Longrightarrow> (\<And>y. x = Some y \<Longrightarrow> tracks F view (k y)) \<Longrightarrow>
     tracks F view (case x of None \<Rightarrow> m | Some y \<Rightarrow> k y)"
  by (simp split: option.split)

lemma tracks_case_sum [tracks_intros]:
  "(\<And>y. x = Inl y \<Longrightarrow> tracks F view (m y)) \<Longrightarrow> (\<And>y. x = Inr y \<Longrightarrow> tracks F view (k y)) \<Longrightarrow>
     tracks F view (case x of Inl y \<Rightarrow> m y | Inr y \<Rightarrow> k y)"
  by (simp split: sum.split)

lemma tracks_case_prod [tracks_intros]:
  "(\<And>a b. x = (a, b) \<Longrightarrow> tracks F view (k a b)) \<Longrightarrow> tracks F view (case x of (a, b) \<Rightarrow> k a b)"
  by (simp split: prod.split)

lemma tracks_case_list [tracks_intros]:
  "tracks F view m \<Longrightarrow> (\<And>y ys. tracks F view (k y ys)) \<Longrightarrow>
     tracks F view (case x of [] \<Rightarrow> m | y # ys \<Rightarrow> k y ys)"
  by (simp split: list.split)

lemma tracks_case_body [tracks_intros]:
  "(\<And>t. tracks F view (f t)) \<Longrightarrow> (\<And>u. tracks F view (g u)) \<Longrightarrow> tracks F view m \<Longrightarrow> tracks F view n \<Longrightarrow>
     tracks F view (case x of MachineBody t \<Rightarrow> f t | UnstructuredBody u \<Rightarrow> g u
       | UnsupportedBody \<Rightarrow> m | NotClientObject \<Rightarrow> n)"
  by (simp split: machine_body.split)

lemma tracks_Let [tracks_intros]: "tracks F view (k x) \<Longrightarrow> tracks F view (let y = x in k y)"
  by simp

lemma tracks_outputs [tracks_intros]:
  "tracks F view (eventf a ty r n)" "tracks F view (metricp me)"
  unfolding eventf_def metricp_def by (intro tracks_intros; simp)+

section \<open>The world obeys an effect\<close>

definition kube_obeys :: "'v effect \<Rightarrow> ('s \<Rightarrow> 'v) \<Rightarrow> ('s, 'u) env \<Rightarrow> string \<times> string \<Rightarrow> bool" where
  "kube_obeys F view E key \<longleftrightarrow>
     (\<forall>s. F (KubeGetMachine key) (view s) (view (snd (kubeGetMachine (envKube E) key s))))
   \<and> (\<forall>k s. F (KubeGetSecret k) (view s) (view (snd (kubeGetSecret (envKube E) k s))))
   \<and> (\<forall>m s. F (KubeUpdate m) (view s) (view (snd (kubeUpdate (envKube E) m s))))
   \<and> (\<forall>m s. F (KubeStatusUpdate m) (view s) (view (snd (kubeStatusUpdate (envKube E) m s))))"

definition client_obeys :: "'v effect \<Rightarrow> ('s \<Rightarrow> 'v) \<Rightarrow> 's NicoClientInterface \<Rightarrow> bool" where
  "client_obeys F view c \<longleftrightarrow>
     (\<forall>org x s. F (Api (CallCreateInstance org x)) (view s) (view (snd (CreateInstance c org x s))))
   \<and> (\<forall>org x s. F (Api (CallGetInstance org x)) (view s) (view (snd (GetInstance c org x s))))
   \<and> (\<forall>org x y s. F (Api (CallDeleteInstance org x y)) (view s) (view (snd (DeleteInstance c org x y s))))
   \<and> (\<forall>org x y s. F (Api (CallUpdateInstance org x y)) (view s) (view (snd (UpdateInstance c org x y s))))
   \<and> (\<forall>org x s. F (Api (CallGetMachine org x)) (view s) (view (snd (GetMachine c org x s))))
   \<and> (\<forall>org s. F (Api (CallGetCurrentTenant org)) (view s) (view (snd (GetCurrentTenant c org s))))
   \<and> (\<forall>org x s. F (Api (CallGetInstanceStatusHistory org x)) (view s)
        (view (snd (GetInstanceStatusHistory c org x s))))
   \<and> (\<forall>org x s. F (Api (CallGetAllMachineHealthReport org x)) (view s)
        (view (snd (GetAllMachineHealthReport c org x s))))
   \<and> (\<forall>org x y s. F (Api (CallCreateOrUpdateMachineHealthReport org x y)) (view s)
        (view (snd (CreateOrUpdateMachineHealthReport c org x y s))))
   \<and> (\<forall>org x y s. F (Api (CallDeleteMachineHealthReport org x y)) (view s)
        (view (snd (DeleteMachineHealthReport c org x y s))))
   \<and> (\<forall>org x s. F (Api (CallGetMachineValidationRuns org x)) (view s)
        (view (snd (GetMachineValidationRuns c org x s))))
   \<and> (\<forall>org x s. F (Api (CallGetMachineStatusHistory org x)) (view s)
        (view (snd (GetMachineStatusHistory c org x s))))
   \<and> (\<forall>org s. F (Api (CallGetAllTenantAccount org)) (view s) (view (snd (GetAllTenantAccount c org s))))"

text \<open>Every client the actuator can come by: the injected one, or one for any secret.\<close>

definition clients_obey :: "'v effect \<Rightarrow> ('s \<Rightarrow> 'v) \<Rightarrow> ('s, 'u) env \<Rightarrow> 's Actuator \<Rightarrow> bool" where
  "clients_obey F view E a \<longleftrightarrow>
     (case actNicoAPIClient a of
        Some c \<Rightarrow> client_obeys F view c
      | None \<Rightarrow> \<forall>endpoint token.
          client_obeys F view (nicoClient_methods \<lparr>ncClient = envSdk E endpoint, ncToken = token\<rparr>))"

definition obeys ::
  "'v effect \<Rightarrow> ('s \<Rightarrow> 'v) \<Rightarrow> ('s, 'u) env \<Rightarrow> 's Actuator \<Rightarrow> string \<times> string \<Rightarrow> bool" where
  "obeys F view E a key \<longleftrightarrow> kube_obeys F view E key \<and> clients_obey F view E a"

lemma tracks_calls [tracks_intros]:
  assumes "client_obeys F view c"
  shows "tracks F view (call_CreateInstance c org req)" "tracks F view (call_GetInstance c org i)"
    "tracks F view (call_DeleteInstance c org i dreq)" "tracks F view (call_UpdateInstance c org i ureq)"
    "tracks F view (call_GetMachine c org mid)" "tracks F view (call_GetCurrentTenant c org)"
    "tracks F view (call_GetInstanceStatusHistory c org i)"
    "tracks F view (call_GetAllMachineHealthReport c org mid)"
    "tracks F view (call_CreateOrUpdateMachineHealthReport c org mid hreq)"
    "tracks F view (call_DeleteMachineHealthReport c org mid src)"
    "tracks F view (call_GetMachineValidationRuns c org mid)"
    "tracks F view (call_GetMachineStatusHistory c org mid)" "tracks F view (call_GetAllTenantAccount c org)"
  using assms unfolding call_defs client_obeys_def by (simp_all add: tracks_extcall)


section \<open>The controller tracks what the world obeys\<close>

lemma tracks_kube_writes [tracks_intros]:
  assumes "kube_obeys F view E key"
  shows "tracks F view (kube_update E)" "tracks F view (kube_status_update E)"
  using assms unfolding kube_update_def kube_status_update_def kube_obeys_def
  by (intro tracks_intros tracks_extcall; simp)+

lemma tracks_put [tracks_intros]:
  assumes "kube_obeys F view E key"
  shows "tracks F view (setProviderStatus E ps)" "tracks F view (setProviderID E pid)"
  unfolding setProviderStatus_def setProviderID_def
  by (intro tracks_intros tracks_kube_writes [OF assms])+

lemma tracks_getNicoClient:
  "kube_obeys F view E key \<Longrightarrow> tracks F view (getNicoClient E a spec)"
  unfolding getNicoClient_def
  by (intro tracks_intros tracks_extcall) (simp_all add: kube_obeys_def)

lemma getNicoClient_obeys:
  "clients_obey F view E a \<Longrightarrow>
     returns (\<lambda>r. case r of Inl _ \<Rightarrow> True | Inr x \<Rightarrow> client_obeys F view (fst x)) (getNicoClient E a spec)"
  unfolding getNicoClient_def
  by (intro returns_intros) (auto simp: clients_obey_def)

lemma tracks_client [tracks_intros]:
  "obeys F view E a key \<Longrightarrow> (\<And>c org. client_obeys F view c \<Longrightarrow> tracks F view (k c org)) \<Longrightarrow>
     tracks F view (tryp (getNicoClient E a spec) w (\<lambda>(c, org). k c org))"
  unfolding obeys_def
  by (rule tracks_tryp_returns [OF tracks_getNicoClient getNicoClient_obeys]) auto

lemma tracks_health [tracks_intros]:
  assumes "client_obeys F view c"
  shows "tracks F view (checkCriticalFaults c org mid)" "tracks F view (checkMachineValidation c org mid)"
    "tracks F view (hasTargetedInstanceCreation c org site)"
    "tracks F view (updateMachineHealth E a c org inst ps)"
  unfolding checkCriticalFaults_def checkMachineValidation_def hasTargetedInstanceCreation_def
    updateMachineHealth_def updateMachineHealthFromReports_def updateMachineHealthFromJSONB_def
    trackUnhealthyGauge_def
  by (intro tracks_intros assms)+

lemma tracks_Exists: "obeys F view E a key \<Longrightarrow> tracks F view (Exists E a)"
  unfolding Exists_def by (intro tracks_intros)

lemma tracks_Delete: "obeys F view E a key \<Longrightarrow> tracks F view (Delete E a)"
  unfolding Delete_def prepare_delete_def reportMHCHealthIssue_def finish_delete_def deleted_def
  by (intro tracks_intros)

lemma tracks_flight [tracks_intros]:
  assumes "kube_obeys F view E key" and "client_obeys F view c"
  shows "tracks F view (checkPreFlightHealth E a c org spec)"
  unfolding checkPreFlightHealth_def block_creation_def
  by (intro tracks_intros tracks_put [OF assms(1)] assms(2))

lemma tracks_create_instance [tracks_intros]:
  assumes "kube_obeys F view E key" and "client_obeys F view c"
  shows "tracks F view (create_instance E a c org spec)"
  unfolding create_instance_def after_create_def handleCreateError_def finish_create_def
    deployDpuExtensionServices_def
  by (intro tracks_intros tracks_put [OF assms(1)] assms(2))

lemma tracks_Create: "obeys F view E a key \<Longrightarrow> tracks F view (Create E a)"
  unfolding Create_def gated_create_def
  by (intro tracks_intros) (auto simp: obeys_def)

lemma tracks_apply_instance [tracks_intros]:
  assumes "kube_obeys F view E key" and "client_obeys F view c"
  shows "tracks F view (apply_instance E a c org spec ps inst)"
  unfolding apply_instance_def track_state_def record_provision_duration_def checkStatusHistory_def
    emitMachineStatusHistory_def record_history_def checkProvisioningTimeout_def
  by (intro tracks_intros tracks_put [OF assms(1)] tracks_kube_writes [OF assms(1)] assms(2))

lemma tracks_Update: "obeys F view E a key \<Longrightarrow> tracks F view (Update E a)"
  unfolding Update_def
  by (intro tracks_intros) (auto simp: obeys_def)

lemma tracks_Reconcile:
  assumes "obeys F view E a key"
  shows "tracks F view (Reconcile E (actuator_ops_of E a) key)"
proof -
  have api: "kube_obeys F view E key" using assms by (simp add: obeys_def)
  have "tracks F view (extcall (KubeGetMachine key) (kubeGetMachine (envKube E) key))"
    using api by (intro tracks_extcall) (simp_all add: kube_obeys_def)
  then show ?thesis
    unfolding Reconcile_def reconcileNormal_def reconcileDelete_def actuator_ops_of_def
      actuator_ops.select_convs
    by (intro tracks_intros tracks_kube_writes [OF api] tracks_Exists [OF assms]
        tracks_Create [OF assms] tracks_Update [OF assms] tracks_Delete [OF assms])
qed

end
