(* ===== verification/History.thy ===== *)
theory History
  imports Lifecycle Tracks
begin

text \<open>
  Histories of one stored Machine: reconciles of the controller between the acts of users and of
  the rest of the cluster. The API server is known by what it keeps of the Machine, its finalizer,
  its recorded instance and whether it is being deleted; the laws of its operations are
  \<open>api_server\<close>. The theory shows what the store can be after a reconcile, and by induction along a
  history that a Machine whose instance has been recorded stays stored, with its finalizer, until a
  deletion has succeeded.
\<close>

section \<open>What the API server keeps of a Machine\<close>

text \<open>The two facts of the Machine and whether it is being deleted; nothing once it is gone.\<close>

type_synonym stored = "(life \<times> bool) option"

text \<open>
  An update replaces the metadata, which has the finalizers, and not the status subresource; a
  status update the reverse. Either may also write the other part, since not every server
  separates them. The deletion mark is the server's own, and an object that is being deleted is
  removed with its last finalizer.
\<close>

definition wrote_meta :: "life \<Rightarrow> stored \<Rightarrow> stored \<Rightarrow> bool" where
  "wrote_meta l v v' \<longleftrightarrow> (\<exists>old d. v = Some (old, d) \<and>
     (case v' of
        None \<Rightarrow> d \<and> \<not> lfFinalizer l
      | Some (new, d') \<Rightarrow> d' = d \<and> lfFinalizer new = lfFinalizer l
          \<and> (lfInstance new = lfInstance old \<or> lfInstance new = lfInstance l)))"

definition wrote_status :: "life \<Rightarrow> stored \<Rightarrow> stored \<Rightarrow> bool" where
  "wrote_status l v v' \<longleftrightarrow> (\<exists>old d new. v = Some (old, d) \<and> v' = Some (new, d)
     \<and> lfInstance new = lfInstance l
     \<and> (lfFinalizer new = lfFinalizer old \<or> lfFinalizer new = lfFinalizer l))"

text \<open>What an action may do to the store; a write that fails may still have taken effect.\<close>

fun stores :: "KubeLib \<Rightarrow> action \<Rightarrow> stored \<Rightarrow> stored \<Rightarrow> bool" where
  "stores L (KubeUpdate m) v v' = (v' = v \<or> wrote_meta (life_of L m) v v')"
| "stores L (KubeStatusUpdate m) v v' = (v' = v \<or> wrote_status (life_of L m) v v')"
| "stores L _ v v' = (v' = v)"

abbreviation stored_by :: "KubeLib \<Rightarrow> action list \<Rightarrow> stored \<Rightarrow> stored \<Rightarrow> bool" where
  "stored_by L \<equiv> chained (stores L)"

lemma stores_quiet: "\<not> is_kube_write x \<Longrightarrow> stores L x v v' = (v' = v)"
  by (cases x) simp_all

text \<open>An invariant of the store under the writes of objects with \<open>W\<close>.\<close>

lemma stored_by_invariant:
  assumes "\<And>m v v'. W m \<Longrightarrow> P v \<Longrightarrow> wrote_meta (life_of L m) v v' \<or> wrote_status (life_of L m) v v' \<Longrightarrow> P v'"
  shows "stored_by L es v v' \<Longrightarrow> list_all (writes W) es \<Longrightarrow> P v \<Longrightarrow> P v'"
proof (rule chained_invariant [where W = "writes W" and P = P and F = "stores L"])
  show "P v'" if "writes W x" "P v" "stores L x v v'" for x v v'
    using that assms by (cases x) auto
qed

section \<open>The laws of the world\<close>

text \<open>
  The API server: a successful read of the Machine is current and typed, reads change nothing, and
  a write does to the store what \<open>stores\<close> says. And the NICo service keeps away from it.
\<close>

definition api_server :: "('s, 'u) env \<Rightarrow> string \<times> string \<Rightarrow> ('s \<Rightarrow> stored) \<Rightarrow> bool" where
  "api_server E key view \<longleftrightarrow>
     (\<forall>s m. fst (kubeGetMachine (envKube E) key s) = Inr m \<longrightarrow>
        view s = Some (life_of (envLib E) m, omDeletionTimestamp (objMeta m) \<noteq> 0)
        \<and> (\<exists>t. objBody m = MachineBody t))
   \<and> (\<forall>s. view (snd (kubeGetMachine (envKube E) key s)) = view s)
   \<and> (\<forall>k s. view (snd (kubeGetSecret (envKube E) k s)) = view s)
   \<and> (\<forall>m s. stores (envLib E) (KubeUpdate m) (view s) (view (snd (kubeUpdate (envKube E) m s))))
   \<and> (\<forall>m s. stores (envLib E) (KubeStatusUpdate m) (view s)
        (view (snd (kubeStatusUpdate (envKube E) m s))))"

definition leaves :: "('s \<Rightarrow> stored) \<Rightarrow> 's NicoClientInterface \<Rightarrow> bool" where
  "leaves view c \<longleftrightarrow>
     (\<forall>org x s. view (snd (CreateInstance c org x s)) = view s)
   \<and> (\<forall>org x s. view (snd (GetInstance c org x s)) = view s)
   \<and> (\<forall>org x y s. view (snd (DeleteInstance c org x y s)) = view s)
   \<and> (\<forall>org x y s. view (snd (UpdateInstance c org x y s)) = view s)
   \<and> (\<forall>org x s. view (snd (GetMachine c org x s)) = view s)
   \<and> (\<forall>org s. view (snd (GetCurrentTenant c org s)) = view s)
   \<and> (\<forall>org x s. view (snd (GetInstanceStatusHistory c org x s)) = view s)
   \<and> (\<forall>org x s. view (snd (GetAllMachineHealthReport c org x s)) = view s)
   \<and> (\<forall>org x y s. view (snd (CreateOrUpdateMachineHealthReport c org x y s)) = view s)
   \<and> (\<forall>org x y s. view (snd (DeleteMachineHealthReport c org x y s)) = view s)
   \<and> (\<forall>org x s. view (snd (GetMachineValidationRuns c org x s)) = view s)
   \<and> (\<forall>org x s. view (snd (GetMachineStatusHistory c org x s)) = view s)
   \<and> (\<forall>org s. view (snd (GetAllTenantAccount c org s)) = view s)"

definition clients_leave :: "('s, 'u) env \<Rightarrow> 's Actuator \<Rightarrow> ('s \<Rightarrow> stored) \<Rightarrow> bool" where
  "clients_leave E a view \<longleftrightarrow>
     (case actNicoAPIClient a of
        Some c \<Rightarrow> leaves view c
      | None \<Rightarrow> \<forall>endpoint token.
          leaves view (nicoClient_methods \<lparr>ncClient = envSdk E endpoint, ncToken = token\<rparr>))"

text \<open>The laws as a context of the two programs, environment and actuator.\<close>

definition lawful :: "('s, 'u) env \<Rightarrow> 's Actuator \<Rightarrow> string \<times> string \<Rightarrow> ('s \<Rightarrow> stored) \<Rightarrow> bool" where
  "lawful E a key view \<longleftrightarrow> api_server E key view \<and> clients_leave E a view"

lemma lawful_read:
  assumes "lawful E a key view" and "fst (kubeGetMachine (envKube E) key s) = Inr m"
  shows "view s = Some (life_of (envLib E) m, omDeletionTimestamp (objMeta m) \<noteq> 0)
    \<and> (\<exists>t. objBody m = MachineBody t)"
  using assms unfolding lawful_def api_server_def by blast

lemma lawful_obeys:
  assumes "lawful E a key view"
  shows "obeys (stores (envLib E)) view E a key"
proof -
  have "leaves view c \<Longrightarrow> client_obeys (stores (envLib E)) view c" for c
    by (simp add: leaves_def client_obeys_def)
  then show ?thesis
    using assms unfolding obeys_def lawful_def clients_obey_def clients_leave_def api_server_def kube_obeys_def
    by (auto simp del: stores.simps(1,2) split: option.splits)
qed

lemmas stored_by_reconcile = tracks_new [OF tracks_Reconcile [OF lawful_obeys]]

section \<open>What one reconcile does to the store\<close>

definition recorded :: "stored \<Rightarrow> bool" where
  "recorded v = (case v of None \<Rightarrow> False | Some (l, d) \<Rightarrow> lfInstance l \<noteq> None)"

definition held :: "stored \<Rightarrow> bool" where
  "held v = (case v of None \<Rightarrow> False | Some (l, d) \<Rightarrow> lfFinalizer l)"

definition deleting :: "stored \<Rightarrow> bool" where
  "deleting v = (case v of None \<Rightarrow> True | Some (l, d) \<Rightarrow> d)"

lemma stored_simps [simp]:
  "\<not> recorded None" "recorded (Some (l, d)) = (lfInstance l \<noteq> None)"
  "\<not> held None" "held (Some (l, d)) = lfFinalizer l"
  "deleting None" "deleting (Some (l, d)) = d"
  by (simp_all add: recorded_def held_def deleting_def)

text \<open>The reconcile fetches a machine that is being deleted, and its deletion answers nil.\<close>

definition releases ::
  "('s, 'u) env \<Rightarrow> 's Actuator \<Rightarrow> string \<times> string \<Rightarrow> ('s, MachineObject, action) st \<Rightarrow> bool" where
  "releases E a key st \<longleftrightarrow>
     (case fst (kubeGetMachine (envKube E) key (ext st)) of
        Inl e \<Rightarrow> False
      | Inr m \<Rightarrow> omDeletionTimestamp (objMeta m) \<noteq> 0
          \<and> fst (Delete E a (fetched E key m st)) = Val None)"

text \<open>A write keeps the deletion mark, and a held machine stays held under objects with the finalizer.\<close>

lemma wrote_meta_effects:
  assumes "wrote_meta l v v'"
  shows "(deleting v \<longrightarrow> deleting v') \<and> (lfFinalizer l \<and> held v \<longrightarrow> held v')
    \<and> (lfInstance l = None \<and> \<not> recorded v \<longrightarrow> \<not> recorded v')"
proof -
  obtain old d where v: "v = Some (old, d)"
      "case v' of None \<Rightarrow> d \<and> \<not> lfFinalizer l
       | Some (new, d') \<Rightarrow> d' = d \<and> lfFinalizer new = lfFinalizer l
           \<and> (lfInstance new = lfInstance old \<or> lfInstance new = lfInstance l)"
    using assms unfolding wrote_meta_def by blast
  show ?thesis
  proof (cases v')
    case (Some p)
    obtain new d' where "p = (new, d')" by (cases p)
    with v Some show ?thesis by auto
  qed (use v in simp)
qed

lemma wrote_status_effects:
  assumes "wrote_status l v v'"
  shows "(deleting v \<longrightarrow> deleting v') \<and> (lfFinalizer l \<and> held v \<longrightarrow> held v')
    \<and> (lfInstance l = None \<and> \<not> recorded v \<longrightarrow> \<not> recorded v')"
proof -
  obtain old d new where "v = Some (old, d)" "v' = Some (new, d)" "lfInstance new = lfInstance l"
      "lfFinalizer new = lfFinalizer old \<or> lfFinalizer new = lfFinalizer l"
    using assms unfolding wrote_status_def by blast
  then show ?thesis by auto
qed

lemma wrote_effects:
  assumes "wrote_meta l v v' \<or> wrote_status l v v'"
  shows "deleting v \<Longrightarrow> deleting v'" and "lfFinalizer l \<Longrightarrow> held v \<Longrightarrow> held v'"
    and "lfInstance l = None \<Longrightarrow> \<not> recorded v \<Longrightarrow> \<not> recorded v'"
  using assms wrote_meta_effects [of l v v'] wrote_status_effects [of l v v'] by blast+

lemma writes_keep_deleting:
  assumes "stored_by L es v v'" and "deleting v"
  shows "deleting v'"
  by (rule stored_by_invariant [where W = "\<lambda>_. True" and P = deleting, OF _ assms(1) _ assms(2)])
    (simp_all add: wrote_effects list_all_iff writes_def split: action.split)

lemma writes_keep_held:
  assumes "stored_by L es v v'" and "list_all (writes (\<lambda>m. lfFinalizer (life_of L m))) es" and "held v"
  shows "held v'"
  by (rule stored_by_invariant [where P = held and W = "\<lambda>m. lfFinalizer (life_of L m)", OF _ assms])
    (rule wrote_effects)

lemma writes_keep_unrecorded:
  assumes "stored_by L es v v'" and "list_all (writes (\<lambda>m. lfInstance (life_of L m) = None)) es"
    and "\<not> recorded v"
  shows "\<not> recorded v'"
  by (rule stored_by_invariant [where P = "\<lambda>v. \<not> recorded v"
        and W = "\<lambda>m. lfInstance (life_of L m) = None", OF _ assms])
    (rule wrote_effects)

lemma writes_nothing:
  assumes "stored_by L es v v'" and "list_all (\<lambda>x. \<not> is_kube_write x) es"
  shows "v' = v"
  using assms by (induction es arbitrary: v) (auto simp: stores_quiet split: if_splits)

lemma life_writes_imp:
  assumes "life_writes L d m acts"
    and "\<And>m'. life_step d (list_ex is_create acts) (life_of L m) (life_of L m') \<Longrightarrow> I m'"
  shows "list_all (writes I) acts"
  unfolding list_all_iff
proof
  fix x assume "x \<in> set acts"
  then have "writes (\<lambda>m'. life_step d (list_ex is_create acts) (life_of L m) (life_of L m')) x"
    using assms(1) by (simp add: life_writes_def list_all_iff)
  then show "writes I x" by (rule writes_mono [rotated]) (rule assms(2))
qed

text \<open>
  A reconcile of a live machine: a held machine stays held, and without the finalizer no instance
  is recorded. A reconcile of a machine that is being deleted leaves the store alone unless it
  releases the machine.
\<close>

lemma reconcile_stored:
  fixes E :: "('s, 'u) env" and st :: "('s, MachineObject, action) st"
  assumes ok: "libraries_ok E norm" and law: "lawful E a key view"
  defines "v \<equiv> view (ext st)" and "v' \<equiv> view (ext (snd (Reconcile E (actuator_ops_of E a) key st)))"
  shows "releases E a key st \<longrightarrow> deleting v" and "deleting v \<longrightarrow> deleting v'"
    and "held v \<and> \<not> releases E a key st \<longrightarrow> held v'"
    and "\<not> recorded v \<and> \<not> held v \<and> \<not> releases E a key st \<longrightarrow> \<not> recorded v'"
proof -
  let ?acts = "new_actions (Reconcile E (actuator_ops_of E a) key) st"
  have sb: "stored_by (envLib E) ?acts v v'"
    unfolding v_def v'_def by (rule stored_by_reconcile [OF law])
  have got: "v = Some (life_of (envLib E) m, omDeletionTimestamp (objMeta m) \<noteq> 0) \<and> (\<exists>t. objBody m = MachineBody t)"
    if "fst (kubeGetMachine (envKube E) key (ext st)) = Inr m" for m
    using lawful_read [OF law that] by (simp add: v_def)
  show "releases E a key st \<longrightarrow> deleting v"
    using got by (auto simp: releases_def split: sum.splits)
  show "deleting v \<longrightarrow> deleting v'" using writes_keep_deleting [OF sb] by blast
  have "(held v \<longrightarrow> held v') \<and> (\<not> recorded v \<and> \<not> held v \<longrightarrow> \<not> recorded v')" if rel: "\<not> releases E a key st"
  proof (cases "fst (kubeGetMachine (envKube E) key (ext st))")
    case (Inl e)
    then have "?acts = [KubeGetMachine key]" by (simp add: nico.reconcile_new)
    then have "v' = v" using sb by simp
    then show ?thesis by simp
  next
    case (Inr m)
    let ?st = "fetched E key m st"
    show ?thesis
    proof (cases "omDeletionTimestamp (objMeta m) = 0")
      case True
      from got [OF Inr] obtain t where t: "objBody m = MachineBody t" and v: "v = Some (life_of (envLib E) m, False)"
        using True by auto
      have "life_writes (envLib E) False m (new_actions (reconcileNormal E (actuator_ops_of E a)) ?st)"
        using normal_life [OF ok, of ?st t a] t by (simp add: fetched_def)
      then have life: "life_writes (envLib E) False m ?acts"
        using Inr True by (simp add: nico.reconcile_new life_writes_Cons fetched_def)
      have "held v'" if "held v"
        by (rule writes_keep_held [OF sb life_writes_imp [OF life] that])
          (use that v in \<open>auto elim!: life_step.cases\<close>)
      moreover have "\<not> recorded v'" if "\<not> recorded v" "\<not> held v"
        by (rule writes_keep_unrecorded [OF sb life_writes_imp [OF life] that(1)])
          (use that v in \<open>auto elim!: life_step.cases\<close>)
      ultimately show ?thesis by blast
    next
      case False
      then have "fst (Delete E a ?st) \<noteq> Val None" using rel Inr by (simp add: releases_def)
      then have "list_all (\<lambda>x. \<not> is_kube_write x) (new_actions (reconcileDelete E (actuator_ops_of E a)) ?st)"
        using nico.deleting_writes(1) [where E = E and a = a and st = ?st] by (auto simp: list_all_iff actuator_ops_of_def)
      then have "list_all (\<lambda>x. \<not> is_kube_write x) ?acts"
        using Inr False by (simp add: nico.reconcile_new fetched_def)
      from writes_nothing [OF sb this] show ?thesis by simp
    qed
  qed
  then show "held v \<and> \<not> releases E a key st \<longrightarrow> held v'"
    "\<not> recorded v \<and> \<not> held v \<and> \<not> releases E a key st \<longrightarrow> \<not> recorded v'" by blast+
qed

section \<open>Histories\<close>

text \<open>
  The world, whether an instance has been recorded for the machine stored there, and whether a
  deletion of it has succeeded.
\<close>

record 's history =
  hsWorld :: 's
  hsRecorded :: bool
  hsReleased :: bool

definition after_reconcile ::
  "('s, 'u) env \<Rightarrow> 's Actuator \<Rightarrow> string \<times> string \<Rightarrow> ('s \<Rightarrow> stored) \<Rightarrow> ('s, MachineObject, action) st
     \<Rightarrow> 's history \<Rightarrow> 's history" where
  "after_reconcile E a key view st h =
     (let s = ext (snd (Reconcile E (actuator_ops_of E a) key st))
      in \<lparr>hsWorld = s, hsRecorded = (hsRecorded h \<or> recorded (view s)),
          hsReleased = (hsReleased h \<or> releases E a key st)\<rparr>)"

text \<open>
  The steps: a reconcile, from any state of the controller's memory; a user creates the machine; a
  user asks for its deletion; a machine without the finalizer is removed; anything else happens,
  in the NICo service, with other objects or with the rest of this one. The finalizer and the
  record are the controller's own.
\<close>

inductive history_step ::
  "('s, 'u) env \<Rightarrow> 's Actuator \<Rightarrow> string \<times> string \<Rightarrow> ('s \<Rightarrow> stored) \<Rightarrow> 's history \<Rightarrow> 's history \<Rightarrow> bool"
  for E a key view where
  reconcile: "ext st = hsWorld h \<Longrightarrow> history_step E a key view h (after_reconcile E a key view st h)"
| admit: "view (hsWorld h) = None \<Longrightarrow> view s = Some (l, False) \<Longrightarrow> lfInstance l = None \<Longrightarrow>
    history_step E a key view h \<lparr>hsWorld = s, hsRecorded = False, hsReleased = False\<rparr>"
| mark: "view (hsWorld h) = Some (l, d) \<Longrightarrow> view s = Some (l, True) \<Longrightarrow>
    history_step E a key view h (h\<lparr>hsWorld := s\<rparr>)"
| remove: "view (hsWorld h) = Some (l, d) \<Longrightarrow> \<not> lfFinalizer l \<Longrightarrow> view s = None \<Longrightarrow>
    history_step E a key view h (h\<lparr>hsWorld := s\<rparr>)"
| elsewhere: "view s = view (hsWorld h) \<Longrightarrow> history_step E a key view h (h\<lparr>hsWorld := s\<rparr>)"

inductive reachable ::
  "('s, 'u) env \<Rightarrow> 's Actuator \<Rightarrow> string \<times> string \<Rightarrow> ('s \<Rightarrow> stored) \<Rightarrow> 's history \<Rightarrow> bool"
  for E a key view where
  start: "\<not> recorded (view s) \<Longrightarrow>
    reachable E a key view \<lparr>hsWorld = s, hsRecorded = False, hsReleased = False\<rparr>"
| step: "reachable E a key view h \<Longrightarrow> history_step E a key view h h' \<Longrightarrow> reachable E a key view h'"

definition history_inv :: "('s \<Rightarrow> stored) \<Rightarrow> 's history \<Rightarrow> bool" where
  "history_inv view h \<longleftrightarrow>
     (recorded (view (hsWorld h)) \<longrightarrow> hsRecorded h)
   \<and> (hsRecorded h \<and> \<not> hsReleased h \<longrightarrow> held (view (hsWorld h)))
   \<and> (hsReleased h \<longrightarrow> deleting (view (hsWorld h)))"

lemma history_inv_step:
  assumes "libraries_ok E norm" and "lawful E a key view"
    and "history_step E a key view h h'" and "history_inv view h"
  shows "history_inv view h'"
  using assms(3,4)
proof (cases rule: history_step.cases)
  case (reconcile st)
  from reconcile_stored [OF assms(1,2), of st] reconcile assms(4) show ?thesis
    by (auto simp: history_inv_def after_reconcile_def Let_def)
qed (auto simp: history_inv_def)

lemma reachable_inv:
  assumes "libraries_ok E norm" and "lawful E a key view" and "reachable E a key view h"
  shows "history_inv view h"
  using assms(3)
  by (induction rule: reachable.induct)
    (auto simp: history_inv_def [of _ "\<lparr>hsWorld = s, hsRecorded = False, hsReleased = False\<rparr>" for s]
      intro: history_inv_step [OF assms(1,2)])


section \<open>Histories in which the service answers\<close>

text \<open>While the service still answers for the instance a machine records, no reconcile of the machine
  asks for another one.\<close>

theorem no_second_instance:
  assumes "actNicoAPIClient a = Some c" and "kubeGetMachine (envKube E) key (ext st) = (Inr m, s)"
    and "getProviderStatus (envLib E) m = Inr ps" and "psInstanceID ps = Some i"
    and "fst (GetInstance c (actOrgName a) i s) = (Some inst, resp, None)"
  shows "list_all (\<lambda>x. \<not> is_create x) (new_actions (Reconcile E (actuator_ops_of E a) key) st)"
proof -
  have "fst (Exists E a (fetched E key m st)) \<noteq> Val (Inr False)"
    using assms by (auto simp: Exists_def run_simps fetched_def getNicoClient_def call_GetInstance_def
        split: sum.split)
  then have "\<not> may_create E a key st" using assms(2) by (simp add: may_create_def)
  then show ?thesis
    using reconcile_create_requires [where E = E and a = a and key = key and st = st]
    unfolding list_all_iff by blast
qed

text \<open>The service answers for an instance, asked after the machine has been read.\<close>

definition answers ::
  "('s, 'u) env \<Rightarrow> 's Actuator \<Rightarrow> string \<times> string \<Rightarrow> 's NicoClientInterface \<Rightarrow> string \<Rightarrow> 's \<Rightarrow> bool" where
  "answers E a key c i s \<longleftrightarrow>
     (case fst (GetInstance c (actOrgName a) i (snd (kubeGetMachine (envKube E) key s))) of
        (Some inst, resp, None) \<Rightarrow> True
      | _ \<Rightarrow> False)"

text \<open>
  Runs: any number of reconciles, each begun while the service answers for the instance, between
  steps of others that leave the record alone. The actions are those of the reconciles.
\<close>

inductive answered_run ::
  "('s, 'u) env \<Rightarrow> 's Actuator \<Rightarrow> string \<times> string \<Rightarrow> ('s \<Rightarrow> stored) \<Rightarrow> 's NicoClientInterface \<Rightarrow> string
     \<Rightarrow> 's \<Rightarrow> action list \<Rightarrow> 's \<Rightarrow> bool"
  for E a key view c i s where
  begin_run: "answered_run E a key view c i s [] s"
| reconcile_run: "answered_run E a key view c i s es (ext st) \<Longrightarrow> answers E a key c i (ext st) \<Longrightarrow>
    answered_run E a key view c i s (es @ new_actions (Reconcile E (actuator_ops_of E a) key) st)
      (ext (snd (Reconcile E (actuator_ops_of E a) key st)))"
| other_run: "answered_run E a key view c i s es s1 \<Longrightarrow>
    (view s2 = None \<or> (\<exists>l d l' d'. view s1 = Some (l, d) \<and> view s2 = Some (l', d')
       \<and> lfInstance l' = lfInstance l)) \<Longrightarrow>
    answered_run E a key view c i s es s2"

definition records :: "string \<Rightarrow> stored \<Rightarrow> bool" where
  "records i v \<longleftrightarrow> (\<forall>l d. v = Some (l, d) \<longrightarrow> lfInstance l = Some i)"

lemma writes_keep_records:
  assumes "stored_by L es v v'" and "list_all (writes (\<lambda>m. lfInstance (life_of L m) = Some i)) es"
    and "records i v"
  shows "records i v'"
  by (rule stored_by_invariant [where P = "records i" and W = "\<lambda>m. lfInstance (life_of L m) = Some i",
        OF _ assms])
    (auto simp: records_def wrote_meta_def wrote_status_def)

lemma reconcile_records:
  fixes E :: "('s, 'u) env"
  assumes ok: "libraries_ok E norm" and law: "lawful E a key view" and c: "actNicoAPIClient a = Some c"
    and ans: "answers E a key c i (ext st)" and rec: "records i (view (ext st))"
  shows "list_all (\<lambda>x. \<not> is_create x) (new_actions (Reconcile E (actuator_ops_of E a) key) st)
    \<and> records i (view (ext (snd (Reconcile E (actuator_ops_of E a) key st))))"
proof -
  let ?acts = "new_actions (Reconcile E (actuator_ops_of E a) key) st"
  have sb: "stored_by (envLib E) ?acts (view (ext st))
      (view (ext (snd (Reconcile E (actuator_ops_of E a) key st))))"
    by (rule stored_by_reconcile [OF law])
  show ?thesis
  proof (cases "fst (kubeGetMachine (envKube E) key (ext st))")
    case (Inl e)
    then have "?acts = [KubeGetMachine key]" by (simp add: nico.reconcile_new)
    then show ?thesis using sb rec by simp
  next
    case (Inr m)
    let ?st = "fetched E key m st"
    obtain t where t: "objBody m = MachineBody t" and l: "lfInstance (life_of (envLib E) m) = Some i"
      using lawful_read [OF law Inr] rec by (auto simp: records_def)
    obtain ps where ps: "getProviderStatus (envLib E) m = Inr ps" "psInstanceID ps = Some i"
      using l by (auto simp: life_of_def split: sum.splits)
    obtain inst resp where "fst (GetInstance c (actOrgName a) i (snd (kubeGetMachine (envKube E) key (ext st))))
        = (Some inst, resp, None)"
      using ans by (auto simp: answers_def split: prod.splits option.splits)
    from no_second_instance [OF c _ ps this] Inr
    have no: "list_all (\<lambda>x. \<not> is_create x) ?acts" by (metis prod.collapse)
    have life: "life_writes (envLib E) (omDeletionTimestamp (objMeta m) \<noteq> 0) m ?acts"
      using Inr t normal_life [OF ok, of ?st t a] deleting_life [OF ok, of ?st a]
      by (simp add: nico.reconcile_new life_writes_Cons fetched_def)
    have "\<not> list_ex is_create ?acts" using no by (auto simp: list_all_iff list_ex_iff)
    then have "list_all (writes (\<lambda>m. lfInstance (life_of (envLib E) m) = Some i)) ?acts"
      using life_step_keeps_record l by (intro life_writes_imp [OF life]) fastforce
    from writes_keep_records [OF sb this rec] no show ?thesis by blast
  qed
qed

lemma answered_run_inv:
  assumes "libraries_ok E norm" and "lawful E a key view" and "actNicoAPIClient a = Some c"
    and "answered_run E a key view c i s es s'" and "records i (view s)"
  shows "list_all (\<lambda>x. \<not> is_create x) es \<and> records i (view s')"
  using assms(4)
proof (induction rule: answered_run.induct)
  case begin_run
  then show ?case using assms(5) by simp
next
  case (reconcile_run es st)
  then show ?case using reconcile_records [OF assms(1,2,3) reconcile_run.hyps(2)] by simp
next
  case (other_run es s1 s2)
  then show ?case by (auto simp: records_def)
qed

section \<open>A world with the laws\<close>

text \<open>The reference world with an API server that keeps the deletion mark to itself.\<close>

definition keep_mark :: "MachineObject \<Rightarrow> MachineObject \<Rightarrow> MachineObject" where
  "keep_mark old m = m\<lparr>objMeta := (objMeta m)\<lparr>omDeletionTimestamp := omDeletionTimestamp (objMeta old)\<rparr>\<rparr>"

definition ref_server :: "ref_world KubeClient" where
  "ref_server = \<lparr>
     kubeGetMachine = (\<lambda>key w.
       (case objBody (rwMachine w) of MachineBody t \<Rightarrow> Inr (rwMachine w) | _ \<Rightarrow> Inl type_error, w)),
     kubeGetSecret = (\<lambda>key w. (Inl (ErrText ''not found''), w)),
     kubeUpdate = (\<lambda>m w. (Inr m, w\<lparr>rwMachine := keep_mark (rwMachine w) m\<rparr>)),
     kubeStatusUpdate = (\<lambda>m w. (Inr m, w\<lparr>rwMachine := keep_mark (rwMachine w) m\<rparr>))\<rparr>"

definition ref_cluster :: "(ref_world, nat) env" where
  "ref_cluster = ref_env\<lparr>envKube := ref_server\<rparr>"

definition ref_stored :: "ref_world \<Rightarrow> stored" where
  "ref_stored w = Some (life_of ref_lib (rwMachine w), omDeletionTimestamp (objMeta (rwMachine w)) \<noteq> 0)"

lemma ref_cluster_simps [simp]:
  "envLib ref_cluster = ref_lib" "envUuid ref_cluster = ref_uuid" "envKube ref_cluster = ref_server"
  by (simp_all add: ref_cluster_def)

lemma ref_cluster_libraries: "libraries_ok ref_cluster ref_condition_norm"
  using ref_libraries by (auto simp: libraries_ok_def truthful_def ref_server_def)

lemma life_of_keep_mark [simp]: "life_of L (keep_mark old m) = life_of L m"
  by (simp add: life_of_def keep_mark_def getProviderStatus_def)

lemma keep_mark_stamp [simp]:
  "omDeletionTimestamp (objMeta (keep_mark old m)) = omDeletionTimestamp (objMeta old)"
  by (simp add: keep_mark_def)

lemma ref_client_leaves: "leaves ref_stored ref_client"
  unfolding leaves_def by (simp add: ref_client_def ref_stored_def)

lemma ref_cluster_lawful: "lawful ref_cluster ref_actuator key ref_stored"
  unfolding lawful_def clients_leave_def api_server_def
  by (auto simp: ref_client_leaves ref_server_def ref_stored_def wrote_meta_def wrote_status_def
      split: machine_body.splits)

section \<open>Properties\<close>

text \<open>C4. Along every history of a machine, made of reconciles between the acts of users, of the NICo
  service and of the rest of the cluster: once an instance has been recorded, the machine stays
  stored with its finalizer until a deletion of it has succeeded.\<close>

theorem recorded_machine_is_held:
  assumes "libraries_ok E norm" and "lawful E a key view" and "reachable E a key view h"
    and "hsRecorded h" and "\<not> hsReleased h"
  shows "held (view (hsWorld h))"
  using reachable_inv [OF assms(1,2,3)] assms(4,5) by (simp add: history_inv_def)

definition ref_free_start :: ref_world where
  "ref_free_start = ref_world0\<lparr>rwMachine := ref_free_machine\<rparr>"

lemma ref_free_unrecorded: "\<not> recorded (ref_stored ref_free_start)"
  by code_simp

definition ref_history :: "ref_world history" where
  "ref_history = after_reconcile ref_cluster ref_actuator (''worker'', ''ns'') ref_stored
     (ref_state ref_free_start) \<lparr>hsWorld = ref_free_start, hsRecorded = False, hsReleased = False\<rparr>"

lemma ref_history_facts: "hsRecorded ref_history" "\<not> hsReleased ref_history"
  by code_simp+

lemma ref_history_reachable: "reachable ref_cluster ref_actuator (''worker'', ''ns'') ref_stored ref_history"
  unfolding ref_history_def
  by (rule reachable.step [OF reachable.start [of ref_stored ref_free_start]])
    (auto simp: ref_free_unrecorded intro: history_step.reconcile)

theorem recorded_machine_is_held_witness: "held (ref_stored (hsWorld ref_history))"
  using recorded_machine_is_held [OF ref_cluster_libraries ref_cluster_lawful ref_history_reachable
      ref_history_facts] .

theorem no_second_instance_witness:
  "list_all (\<lambda>x. \<not> is_create x)
     (new_actions (Reconcile ref_env (actuator_ops_of ref_env ref_actuator) (''worker'', ''ns''))
       (ref_state (ref_world0\<lparr>rwMachine := ref_recorded, rwInstances := [(''1'', ref_instance 1)]\<rparr>)))"
  by (rule no_second_instance [where c = ref_client and m = ref_recorded and i = "''1''"
        and ps = "zero_status\<lparr>psInstanceID := Some ''1''\<rparr>" and inst = "ref_instance 1" and resp = ref_ok
        and s = "ref_world0\<lparr>rwMachine := ref_recorded, rwInstances := [(''1'', ref_instance 1)]\<rparr>"])
    (simp_all add: ref_recorded_status gomap_get_def)

text \<open>C3. No second instance: along every run of reconciles, each begun while the service still answers
  for the instance the machine records, no other instance is asked for, whatever others do
  meanwhile short of changing the record; and the record stays.\<close>

theorem one_instance_while_answered:
  assumes "libraries_ok E norm" and "lawful E a key view" and "actNicoAPIClient a = Some c"
    and "answered_run E a key view c i s es s'"
    and "view s = Some (l, d)" and "lfInstance l = Some i"
  shows "list_all (\<lambda>x. \<not> is_create x) es
    \<and> (\<forall>l' d'. view s' = Some (l', d') \<longrightarrow> lfInstance l' = Some i)"
  using answered_run_inv [OF assms(1-4)] assms(5,6) by (simp add: records_def)

definition ref_recorded_world :: ref_world where
  "ref_recorded_world = ref_world0\<lparr>rwMachine := ref_recorded, rwInstances := [(''1'', ref_instance 1)]\<rparr>"

theorem one_instance_while_answered_witness:
  "list_all (\<lambda>x. \<not> is_create x)
     (new_actions (Reconcile ref_cluster (actuator_ops_of ref_cluster ref_actuator) (''worker'', ''ns''))
       (ref_state ref_recorded_world))"
proof -
  let ?key = "(''worker'', ''ns'')"
  have view: "ref_stored ref_recorded_world = Some (\<lparr>lfFinalizer = True, lfInstance = Some ''1''\<rparr>, False)"
    by code_simp
  have "answers ref_cluster ref_actuator ?key ref_client ''1'' (ext (ref_state ref_recorded_world))"
    by code_simp
  from answered_run.reconcile_run [OF _ this, of ref_stored ref_recorded_world "[]"]
  have "answered_run ref_cluster ref_actuator ?key ref_stored ref_client ''1'' ref_recorded_world
      (new_actions (Reconcile ref_cluster (actuator_ops_of ref_cluster ref_actuator) ?key)
         (ref_state ref_recorded_world))
      (ext (snd (Reconcile ref_cluster (actuator_ops_of ref_cluster ref_actuator) ?key
         (ref_state ref_recorded_world))))"
    by (simp add: answered_run.begin_run)
  from one_instance_while_answered [OF ref_cluster_libraries ref_cluster_lawful _ this view]
  show ?thesis by simp
qed

end
