(* ===== verification/Progress.thy ===== *)
theory Progress
  imports History
begin

text \<open>
  What the controller achieves when the services it talks to do what they are asked: a new machine
  is given its finalizer by the first reconcile and an instance by the second, and however often it
  is reconciled afterwards there is no other instance.
\<close>

section \<open>Services that do what they are asked\<close>

text \<open>
  \<open>store\<close> is the Machine the API server has, \<open>known\<close> the instances the service answers for. Reads
  and writes of the Machine succeed, a creation gives an instance with an ID that is known from
  then on, and nothing but a deletion makes an instance unknown.
\<close>

definition stored_view :: "('s, 'u) env \<Rightarrow> ('s \<Rightarrow> MachineObject) \<Rightarrow> 's \<Rightarrow> stored" where
  "stored_view E store s =
     Some (life_of (envLib E) (store s), omDeletionTimestamp (objMeta (store s)) \<noteq> 0)"

definition keeps_known :: "bool effect" where
  "keeps_known x v v' \<longleftrightarrow> is_delete x \<or> (v \<longrightarrow> v')"

definition reliable ::
  "('s, 'u) env \<Rightarrow> 's Actuator \<Rightarrow> 's NicoClientInterface \<Rightarrow> string \<times> string \<Rightarrow> ('s \<Rightarrow> MachineObject)
     \<Rightarrow> ('s \<Rightarrow> string set) \<Rightarrow> bool" where
  "reliable E a c key store known \<longleftrightarrow>
     actNicoAPIClient a = Some c \<and> lawful E a key (stored_view E store)
   \<and> (\<forall>i. obeys keeps_known (\<lambda>s. i \<in> known s) E a key)
   \<and> (\<forall>s. fst (kubeGetMachine (envKube E) key s) = Inr (store s)
        \<and> store (snd (kubeGetMachine (envKube E) key s)) = store s)
   \<and> (\<forall>m t s. objBody m = MachineBody t
        \<and> omDeletionTimestamp (objMeta m) = omDeletionTimestamp (objMeta (store s)) \<longrightarrow>
        fst (kubeUpdate (envKube E) m s) = Inr m \<and> store (snd (kubeUpdate (envKube E) m s)) = m
        \<and> fst (kubeStatusUpdate (envKube E) m s) = Inr m
        \<and> store (snd (kubeStatusUpdate (envKube E) m s)) = m)
   \<and> (\<forall>req s. (\<exists>inst i u resp. fst (CreateInstance c (actOrgName a) req s) = (Some inst, resp, None)
          \<and> instId inst = Some i \<and> uuid_parse (envUuid E) i = Inr u
          \<and> i \<in> known (snd (CreateInstance c (actOrgName a) req s)))
        \<and> store (snd (CreateInstance c (actOrgName a) req s)) = store s)
   \<and> (\<forall>i s. i \<in> known s \<longrightarrow>
        (\<exists>inst resp. fst (GetInstance c (actOrgName a) i s) = (Some inst, resp, None)))"

text \<open>The instance is recorded, known, and the machine has its finalizer and is not being deleted.\<close>

definition settled ::
  "('s, 'u) env \<Rightarrow> ('s \<Rightarrow> MachineObject) \<Rightarrow> ('s \<Rightarrow> string set) \<Rightarrow> string \<Rightarrow> 's \<Rightarrow> bool" where
  "settled E store known i s \<longleftrightarrow>
     lfInstance (life_of (envLib E) (store s)) = Some i \<and> i \<in> known s
     \<and> lfFinalizer (life_of (envLib E) (store s)) \<and> omDeletionTimestamp (objMeta (store s)) = 0"

lemma reliable_laws:
  assumes "reliable E a c key store known"
  shows "actNicoAPIClient a = Some c" and "lawful E a key (stored_view E store)"
    and "obeys keeps_known (\<lambda>s. i \<in> known s) E a key"
  using assms unfolding reliable_def by blast+

lemma reliable_reads:
  assumes "reliable E a c key store known"
  shows "fst (kubeGetMachine (envKube E) key s) = Inr (store s)"
    and "store (snd (kubeGetMachine (envKube E) key s)) = store s"
  using assms unfolding reliable_def by blast+

lemma reliable_writes:
  assumes "reliable E a c key store known" and "objBody m = MachineBody t"
    and "omDeletionTimestamp (objMeta m) = omDeletionTimestamp (objMeta (store s))"
  shows "fst (kubeUpdate (envKube E) m s) = Inr m" and "store (snd (kubeUpdate (envKube E) m s)) = m"
    and "fst (kubeStatusUpdate (envKube E) m s) = Inr m"
    and "store (snd (kubeStatusUpdate (envKube E) m s)) = m"
  using assms unfolding reliable_def by blast+

lemma reliable_service:
  assumes "reliable E a c key store known"
  shows "\<exists>inst i u resp. fst (CreateInstance c (actOrgName a) req s) = (Some inst, resp, None)
      \<and> instId inst = Some i \<and> uuid_parse (envUuid E) i = Inr u
      \<and> i \<in> known (snd (CreateInstance c (actOrgName a) req s))"
    and "store (snd (CreateInstance c (actOrgName a) req s)) = store s"
    and "i \<in> known s \<Longrightarrow> \<exists>inst resp. fst (GetInstance c (actOrgName a) i s) = (Some inst, resp, None)"
  using assms unfolding reliable_def by blast+

text \<open>Reads and writes of the Machine forget no instance.\<close>

lemma known_after:
  assumes "reliable E a c key store known" and "i \<in> known s"
  shows "i \<in> known (snd (kubeGetMachine (envKube E) key s))" and "i \<in> known (snd (kubeUpdate (envKube E) m s))"
    and "i \<in> known (snd (kubeStatusUpdate (envKube E) m s))"
  using reliable_laws(3) [OF assms(1), of i] assms(2)
  unfolding obeys_def kube_obeys_def keeps_known_def by auto

section \<open>The first reconcile\<close>

definition new_machine ::
  "('s, 'u) env \<Rightarrow> MachineObject \<Rightarrow> NicoMachineProviderSpec \<Rightarrow> bool" where
  "new_machine E m spec \<longleftrightarrow>
     omDeletionTimestamp (objMeta m) = 0 \<and> (\<exists>t. objBody m = MachineBody t)
     \<and> \<not> libContainsFinalizer (envLib E) (omFinalizers (objMeta m)) MachineFinalizer
     \<and> (\<exists>ps. getProviderStatus (envLib E) m = Inr ps \<and> psInstanceID ps = None)
     \<and> getProviderSpec (envLib E) m = Inr spec \<and> actuator_validateProviderSpec spec = None
     \<and> MachineID spec = [] \<and> DpuExtensionServices spec = []"

definition with_finalizer :: "('s, 'u) env \<Rightarrow> MachineObject \<Rightarrow> MachineObject" where
  "with_finalizer E m =
     set_finalizers (libAddFinalizer (envLib E) (omFinalizers (objMeta m)) MachineFinalizer) m"

lemma with_finalizer_ready:
  assumes "libraries_ok E norm" and "new_machine E m spec"
  shows "ready_to_create E (with_finalizer E m) spec"
proof -
  have "libContainsFinalizer (envLib E) (libAddFinalizer (envLib E) fs f) f" for fs f
    using assms(1) finalizer_ops.contains_add unfolding libraries_ok_def by fastforce
  then show ?thesis
    using assms(2)
    by (auto simp: new_machine_def ready_to_create_def with_finalizer_def set_finalizers_def
        getProviderStatus_def getProviderSpec_def)
qed

lemma first_reconcile:
  assumes rel: "reliable E a c key store known" and m: "new_machine E (store (ext st)) spec"
  shows "\<exists>st'. Reconcile E (actuator_ops_of E a) key st = (Val (second, None), st')
    \<and> new_actions (Reconcile E (actuator_ops_of E a) key) st
        = [KubeGetMachine key, KubeUpdate (with_finalizer E (store (ext st)))]
    \<and> store (ext st') = with_finalizer E (store (ext st))"
proof -
  let ?m = "store (ext st)" and ?s = "snd (kubeGetMachine (envKube E) key (ext st))"
  have mark: "omDeletionTimestamp (objMeta (with_finalizer E ?m)) = omDeletionTimestamp (objMeta (store ?s))"
    using reliable_reads [OF rel, of "ext st"] by (simp add: with_finalizer_def set_finalizers_def)
  obtain t where "objBody (with_finalizer E ?m) = MachineBody t"
    using m by (auto simp: new_machine_def with_finalizer_def)
  then show ?thesis
    using reliable_reads [OF rel, of "ext st"] reliable_writes(1,2) [OF rel _ mark] m
    by (simp add: Reconcile_run reconcileNormal_run run_kube_update new_machine_def new_actions_def
        with_finalizer_def Let_def)
qed

section \<open>The second reconcile\<close>

lemma create_settles:
  assumes rel: "reliable E a c key store known" and ok: "libraries_ok E norm"
    and m: "obj st = store (ext st)" and t: "objBody (obj st) = MachineBody t"
    and live: "omDeletionTimestamp (objMeta (obj st)) = 0" and dpu: "DpuExtensionServices spec = []"
    and fin: "libContainsFinalizer (envLib E) (omFinalizers (objMeta (obj st))) MachineFinalizer"
  shows "\<exists>st' i. create_instance E a c (actOrgName a) spec st = (Val None, st') \<and> settled E store known i (ext st')"
proof -
  let ?req = "buildInstanceRequest (GetName (obj st)) spec"
  let ?s1 = "snd (CreateInstance c (actOrgName a) ?req (ext st))"
  obtain inst i u resp where cr: "fst (CreateInstance c (actOrgName a) ?req (ext st)) = (Some inst, resp, None)"
      "instId inst = Some i" "uuid_parse (envUuid E) i = Inr u" "i \<in> known ?s1"
    using reliable_service(1) [OF rel] by blast
  have s1: "store ?s1 = obj st" using reliable_service(2) [OF rel] m by simp
  let ?ps = "created_status (envLib E) (envNow E ?s1) i inst"
  let ?m1 = "put_provider_status (Some (enc_ProviderStatus (libCodec (envLib E)) ?ps)) t (obj st)"
  let ?s2 = "snd (kubeStatusUpdate (envKube E) ?m1 ?s1)"
  let ?t1 = "t\<lparr>tmProviderStatus := Some (Some (enc_ProviderStatus (libCodec (envLib E)) ?ps))\<rparr>"
  have body: "objBody ?m1 = MachineBody ?t1" by (simp add: put_provider_status_def)
  have "omDeletionTimestamp (objMeta ?m1) = omDeletionTimestamp (objMeta (store ?s1))"
    by (simp add: s1 put_provider_status_def)
  note w1 = reliable_writes(3,4) [OF rel body this]
  let ?pid = "ProviderID_String (envUuid E) (NewProviderID (actOrgName a) (TenantID spec) (SiteID spec) u)"
  let ?m2 = "?m1\<lparr>objBody := MachineBody (?t1\<lparr>tmProviderID := Some ?pid\<rparr>)\<rparr>"
  let ?s3 = "snd (kubeUpdate (envKube E) ?m2 ?s2)"
  have "omDeletionTimestamp (objMeta ?m2) = omDeletionTimestamp (objMeta (store ?s2))"
    by (simp add: w1)
  note w2 = reliable_writes(1,2) [OF rel _ this, where t = "?t1\<lparr>tmProviderID := Some ?pid\<rparr>"]
  have "\<exists>st'. create_instance E a c (actOrgName a) spec st = (Val None, st') \<and> ?s3 = ext st'"
    using cr(1-3) t dpu w1(1) w2(1) body
    by (simp add: create_instance_def after_create_def finish_create_def call_CreateInstance_def
        metricp_def eventf_def setProviderStatus_def setProviderID_def kube_update_def
        kube_status_update_def run_simps Let_def)
  then obtain st' where st': "create_instance E a c (actOrgName a) spec st = (Val None, st')" "?s3 = ext st'"
    by blast
  have "settled E store known i ?s3"
  proof -
    have "getProviderStatus (envLib E) ?m2 = getProviderStatus (envLib E) ?m1"
      by (rule getProviderStatus_other [OF body, where t' = "?t1\<lparr>tmProviderID := Some ?pid\<rparr>"]) simp_all
    also have "\<dots> = Inr (?ps\<lparr>psConditions := map norm (psConditions ?ps)\<rparr>)"
      using ok by (intro getProviderStatus_put) (auto simp: libraries_ok_def created_status_def zero_status_def)
    finally have "lfInstance (life_of (envLib E) ?m2) = Some i"
      using cr(2) by (simp add: life_of_def created_status_def zero_status_def)
    moreover have "i \<in> known ?s3" by (intro known_after [OF rel] cr(4))
    ultimately show ?thesis using w2(2) live fin by (simp add: settled_def life_of_def put_provider_status_def)
  qed
  then have "settled E store known i (ext st')" by (simp only: st'(2))
  then show ?thesis using st'(1) by blast
qed

lemma create_instance_asks:
  "\<exists>es. trace (snd (create_instance E a c org spec st))
     = trace st @ Api (CallCreateInstance org (buildInstanceRequest (GetName (obj st)) spec)) # es"
proof -
  let ?st = "st\<lparr>ext := snd (CreateInstance c org (buildInstanceRequest (GetName (obj st)) spec) (ext st)),
     trace := trace st @ [Api (CallCreateInstance org (buildInstanceRequest (GetName (obj st)) spec))]\<rparr>"
  have "emits (\<lambda>_. True) (seqp (metricp (APILatency ''CreateInstance'')) (after_create E a c org spec inst resp err))"
    for inst resp err by (intro emits_intros) simp_all
  note more = emitsD [OF this, of _ _ _ ?st]
  show ?thesis
    using more [of "fst (fst (CreateInstance c org (buildInstanceRequest (GetName (obj st)) spec) (ext st)))"
        "fst (snd (fst (CreateInstance c org (buildInstanceRequest (GetName (obj st)) spec) (ext st))))"
        "snd (snd (fst (CreateInstance c org (buildInstanceRequest (GetName (obj st)) spec) (ext st))))"]
    by (auto simp: create_instance_def call_CreateInstance_def run_andthen run_getobj run_extcall
        split: prod.split)
qed

lemma second_reconcile:
  assumes rel: "reliable E a c key store known" and ok: "libraries_ok E norm"
    and ready: "ready_to_create E (store (ext st)) spec" and dpu: "DpuExtensionServices spec = []"
  shows "\<exists>st' i. Reconcile E (actuator_ops_of E a) key st = (Val (10 * second, None), st')
    \<and> length (filter is_create (new_actions (Reconcile E (actuator_ops_of E a) key) st)) = 1
    \<and> settled E store known i (ext st')"
proof -
  let ?st = "fetched E key (store (ext st)) st"
  have f: "obj ?st = store (ext ?st)" "omDeletionTimestamp (objMeta (obj ?st)) = 0"
      "trace ?st = trace st @ [KubeGetMachine key]"
      "libContainsFinalizer (envLib E) (omFinalizers (objMeta (obj ?st))) MachineFinalizer"
    using reliable_reads [OF rel, of "ext st"] ready by (simp_all add: fetched_def ready_to_create_def)
  obtain t where t: "objBody (obj ?st) = MachineBody t"
    using ready by (auto simp: ready_to_create_def fetched_def)
  from create_settles [OF rel ok f(1) t f(2) dpu f(4)] obtain st' i where
    st': "create_instance E a c (actOrgName a) spec ?st = (Val None, st')" "settled E store known i (ext st')" by blast
  have run: "Reconcile E (actuator_ops_of E a) key st = (Val (10 * second, None), st')"
    using reconcile_ready [OF ready reliable_laws(1) [OF rel] reliable_reads(1) [OF rel]] st'(1) by simp
  obtain x es where "trace st' = trace st @ KubeGetMachine key # x # es" "is_create x"
    using create_instance_asks [of E a c "actOrgName a" spec ?st] st'(1) f(3) by fastforce
  then have "new_actions (Reconcile E (actuator_ops_of E a) key) st = KubeGetMachine key # x # es"
    using run by (simp add: new_actions_def)
  moreover have "length (filter is_create (new_actions (Reconcile E (actuator_ops_of E a) key) st)) \<le> 1"
    by (rule new_actions_at_most [OF nico.reconcile_once])
  ultimately have "length (filter is_create (new_actions (Reconcile E (actuator_ops_of E a) key) st)) = 1"
    using \<open>is_create x\<close> by simp
  then show ?thesis using run st'(2) by blast
qed

section \<open>Every later reconcile\<close>

lemma emits_any_Reconcile: "emits (\<lambda>_. True) (Reconcile E (actuator_ops_of E a) key)"
proof (rule emitsI)
  fix st :: "('a, MachineObject, action) st"
  obtain es where "trace (snd (Reconcile E (actuator_ops_of E a) key st)) = trace st @ es"
    using at_mostD [OF nico.reconcile_once] by blast
  then show "\<exists>es. trace (snd (Reconcile E (actuator_ops_of E a) key st)) = trace st @ es \<and> list_all (\<lambda>_. True) es"
    by (simp add: list_all_iff)
qed

lemma emits_any_reconciles: "emits (\<lambda>_. True) (reconciles E (actuator_ops_of E a) key n)"
  by (induction n) (auto intro: emits_ret emits_andthen emits_any_Reconcile)

lemma stays_live:
  assumes "stored_by L es (Some (l, False)) v'"
  shows "\<exists>l'. v' = Some (l', False)"
proof (rule chained_invariant [where P = "\<lambda>v. \<exists>l. v = Some (l, False)" and W = "\<lambda>_. True"
      and F = "stores L", OF _ assms])
  show "\<exists>l. v' = Some (l, False)" if "\<exists>l. v = Some (l, False)" "stores L x v v'" for x v v'
    using that by (cases x) (auto simp: wrote_meta_def wrote_status_def split: option.splits)
qed (simp_all add: list_all_iff)

lemma settled_reconcile:
  assumes rel: "reliable E a c key store known" and ok: "libraries_ok E norm"
    and s: "settled E store known i (ext st)"
  shows "list_all (\<lambda>x. \<not> is_create x) (new_actions (Reconcile E (actuator_ops_of E a) key) st)
    \<and> settled E store known i (ext (snd (Reconcile E (actuator_ops_of E a) key st)))"
proof -
  note law = reliable_laws(2) [OF rel]
  let ?acts = "new_actions (Reconcile E (actuator_ops_of E a) key) st"
  let ?s' = "ext (snd (Reconcile E (actuator_ops_of E a) key st))"
  have i: "i \<in> known (ext st)" and rec: "records i (stored_view E store (ext st))"
      and live: "omDeletionTimestamp (objMeta (store (ext st))) = 0" and held: "held (stored_view E store (ext st))"
    using s by (simp_all add: settled_def records_def stored_view_def)
  have "answers E a key c i (ext st)"
    using reliable_service(3) [OF rel known_after(1) [OF rel i]] by (fastforce simp: answers_def)
  from reconcile_records [OF ok law reliable_laws(1) [OF rel] this rec]
  have 1: "list_all (\<lambda>x. \<not> is_create x) ?acts" "records i (stored_view E store ?s')" by simp_all
  have "stored_by (envLib E) ?acts (Some (life_of (envLib E) (store (ext st)), False)) (stored_view E store ?s')"
    using stored_by_reconcile [OF law, of st] live by (simp add: stored_view_def)
  from stays_live [OF this] have 2: "omDeletionTimestamp (objMeta (store ?s')) = 0"
    by (simp add: stored_view_def)
  have "\<not> releases E a key st"
    using reliable_reads(1) [OF rel, of "ext st"] live by (simp add: releases_def)
  with reconcile_stored(3) [OF ok law, of st] held have 3: "held (stored_view E store ?s')" by blast
  have "list_all (\<lambda>x. \<not> is_delete x) ?acts"
    using reliable_reads(1) [OF rel, of "ext st"] live new_actions_emits [OF nico.normal_no_delete]
    by (simp add: nico.reconcile_new)
  from chained_invariant [where P = "\<lambda>v. v" and F = keeps_known, OF _
      tracks_new [OF tracks_Reconcile [OF reliable_laws(3) [OF rel]]] this] i
  have "i \<in> known ?s'" by (simp add: keeps_known_def)
  then show ?thesis using 1 2 3 unfolding settled_def stored_view_def records_def stored_simps by blast
qed

lemma settled_reconciles:
  assumes rel: "reliable E a c key store known" and ok: "libraries_ok E norm"
  shows "settled E store known i (ext st) \<Longrightarrow>
     list_all (\<lambda>x. \<not> is_create x) (new_actions (reconciles E (actuator_ops_of E a) key n) st)
     \<and> settled E store known i (ext (snd (reconciles E (actuator_ops_of E a) key n st)))"
proof (induction n arbitrary: st)
  case (Suc n)
  obtain r st1 where 1: "Reconcile E (actuator_ops_of E a) key st = (r, st1)"
    by (cases "Reconcile E (actuator_ops_of E a) key st")
  from settled_reconcile [OF rel ok Suc.prems] 1
  have "list_all (\<lambda>x. \<not> is_create x) (new_actions (Reconcile E (actuator_ops_of E a) key) st)"
      "settled E store known i (ext st1)" by simp_all
  moreover have "new_actions (reconciles E (actuator_ops_of E a) key (Suc n)) st =
      new_actions (Reconcile E (actuator_ops_of E a) key) st
        @ (case r of Val x \<Rightarrow> new_actions (reconciles E (actuator_ops_of E a) key n) st1 | Panic \<Rightarrow> [])"
    using 1 by (simp add: new_actions_andthen [OF emits_any_Reconcile emits_any_reconciles] split: res.split)
  moreover have "snd (reconciles E (actuator_ops_of E a) key (Suc n) st) =
      (case r of Val x \<Rightarrow> snd (reconciles E (actuator_ops_of E a) key n st1) | Panic \<Rightarrow> st1)"
    using 1 by (simp add: run_andthen split: res.split)
  ultimately show ?case using Suc.IH [of st1] by (cases r) simp_all
qed (simp add: run_ret)

section \<open>A world of reliable services\<close>

definition ref_stored_machine :: "ref_world \<Rightarrow> MachineObject" where
  "ref_stored_machine w = (case objBody (rwMachine w) of MachineBody t \<Rightarrow> rwMachine w | _ \<Rightarrow> ref_machine)"

definition ref_put :: "MachineObject \<Rightarrow> ref_world \<Rightarrow> ref_world" where
  "ref_put m w = (case objBody m of MachineBody t \<Rightarrow> w\<lparr>rwMachine := keep_mark (ref_stored_machine w) m\<rparr> | _ \<Rightarrow> w)"

definition ref_reliable_server :: "ref_world KubeClient" where
  "ref_reliable_server = \<lparr>
     kubeGetMachine = (\<lambda>key w. (Inr (ref_stored_machine w), w)),
     kubeGetSecret = (\<lambda>key w. (Inl (ErrText ''not found''), w)),
     kubeUpdate = (\<lambda>m w. (Inr m, ref_put m w)),
     kubeStatusUpdate = (\<lambda>m w. (Inr m, ref_put m w))\<rparr>"

definition ref_reliable :: "(ref_world, nat) env" where
  "ref_reliable = ref_env\<lparr>envKube := ref_reliable_server\<rparr>"

definition ref_known :: "ref_world \<Rightarrow> string set" where
  "ref_known w = {i. gomap_get (rwInstances w) i \<noteq> None}"

lemma ref_reliable_simps [simp]:
  "envLib ref_reliable = ref_lib" "envUuid ref_reliable = ref_uuid" "envKube ref_reliable = ref_reliable_server"
  by (simp_all add: ref_reliable_def)

lemma ref_stored_machine_typed: "\<exists>t. objBody (ref_stored_machine w) = MachineBody t"
  by (simp add: ref_stored_machine_def split: machine_body.split)

lemma ref_stored_machine_put:
  "ref_stored_machine (ref_put m w) = (case objBody m of MachineBody t \<Rightarrow> keep_mark (ref_stored_machine w) m | _ \<Rightarrow> ref_stored_machine w)"
  by (simp add: ref_put_def ref_stored_machine_def [of "rwMachine_update f w" for f] keep_mark_def
      split: machine_body.split)

lemma keep_mark_same:
  "omDeletionTimestamp (objMeta m) = omDeletionTimestamp (objMeta old) \<Longrightarrow> keep_mark old m = m"
  by (cases m; cases "objMeta m") (simp add: keep_mark_def)

lemma ref_stored_machine_instances [simp]: "ref_stored_machine (w\<lparr>rwInstances := is, rwNext := n\<rparr>) = ref_stored_machine w"
    "ref_stored_machine (w\<lparr>rwInstances := is\<rparr>) = ref_stored_machine w"
  by (simp_all add: ref_stored_machine_def split: machine_body.split)

lemma ref_reliable_lawful: "lawful ref_reliable ref_actuator key (stored_view ref_reliable ref_stored_machine)"
proof -
  have "leaves (stored_view ref_reliable ref_stored_machine) ref_client"
    unfolding leaves_def by (simp add: ref_client_def stored_view_def)
  moreover have "stores ref_lib (KubeUpdate m) (stored_view ref_reliable ref_stored_machine w)
        (stored_view ref_reliable ref_stored_machine (ref_put m w))"
      "stores ref_lib (KubeStatusUpdate m) (stored_view ref_reliable ref_stored_machine w)
        (stored_view ref_reliable ref_stored_machine (ref_put m w))" for m w
    by (auto simp: stored_view_def ref_stored_machine_put wrote_meta_def wrote_status_def split: machine_body.split)
  ultimately show ?thesis
    unfolding lawful_def clients_leave_def api_server_def
    using ref_stored_machine_typed by (simp add: ref_reliable_server_def stored_view_def del: stores.simps)
qed

lemma ref_reliable_known: "obeys keeps_known (\<lambda>s. i \<in> ref_known s) ref_reliable ref_actuator key"
  unfolding obeys_def kube_obeys_def clients_obey_def client_obeys_def
  by (auto simp: keeps_known_def ref_reliable_server_def ref_client_def ref_known_def ref_put_def
      split: machine_body.split)

lemma ref_world_reliable: "reliable ref_reliable ref_actuator ref_client key ref_stored_machine ref_known"
  unfolding reliable_def
proof (intro conjI allI impI)
  show "\<exists>inst i u resp. fst (CreateInstance ref_client (actOrgName ref_actuator) req s) = (Some inst, resp, None)
      \<and> instId inst = Some i \<and> uuid_parse (envUuid ref_reliable) i = Inr u
      \<and> i \<in> ref_known (snd (CreateInstance ref_client (actOrgName ref_actuator) req s))" for req s
    by (simp add: ref_known_def ref_instance_def)
  show "\<exists>inst resp. fst (GetInstance ref_client (actOrgName ref_actuator) i s) = (Some inst, resp, None)"
    if "i \<in> ref_known s" for i s
    using that by (auto simp: ref_known_def)
qed (auto simp: ref_reliable_server_def ref_stored_machine_put keep_mark_same ref_reliable_lawful ref_reliable_known)

section \<open>Property\<close>

text \<open>C5. A new machine gets an instance, and only one. Take a live machine without the finalizer that
  names no machine of the service and no DPU services, an actuator with an injected client, and
  an API server and a service that do what they are asked: the first reconcile stores the finalizer
  and asks for nothing, the second asks for an instance and records it, and after any number of
  further reconciles that instance is still known to the service, recorded and under the
  finalizer, and no other has been asked for.\<close>

theorem provisioned_exactly_once:
  assumes "reliable E a c key store known" and "libraries_ok E norm"
    and "new_machine E (store (ext st)) spec"
  shows "new_actions (Reconcile E (actuator_ops_of E a) key) st
      = [KubeGetMachine key, KubeUpdate (store (ext (snd (Reconcile E (actuator_ops_of E a) key st))))]
    \<and> libContainsFinalizer (envLib E)
        (omFinalizers (objMeta (store (ext (snd (Reconcile E (actuator_ops_of E a) key st)))))) MachineFinalizer
    \<and> (\<exists>i. settled E store known i (ext (snd (reconciles E (actuator_ops_of E a) key (Suc (Suc n)) st))))
    \<and> length (filter is_create
        (new_actions (reconciles E (actuator_ops_of E a) key (Suc (Suc n))) st)) = 1"
proof -
  let ?R = "Reconcile E (actuator_ops_of E a) key" and ?rs = "reconciles E (actuator_ops_of E a) key"
  obtain st1 where 1: "?R st = (Val (second, None), st1)"
      "new_actions ?R st = [KubeGetMachine key, KubeUpdate (with_finalizer E (store (ext st)))]"
      "store (ext st1) = with_finalizer E (store (ext st))"
    using first_reconcile [OF assms(1,3)] by blast
  have ready: "ready_to_create E (store (ext st1)) spec" and dpu: "DpuExtensionServices spec = []"
    using with_finalizer_ready [OF assms(2,3)] 1(3) assms(3) by (simp_all add: new_machine_def)
  from second_reconcile [OF assms(1,2) ready dpu] obtain st2 i where
    2: "?R st1 = (Val (10 * second, None), st2)" "length (filter is_create (new_actions ?R st1)) = 1"
      "settled E store known i (ext st2)" by blast
  from settled_reconciles [OF assms(1,2) 2(3), of n]
  have 3: "filter is_create (new_actions (?rs n) st2) = []" "settled E store known i (ext (snd (?rs n st2)))"
    by (simp_all add: filter_empty_conv list_all_iff)
  have "new_actions (?rs (Suc (Suc n))) st = new_actions ?R st @ new_actions ?R st1 @ new_actions (?rs n) st2"
    by (simp only: reconciles.simps
        new_actions_andthen [OF emits_any_Reconcile emits_andthen [OF emits_any_Reconcile emits_any_reconciles]]
        new_actions_andthen [OF emits_any_Reconcile emits_any_reconciles] 1(1) 2(1) prod.case res.case)
  moreover have "snd (?rs (Suc (Suc n)) st) = snd (?rs n st2)"
    using 1(1) 2(1) by (simp add: run_andthen)
  moreover have "libContainsFinalizer (envLib E) (omFinalizers (objMeta (store (ext st1)))) MachineFinalizer"
    using ready by (simp add: ready_to_create_def)
  ultimately show ?thesis using 1 2(2) 3 by auto
qed

definition ref_new_world :: ref_world where
  "ref_new_world = ref_world0\<lparr>rwMachine := set_finalizers [] ref_free_machine\<rparr>"

theorem provisioned_exactly_once_witness:
  "length (filter is_create (new_actions (reconciles ref_reliable (actuator_ops_of ref_reliable ref_actuator)
      (''worker'', ''ns'') 5) (ref_state ref_new_world))) = 1"
proof -
  have lib: "libraries_ok ref_reliable ref_condition_norm"
    using ref_libraries by (auto simp: libraries_ok_def truthful_def ref_reliable_server_def)
  have "ref_stored_machine ref_new_world = set_finalizers [] ref_free_machine"
    by (simp add: ref_stored_machine_def ref_new_world_def ref_free_machine_def)
  moreover have "new_machine ref_reliable (set_finalizers [] ref_free_machine) ref_typeless_spec"
    using ref_free_ready
    by (auto simp: new_machine_def ready_to_create_def set_finalizers_def getProviderStatus_def
        getProviderSpec_def ref_typeless_spec_def ref_lib_def)
  ultimately have "new_machine ref_reliable (ref_stored_machine (ext (ref_state ref_new_world))) ref_typeless_spec"
    by simp
  from provisioned_exactly_once [OF ref_world_reliable lib this, of _ 3]
  show ?thesis by (auto simp: eval_nat_numeral)
qed

end
