(* ===== verification/Escalation.thy ===== *)
theory Escalation
  imports Progress
begin

text \<open>
  A machine whose chosen host stays unfit. Every reconcile fetches the machine, finds the creation
  blocked by the health of the host and stores one more attempt in a condition of the status, from
  which the next reconcile reads the count; with the third attempt the machine is declared failed.
\<close>

section \<open>The count in the status\<close>

text \<open>After \<open>n\<close> blocked attempts the condition names the last of them; before the first there is none.\<close>

definition recorded_attempts :: "nat \<Rightarrow> NicoMachineProviderStatus \<Rightarrow> bool" where
  "recorded_attempts n ps \<longleftrightarrow>
     (if n = 0 then find_condition faultBlockedType (psConditions ps) = None
      else \<exists>c. find_condition faultBlockedType (psConditions ps) = Some c \<and> cStatus c = ConditionTrue
        \<and> cReason c = faultBlockedPrefix @ show_int (int n))"

lemma recorded_attempts_next:
  assumes "recorded_attempts n ps" and "int n < max_int64"
  shows "next_attempt (psConditions ps) = int n + 1"
proof (cases "n = 0")
  case False
  then obtain c where c: "find_condition faultBlockedType (psConditions ps) = Some c"
      "cStatus c = ConditionTrue" "cReason c = faultBlockedPrefix @ show_int (int n)"
    using assms(1) by (auto simp: recorded_attempts_def)
  have "in_int64 (int n) = Some (int n)" "wrap64 (int n + 1) = int n + 1"
    using assms(2) by (auto simp: in_int64_def min_int64_def intro!: wrap64_id)
  then show ?thesis using next_attempt_first [OF c(1,2)] c(3) by (simp add: sscanf_show_int)
qed (use assms in \<open>simp add: recorded_attempts_def next_attempt_none\<close>)

lemma recorded_attempts_blocked:
  assumes "conditions_ok L" and "codec_ok C norm"
    and "psConditions ps = map norm (psConditions (blocked_status L now (int n + 1) msg ps0))"
  shows "recorded_attempts (Suc n) ps"
proof -
  obtain c where c: "find_condition faultBlockedType (psConditions (blocked_status L now (int n + 1) msg ps0)) = Some c"
      "cStatus c = ConditionTrue" "cReason c = faultBlockedPrefix @ show_int (int n + 1)"
    using find_blocked_status [OF assms(1)] by blast
  then show ?thesis
    using find_condition_map [of norm, OF condition_codec.norm_type [OF assms(2)]]
    by (simp add: recorded_attempts_def assms(3) condition_codec.norm_status [OF assms(2)]
        condition_codec.norm_reason [OF assms(2)] add.commute)
qed

section \<open>An unfit host\<close>

text \<open>
  \<open>store\<close> is the Machine the API server has: a read gives it, and a status update that leaves its
  deletion mark alone stores the object sent. The tenant may choose machines of the site, and the
  health reports of the chosen one can be read and always hold a critical alert. The two questions
  do not touch the Machine.
\<close>

definition unfit ::
  "('s, 'u) env \<Rightarrow> 's Actuator \<Rightarrow> 's NicoClientInterface \<Rightarrow> NicoMachineProviderSpec \<Rightarrow> string \<times> string
     \<Rightarrow> ('s \<Rightarrow> MachineObject) \<Rightarrow> bool" where
  "unfit E a c spec key store \<longleftrightarrow>
     actNicoAPIClient a = Some c
   \<and> (\<forall>s. fst (kubeGetMachine (envKube E) key s) = Inr (store s)
        \<and> store (snd (kubeGetMachine (envKube E) key s)) = store s)
   \<and> (\<forall>m t s. objBody m = MachineBody t
        \<and> omDeletionTimestamp (objMeta m) = omDeletionTimestamp (objMeta (store s)) \<longrightarrow>
        fst (kubeStatusUpdate (envKube E) m s) = Inr m \<and> store (snd (kubeStatusUpdate (envKube E) m s)) = m)
   \<and> (\<forall>s. (\<exists>accounts resp. fst (GetAllTenantAccount c (actOrgName a) s) = (accounts, resp, None)
          \<and> resp_ok resp \<and> list_ex (account_allows (SiteID spec)) accounts)
        \<and> store (snd (GetAllTenantAccount c (actOrgName a) s)) = store s)
   \<and> (\<forall>s. (\<exists>reports resp. fst (GetAllMachineHealthReport c (actOrgName a) (MachineID spec) s) = (reports, resp, None)
          \<and> resp_ok resp \<and> list_ex (\<lambda>r. list_ex is_critical (hreAlerts r)) reports)
        \<and> store (snd (GetAllMachineHealthReport c (actOrgName a) (MachineID spec) s)) = store s)"

lemma unfit_kube:
  assumes "unfit E a c spec key store"
  shows "actNicoAPIClient a = Some c" and "fst (kubeGetMachine (envKube E) key s) = Inr (store s)"
    and "store (snd (kubeGetMachine (envKube E) key s)) = store s"
    and "objBody m = MachineBody t \<Longrightarrow>
      omDeletionTimestamp (objMeta m) = omDeletionTimestamp (objMeta (store s)) \<Longrightarrow>
      fst (kubeStatusUpdate (envKube E) m s) = Inr m \<and> store (snd (kubeStatusUpdate (envKube E) m s)) = m"
  using assms unfolding unfit_def by blast+

lemma unfit_targeted:
  assumes "unfit E a c spec key store"
  shows "\<exists>st'. hasTargetedInstanceCreation c (actOrgName a) (SiteID spec) st = (Val True, st')
    \<and> store (ext st') = store (ext st) \<and> obj st' = obj st"
proof -
  obtain accounts resp where "fst (GetAllTenantAccount c (actOrgName a) (ext st)) = (accounts, resp, None)"
      "resp_ok resp" "list_ex (account_allows (SiteID spec)) accounts"
      "store (snd (GetAllTenantAccount c (actOrgName a) (ext st))) = store (ext st)"
    using assms unfolding unfit_def by blast
  then show ?thesis by (simp add: hasTargetedInstanceCreation_def call_defs run_simps)
qed

lemma unfit_critical:
  assumes "unfit E a c spec key store"
  shows "\<exists>msg st'. checkCriticalFaults c (actOrgName a) (MachineID spec) st = (Val (True, msg), st')
    \<and> store (ext st') = store (ext st) \<and> obj st' = obj st"
proof -
  obtain reports resp where r: "fst (GetAllMachineHealthReport c (actOrgName a) (MachineID spec) (ext st)) = (reports, resp, None)"
      "resp_ok resp" "list_ex (\<lambda>r. list_ex is_critical (hreAlerts r)) reports"
      "store (snd (GetAllMachineHealthReport c (actOrgName a) (MachineID spec) (ext st))) = store (ext st)"
    using assms unfolding unfit_def by blast
  have "\<exists>a \<in> set (collect_alerts reports). is_critical a"
    using r(3) by (auto simp: collect_alerts_def list_ex_iff)
  then have "fst (critical_verdict (MachineID spec) (collect_alerts reports))"
    by (simp only: critical_verdict_blocked)
  then obtain msg where "critical_verdict (MachineID spec) (collect_alerts reports) = (True, msg)"
    by (metis prod.collapse)
  then show ?thesis using r by (simp add: checkCriticalFaults_def call_defs run_simps)
qed

section \<open>One blocked reconcile\<close>

text \<open>A live machine with the finalizer and without an instance, whose valid spec chooses a host and
  does not accept an unhealthy one, after \<open>n\<close> blocked attempts.\<close>

definition awaiting :: "('s, 'u) env \<Rightarrow> NicoMachineProviderSpec \<Rightarrow> nat \<Rightarrow> MachineObject \<Rightarrow> bool" where
  "awaiting E spec n m \<longleftrightarrow>
     omDeletionTimestamp (objMeta m) = 0 \<and> (\<exists>t. objBody m = MachineBody t)
     \<and> libContainsFinalizer (envLib E) (omFinalizers (objMeta m)) MachineFinalizer
     \<and> getProviderSpec (envLib E) m = Inr spec \<and> actuator_validateProviderSpec spec = None
     \<and> MachineID spec \<noteq> [] \<and> \<not> AllowUnhealthyMachine spec
     \<and> (\<exists>ps. getProviderStatus (envLib E) m = Inr ps \<and> psInstanceID ps = None \<and> recorded_attempts n ps)"

lemma awaiting_unrecorded: "awaiting E spec n m \<Longrightarrow> unrecorded E m"
  by (auto simp: awaiting_def unrecorded_def)

lemma getProviderSpec_body:
  "objBody m = MachineBody t \<Longrightarrow> objBody m' = MachineBody t' \<Longrightarrow>
     tmProviderSpecValue t' = tmProviderSpecValue t \<Longrightarrow> getProviderSpec L m' = getProviderSpec L m"
  by (simp add: getProviderSpec_def)

lemma block_creation_stores:
  assumes lib: "conditions_ok (envLib E)" "codec_ok (libCodec (envLib E)) norm" and u: "unfit E a c spec key store"
    and m: "awaiting E spec n (obj st)" and s: "store (ext st) = obj st" and n: "int n < max_int64"
  shows "\<exists>e st'. block_creation E a mid msg st = (Val (True, Some (ErrText e)), st')
    \<and> awaiting E spec (Suc n) (store (ext st'))
    \<and> error_reason (store (ext st')) = (if 3 \<le> Suc n then Some ''PreFlightHealthCheckFailed''
        else error_reason (obj st))"
proof -
  obtain t ps where t: "objBody (obj st) = MachineBody t" and ps: "getProviderStatus (envLib E) (obj st) = Inr ps"
      "psInstanceID ps = None" "recorded_attempts n ps"
    using m by (auto simp: awaiting_def)
  let ?bs = "blocked_status (envLib E) (envNow E (ext st)) (int n + 1) msg ps"
  let ?f = "if 3 \<le> int n + 1 then set_failure ''PreFlightHealthCheckFailed'' (fault_message mid (int n + 1) msg)
    else (\<lambda>m. m)"
  obtain m1 where m1: "m1 = ?f (obj st)" by blast
  obtain t1 where t1: "objBody m1 = MachineBody t1" "tmProviderSpecValue t1 = tmProviderSpecValue t"
      "tmErrorReason t1 = (if 3 \<le> int n + 1 then Some ''PreFlightHealthCheckFailed'' else tmErrorReason t)"
    using t by (cases "3 \<le> int n + 1") (simp_all add: m1 set_failure_def)
  have meta: "objMeta m1 = objMeta (obj st)"
    using t by (simp add: m1 set_failure_def)
  let ?m = "put_provider_status (Some (enc_ProviderStatus (libCodec (envLib E)) ?bs)) t1 m1"
  let ?t = "t1\<lparr>tmProviderStatus := Some (Some (enc_ProviderStatus (libCodec (envLib E)) ?bs))\<rparr>"
  have body: "objBody ?m = MachineBody ?t" and mm: "objMeta ?m = objMeta (obj st)"
    using meta by (simp_all add: put_provider_status_def)
  have "omDeletionTimestamp (objMeta ?m) = omDeletionTimestamp (objMeta (store (ext st)))" by (simp add: mm s)
  note stored = unfit_kube(4) [OF u body this]
  have count: "next_attempt (psConditions ps) = int n + 1" by (rule recorded_attempts_next [OF ps(3) n])
  obtain st1 where st1: "setProviderStatus E ?bs (st\<lparr>obj := m1\<rparr>) = (Val None, st1)"
      "ext st1 = snd (kubeStatusUpdate (envKube E) ?m (ext st))"
    using t1(1) stored by (simp add: setProviderStatus_def kube_status_update_def run_simps Let_def)
  have run: "\<exists>e st'. block_creation E a mid msg st = (Val (True, Some (ErrText e)), st')
      \<and> ext st' = snd (kubeStatusUpdate (envKube E) ?m (ext st))"
    using ps(1) st1 unfolding m1
    by (cases "3 \<le> int n + 1")
      (auto simp: block_creation_def run_simps eventf_def Let_def MaxFaultBlockedAttempts_def count)
  have labels: "distinct (map fst (psHealthLabels ?bs))"
    using status_labels_distinct [OF t ps(1)] by (simp add: blocked_status_def)
  have read: "getProviderStatus (envLib E) ?m = Inr (?bs\<lparr>psConditions := map norm (psConditions ?bs)\<rparr>)"
    by (rule getProviderStatus_put [OF lib(2) labels])
  have "recorded_attempts (Suc n) (?bs\<lparr>psConditions := map norm (psConditions ?bs)\<rparr>)"
    by (rule recorded_attempts_blocked [OF lib, where now = "envNow E (ext st)" and msg = msg and ?ps0.0 = ps]) simp
  moreover have "psInstanceID (?bs\<lparr>psConditions := map norm (psConditions ?bs)\<rparr>) = None"
    using ps(2) by (simp add: blocked_status_def)
  moreover have "getProviderSpec (envLib E) ?m = getProviderSpec (envLib E) (obj st)"
    by (rule getProviderSpec_body [OF t body]) (simp add: t1(2))
  ultimately have "awaiting E spec (Suc n) ?m"
    using m read body mm by (auto simp: awaiting_def)
  moreover have "error_reason ?m = (if 3 \<le> Suc n then Some ''PreFlightHealthCheckFailed'' else error_reason (obj st))"
    using body t t1(3) by (auto simp: error_reason_def)
  ultimately show ?thesis using run stored by auto
qed

lemma blocked_reconcile:
  assumes lib: "conditions_ok (envLib E)" "codec_ok (libCodec (envLib E)) norm" and u: "unfit E a c spec key store"
    and m: "awaiting E spec n (store (ext st))" and n: "int n < max_int64"
  shows "\<exists>e st'. Reconcile E (actuator_ops_of E a) key st = (Val (30000000000, Some (ErrText e)), st')
    \<and> awaiting E spec (Suc n) (store (ext st'))
    \<and> error_reason (store (ext st')) = (if 3 \<le> Suc n then Some ''PreFlightHealthCheckFailed''
        else error_reason (store (ext st)))
    \<and> list_all (\<lambda>x. \<not> is_create x) (new_actions (Reconcile E (actuator_ops_of E a) key) st)"
proof -
  let ?st = "fetched E key (store (ext st)) st" and ?org = "actOrgName a"
  have f: "obj ?st = store (ext st)" "store (ext ?st) = store (ext st)" "trace ?st = trace st @ [KubeGetMachine key]"
    using unfit_kube(3) [OF u] by (simp_all add: fetched_def)
  obtain st1 where 1: "hasTargetedInstanceCreation c ?org (SiteID spec) ?st = (Val True, st1)"
      "store (ext st1) = store (ext st)" "obj st1 = store (ext st)"
    using unfit_targeted [OF u, of ?st] f by auto
  obtain msg st2 where 2: "checkCriticalFaults c ?org (MachineID spec) st1 = (Val (True, msg), st2)"
      "store (ext st2) = store (ext st)" "obj st2 = store (ext st)"
    using unfit_critical [OF u, of st1] 1 by auto
  have "awaiting E spec n (obj st2)" "store (ext st2) = obj st2" using m 2 by simp_all
  from block_creation_stores [OF lib u this n, of "MachineID spec" msg] obtain e st3 where
    3: "block_creation E a (MachineID spec) msg st2 = (Val (True, Some (ErrText e)), st3)"
      "awaiting E spec (Suc n) (store (ext st3))"
      "error_reason (store (ext st3)) = (if 3 \<le> Suc n then Some ''PreFlightHealthCheckFailed''
        else error_reason (store (ext st)))"
    using 2(3) by auto
  have create: "Create E a ?st = (Val (Some (ErrText e)), st3)"
    using m f(1) 1(1) 2(1) 3(1) getNicoClient_injected [OF unfit_kube(1) [OF u], of E spec ?st]
    by (auto simp: awaiting_def Create_def gated_create_def checkPreFlightHealth_def run_simps)
  have run: "Reconcile E (actuator_ops_of E a) key st = (Val (30000000000, Some (ErrText e)), st3)"
    using reconcile_unrecorded [OF awaiting_unrecorded [OF m] unfit_kube(2) [OF u], of a] create
    by (simp add: handleActuatorError_def RequeueAfterSeconds_def second_def)
  obtain es where es: "trace st2 = trace st @ KubeGetMachine key # es" "list_all is_read es"
    using reads_to_trans [OF questions_read(1) [OF 1(1)] questions_read(2) [OF 2(1)]] f(3)
    by (auto simp: reads_to_def)
  have "emits (\<lambda>x. \<not> is_create x) (block_creation E a (MachineID spec) msg)" by (intro emits_intros) simp_all
  from emitsD [OF this, of st2] 3(1) obtain es' where "trace st3 = trace st2 @ es'" "list_all (\<lambda>x. \<not> is_create x) es'"
    by auto
  then have "list_all (\<lambda>x. \<not> is_create x) (new_actions (Reconcile E (actuator_ops_of E a) key) st)"
    using run es by (auto simp: new_actions_def list_all_iff dest: is_read_no_write)
  with run 3(2,3) show ?thesis by blast
qed

lemma reconciles_snoc:
  assumes "reconciles E ops key n st = (Val (), st1)"
  shows "reconciles E ops key (Suc n) st = (case Reconcile E ops key st1 of
    (Val r, st2) \<Rightarrow> (Val (), st2) | (Panic, st2) \<Rightarrow> (Panic, st2))"
  using assms
proof (induction n arbitrary: st)
  case (Suc n)
  then obtain r st0 where 0: "Reconcile E ops key st = (Val r, st0)" "reconciles E ops key n st0 = (Val (), st1)"
    by (auto simp: run_andthen split: prod.splits res.splits)
  have "reconciles E ops key (Suc (Suc n)) st = reconciles E ops key (Suc n) st0"
    using 0(1) by (simp add: run_andthen)
  then show ?case using Suc.IH [OF 0(2)] by simp
qed (simp add: run_simps split: prod.split res.split)

lemma blocked_reconciles:
  assumes lib: "conditions_ok (envLib E)" "codec_ok (libCodec (envLib E)) norm" and u: "unfit E a c spec key store"
    and m: "awaiting E spec 0 (store (ext st))"
  shows "int n < max_int64 \<Longrightarrow> \<exists>st'. reconciles E (actuator_ops_of E a) key n st = (Val (), st')
    \<and> awaiting E spec n (store (ext st'))
    \<and> error_reason (store (ext st')) = (if 3 \<le> n then Some ''PreFlightHealthCheckFailed''
        else error_reason (store (ext st)))
    \<and> list_all (\<lambda>x. \<not> is_create x) (new_actions (reconciles E (actuator_ops_of E a) key n) st)"
proof (induction n)
  case 0
  then show ?case using m by (simp add: run_ret new_actions_def)
next
  case (Suc n)
  let ?R = "Reconcile E (actuator_ops_of E a) key" and ?rs = "reconciles E (actuator_ops_of E a) key"
  obtain st1 where 1: "?rs n st = (Val (), st1)" "awaiting E spec n (store (ext st1))"
      "error_reason (store (ext st1)) = (if 3 \<le> n then Some ''PreFlightHealthCheckFailed''
        else error_reason (store (ext st)))"
      "list_all (\<lambda>x. \<not> is_create x) (new_actions (?rs n) st)"
    using Suc by auto
  have "int n < max_int64" using Suc.prems by simp
  from blocked_reconcile [OF lib u 1(2) this] obtain r st2 where 2: "?R st1 = (Val r, st2)"
      "awaiting E spec (Suc n) (store (ext st2))"
      "error_reason (store (ext st2)) = (if 3 \<le> Suc n then Some ''PreFlightHealthCheckFailed''
        else error_reason (store (ext st1)))"
      "list_all (\<lambda>x. \<not> is_create x) (new_actions ?R st1)" by blast
  have "?rs (Suc n) st = (Val (), st2)"
    using reconciles_snoc [OF 1(1)] 2(1) by simp
  moreover have "new_actions (?rs (Suc n)) st = new_actions (?rs n) st @ new_actions ?R st1"
    using emitsD [OF emits_any_reconciles, of E a key n st] emitsD [OF emits_any_Reconcile, of E a key st1]
      calculation 1(1) 2(1) by (auto simp: new_actions_def)
  ultimately show ?case using 1(3,4) 2(2-4) by auto
qed

section \<open>A host that stays unfit\<close>

definition ref_unfit_client :: "ref_world NicoClientInterface" where
  "ref_unfit_client = ref_client\<lparr>
     GetAllTenantAccount := (\<lambda>org w. (([\<lparr>taStatus = TENANTACCOUNTSTATUS_READY,
       taSiteCapabilities = [\<lparr>scTargetedInstanceCreation = True, scSiteIds = []\<rparr>]\<rparr>], ref_ok, None), w)),
     GetAllMachineHealthReport := (\<lambda>org m w. (([\<lparr>hreAlerts = [ref_alert ''critical'']\<rparr>], ref_ok, None), w))\<rparr>"

definition ref_unfit_actuator :: "ref_world Actuator" where
  "ref_unfit_actuator = ref_actuator\<lparr>actNicoAPIClient := Some ref_unfit_client\<rparr>"

lemma ref_world_unfit: "unfit ref_reliable ref_unfit_actuator ref_unfit_client ref_spec key ref_stored_machine"
  by (auto simp: unfit_def ref_unfit_actuator_def ref_unfit_client_def ref_reliable_server_def
      ref_stored_machine_put keep_mark_same account_allows_def capability_allows_def)

lemma ref_awaiting: "awaiting ref_reliable ref_spec 0 ref_machine"
proof -
  have "libContainsFinalizer ref_lib (omFinalizers (objMeta ref_machine)) MachineFinalizer"
    by (simp add: ref_lib_def MachineFinalizer_def)
  then show ?thesis by (simp add: awaiting_def recorded_attempts_def zero_status_def)
qed

section \<open>Property\<close>

text \<open>C10. Escalation of a blocked creation, over whole reconciles. Take a machine that awaits its first
  instance on a chosen host whose health reports always hold a critical alert, and an API server that
  gives the machine it was last sent: the \<open>n\<close>-th reconcile leaves in the stored status a condition
  that names attempt \<open>n\<close> of the creation, the first two leave the machine's failure as it was and
  from the third on the machine is declared failed, and none of them asks for an instance.\<close>

theorem blocked_attempts_escalate:
  assumes "conditions_ok (envLib E)" and "codec_ok (libCodec (envLib E)) norm"
    and "unfit E a c spec key store" and "awaiting E spec 0 (store (ext st))" and "int n < max_int64"
  shows "\<exists>st' ps. reconciles E (actuator_ops_of E a) key n st = (Val (), st')
    \<and> getProviderStatus (envLib E) (store (ext st')) = Inr ps \<and> recorded_attempts n ps
    \<and> error_reason (store (ext st')) = (if 3 \<le> n then Some ''PreFlightHealthCheckFailed''
        else error_reason (store (ext st)))
    \<and> filter is_create (new_actions (reconciles E (actuator_ops_of E a) key n) st) = []"
  using blocked_reconciles [OF assms] by (fastforce simp: awaiting_def filter_empty_conv list_all_iff)

theorem blocked_attempts_escalate_witness:
  "error_reason (ref_stored_machine (ext (snd (reconciles ref_reliable
       (actuator_ops_of ref_reliable ref_unfit_actuator) (''worker'', ''ns'') 3 (ref_state ref_world0)))))
     = Some ''PreFlightHealthCheckFailed''"
proof -
  have "awaiting ref_reliable ref_spec 0 (ref_stored_machine (ext (ref_state ref_world0)))"
    using ref_awaiting by (simp add: ref_stored_machine_def)
  from blocked_attempts_escalate [OF _ _ ref_world_unfit this, where n = 3 and norm = ref_condition_norm
      and key = "(''worker'', ''ns'')"]
  show ?thesis using ref_lib_conditions ref_lib_codec by (auto simp: max_int64_def)
qed

end
