(* ===== verification/Metrics.thy ===== *)
theory Metrics
  imports Lifecycle
begin

text \<open>
  The collectors of pkg/metrics/metrics.go, their registration, and what the actions of a run make
  of their values: the gauges of managed and of unhealthy machines, the counters of API errors and
  of health events, and how often each histogram was observed. A calculus for the change a program
  makes to a sum over its actions gives what the controller's operations do to the gauges.
\<close>

section \<open>The collectors\<close>

text \<open>The bounds of a histogram's buckets are in milliseconds.\<close>

datatype collector_kind = Counter | Gauge | Histogram "int list"

record collector =
  colName :: string
  colHelp :: string
  colKind :: collector_kind
  colLabels :: "string list"

definition InstanceProvisionDuration_collector :: collector where
  "InstanceProvisionDuration_collector =
     \<lparr>colName = ''nico_mapi_instance_provision_seconds'',
      colHelp = ''Time from Create call to instance Ready state'',
      colKind = Histogram [30000, 60000, 120000, 300000, 600000], colLabels = [''instance_type'']\<rparr>"

definition APICallErrors_collector :: collector where
  "APICallErrors_collector =
     \<lparr>colName = ''nico_mapi_api_errors_total'', colHelp = ''NICo API errors by method and status code'',
      colKind = Counter, colLabels = [''method'', ''status_code'']\<rparr>"

definition MachinesManaged_collector :: collector where
  "MachinesManaged_collector =
     \<lparr>colName = ''nico_mapi_machines_managed'',
      colHelp = ''Number of machines currently managed by this provider'', colKind = Gauge, colLabels = []\<rparr>"

definition APILatency_collector :: collector where
  "APILatency_collector =
     \<lparr>colName = ''nico_mapi_api_latency_seconds'', colHelp = ''NICo API call latency by method'',
      colKind = Histogram [100, 250, 500, 1000, 2500, 5000, 10000], colLabels = [''method'']\<rparr>"

definition MachinesUnhealthy_collector :: collector where
  "MachinesUnhealthy_collector =
     \<lparr>colName = ''nico_mapi_machines_unhealthy'',
      colHelp = ''Number of machines currently reporting critical health faults'',
      colKind = Gauge, colLabels = []\<rparr>"

definition HealthEventsIngested_collector :: collector where
  "HealthEventsIngested_collector =
     \<lparr>colName = ''nico_mapi_health_events_ingested_total'',
      colHelp = ''Total number of health events ingested to NICo via the fault ingestion API'',
      colKind = Counter, colLabels = []\<rparr>"

lemmas collector_defs =
  InstanceProvisionDuration_collector_def APICallErrors_collector_def MachinesManaged_collector_def
  APILatency_collector_def MachinesUnhealthy_collector_def HealthEventsIngested_collector_def

section \<open>Registration\<close>

definition init_collectors :: "collector list" where
  "init_collectors =
     [InstanceProvisionDuration_collector, APICallErrors_collector, MachinesManaged_collector,
      APILatency_collector, MachinesUnhealthy_collector, HealthEventsIngested_collector]"

text \<open>\<open>MustRegister\<close> registers one collector after the other and panics at the first that is refused.\<close>

fun MustRegister :: "(collector \<Rightarrow> 'r \<Rightarrow> go_err + 'r) \<Rightarrow> collector list \<Rightarrow> 'r \<Rightarrow> 'r res" where
  "MustRegister register [] r = Val r"
| "MustRegister register (c # cs) r =
     (case register c r of Inl e \<Rightarrow> Panic | Inr r' \<Rightarrow> MustRegister register cs r')"

definition init_metrics :: "(collector \<Rightarrow> 'r \<Rightarrow> go_err + 'r) \<Rightarrow> 'r \<Rightarrow> 'r res" where
  "init_metrics register registry = MustRegister register init_collectors registry"

text \<open>
  A registry refuses a collector only when one of the same name is registered; the list of names
  is one.
\<close>

locale metrics_registry =
  fixes register :: "collector \<Rightarrow> 'r \<Rightarrow> go_err + 'r" and registered :: "'r \<Rightarrow> string set"
  assumes register_new: "colName c \<notin> registered r \<Longrightarrow>
    \<exists>r'. register c r = Inr r' \<and> registered r' = insert (colName c) (registered r)"
begin

lemma MustRegister_distinct:
  "distinct (map colName cs) \<Longrightarrow> set (map colName cs) \<inter> registered r = {} \<Longrightarrow>
     \<exists>r'. MustRegister register cs r = Val r' \<and> registered r' = registered r \<union> set (map colName cs)"
proof (induction cs arbitrary: r)
  case (Cons c cs)
  obtain r1 where r1: "register c r = Inr r1" "registered r1 = insert (colName c) (registered r)"
    using register_new [of c r] Cons.prems(2) by auto
  with Cons.IH [of r1] Cons.prems show ?case by auto
qed simp

end

definition ref_register :: "collector \<Rightarrow> string list \<Rightarrow> go_err + string list" where
  "ref_register c r =
     (if colName c \<in> set r then Inl (ErrText ''duplicate metrics collector registration attempted'')
      else Inr (colName c # r))"

interpretation ref_metrics: metrics_registry ref_register set
  by unfold_locales (simp add: ref_register_def)

lemma init_collectors_distinct: "distinct (map colName init_collectors)"
  by (simp add: init_collectors_def collector_defs)

section \<open>Observations\<close>

text \<open>The collector an observation is made on, and the values it gives the collector's labels.\<close>

fun collector_of :: "metric \<Rightarrow> collector" where
  "collector_of (APILatency method) = APILatency_collector"
| "collector_of (APICallErrorsInc method code) = APICallErrors_collector"
| "collector_of (InstanceProvisionDuration ty d) = InstanceProvisionDuration_collector"
| "collector_of MachinesManagedInc = MachinesManaged_collector"
| "collector_of MachinesManagedDec = MachinesManaged_collector"
| "collector_of MachinesUnhealthyInc = MachinesUnhealthy_collector"
| "collector_of MachinesUnhealthyDec = MachinesUnhealthy_collector"
| "collector_of HealthEventsIngestedInc = HealthEventsIngested_collector"

fun label_values :: "metric \<Rightarrow> string list" where
  "label_values (APILatency method) = [method]"
| "label_values (APICallErrorsInc method code) = [method, code]"
| "label_values (InstanceProvisionDuration ty d) = [ty]"
| "label_values _ = []"

text \<open>Every observation is on a registered collector, with a value for each of its labels.\<close>

lemma label_values_match: "length (label_values m) = length (colLabels (collector_of m))"
  by (cases m) (simp_all add: collector_defs)

lemma collector_registered: "collector_of m \<in> set init_collectors"
  by (cases m) (simp_all add: init_collectors_def)

text \<open>What is read off the collectors: the gauges, the counters, and the observations by label.\<close>

record metric_values =
  mvManaged :: int
  mvUnhealthy :: int
  mvErrors :: "string \<times> string \<Rightarrow> nat"
  mvHealthEvents :: nat
  mvCalls :: "string \<Rightarrow> nat"
  mvProvisions :: "string \<Rightarrow> nat"

fun observe :: "metric \<Rightarrow> metric_values \<Rightarrow> metric_values" where
  "observe (APILatency method) v = v\<lparr>mvCalls := (mvCalls v)(method := mvCalls v method + 1)\<rparr>"
| "observe (APICallErrorsInc method code) v =
     v\<lparr>mvErrors := (mvErrors v)((method, code) := mvErrors v (method, code) + 1)\<rparr>"
| "observe (InstanceProvisionDuration ty d) v =
     v\<lparr>mvProvisions := (mvProvisions v)(ty := mvProvisions v ty + 1)\<rparr>"
| "observe MachinesManagedInc v = v\<lparr>mvManaged := mvManaged v + 1\<rparr>"
| "observe MachinesManagedDec v = v\<lparr>mvManaged := mvManaged v - 1\<rparr>"
| "observe MachinesUnhealthyInc v = v\<lparr>mvUnhealthy := mvUnhealthy v + 1\<rparr>"
| "observe MachinesUnhealthyDec v = v\<lparr>mvUnhealthy := mvUnhealthy v - 1\<rparr>"
| "observe HealthEventsIngestedInc v = v\<lparr>mvHealthEvents := mvHealthEvents v + 1\<rparr>"

fun observed :: "action list \<Rightarrow> metric_values \<Rightarrow> metric_values" where
  "observed [] v = v"
| "observed (Metric m # xs) v = observed xs (observe m v)"
| "observed (_ # xs) v = observed xs v"

text \<open>The weight of an action in the gauges.\<close>

fun managed_change :: "action \<Rightarrow> int" where
  "managed_change (Metric MachinesManagedInc) = 1"
| "managed_change (Metric MachinesManagedDec) = -1"
| "managed_change _ = 0"

lemma managed_observe: "mvManaged (observe m v) = mvManaged v + managed_change (Metric m)"
  by (cases m) simp_all

lemma unhealthy_observe: "mvUnhealthy (observe m v) + gauge_delta xs = mvUnhealthy v + gauge_delta (Metric m # xs)"
  by (cases m) simp_all

lemma managed_observed: "mvManaged (observed es v) = mvManaged v + sum_list (map managed_change es)"
  by (induction es v rule: observed.induct) (simp_all add: managed_observe)

lemma unhealthy_observed: "mvUnhealthy (observed es v) = mvUnhealthy v + gauge_delta es"
proof (induction es v rule: observed.induct)
  case (2 m xs v)
  then show ?case using unhealthy_observe [of m v xs] by simp
qed simp_all

section \<open>What a program adds to a sum\<close>

text \<open>
  \<open>gains w g m\<close>: the actions \<open>m\<close> appends have the weights \<open>w\<close> in sum \<open>g r\<close>, where \<open>r\<close> is how it ends.
  A program is silent when each of its actions weighs nothing.
\<close>

definition gains :: "('e \<Rightarrow> int) \<Rightarrow> ('r res \<Rightarrow> int) \<Rightarrow> ('s, 'o, 'e, 'r) prog \<Rightarrow> bool" where
  "gains w g m \<longleftrightarrow> (\<forall>st. \<exists>es. trace (snd (m st)) = trace st @ es
     \<and> sum_list (map w es) = g (fst (m st)))"

abbreviation silent :: "('e \<Rightarrow> int) \<Rightarrow> ('s, 'o, 'e, 'r) prog \<Rightarrow> bool" where
  "silent w \<equiv> emits (\<lambda>x. w x = 0)"

named_theorems gains_intros \<open>rules for what a program adds to a sum\<close>

lemma silent_sum: "list_all (\<lambda>x. w x = (0 :: int)) es \<Longrightarrow> sum_list (map w es) = 0"
  by (induction es) auto

lemma gainsD:
  "gains w g m \<Longrightarrow> m st = (r, st') \<Longrightarrow> \<exists>es. trace st' = trace st @ es \<and> sum_list (map w es) = g r"
  unfolding gains_def by (metis fst_conv snd_conv)

lemma gains_new: "gains w g m \<Longrightarrow> sum_list (map w (new_actions m st)) = g (fst (m st))"
  unfolding gains_def new_actions_def by (metis append_eq_conv_conj)

lemma gains_silent:
  assumes "silent w m" and "returns (\<lambda>x. g (Val x) = 0) m" and "g Panic = 0"
  shows "gains w g m"
  unfolding gains_def
proof
  fix st
  obtain es where es: "trace (snd (m st)) = trace st @ es" "list_all (\<lambda>x. w x = 0) es"
    using emitsD [OF assms(1)] by blast
  have "g (fst (m st)) = 0"
    using assms(2,3) by (cases "m st"; cases "fst (m st)") (auto dest: returnsD)
  then show "\<exists>es. trace (snd (m st)) = trace st @ es \<and> sum_list (map w es) = g (fst (m st))"
    using es silent_sum by fastforce
qed

lemma gains_ret [gains_intros]: "g (Val x) = 0 \<Longrightarrow> gains w g (ret x)"
  by (simp add: gains_def run_ret)

lemma gains_panic [gains_intros]: "g Panic = 0 \<Longrightarrow> gains w g panic"
  by (simp add: gains_def run_panic)

lemma gains_andthen_returns:
  assumes m: "silent w m" and r: "returns \<psi> m" and p: "g Panic = 0"
    and k: "\<And>x. \<psi> x \<Longrightarrow> gains w g (k x)"
  shows "gains w g (andthen m k)"
  unfolding gains_def
proof
  fix st
  obtain r st1 where 1: "m st = (r, st1)" by (cases "m st")
  obtain es where es: "trace st1 = trace st @ es" "list_all (\<lambda>x. w x = 0) es"
    using emitsD [OF m, of st] 1 by auto
  show "\<exists>es. trace (snd (andthen m k st)) = trace st @ es
      \<and> sum_list (map w es) = g (fst (andthen m k st))"
  proof (cases r)
    case (Val x)
    obtain q st2 where 2: "k x st1 = (q, st2)" by (cases "k x st1")
    obtain es' where "trace st2 = trace st1 @ es'" "sum_list (map w es') = g q"
      using gainsD [OF k 2] returnsD [OF r] 1 Val by blast
    then show ?thesis
      using 1 2 Val es silent_sum [OF es(2)] by (intro exI [of _ "es @ es'"]) (simp add: run_simps)
  qed (use 1 es p silent_sum [OF es(2)] in \<open>auto simp: run_simps\<close>)
qed

lemma gains_andthen [gains_intros]:
  "silent w m \<Longrightarrow> g Panic = 0 \<Longrightarrow> (\<And>x. gains w g (k x)) \<Longrightarrow> gains w g (andthen m k)"
  by (rule gains_andthen_returns [OF _ returns_True])

lemma gains_seqp [gains_intros]:
  "silent w m \<Longrightarrow> g Panic = 0 \<Longrightarrow> gains w g k \<Longrightarrow> gains w g (seqp m k)"
  unfolding seqp_def by (rule gains_andthen)

lemma gains_tryp [gains_intros]:
  "silent w m \<Longrightarrow> g Panic = 0 \<Longrightarrow> (\<And>e. g (Val (f e)) = 0) \<Longrightarrow> (\<And>x. gains w g (k x)) \<Longrightarrow>
     gains w g (tryp m f k)"
  unfolding tryp_def by (rule gains_andthen) (auto split: sum.split intro: gains_ret)

lemma gains_guardp [gains_intros]:
  "silent w m \<Longrightarrow> g Panic = 0 \<Longrightarrow> (\<And>e. g (Val (f e)) = 0) \<Longrightarrow> gains w g k \<Longrightarrow>
     gains w g (guardp m f k)"
  unfolding guardp_def by (rule gains_andthen) (auto split: option.split intro: gains_ret)

text \<open>A heavy action followed by a silent program that returns.\<close>

lemma gains_emit:
  assumes "silent w k" and "total k" and "returns (\<lambda>x. g (Val x) = w a) k"
  shows "gains w g (seqp (emit a) k)"
  unfolding gains_def
proof
  fix st
  obtain x st1 where k: "k (st\<lparr>trace := trace st @ [a]\<rparr>) = (Val x, st1)"
    using totalD [OF assms(2)] by blast
  obtain es where es: "trace st1 = trace st @ a # es" "list_all (\<lambda>x. w x = 0) es"
    using emitsD [OF assms(1), of "st\<lparr>trace := trace st @ [a]\<rparr>"] k by auto
  have "g (Val x) = w a" using returnsD [OF assms(3) k] .
  then show "\<exists>es. trace (snd (seqp (emit a) k st)) = trace st @ es
      \<and> sum_list (map w es) = g (fst (seqp (emit a) k st))"
    using k es silent_sum [OF es(2)] by (intro exI [of _ "a # es"]) (simp add: run_simps)
qed

lemma gains_getobj_new:
  "(\<And>m. gains w (g m) (k m)) \<Longrightarrow>
     sum_list (map w (new_actions (andthen getobj k) st)) = g (obj st) (fst (andthen getobj k st))"
  using gains_new [of w "g (obj st)" "k (obj st)" st]
  by (simp add: new_actions_getobj run_andthen run_getobj)

lemma gains_if [gains_intros]:
  "(b \<Longrightarrow> gains w g m) \<Longrightarrow> (\<not> b \<Longrightarrow> gains w g k) \<Longrightarrow> gains w g (if b then m else k)"
  by simp

lemma gains_case_option [gains_intros]:
  "(x = None \<Longrightarrow> gains w g m) \<Longrightarrow> (\<And>y. x = Some y \<Longrightarrow> gains w g (k y)) \<Longrightarrow>
     gains w g (case x of None \<Rightarrow> m | Some y \<Rightarrow> k y)"
  by (simp split: option.split)

lemma gains_case_sum [gains_intros]:
  "(\<And>y. x = Inl y \<Longrightarrow> gains w g (m y)) \<Longrightarrow> (\<And>y. x = Inr y \<Longrightarrow> gains w g (k y)) \<Longrightarrow>
     gains w g (case x of Inl y \<Rightarrow> m y | Inr y \<Rightarrow> k y)"
  by (simp split: sum.split)

lemma gains_case_prod [gains_intros]:
  "(\<And>a b. x = (a, b) \<Longrightarrow> gains w g (k a b)) \<Longrightarrow> gains w g (case x of (a, b) \<Rightarrow> k a b)"
  by (simp split: prod.split)

lemma gains_Let [gains_intros]: "gains w g (k x) \<Longrightarrow> gains w g (let y = x in k y)"
  by simp

section \<open>The gauge of managed machines\<close>

definition succeeds :: "go_err option res \<Rightarrow> int" where "succeeds r = of_bool (r = Val None)"

lemma succeeds_simps [simp]:
  "succeeds Panic = 0" "succeeds (Val (Some e)) = 0" "succeeds (Val None) = 1"
  by (simp_all add: succeeds_def)

lemma read_unmanaged: "is_read x \<Longrightarrow> managed_change x = 0"
  by (cases x) simp_all

lemma gains_finish_create: "gains managed_change succeeds (finish_create E a c org spec inst)"
proof -
  have inc: "gains managed_change succeeds (seqp (metricp MachinesManagedInc)
      (seqp (eventf a EventNormal ''Created'' n) (ret None)))" for n
    unfolding metricp_def by (rule gains_emit; intro emits_intros total_intros returns_intros; simp)
  have "silent managed_change (if DpuExtensionServices spec \<noteq> []
      then deployDpuExtensionServices a c org i spec else ret None)" for i
    unfolding deployDpuExtensionServices_def by (intro emits_intros; simp)
  then show ?thesis
    unfolding finish_create_def by (intro gains_intros emits_intros inc) simp_all
qed

lemma gains_Create: "gains managed_change succeeds (Create E a)"
proof -
  have silent: "silent managed_change (getNicoClient E a spec)"
      "silent managed_change (hasTargetedInstanceCreation c org site)"
      "silent managed_change (checkPreFlightHealth E a c org spec)"
      "silent managed_change (call_CreateInstance c org req)" for spec c org site req
    by (intro emits_intros; simp add: read_unmanaged)+
  have blocked: "returns (\<lambda>(b, e). b \<longrightarrow> succeeds (Val e) = 0) (checkPreFlightHealth E a c org spec)" for c org spec
    unfolding checkPreFlightHealth_def block_creation_def by (intro returns_intros) simp_all
  have create: "gains managed_change succeeds (create_instance E a c org spec)" for c org spec
    unfolding create_instance_def after_create_def handleCreateError_def
    by (intro gains_intros emits_intros silent gains_finish_create) simp_all
  have "gains managed_change succeeds (gated_create E a c org spec)" for c org spec
    unfolding gated_create_def
    by (intro gains_intros gains_andthen_returns [where \<psi> = "\<lambda>(b, e). b \<longrightarrow> succeeds (Val e) = 0"]
        emits_intros returns_intros silent blocked create) auto
  then show ?thesis
    unfolding Create_def by (intro gains_intros emits_intros silent) simp_all
qed

text \<open>A deletion lowers the gauge when it succeeds on a recorded instance.\<close>

definition deletion_gain :: "KubeLib \<Rightarrow> MachineObject \<Rightarrow> go_err option res \<Rightarrow> int" where
  "deletion_gain L m r =
     (case getProviderStatus L m of
        Inl e \<Rightarrow> 0
      | Inr ps \<Rightarrow> if psInstanceID ps = None then 0 else - succeeds r)"

lemma gains_finish_delete: "gains managed_change (\<lambda>r. - succeeds r) (finish_delete a i resp err)"
proof -
  have dec: "gains managed_change (\<lambda>r. - succeeds r) (deleted a i)"
    unfolding deleted_def metricp_def
    by (rule gains_emit; intro emits_intros total_intros returns_intros; simp)
  show ?thesis
    unfolding finish_delete_def by (intro gains_intros emits_intros dec) simp_all
qed

lemma Delete_gain:
  "sum_list (map managed_change (new_actions (Delete E a) st))
     = deletion_gain (envLib E) (obj st) (fst (Delete E a st))"
  unfolding Delete_def
proof (rule gains_getobj_new)
  fix m
  let ?g = "deletion_gain (envLib E) m"
  have silent: "silent managed_change (getNicoClient E a spec)"
      "silent managed_change (call_DeleteInstance c org i req)" for spec c org i req
    by (intro emits_intros; simp add: read_unmanaged)+
  have report: "silent managed_change (prepare_delete E a c org m ps)" for c org ps
    unfolding prepare_delete_def reportMHCHealthIssue_def by (intro emits_intros; simp)
  have g: "?g Panic = 0" "?g (Val (Some e)) = 0" for e
    by (simp_all add: deletion_gain_def split: sum.split)
  have gone: "gains managed_change ?g (finish_delete a i resp err)"
    if "getProviderStatus (envLib E) m = Inr ps" "psInstanceID ps = Some i'" for i i' ps resp err
  proof -
    have "?g = (\<lambda>r. - succeeds r)" using that by (simp add: deletion_gain_def fun_eq_iff)
    then show ?thesis using gains_finish_delete by simp
  qed
  have none: "?g (Val None) = 0" if "getProviderStatus (envLib E) m = Inr ps" "psInstanceID ps = None" for ps
    using that by (simp add: deletion_gain_def)
  show "gains managed_change ?g
     (if objBody m = NotClientObject then ret (Some (ErrText ''machine is not a client.Object''))
      else
       (case getProviderSpec (envLib E) m of
          Inl e \<Rightarrow> ret (Some (ErrWrap ''failed to get provider spec: '' e))
        | Inr spec \<Rightarrow>
            (case getProviderStatus (envLib E) m of
               Inl e \<Rightarrow> ret (Some (ErrWrap ''failed to get provider status: '' e))
             | Inr ps \<Rightarrow>
                 (case psInstanceID ps of
                    None \<Rightarrow> ret None
                  | Some instanceID \<Rightarrow>
                      tryp (getNicoClient E a spec)
                        (\<lambda>e. Some (ErrWrap ''failed to create NICo client: '' e)) (\<lambda>(c, orgName).
                      andthen (prepare_delete E a c orgName m ps) (\<lambda>deleteReq.
                      andthen (call_DeleteInstance c orgName instanceID deleteReq)
                        (\<lambda>(_, httpResp, err).
                      seqp (metricp (APILatency ''DeleteInstance''))
                        (finish_delete a instanceID httpResp err))))))))"
    by (intro gains_intros emits_intros silent report gone; (simp add: g none)?)
qed

lemma silent_Update: "silent managed_change (Update E a)"
  unfolding Update_def apply_instance_def track_state_def record_provision_duration_def
    checkStatusHistory_def emitMachineStatusHistory_def record_history_def
    checkProvisioningTimeout_def Let_def
  by (intro emits_intros; (simp; fail)?) (auto simp: read_unmanaged elim!: is_health_action.elims)

text \<open>Sums over a sequence.\<close>

definition new_sum :: "('e \<Rightarrow> int) \<Rightarrow> ('s, 'o, 'e, 'r) prog \<Rightarrow> ('s, 'o, 'e) st \<Rightarrow> int" where
  "new_sum w m st = sum_list (map w (new_actions m st))"

lemma new_sum_silent: "silent w m \<Longrightarrow> new_sum w m st = 0"
  using silent_sum [OF new_actions_emits] by (simp add: new_sum_def)

lemma new_sum_andthen:
  assumes "emits (\<lambda>_. True) m" and "\<And>x. emits (\<lambda>_. True) (k x)"
  shows "new_sum w (andthen m k) st = new_sum w m st
    + (case m st of (Val x, st1) \<Rightarrow> new_sum w (k x) st1 | (Panic, st1) \<Rightarrow> 0)"
  unfolding new_sum_def new_actions_andthen [OF assms] by (simp split: prod.split res.split)

lemma new_sum_rest:
  assumes "emits (\<lambda>_. True) m" and "\<And>x. silent w (k x)"
  shows "new_sum w (andthen m k) st = new_sum w m st"
proof -
  have "emits (\<lambda>_. True) (k x)" for x by (rule emits_mono [OF assms(2)]) simp
  from new_sum_andthen [OF assms(1) this] show ?thesis
    by (auto simp: new_sum_silent [OF assms(2)] split: prod.split res.split)
qed

lemma emits_anything: "emits (\<lambda>_. True) (Create E a)" "emits (\<lambda>_. True) (Update E a)"
    "emits (\<lambda>_. True) (Delete E a)" "emits (\<lambda>_. True) (Exists E a)"
  by (rule emits_mono [OF emits_Create_no_delete] emits_mono [OF silent_Update]
      emits_mono [OF emits_Delete_no_create] emits_mono [OF emits_Exists_reads]; simp)+

lemma deletion_sum:
  "new_sum managed_change (reconcileDelete E (actuator_ops_of E a)) st
     = deletion_gain (envLib E) (obj st) (fst (Delete E a st))"
proof -
  let ?rest = "\<lambda>r. case r of Some e \<Rightarrow> ret (0 :: time, Some e)
    | None \<Rightarrow> seqp (modobj (remove_finalizers (envLib E)))
         (guardp (kube_update E) (\<lambda>e. (0, Some (ErrWrap ''failed to remove finalizer: '' e))) (ret (0, None)))"
  have rest: "silent managed_change (?rest r)" for r
    by (intro emits_intros) simp_all
  have "new_sum managed_change (andthen (Delete E a) ?rest) st = new_sum managed_change (Delete E a) st"
    by (rule new_sum_rest [OF emits_anything(3) rest])
  then show ?thesis
    using Delete_gain by (simp add: reconcileDelete_def guardp_def [of "Delete E a"] actuator_ops_of_def new_sum_def)
qed

text \<open>The change of the gauge by one reconcile, from what the actuator's operations answer.\<close>

definition reconcile_gain ::
  "('s, 'u) env \<Rightarrow> 's Actuator \<Rightarrow> string \<times> string \<Rightarrow> ('s, MachineObject, action) st \<Rightarrow> int" where
  "reconcile_gain E a key st =
     (case fst (kubeGetMachine (envKube E) key (ext st)) of
        Inl e \<Rightarrow> 0
      | Inr m \<Rightarrow>
          if omDeletionTimestamp (objMeta m) \<noteq> 0 then
            deletion_gain (envLib E) m (fst (Delete E a (fetched E key m st)))
          else if \<not> libContainsFinalizer (envLib E) (omFinalizers (objMeta m)) MachineFinalizer then 0
          else
            (case Exists E a (fetched E key m st) of
               (Val (Inr False), st') \<Rightarrow> succeeds (fst (Create E a st'))
             | _ \<Rightarrow> 0))"

lemma normal_sum:
  "new_sum managed_change (reconcileNormal E (actuator_ops_of E a)) st =
     (if \<not> libContainsFinalizer (envLib E) (omFinalizers (objMeta (obj st))) MachineFinalizer then 0
      else (case Exists E a st of
              (Val (Inr False), st') \<Rightarrow> succeeds (fst (Create E a st'))
            | _ \<Rightarrow> 0))"
proof -
  let ?add = "seqp (modobj (\<lambda>m. set_finalizers
      (libAddFinalizer (envLib E) (omFinalizers (objMeta m)) MachineFinalizer) m))
      (guardp (kube_update E) (\<lambda>e. (0, Some (ErrWrap ''failed to add finalizer: '' e))) (ret (1 * second, None)))"
  let ?last = "\<lambda>t r. case r of Some e \<Rightarrow> ret (handleActuatorError e) | None \<Rightarrow> ret (t * second, None)"
  let ?go = "\<lambda>exists. if \<not> exists then andthen (Create E a) (?last 10)
      else andthen (Update E a) (?last RequeueAfterSeconds)"
  let ?found = "\<lambda>r. case r of Inl e \<Rightarrow> ret (RequeueAfterSeconds * second, Some e) | Inr exists \<Rightarrow> ?go exists"
  have add: "silent managed_change ?add" by (intro emits_intros) simp_all
  have last: "silent managed_change (?last t r)" for t r by (intro emits_intros)
  have create: "new_sum managed_change (andthen (Create E a) (?last t)) st1 = succeeds (fst (Create E a st1))" for t st1
    unfolding new_sum_rest [OF emits_anything(1) last] unfolding new_sum_def by (rule gains_new [OF gains_Create])
  have update: "silent managed_change (andthen (Update E a) (?last t))" for t
    by (intro emits_andthen silent_Update last)
  have exists: "silent managed_change (Exists E a)"
    by (rule emits_mono [OF emits_Exists_reads read_unmanaged])
  have any: "emits (\<lambda>_. True) (?found r)" for r
    by (intro emits_intros emits_anything)
  have "new_sum managed_change (andthen (Exists E a) ?found) st1 =
      (case Exists E a st1 of (Val (Inr False), st') \<Rightarrow> succeeds (fst (Create E a st')) | _ \<Rightarrow> 0)" for st1
    unfolding new_sum_andthen [OF emits_anything(4) any] new_sum_silent [OF exists]
    by (auto simp: new_sum_silent [OF update] new_sum_silent [OF emits_ret] create
        split: prod.split res.split sum.split bool.split)
  moreover have "reconcileNormal E (actuator_ops_of E a) = andthen getobj (\<lambda>m.
      if \<not> libContainsFinalizer (envLib E) (omFinalizers (objMeta m)) MachineFinalizer then ?add
      else andthen (Exists E a) ?found)"
    unfolding reconcileNormal_def tryp_def actuator_ops_of_def actuator_ops.select_convs
      guardp_def [of "Create E a"] guardp_def [of "Update E a"] by (rule refl)
  ultimately show ?thesis
    using new_sum_silent [OF add, of st] by (simp add: new_sum_def new_actions_getobj)
qed

section \<open>The gauge of unhealthy machines\<close>

text \<open>
  \<open>adjusts Q m\<close>: when \<open>m\<close> ends with a result, then \<open>Q\<close> holds of it, the object it leaves and the change
  of the gauge.
\<close>

definition adjusts :: "('r \<Rightarrow> MachineObject \<Rightarrow> int \<Rightarrow> bool) \<Rightarrow> ('s, 'r) act \<Rightarrow> bool" where
  "adjusts Q m \<longleftrightarrow> (\<forall>st x st'. m st = (Val x, st') \<longrightarrow>
     (\<exists>es. trace st' = trace st @ es \<and> Q x (obj st') (gauge_delta es)))"

named_theorems adjusts_intros \<open>rules for the change of the gauge of unhealthy machines\<close>

lemma adjusts_andthen:
  assumes "adjusts (\<lambda>x _ d. R x d) m" and "\<And>x d. R x d \<Longrightarrow> adjusts (\<lambda>y ob d'. Q y ob (d + d')) (k x)"
  shows "adjusts Q (andthen m k)"
  unfolding adjusts_def
proof (intro allI impI)
  fix st y st'
  assume "andthen m k st = (Val y, st')"
  then obtain x st1 where 1: "m st = (Val x, st1)" "k x st1 = (Val y, st')"
    by (auto simp: run_simps split: prod.splits res.splits)
  obtain es where es: "trace st1 = trace st @ es" "R x (gauge_delta es)"
    using assms(1) 1(1) unfolding adjusts_def by blast
  obtain es' where "trace st' = trace st1 @ es'" "Q y (obj st') (gauge_delta es + gauge_delta es')"
    using assms(2) [OF es(2)] 1(2) unfolding adjusts_def by blast
  then show "\<exists>es. trace st' = trace st @ es \<and> Q y (obj st') (gauge_delta es)"
    using es(1) by (intro exI [of _ "es @ es'"]) simp
qed

lemma adjusts_quiet:
  assumes "emits (\<lambda>x. \<not> is_gauge x) m" and "returns \<psi> m"
  shows "adjusts (\<lambda>x _ d. \<psi> x \<and> d = 0) m"
  unfolding adjusts_def
proof (intro allI impI)
  fix st x st'
  assume "m st = (Val x, st')"
  then show "\<exists>es. trace st' = trace st @ es \<and> \<psi> x \<and> gauge_delta es = 0"
    using emitsD [OF assms(1), of st] returnsD [OF assms(2)] gauge_delta_none by fastforce
qed

lemma adjusts_rest:
  "emits (\<lambda>x. \<not> is_gauge x) m \<Longrightarrow> returns \<psi> m \<Longrightarrow> (\<And>x. \<psi> x \<Longrightarrow> adjusts Q (k x)) \<Longrightarrow> adjusts Q (andthen m k)"
  by (rule adjusts_andthen [where R = "\<lambda>x d. \<psi> x \<and> d = 0", OF adjusts_quiet]) auto

text \<open>After which state of health the gauge moved is what counts: that of the status in the object.\<close>

definition stored_status :: "KubeLib \<Rightarrow> NicoMachineProviderStatus \<Rightarrow> MachineObject \<Rightarrow> bool" where
  "stored_status L ps m \<longleftrightarrow> (\<exists>t. objBody m = MachineBody t
     \<and> tmProviderStatus t = Some (Some (enc_ProviderStatus (libCodec L) ps)))"

definition gauge_follows ::
  "KubeLib \<Rightarrow> int \<Rightarrow> go_err option \<Rightarrow> MachineObject \<Rightarrow> int \<Rightarrow> bool" where
  "gauge_follows L u r m d \<longleftrightarrow> (r = None \<longrightarrow> (\<exists>t. objBody m = MachineBody t) \<longrightarrow>
     (\<exists>ps. stored_status L ps m \<and> d = unhealthy ps - u))"

lemma gauge_follows_error [simp]: "gauge_follows L u (Some e) m d"
  by (simp add: gauge_follows_def)

lemma adjusts_mono: "adjusts Q m \<Longrightarrow> (\<And>x ob d. Q x ob d \<Longrightarrow> R x ob d) \<Longrightarrow> adjusts R m"
  unfolding adjusts_def by blast

lemma adjusts_error: "emits (\<lambda>x. \<not> is_gauge x) m \<Longrightarrow> returns (\<lambda>r. r \<noteq> None) m \<Longrightarrow>
    adjusts (gauge_follows L u) m"
  by (rule adjusts_mono [OF adjusts_quiet [where \<psi> = "\<lambda>r. r \<noteq> None"]]) (auto simp: gauge_follows_def)

lemma adjusts_ret_error [adjusts_intros]: "adjusts (gauge_follows L u) (ret (Some e))"
  by (rule adjusts_error) (intro emits_intros returns_intros; simp)+

lemma adjusts_panic [adjusts_intros]: "adjusts Q panic"
  by (simp add: adjusts_def run_simps)

lemma adjusts_guardp:
  assumes "emits (\<lambda>x. \<not> is_gauge x) m" and "adjusts (gauge_follows L u) k"
  shows "adjusts (gauge_follows L u) (guardp m (\<lambda>e. Some (f e)) k)"
  unfolding guardp_def
  by (rule adjusts_rest [OF assms(1) returns_True])
    (auto split: option.split intro: adjusts_ret_error assms(2))

lemma setProviderStatus_stores:
  assumes tr: "truthful (envKube E)" and run: "setProviderStatus E ps st = (Val None, st')"
    and typed: "objBody (obj st') = MachineBody t'"
  shows "stored_status (envLib E) ps (obj st')"
proof (cases "objBody (obj st)")
  case (MachineBody t)
  let ?put = "put_provider_status (Some (enc_ProviderStatus (libCodec (envLib E)) ps)) t (obj st)"
  obtain m' where m': "fst (kubeStatusUpdate (envKube E) ?put (ext st)) = Inr m'" "obj st' = m'"
    using run MachineBody
    by (auto simp: setProviderStatus_def kube_status_update_def run_simps Let_def split: sum.splits)
  then show ?thesis
    using truthfulD(1) [OF tr m'(1)] by (simp add: stored_status_def put_provider_status_def)
next
  case (UnstructuredBody u)
  obtain u' m' where m': "fst (kubeStatusUpdate (envKube E)
        ((obj st)\<lparr>objBody := UnstructuredBody u'\<rparr>) (ext st)) = Inr m'" "obj st' = m'"
    using run UnstructuredBody
    by (auto simp: setProviderStatus_def kube_status_update_def run_simps Let_def split: sum.splits)
  then show ?thesis using truthfulD(1) [OF tr m'(1)] typed by simp
qed (use run in \<open>simp_all add: setProviderStatus_def run_simps Let_def\<close>)

lemma adjusts_setProviderStatus:
  assumes "truthful (envKube E)"
  shows "adjusts (\<lambda>r m d. d = 0 \<and> (r = None \<longrightarrow> (\<exists>t. objBody m = MachineBody t) \<longrightarrow> stored_status (envLib E) ps m))
    (setProviderStatus E ps)"
  unfolding adjusts_def
proof (intro allI impI)
  fix st r st'
  assume run: "setProviderStatus E ps st = (Val r, st')"
  have "emits (\<lambda>x. \<not> is_gauge x) (setProviderStatus E ps)" by (intro emits_intros; simp)
  from emitsD [OF this, of st] run gauge_delta_none
  obtain es where "trace st' = trace st @ es" "gauge_delta es = 0" by auto
  then show "\<exists>es. trace st' = trace st @ es \<and> gauge_delta es = 0
      \<and> (r = None \<longrightarrow> (\<exists>t. objBody (obj st') = MachineBody t) \<longrightarrow> stored_status (envLib E) ps (obj st'))"
    using setProviderStatus_stores [OF assms] run by blast
qed

lemma unhealthy_cond: "cond_status condMachineHealthy q = cond_status condMachineHealthy ps \<Longrightarrow> unhealthy q = unhealthy ps"
  by (simp add: unhealthy_def isConditionFalse_iff)

lemma track_state_unhealthy:
  assumes "conditions_ok (envLib E)"
  shows "returns (\<lambda>q. unhealthy q = unhealthy ps) (track_state E inst ps)"
proof -
  have "condMachineHealthy \<notin> instance_conditions"
    by (simp add: instance_conditions_def cond_name_defs)
  from state_keeps_other_conditions [OF assms this]
  have "unhealthy (setInstanceStateConditions (envLib E) now s (ps\<lparr>psInstanceState := Some s\<rparr>)) = unhealthy ps"
    for now s by (intro unhealthy_cond) (simp add: cond_status_def)
  moreover have "unhealthy (q\<lparr>psMachineID := mid\<rparr>) = unhealthy q" for q mid
    by (rule unhealthy_cond) (simp add: cond_status_def)
  ultimately show ?thesis
    unfolding track_state_def
    by (intro returns_andthen [where \<chi> = "\<lambda>q. unhealthy q = unhealthy ps"] returns_intros)
      (auto split: option.split)
qed

lemma timeout_unhealthy:
  assumes "conditions_ok (envLib E)"
  shows "returns (\<lambda>q. unhealthy q = unhealthy ps) (checkProvisioningTimeout E a inst ps)"
proof -
  have "unhealthy (setCondition (envLib E) now ''InstanceReady'' s r g ps) = unhealthy ps" for now s r g
    by (rule unhealthy_cond) (simp add: cond_status_setCondition [OF assms] cond_name_defs)
  then show ?thesis unfolding checkProvisioningTimeout_def by (intro returns_intros) simp_all
qed

lemma unhealthy_addresses [simp]: "unhealthy (q\<lparr>psAddresses := adr\<rparr>) = unhealthy q"
  by (rule unhealthy_cond) (simp add: cond_status_def)

lemma adjusts_health:
  "adjusts (\<lambda>q _ d. d = unhealthy q - unhealthy ps) (updateMachineHealth E a c org inst ps)"
  unfolding adjusts_def
proof (intro allI impI)
  fix st q st'
  assume "updateMachineHealth E a c org inst ps st = (Val q, st')"
  then show "\<exists>es. trace st' = trace st @ es \<and> gauge_delta es = unhealthy q - unhealthy ps"
    using health_gauge_step [of E a c org inst ps st] by auto
qed

lemma adjusts_store:
  assumes "truthful (envKube E)" and "unhealthy q = v"
  shows "adjusts (\<lambda>r m d. gauge_follows (envLib E) u r m (v - u + d))
    (guardp (setProviderStatus E q) (\<lambda>e. Some (w e)) (ret None))"
  unfolding adjusts_def
proof (intro allI impI)
  fix st r st'
  assume "guardp (setProviderStatus E q) (\<lambda>e. Some (w e)) (ret None) st = (Val r, st')"
  then obtain r' where r': "setProviderStatus E q st = (Val r', st')" "r = None \<longrightarrow> r' = None"
    by (auto simp: run_simps split: prod.splits res.splits option.splits)
  obtain es where es: "trace st' = trace st @ es" "gauge_delta es = 0"
      "r' = None \<longrightarrow> (\<exists>t. objBody (obj st') = MachineBody t) \<longrightarrow> stored_status (envLib E) q (obj st')"
    using adjusts_setProviderStatus [OF assms(1)] r'(1) unfolding adjusts_def by blast
  then show "\<exists>es. trace st' = trace st @ es
      \<and> gauge_follows (envLib E) u r (obj st') (v - u + gauge_delta es)"
    using r'(2) assms(2) unfolding gauge_follows_def by auto
qed

lemma adjusts_apply_instance:
  assumes ok: "conditions_ok (envLib E)" and tr: "truthful (envKube E)"
  shows "adjusts (gauge_follows (envLib E) (unhealthy ps)) (apply_instance E a c org spec ps inst)"
proof -
  let ?u = "unhealthy ps" and ?L = "envLib E"
  have quiet: "emits (\<lambda>x. \<not> is_gauge x) (track_state E inst ps)"
      "emits (\<lambda>x. \<not> is_gauge x) (checkStatusHistory E a c org inst)"
      "emits (\<lambda>x. \<not> is_gauge x) (checkProvisioningTimeout E a inst q)" for q
    unfolding track_state_def record_provision_duration_def checkStatusHistory_def
      emitMachineStatusHistory_def record_history_def checkProvisioningTimeout_def Let_def
    by (intro emits_intros; simp)+
  have labels: "emits (\<lambda>x. \<not> is_gauge x) (if b then seqp (modobj f) (kube_update E) else ret None)" for b f
    by (intro emits_intros) simp_all
  have store: "adjusts (\<lambda>r m d. gauge_follows ?L ?u r m (unhealthy q - ?u + d))
      (seqp (checkStatusHistory E a c org inst)
        (andthen (checkProvisioningTimeout E a inst q) (\<lambda>q'.
          guardp (setProviderStatus E (q'\<lparr>psAddresses := adr\<rparr>)) (\<lambda>e. Some (w e)) (ret None))))" for q adr w
    unfolding seqp_def
    by (intro adjusts_rest [OF quiet(2) returns_True] adjusts_rest [OF quiet(3) timeout_unhealthy [OF ok]]
        adjusts_store [OF tr]) simp
  have "adjusts (gauge_follows ?L ?u) (andthen (updateMachineHealth E a c org inst q) (\<lambda>q2.
      seqp (checkStatusHistory E a c org inst)
        (andthen (checkProvisioningTimeout E a inst q2) (\<lambda>q'.
          guardp (setProviderStatus E (q'\<lparr>psAddresses := adr\<rparr>)) (\<lambda>e. Some (w e)) (ret None)))))"
    if "unhealthy q = ?u" for q adr w
    by (rule adjusts_andthen [OF adjusts_health]) (use store that in simp)
  then show ?thesis
    unfolding apply_instance_def
    by (intro adjusts_rest [OF quiet(1) track_state_unhealthy [OF ok]]
        adjusts_rest [OF emits_getobj returns_True] adjusts_guardp labels)
qed

lemma adjusts_Update:
  assumes ok: "conditions_ok (envLib E)" and tr: "truthful (envKube E)"
    and ps: "getProviderStatus (envLib E) (obj st) = Inr ps" and run: "Update E a st = (Val None, st')"
    and typed: "objBody (obj st') = MachineBody t"
  shows "\<exists>es ps'. trace st' = trace st @ es \<and> stored_status (envLib E) ps' (obj st')
    \<and> gauge_delta es = unhealthy ps' - unhealthy ps"
proof -
  let ?u = "unhealthy ps" and ?L = "envLib E"
  obtain spec where spec: "getProviderSpec ?L (obj st) = Inr spec" and body: "objBody (obj st) \<noteq> NotClientObject"
    using run by (auto simp: Update_def run_simps split: if_splits sum.splits)
  obtain i where i: "psInstanceID ps = Some i"
    using run spec body ps by (auto simp: Update_def run_simps split: option.splits)
  let ?rest = "\<lambda>(c, orgName). andthen (call_GetInstance c orgName i) (\<lambda>(inst, httpResp, err).
      seqp (metricp (APILatency ''GetInstance''))
      (case err of
         Some e \<Rightarrow> ret (Some (ErrWrap ''failed to get instance: '' e))
       | None \<Rightarrow>
           (case inst of
              None \<Rightarrow>
                (case httpResp of
                   None \<Rightarrow> panic
                 | Some h \<Rightarrow> ret (Some (ErrText
                     (''get instance returned no data, status code: '' @ show_int (StatusCode h)))))
            | Some i \<Rightarrow> apply_instance E a c orgName spec ps i)))"
  have quiet: "emits (\<lambda>x. \<not> is_gauge x) (getNicoClient E a spec)"
      "emits (\<lambda>x. \<not> is_gauge x) (call_GetInstance c org i)"
      "emits (\<lambda>x. \<not> is_gauge x) (metricp (APILatency ''GetInstance''))" for c org
    by (intro emits_intros; simp)+
  have "adjusts (gauge_follows ?L ?u) (?rest x)" for x
    unfolding seqp_def
    by (auto intro!: adjusts_rest [OF quiet(2) returns_True] adjusts_rest [OF quiet(3) returns_True]
        adjusts_ret_error adjusts_panic adjusts_apply_instance [OF ok tr] split: prod.split option.split)
  then have "adjusts (gauge_follows ?L ?u) (tryp (getNicoClient E a spec)
      (\<lambda>e. Some (ErrWrap ''failed to create NICo client: '' e)) ?rest)"
    unfolding tryp_def
    by (intro adjusts_rest [OF quiet(1) returns_True]) (auto split: sum.split intro: adjusts_ret_error)
  moreover have "tryp (getNicoClient E a spec) (\<lambda>e. Some (ErrWrap ''failed to create NICo client: '' e)) ?rest st
      = (Val None, st')"
    using run spec body ps i by (simp add: Update_def run_andthen run_getobj)
  ultimately obtain es where "trace st' = trace st @ es" "gauge_follows ?L ?u None (obj st') (gauge_delta es)"
    unfolding adjusts_def by blast
  then show ?thesis using typed unfolding gauge_follows_def by blast
qed

section \<open>Properties\<close>

text \<open>C30. The gauges over one reconcile: it raises the gauge of managed machines exactly when it makes an
  instance and the creation succeeds, lowers it exactly when it deletes a recorded instance and the
  deletion succeeds, and leaves it alone otherwise. Deleting a machine never touches the gauge of
  unhealthy machines: one that is unhealthy when it is deleted counts for ever.\<close>

theorem gauges_of_reconcile:
  "mvManaged (observed (new_actions (Reconcile E (actuator_ops_of E a) key) st) v)
     = mvManaged v + reconcile_gain E a key st
   \<and> mvUnhealthy (observed (new_actions (reconcileDelete E (actuator_ops_of E a)) st) v) = mvUnhealthy v"
proof
  show "mvManaged (observed (new_actions (Reconcile E (actuator_ops_of E a) key) st) v)
     = mvManaged v + reconcile_gain E a key st"
  proof (cases "fst (kubeGetMachine (envKube E) key (ext st))")
    case (Inr m)
    then show ?thesis
      using deletion_sum [of E a "fetched E key m st"] normal_sum [of E a "fetched E key m st"]
      by (simp add: managed_observed nico.reconcile_new reconcile_gain_def fetched_def new_sum_def)
  qed (simp add: managed_observed nico.reconcile_new reconcile_gain_def)
  have "emits (\<lambda>x. \<not> is_gauge x) (reconcileDelete E (actuator_ops_of E a))"
    unfolding reconcileDelete_def actuator_ops_of_def actuator_ops.select_convs Delete_def
      prepare_delete_def reportMHCHealthIssue_def finish_delete_def deleted_def
    by (intro emits_intros) simp_all
  from gauge_delta_none [OF new_actions_emits [OF this]]
  show "mvUnhealthy (observed (new_actions (reconcileDelete E (actuator_ops_of E a)) st) v) = mvUnhealthy v"
    by (simp add: unhealthy_observed)
qed

text \<open>At start-up no collector is refused, since their names differ from each other and from those the
  registry has; afterwards every observation the program makes is on a registered collector, with
  as many label values as it has labels, so that none of them panics.\<close>

theorem collectors_registered:
  assumes "metrics_registry register registered"
    and "set (map colName init_collectors) \<inter> registered r = {}"
  shows "\<exists>r'. init_metrics register r = Val r'
    \<and> (\<forall>m. colName (collector_of m) \<in> registered r'
         \<and> length (label_values m) = length (colLabels (collector_of m)))"
  using metrics_registry.MustRegister_distinct [OF assms(1) init_collectors_distinct assms(2)]
    collector_registered label_values_match
  by (fastforce simp: init_metrics_def)

theorem collectors_registered_witness:
  "\<exists>r'. init_metrics ref_register [] = Val r' \<and> colName APICallErrors_collector \<in> set r'"
proof -
  from collectors_registered [OF ref_metrics.metrics_registry_axioms, of "[]"]
  obtain r' where r': "init_metrics ref_register [] = Val r'"
      "\<forall>m. colName (collector_of m) \<in> set r' \<and> length (label_values m) = length (colLabels (collector_of m))"
    by auto
  from r'(2) have "colName (collector_of (APICallErrorsInc [] [])) \<in> set r'" by blast
  then show ?thesis using r'(1) by simp
qed

text \<open>C31. The gauge of unhealthy machines: a successful update of a machine moves it by exactly the change
  from the health of the status it found to the health of the status it stores.\<close>

theorem unhealthy_gauge_of_update:
  assumes "libraries_ok E norm" and "objBody (obj st) = MachineBody t"
    and "getProviderStatus (envLib E) (obj st) = Inr ps" and "Update E a st = (Val None, st')"
  shows "\<exists>ps'. stored_status (envLib E) ps' (obj st')
    \<and> mvUnhealthy (observed (new_actions (Update E a) st) v) = mvUnhealthy v + unhealthy ps' - unhealthy ps"
proof -
  have ok: "conditions_ok (envLib E)" "codec_ok (libCodec (envLib E)) norm" "truthful (envKube E)"
    using assms(1) by (simp_all add: libraries_ok_def)
  have "carries (envLib E) (omFinalizers (objMeta (obj st))) (psInstanceID ps) (obj st)"
    using assms(2,3) by (simp add: carries_def)
  from maintainsD [OF maintains_Update [OF ok] assms(4) this] obtain t' where "objBody (obj st') = MachineBody t'"
    using carries_typed by blast
  from adjusts_Update [OF ok(1,3) assms(3,4) this] show ?thesis
    using assms(4) by (auto simp: unhealthy_observed new_actions_def)
qed

definition ref_sick_world :: ref_world where
  "ref_sick_world = ref_world0\<lparr>rwMachine := ref_recorded, rwInstances := [(''1'', ref_instance 1)],
     rwAlerts := [\<lparr>alertId = ''a'', alertMessage = ''disk'', alertClassifications = [severityCritical]\<rparr>]\<rparr>"

definition zero_values :: metric_values where
  "zero_values = \<lparr>mvManaged = 0, mvUnhealthy = 0, mvErrors = (\<lambda>_. 0), mvHealthEvents = 0,
     mvCalls = (\<lambda>_. 0), mvProvisions = (\<lambda>_. 0)\<rparr>"

theorem unhealthy_gauge_of_update_witness:
  "\<exists>ps'. stored_status ref_lib ps' (obj (snd (Update ref_env ref_actuator (ref_state ref_sick_world))))
     \<and> unhealthy ps' = 1"
proof -
  have "fst (Update ref_env ref_actuator (ref_state ref_sick_world)) = Val None" by code_simp
  then obtain st' where run: "Update ref_env ref_actuator (ref_state ref_sick_world) = (Val None, st')"
    by (metis prod.collapse)
  let ?ps = "zero_status\<lparr>psInstanceID := Some ''1''\<rparr>"
  have world: "rwMachine ref_sick_world = ref_recorded" by (simp add: ref_sick_world_def)
  have body: "objBody (obj (ref_state ref_sick_world)) = MachineBody (ref_typed\<lparr>tmProviderStatus :=
      Some (Some (enc_ProviderStatus ref_metav1 ?ps))\<rparr>)"
    by (simp add: world ref_recorded_def put_provider_status_def)
  have "unhealthy ?ps = 0" by code_simp
  moreover have "mvUnhealthy zero_values = 0" by (simp add: zero_values_def)
  moreover have "mvUnhealthy (observed (new_actions (Update ref_env ref_actuator) (ref_state ref_sick_world))
      zero_values) = 1"
    by code_simp
  ultimately show ?thesis
    using unhealthy_gauge_of_update [OF ref_libraries body _ run, of ?ps zero_values] ref_recorded_status world run
    by auto
qed

end
