(* ===== verification/HostMapper.thy ===== *)
theory HostMapper
  imports NicoApi "HOL-Library.Multiset"
begin

text \<open>
  From NICo machines to bare-metal hosts: pkg/controllers/baremetalhost/mapper.go. The types of
  the Metal3 API are records of the fields the sources set. An annotation's text is the JSON value
  it spells; \<open>json.Marshal\<close> does not fail on these structs. A Go \<open>int\<close> has 64 bits, and sums and
  products wrap. The order in which Go visits the firmware map is the parameter \<open>order\<close>.
\<close>

section \<open>Hardware details\<close>

record SystemVendor =
  svManufacturer :: string
  svProductName :: string
  svSerialNumber :: string

record BIOSFirmware =
  biosVersion :: string
  biosDate :: string

record Firmware =
  fwBIOS :: BIOSFirmware

record NIC =
  nicMAC :: string
  nicName :: string

record CPU =
  cpuArch :: string
  cpuModel :: string
  cpuCount :: int

record Disk =
  diskSizeBytes :: int
  diskVendor :: string
  diskModel :: string

record HardwareDetails =
  hdSystemVendor :: SystemVendor
  hdFirmware :: Firmware
  hdRAMMebibytes :: int
  hdNIC :: "NIC list"
  hdCPU :: CPU
  hdStorage :: "Disk list"

definition derefStr :: "string option \<Rightarrow> string" where
  "derefStr s = (case s of None \<Rightarrow> [] | Some x \<Rightarrow> x)"

definition nic_details :: "MachineNic \<Rightarrow> NIC" where
  "nic_details n = \<lparr>nicMAC = derefStr (nicMacAddress n), nicName = derefStr (nicDevice n)\<rparr>"

text \<open>The loop over the CPUs keeps the last model and the last count it sees.\<close>

fun cpu_details :: "CPU \<Rightarrow> SkuCpu list \<Rightarrow> CPU" where
  "cpu_details c [] = c"
| "cpu_details c (x # xs) =
     cpu_details
       (let c1 = (case skuCpuModel x of None \<Rightarrow> c | Some v \<Rightarrow> c\<lparr>cpuModel := v\<rparr>)
        in case skuCpuCount x of None \<Rightarrow> c1 | Some n \<Rightarrow> c1\<lparr>cpuCount := n\<rparr>) xs"

fun ram_mebibytes :: "int \<Rightarrow> SkuMemory list \<Rightarrow> int" where
  "ram_mebibytes acc [] = acc"
| "ram_mebibytes acc (x # xs) =
     ram_mebibytes
       (case (skuMemCapacityMb x, skuMemCount x) of
          (Some cap, Some n) \<Rightarrow>
            (let totalMB = wrap64 (cap * n)
             in wrap64 (acc + go_div (wrap64 (totalMB * 1000000)) 1048576))
        | _ \<Rightarrow> acc) xs"

definition disk_details :: "SkuStorage \<Rightarrow> Disk" where
  "disk_details s =
     \<lparr>diskSizeBytes = (case skuStorCapacityMb s of None \<Rightarrow> 0 | Some c \<Rightarrow> wrap64 (c * 1000000)),
      diskVendor = derefStr (skuStorVendor s), diskModel = derefStr (skuStorModel s)\<rparr>"

definition buildHardwareDetails :: "NicoMachine \<Rightarrow> Sku option \<Rightarrow> HardwareDetails" where
  "buildHardwareDetails m sku =
     (let components = (case sku of None \<Rightarrow> None | Some s \<Rightarrow> skuComponents s);
          dmi = (case nmMetadata m of None \<Rightarrow> None | Some md \<Rightarrow> mdDmiData md);
          cpu0 = \<lparr>cpuArch = derefStr (nmControllerMachineType m), cpuModel = [], cpuCount = 0\<rparr>
      in \<lparr>hdSystemVendor = \<lparr>svManufacturer = derefStr (nmVendor m),
            svProductName = derefStr (nmProductName m), svSerialNumber = derefStr (nmSerialNumber m)\<rparr>,
          hdFirmware = \<lparr>fwBIOS = (case dmi of
              None \<Rightarrow> \<lparr>biosVersion = [], biosDate = []\<rparr>
            | Some d \<Rightarrow> \<lparr>biosVersion = derefStr (dmiBiosVersion d), biosDate = derefStr (dmiBiosDate d)\<rparr>)\<rparr>,
          hdRAMMebibytes = (case components of None \<Rightarrow> 0 | Some cs \<Rightarrow> ram_mebibytes 0 (skuMemory cs)),
          hdNIC = (case nmMetadata m of
              None \<Rightarrow> [] | Some md \<Rightarrow> map nic_details (mdNetworkInterfaces md)),
          hdCPU = (case components of None \<Rightarrow> cpu0 | Some cs \<Rightarrow> cpu_details cpu0 (skuCpus cs)),
          hdStorage = (case components of None \<Rightarrow> [] | Some cs \<Rightarrow> map disk_details (skuStorage cs))\<rparr>)"

section \<open>The annotation\<close>

text \<open>\<open>omitempty\<close> drops empty texts, zero numbers and empty slices, but never a struct.\<close>

definition enc_omit_int :: "string \<Rightarrow> int \<Rightarrow> (string \<times> json) list" where
  "enc_omit_int k i = (if i = 0 then [] else [(k, JNum (show_int i))])"

definition enc_NIC :: "NIC \<Rightarrow> json" where
  "enc_NIC n = JObj (enc_omit_string ''mac'' (nicMAC n) @ enc_omit_string ''name'' (nicName n))"

definition enc_Disk :: "Disk \<Rightarrow> json" where
  "enc_Disk d = JObj (enc_omit_int ''sizeBytes'' (diskSizeBytes d)
     @ enc_omit_string ''vendor'' (diskVendor d) @ enc_omit_string ''model'' (diskModel d))"

definition enc_HardwareDetails :: "HardwareDetails \<Rightarrow> json" where
  "enc_HardwareDetails h = JObj
     ([(''systemVendor'', JObj (enc_omit_string ''manufacturer'' (svManufacturer (hdSystemVendor h))
          @ enc_omit_string ''productName'' (svProductName (hdSystemVendor h))
          @ enc_omit_string ''serialNumber'' (svSerialNumber (hdSystemVendor h)))),
       (''firmware'', JObj [(''bios'',
          JObj (enc_omit_string ''version'' (biosVersion (fwBIOS (hdFirmware h)))
            @ enc_omit_string ''date'' (biosDate (fwBIOS (hdFirmware h)))))])]
      @ enc_omit_int ''ramMebibytes'' (hdRAMMebibytes h)
      @ enc_omit_list ''nics'' enc_NIC (hdNIC h)
      @ [(''cpu'', JObj (enc_omit_string ''arch'' (cpuArch (hdCPU h))
          @ enc_omit_string ''model'' (cpuModel (hdCPU h)) @ enc_omit_int ''count'' (cpuCount (hdCPU h))))]
      @ enc_omit_list ''storage'' enc_Disk (hdStorage h))"

section \<open>Hosts\<close>

definition hardwareDetailsAnnotation :: string where
  "hardwareDetailsAnnotation = ''inspect.metal3.io/hardwaredetails''"
definition nicoMachineIDLabel :: string where "nicoMachineIDLabel = ''infra.nvidia.com/machine-id''"
definition nicoSiteIDLabel :: string where "nicoSiteIDLabel = ''infra.nvidia.com/site-id''"

definition machineIsOnline :: "MachineStatus \<Rightarrow> bool" where
  "machineIsOnline status =
     (case status of MACHINESTATUS_READY \<Rightarrow> True | MACHINESTATUS_IN_USE \<Rightarrow> True | _ \<Rightarrow> False)"

definition bmhNameFromID :: "string \<Rightarrow> string" where
  "bmhNameFromID i = ''nico-'' @ i"

definition bmhName :: "NicoMachine \<Rightarrow> string" where
  "bmhName m = bmhNameFromID (derefStr (nmId m))"

record BareMetalHostSpec =
  hsOnline :: bool
  hsExternallyProvisioned :: bool
  hsBMCAddress :: string
  hsBootMACAddress :: string

text \<open>\<open>hostRest\<close> stands for what else an object at the server has: its versions and its status.\<close>

record BareMetalHost =
  hostName :: string
  hostNamespace :: string
  hostLabels :: "string gomap"
  hostAnnotations :: "json gomap"
  hostSpec :: BareMetalHostSpec
  hostRest :: json

definition bmc_address :: "MachineMetadata option \<Rightarrow> string" where
  "bmc_address md =
     (case md of None \<Rightarrow> [] | Some d \<Rightarrow>
       (case mdBmcInfo d of None \<Rightarrow> [] | Some b \<Rightarrow>
         (case bmcIp b of None \<Rightarrow> [] | Some ip \<Rightarrow> ''redfish+https://'' @ ip @ ''/redfish/v1/Systems/1'')))"

definition boot_mac :: "MachineMetadata option \<Rightarrow> string" where
  "boot_mac md =
     (case md of None \<Rightarrow> [] | Some d \<Rightarrow>
       (case mdNetworkInterfaces d of [] \<Rightarrow> [] | n # _ \<Rightarrow> derefStr (nicMacAddress n)))"

definition MachineToBaremetalHost ::
  "NicoMachine \<Rightarrow> Sku option \<Rightarrow> string \<Rightarrow> BareMetalHost" where
  "MachineToBaremetalHost m sku namespace =
     \<lparr>hostName = bmhName m, hostNamespace = namespace,
      hostLabels = (case nmSiteId m of
          None \<Rightarrow> [(nicoMachineIDLabel, derefStr (nmId m))]
        | Some site \<Rightarrow> [(nicoMachineIDLabel, derefStr (nmId m)), (nicoSiteIDLabel, site)]),
      hostAnnotations =
        [(hardwareDetailsAnnotation, enc_HardwareDetails (buildHardwareDetails m sku))],
      hostSpec = \<lparr>hsOnline = (case nmStatus m of None \<Rightarrow> True | Some s \<Rightarrow> machineIsOnline s),
        hsExternallyProvisioned = True, hsBMCAddress = bmc_address (nmMetadata m),
        hsBootMACAddress = boot_mac (nmMetadata m)\<rparr>,
      hostRest = JNull\<rparr>"

section \<open>Firmware components\<close>

record FirmwareComponentStatus =
  fcComponent :: string
  fcInitialVersion :: string
  fcCurrentVersion :: string

record HostFirmwareComponents =
  hfcName :: string
  hfcNamespace :: string
  hfcLabels :: "string gomap"
  hfcComponents :: "FirmwareComponentStatus list"
  hfcLastUpdated :: "time option"
  hfcRest :: json

definition firmware_component :: "string \<Rightarrow> string \<Rightarrow> FirmwareComponentStatus" where
  "firmware_component component version =
     \<lparr>fcComponent = component, fcInitialVersion = version, fcCurrentVersion = version\<rparr>"

fun gpu_components :: "nat \<Rightarrow> string option list \<Rightarrow> FirmwareComponentStatus list" where
  "gpu_components i [] = []"
| "gpu_components i (g # gs) =
     (case g of
        None \<Rightarrow> gpu_components (Suc i) gs
      | Some v \<Rightarrow> firmware_component (''gpu-'' @ show_nat i @ ''-vbios'') v # gpu_components (Suc i) gs)"

definition bmc_component :: "MachineMetadata \<Rightarrow> FirmwareComponentStatus list" where
  "bmc_component md =
     (case mdBmcInfo md of None \<Rightarrow> [] | Some b \<Rightarrow>
       (case bmcFirmwareRevision b of None \<Rightarrow> [] | Some v \<Rightarrow> [firmware_component ''bmc'' v]))"

definition FirmwareToHostFirmwareComponents ::
  "((string \<times> string) list \<Rightarrow> (string \<times> string) list) \<Rightarrow> string \<Rightarrow> string gomap \<Rightarrow> NicoMachine \<Rightarrow> string
     \<Rightarrow> HostFirmwareComponents" where
  "FirmwareToHostFirmwareComponents order machineID firmwareVersions m namespace =
     \<lparr>hfcName = bmhNameFromID machineID, hfcNamespace = namespace,
      hfcLabels = [(nicoMachineIDLabel, machineID)],
      hfcComponents = map (\<lambda>(c, v). firmware_component c v) (order firmwareVersions)
        @ (case nmMetadata m of
             None \<Rightarrow> []
           | Some md \<Rightarrow> bmc_component md @ gpu_components 0 (mdGpuVbiosVersions md)),
      hfcLastUpdated = None, hfcRest = JNull\<rparr>"

section \<open>Memory\<close>

text \<open>The megabytes of one entry of the SKU.\<close>

definition memory_mb :: "SkuMemory \<Rightarrow> int" where
  "memory_mb x =
     (case (skuMemCapacityMb x, skuMemCount x) of (Some cap, Some n) \<Rightarrow> cap * n | _ \<Rightarrow> 0)"

lemma mebibytes_bounds: "0 \<le> y \<Longrightarrow> 0 \<le> y div 1048576 \<and> y div 1048576 \<le> (y::int)"
  by (intro conjI) linarith+

lemma ram_step:
  assumes "0 \<le> acc" and "0 \<le> memory_mb x" and "acc + memory_mb x * 1000000 \<le> max_int64"
  shows "ram_mebibytes acc (x # xs) = ram_mebibytes (acc + memory_mb x * 1000000 div 1048576) xs"
proof -
  let ?mb = "memory_mb x"
  have q: "0 \<le> ?mb * 1000000 div 1048576 \<and> ?mb * 1000000 div 1048576 \<le> ?mb * 1000000"
    using assms(2) by (intro mebibytes_bounds) simp
  have w: "wrap64 ?mb = ?mb" "wrap64 (?mb * 1000000) = ?mb * 1000000"
    "wrap64 (acc + ?mb * 1000000 div 1048576) = acc + ?mb * 1000000 div 1048576"
    using assms q by (auto intro!: wrap64_id simp: min_int64_def)
  have d: "go_div (?mb * 1000000) 1048576 = ?mb * 1000000 div 1048576"
    using assms(2) by (simp add: go_div_nonneg)
  show ?thesis
  proof (cases "skuMemCapacityMb x = None \<or> skuMemCount x = None")
    case True
    then show ?thesis by (auto simp: memory_mb_def split: option.split)
  next
    case False
    then obtain cap n where "skuMemCapacityMb x = Some cap" "skuMemCount x = Some n" by auto
    then show ?thesis using w d by (simp add: memory_mb_def Let_def)
  qed
qed

lemma ram_exact:
  "0 \<le> acc \<Longrightarrow> list_all (\<lambda>x. 0 \<le> memory_mb x) xs \<Longrightarrow>
     acc + sum_list (map memory_mb xs) * 1000000 \<le> max_int64 \<Longrightarrow>
     ram_mebibytes acc xs = acc + sum_list (map (\<lambda>x. memory_mb x * 1000000 div 1048576) xs)"
proof (induction xs arbitrary: acc)
  case (Cons x xs)
  let ?d = "memory_mb x * 1000000 div 1048576"
  have x: "0 \<le> memory_mb x" and xs: "list_all (\<lambda>x. 0 \<le> memory_mb x) xs" using Cons.prems(2) by simp_all
  have sum: "0 \<le> sum_list (map memory_mb xs)"
    using xs by (intro sum_list_nonneg) (auto simp: list_all_iff)
  have d: "0 \<le> ?d" "?d \<le> memory_mb x * 1000000" using mebibytes_bounds [of "memory_mb x * 1000000"] x by simp_all
  have bound: "acc + memory_mb x * 1000000 + sum_list (map memory_mb xs) * 1000000 \<le> max_int64"
    using Cons.prems(3) by (simp add: distrib_right add.assoc)
  have "ram_mebibytes acc (x # xs) = ram_mebibytes (acc + ?d) xs"
    using Cons.prems(1) x bound sum by (intro ram_step) simp_all
  also have "\<dots> = acc + ?d + sum_list (map (\<lambda>x. memory_mb x * 1000000 div 1048576) xs)"
    using Cons.prems(1) xs d bound by (intro Cons.IH) simp_all
  finally show ?case by simp
qed simp

section \<open>Properties\<close>

text \<open>C39. The memory of a host is computed without overflow, entry by entry rounded down to whole
  mebibytes, as long as the total is below nine exabytes: the product of capacity, count and a
  million then fits the 64-bit integers of the code.\<close>

theorem ram_without_overflow:
  assumes "sku = Some s" and "skuComponents s = Some cs"
    and "list_all (\<lambda>x. 0 \<le> memory_mb x) (skuMemory cs)"
    and "sum_list (map memory_mb (skuMemory cs)) \<le> 9223372036854"
  shows "hdRAMMebibytes (buildHardwareDetails m sku)
    = sum_list (map (\<lambda>x. memory_mb x * 1000000 div 1048576) (skuMemory cs))"
  using assms ram_exact [of 0 "skuMemory cs"]
  by (simp add: buildHardwareDetails_def max_int64_def)

definition ref_sku :: Sku where
  "ref_sku = \<lparr>skuComponents = Some \<lparr>skuCpus = [],
       skuMemory = [\<lparr>skuMemCapacityMb = Some 65536, skuMemCount = Some 2\<rparr>,
                    \<lparr>skuMemCapacityMb = None, skuMemCount = Some 2\<rparr>],
       skuStorage = []\<rparr>,
     skuAssociatedMachineIds = [''m-1'']\<rparr>"

definition ref_nico_machine :: NicoMachine where
  "ref_nico_machine = \<lparr>nmId = Some ''m-1'', nmSiteId = None, nmStatus = None, nmVendor = None,
     nmProductName = None, nmSerialNumber = None, nmControllerMachineType = None, nmMetadata = None,
     nmHealth = None\<rparr>"

theorem ram_without_overflow_witness:
  "hdRAMMebibytes (buildHardwareDetails ref_nico_machine (Some ref_sku)) = 125000"
  using ram_without_overflow [of "Some ref_sku" ref_sku _ ref_nico_machine]
  by (simp add: ref_sku_def memory_mb_def)

text \<open>A machine becomes the host that carries its ID: the host's name and label say which machine
  it is, two machines of different IDs never share a host, the host is always externally
  provisioned, and it is online exactly when the machine's status is unknown, Ready or in use.\<close>

theorem host_identifies_machine:
  "gomap_get (hostLabels (MachineToBaremetalHost m sku ns)) nicoMachineIDLabel = Some (derefStr (nmId m))
   \<and> (hostName (MachineToBaremetalHost m sku ns) = hostName (MachineToBaremetalHost m' sku' ns'))
       = (derefStr (nmId m) = derefStr (nmId m'))
   \<and> hsExternallyProvisioned (hostSpec (MachineToBaremetalHost m sku ns))
   \<and> hsOnline (hostSpec (MachineToBaremetalHost m sku ns))
       = (nmStatus m \<in> {None, Some MACHINESTATUS_READY, Some MACHINESTATUS_IN_USE})"
  by (auto simp: MachineToBaremetalHost_def bmhName_def bmhNameFromID_def gomap_get_def
      machineIsOnline_def split: option.split MachineStatus.splits)

text \<open>The firmware components of a host do not depend on the order in which Go visits the map of
  versions, up to their order in the list: every entry of the map is there once, and so are the
  BMC and the GPUs that report a version.\<close>

theorem firmware_components_complete:
  assumes "\<And>xs. mset (order xs) = mset xs"
  shows "mset (hfcComponents (FirmwareToHostFirmwareComponents order mid fw m ns)) =
     image_mset (\<lambda>(c, v). firmware_component c v) (mset fw)
     + (case nmMetadata m of
          None \<Rightarrow> {#}
        | Some md \<Rightarrow> mset (bmc_component md) + mset (gpu_components 0 (mdGpuVbiosVersions md)))"
proof -
  have "mset (map (\<lambda>(c, v). firmware_component c v) (order fw))
      = image_mset (\<lambda>(c, v). firmware_component c v) (mset fw)"
    using assms by (simp add: mset_map)
  then show ?thesis by (simp add: FirmwareToHostFirmwareComponents_def split: option.split)
qed

theorem firmware_components_complete_witness:
  "mset (hfcComponents (FirmwareToHostFirmwareComponents rev ''m-1'' [(''bios'', ''1''), (''nic'', ''2'')]
      ref_nico_machine ''ns''))
   = {# firmware_component ''bios'' ''1'', firmware_component ''nic'' ''2'' #}"
  using firmware_components_complete [of rev "''m-1''" "[(''bios'', ''1''), (''nic'', ''2'')]"
      ref_nico_machine "''ns''"]
  by (simp add: ref_nico_machine_def)

end
