(* ===== verification/HostSync.thy ===== *)
theory HostSync
  imports HostMapper
begin

text \<open>
  The host reconciler: pkg/controllers/baremetalhost/controller.go. It polls NICo and keeps a
  BareMetalHost and a HostFirmwareComponents object for every machine. The object a program works
  on is the \<open>Reconciler\<close> itself, for its SKU cache; a nil Go map is \<open>None\<close>. The client of the
  Kubernetes API and the NICo client are its fields, the helper of the API machinery, the clock
  and the order of map iteration are the parameter \<open>host_lib\<close>.
\<close>

section \<open>The reconciler\<close>

type_synonym host_key = "string \<times> string"

text \<open>A call that succeeds gives the object as the client leaves it in memory.\<close>

record 's HostClient =
  hostGet :: "host_key \<Rightarrow> 's \<Rightarrow> (go_err + BareMetalHost) \<times> 's"
  hostCreate :: "BareMetalHost \<Rightarrow> 's \<Rightarrow> (go_err + BareMetalHost) \<times> 's"
  hostUpdate :: "BareMetalHost \<Rightarrow> 's \<Rightarrow> (go_err + BareMetalHost) \<times> 's"
  hfcGet :: "host_key \<Rightarrow> 's \<Rightarrow> (go_err + HostFirmwareComponents) \<times> 's"
  hfcCreate :: "HostFirmwareComponents \<Rightarrow> 's \<Rightarrow> (go_err + HostFirmwareComponents) \<times> 's"
  hfcStatusUpdate :: "HostFirmwareComponents \<Rightarrow> 's \<Rightarrow> (go_err + HostFirmwareComponents) \<times> 's"

record 's Reconciler =
  rClient :: "'s HostClient"
  rNicoClient :: "'s NicoClientInterface"
  rOrgName :: string
  rNamespace :: string
  rSkuCache :: "Sku gomap option"
  rSkuCacheExpiry :: time

text \<open>\<open>SetupWithManager\<close> hands the manager a reconciler with an empty cache.\<close>

definition SetupWithManager ::
  "('s Reconciler \<Rightarrow> 's \<Rightarrow> go_err option \<times> 's) \<Rightarrow> 's HostClient \<Rightarrow> 's NicoClientInterface \<Rightarrow> string \<Rightarrow> string
     \<Rightarrow> 's \<Rightarrow> go_err option \<times> 's" where
  "SetupWithManager mgr_Add mgr_client nicoClient orgName namespace =
     mgr_Add \<lparr>rClient = mgr_client, rNicoClient = nicoClient, rOrgName = orgName, rNamespace = namespace,
       rSkuCache = None, rSkuCacheExpiry = 0\<rparr>"

record 's host_lib =
  hlIsNotFound :: "go_err \<Rightarrow> bool"
  hlNow :: "'s \<Rightarrow> time"
  hlOrder :: "(string \<times> string) list \<Rightarrow> (string \<times> string) list"

datatype host_action =
    HostApi api_call
  | GetBMH host_key
  | CreateBMH BareMetalHost
  | UpdateBMH BareMetalHost
  | GetHFC host_key
  | CreateHFC HostFirmwareComponents
  | StatusUpdateHFC HostFirmwareComponents
  | HostLogInfo string
  | HostLogError string go_err

type_synonym ('s, 'r) host_prog = "('s, 's Reconciler, host_action, 'r) prog"

definition syncInterval :: time where "syncInterval = 60000000000"
definition skuCacheTTL :: time where "skuCacheTTL = 300000000000"

definition host_key :: "BareMetalHost \<Rightarrow> host_key" where
  "host_key h = (hostName h, hostNamespace h)"

definition hfc_key :: "HostFirmwareComponents \<Rightarrow> host_key" where
  "hfc_key h = (hfcName h, hfcNamespace h)"

text \<open>Reading a nil map gives nothing.\<close>

definition nilmap_get :: "'v gomap option \<Rightarrow> string \<Rightarrow> 'v option" where
  "nilmap_get m k = (case m of None \<Rightarrow> None | Some m' \<Rightarrow> gomap_get m' k)"

section \<open>SKUs and firmware\<close>

definition sku_index :: "Sku list \<Rightarrow> Sku gomap" where
  "sku_index skus =
     fold (\<lambda>s. fold (\<lambda>mid. gomap_set mid s) (skuAssociatedMachineIds s)) skus []"

text \<open>\<open>list_failed\<close>: the three guards that the sources test together after a list call.\<close>

definition list_failed :: "HttpResponse option \<Rightarrow> go_err option \<Rightarrow> bool" where
  "list_failed httpResp err \<longleftrightarrow>
     err \<noteq> None \<or> (case httpResp of None \<Rightarrow> True | Some r \<Rightarrow> StatusCode r \<ge> 300)"

definition getSkuMap :: "'s host_lib \<Rightarrow> ('s, Sku gomap option) host_prog" where
  "getSkuMap L =
     andthen getobj (\<lambda>r.
     andthen (readext (hlNow L)) (\<lambda>now.
     if rSkuCache r \<noteq> None \<and> now < rSkuCacheExpiry r then ret (rSkuCache r)
     else
       andthen (extcall (HostApi (CallGetAllSku (rOrgName r))) (GetAllSku (rNicoClient r) (rOrgName r)))
         (\<lambda>(skus, httpResp, err).
          if list_failed httpResp err then ret None
          else
            andthen (readext (hlNow L)) (\<lambda>now'.
            seqp (modobj (\<lambda>r. r\<lparr>rSkuCache := Some (sku_index skus),
                                 rSkuCacheExpiry := now' + skuCacheTTL\<rparr>))
              (ret (Some (sku_index skus)))))))"

definition firmware_index :: "ExploredEndpoint list \<Rightarrow> string gomap gomap" where
  "firmware_index endpoints =
     fold (\<lambda>ep fwMap.
       (case epReport ep of
          None \<Rightarrow> fwMap
        | Some report \<Rightarrow>
            (case erMachineId report of
               None \<Rightarrow> fwMap
             | Some mid \<Rightarrow>
                 if mid = [] then fwMap
                 else if length (erFirmwareVersions report) > 0
                 then gomap_set mid (erFirmwareVersions report) fwMap
                 else fwMap))) endpoints []"

definition getFirmwareMap :: "('s, string gomap gomap option) host_prog" where
  "getFirmwareMap =
     andthen getobj (\<lambda>r.
     andthen (extcall (HostApi (CallGetAllSiteExplorerEndpoint (rOrgName r)))
                (GetAllSiteExplorerEndpoint (rNicoClient r) (rOrgName r)))
       (\<lambda>(endpoints, httpResp, err).
        if list_failed httpResp err then ret None else ret (Some (firmware_index endpoints))))"

section \<open>One machine\<close>

text \<open>
  After a creation, \<open>existing\<close> and \<open>desired\<close> are the same object, so the components written
  are those the client left in it.
\<close>

definition syncFirmwareComponents ::
  "'s host_lib \<Rightarrow> string \<Rightarrow> string gomap \<Rightarrow> NicoMachine \<Rightarrow> ('s, go_err option) host_prog" where
  "syncFirmwareComponents L machineID firmwareVersions m =
     andthen getobj (\<lambda>r.
     let desired = FirmwareToHostFirmwareComponents (hlOrder L) machineID firmwareVersions m (rNamespace r);
         finish = (\<lambda>existing components.
           andthen (readext (hlNow L)) (\<lambda>now.
           let h = existing\<lparr>hfcComponents := components, hfcLastUpdated := Some now\<rparr>
           in andthen (extcall (StatusUpdateHFC h) (hfcStatusUpdate (rClient r) h)) (\<lambda>u.
              case u of Inl e \<Rightarrow> ret (Some e) | Inr _ \<Rightarrow> ret None)))
     in andthen (extcall (GetHFC (hfc_key desired)) (hfcGet (rClient r) (hfc_key desired))) (\<lambda>g.
        case g of
          Inl err \<Rightarrow>
            if hlIsNotFound L err then
              andthen (extcall (CreateHFC desired) (hfcCreate (rClient r) desired)) (\<lambda>c.
              case c of Inl createErr \<Rightarrow> ret (Some createErr) | Inr h \<Rightarrow> finish h (hfcComponents h))
            else ret (Some err)
        | Inr existing \<Rightarrow> finish existing (hfcComponents desired)))"

definition refresh_host :: "BareMetalHost \<Rightarrow> BareMetalHost \<Rightarrow> BareMetalHost" where
  "refresh_host desired existing =
     existing\<lparr>hostSpec := hostSpec desired, hostLabels := hostLabels desired,
       hostAnnotations := hostAnnotations desired\<rparr>"

definition upsert_host :: "'s host_lib \<Rightarrow> BareMetalHost \<Rightarrow> ('s, go_err option) host_prog" where
  "upsert_host L desired =
     andthen getobj (\<lambda>r.
     andthen (extcall (GetBMH (host_key desired)) (hostGet (rClient r) (host_key desired))) (\<lambda>g.
     case g of
       Inl err \<Rightarrow>
         if hlIsNotFound L err then
           andthen (extcall (CreateBMH desired) (hostCreate (rClient r) desired)) (\<lambda>c.
           case c of Inl createErr \<Rightarrow> ret (Some (ErrWrap ''create BMH: '' createErr)) | Inr _ \<Rightarrow> ret None)
         else ret (Some (ErrWrap ''get BMH: '' err))
     | Inr existing \<Rightarrow>
         andthen (extcall (UpdateBMH (refresh_host desired existing))
                    (hostUpdate (rClient r) (refresh_host desired existing))) (\<lambda>u.
         case u of Inl updateErr \<Rightarrow> ret (Some (ErrWrap ''update BMH: '' updateErr)) | Inr _ \<Rightarrow> ret None)))"

definition syncMachine ::
  "'s host_lib \<Rightarrow> NicoMachine \<Rightarrow> Sku gomap option \<Rightarrow> string gomap gomap option
     \<Rightarrow> ('s, go_err option) host_prog" where
  "syncMachine L m skuMap firmwareMap =
     andthen getobj (\<lambda>r.
     let machineID = derefStr (nmId m);
         desired = MachineToBaremetalHost m (nilmap_get skuMap machineID) (rNamespace r)
     in guardp (upsert_host L desired) Some
          (case nilmap_get firmwareMap machineID of
             None \<Rightarrow> ret None
           | Some fw \<Rightarrow>
               guardp (syncFirmwareComponents L machineID fw m) (\<lambda>e. Some (ErrWrap ''sync HFC: '' e))
                 (ret None)))"

section \<open>One poll\<close>

definition sync_one ::
  "'s host_lib \<Rightarrow> Sku gomap option \<Rightarrow> string gomap gomap option \<Rightarrow> NicoMachine \<Rightarrow> ('s, unit) host_prog" where
  "sync_one L skuMap firmwareMap m =
     (case nmId m of
        None \<Rightarrow> ret ()
      | Some i \<Rightarrow>
          andthen (syncMachine L m skuMap firmwareMap) (\<lambda>syncErr.
          case syncErr of
            None \<Rightarrow> ret ()
          | Some e \<Rightarrow> emit (HostLogError (''Failed to sync machine '' @ i) e)))"

definition sync :: "'s host_lib \<Rightarrow> ('s, unit) host_prog" where
  "sync L =
     andthen getobj (\<lambda>r.
     andthen (extcall (HostApi (CallGetAllMachine (rOrgName r)))
                (GetAllMachine (rNicoClient r) (rOrgName r)))
       (\<lambda>(machines, httpResp, err).
        if list_failed httpResp err then
          (if (case httpResp of None \<Rightarrow> False | Some h \<Rightarrow> StatusCode h = 403) then
             emit (HostLogInfo ''Provider-admin access required, skipping BMH sync'')
           else
             (case err of
                Some e \<Rightarrow> emit (HostLogError ''Failed to list NICo machines'' e)
              | None \<Rightarrow>
                  (case httpResp of
                     None \<Rightarrow> panic
                   | Some h \<Rightarrow> emit (HostLogInfo ''Failed to list NICo machines''))))
        else
          andthen (getSkuMap L) (\<lambda>skuMap.
          andthen getFirmwareMap (\<lambda>firmwareMap.
          forp machines (sync_one L skuMap firmwareMap)))))"

text \<open>
  \<open>Start\<close> polls at once and then after every tick until its context is done. What the \<open>select\<close>
  receives is the list of outcomes; \<open>False\<close> as a result says that it still waits when the list
  is used up.
\<close>

datatype select_case = CtxDone | TickerC

fun Start :: "'s host_lib \<Rightarrow> select_case list \<Rightarrow> ('s, bool) host_prog" where
  "Start L [] = seqp (sync L) (ret False)"
| "Start L (CtxDone # cs) = seqp (sync L) (ret True)"
| "Start L (TickerC # cs) = seqp (sync L) (Start L cs)"

section \<open>What the programs do to the reconciler\<close>

lemma keeps_upsert_host [keeps_intros]: "keeps f (upsert_host L d)"
  unfolding upsert_host_def by (intro keeps_intros)

lemma keeps_syncFirmwareComponents [keeps_intros]: "keeps f (syncFirmwareComponents L i fw m)"
  unfolding syncFirmwareComponents_def by (intro keeps_intros)

lemma keeps_syncMachine [keeps_intros]: "keeps f (syncMachine L m sk fw)"
  unfolding syncMachine_def by (intro keeps_intros)

lemma keeps_sync_one [keeps_intros]: "keeps f (sync_one L sk fw m)"
  unfolding sync_one_def by (intro keeps_intros)

lemma keeps_getSkuMap:
  "keeps rClient (getSkuMap L)" "keeps rNicoClient (getSkuMap L)" "keeps rNamespace (getSkuMap L)"
  unfolding getSkuMap_def by (intro keeps_intros; simp)+

lemma keeps_getFirmwareMap: "keeps f getFirmwareMap"
  unfolding getFirmwareMap_def by (intro keeps_intros)

lemma emits_getSkuMap: "emits (\<lambda>_. True) (getSkuMap L)"
  unfolding getSkuMap_def by (intro emits_intros TrueI)

lemma emits_getFirmwareMap: "emits (\<lambda>_. True) getFirmwareMap"
  unfolding getFirmwareMap_def by (intro emits_intros TrueI)

lemma total_getSkuMap [total_intros]: "total (getSkuMap L)"
  unfolding getSkuMap_def by (intro total_intros)

lemma total_getFirmwareMap [total_intros]: "total getFirmwareMap"
  unfolding getFirmwareMap_def by (intro total_intros)

lemma total_upsert_host [total_intros]: "total (upsert_host L d)"
  unfolding upsert_host_def by (intro total_intros)

lemma total_syncFirmwareComponents [total_intros]: "total (syncFirmwareComponents L i fw m)"
  unfolding syncFirmwareComponents_def by (intro total_intros)

lemma total_syncMachine [total_intros]: "total (syncMachine L m sk fw)"
  unfolding syncMachine_def by (intro total_intros)

lemma total_sync_one [total_intros]: "total (sync_one L sk fw m)"
  unfolding sync_one_def by (intro total_intros)

section \<open>The SKU index\<close>

lemma gomap_get_fold_set:
  "gomap_get (fold (\<lambda>mid. gomap_set mid v) ks m) k = (if k \<in> set ks then Some v else gomap_get m k)"
  by (induction ks arbitrary: m) auto

lemma find_app: "find P (xs @ ys) = (case find P xs of Some x \<Rightarrow> Some x | None \<Rightarrow> find P ys)"
  by (induction xs) auto

text \<open>The entry of a machine is the last SKU of the list that names it.\<close>

lemma sku_index_last:
  "gomap_get (sku_index skus) i = find (\<lambda>s. i \<in> set (skuAssociatedMachineIds s)) (rev skus)"
proof -
  have "gomap_get (fold (\<lambda>s. fold (\<lambda>mid. gomap_set mid s) (skuAssociatedMachineIds s)) skus m) i =
      (case find (\<lambda>s. i \<in> set (skuAssociatedMachineIds s)) (rev skus) of
         Some s \<Rightarrow> Some s | None \<Rightarrow> gomap_get m i)" for m
    by (induction skus arbitrary: m)
      (auto simp: gomap_get_fold_set find_app split: option.split)
  from this [of "[]"] show ?thesis by (simp add: sku_index_def gomap_get_def split: option.split)
qed

text \<open>\<open>matches d h\<close>: the host \<open>h\<close> is the one \<open>d\<close> asks for.\<close>

definition matches :: "BareMetalHost \<Rightarrow> BareMetalHost \<Rightarrow> bool" where
  "matches d h \<longleftrightarrow> host_key h = host_key d \<and> hostSpec h = hostSpec d \<and> hostLabels h = hostLabels d
     \<and> hostAnnotations h = hostAnnotations d"

text \<open>\<open>in_view v skuMap ns m\<close>: the hosts \<open>v\<close> have the one of machine \<open>m\<close>, as NICo describes it now.\<close>

definition in_view ::
  "(host_key \<Rightarrow> BareMetalHost option) \<Rightarrow> Sku gomap option \<Rightarrow> string \<Rightarrow> NicoMachine \<Rightarrow> bool" where
  "in_view v skuMap ns m \<longleftrightarrow>
     (\<exists>h. v (bmhName m, ns) = Some h
        \<and> matches (MachineToBaremetalHost m (nilmap_get skuMap (derefStr (nmId m))) ns) h)"

text \<open>The hosts a poll may write, and the failures it logs.\<close>

definition polled_keys :: "string \<Rightarrow> NicoMachine list \<Rightarrow> host_key set" where
  "polled_keys ns ms = {(bmhName m, ns) | m. m \<in> set ms \<and> nmId m \<noteq> None}"

definition sync_logged :: "string \<Rightarrow> host_action list \<Rightarrow> bool" where
  "sync_logged i es \<longleftrightarrow>
     list_ex (\<lambda>a. case a of HostLogError s e \<Rightarrow> s = ''Failed to sync machine '' @ i | _ \<Rightarrow> False) es"

lemma polled_keys_Cons: "polled_keys ns (m # ms) = polled_keys ns [m] \<union> polled_keys ns ms"
  by (auto simp: polled_keys_def)

lemma polled_keys_fresh:
  "nmId m0 \<noteq> None \<Longrightarrow> nmId m0 \<notin> nmId ` {m \<in> set ms. \<exists>y. nmId m = Some y} \<Longrightarrow>
     (bmhName m0, ns) \<notin> polled_keys ns ms"
  by (force simp: polled_keys_def bmhName_def bmhNameFromID_def derefStr_def image_iff)

lemma sync_logged_app [simp]: "sync_logged i (es @ es') \<longleftrightarrow> sync_logged i es \<or> sync_logged i es'"
  by (auto simp: sync_logged_def)

lemma emits_syncMachine: "emits (\<lambda>_. True) (syncMachine L m sk fw)"
  unfolding syncMachine_def upsert_host_def syncFirmwareComponents_def
  by (intro emits_intros TrueI)

text \<open>The state after the machines have been listed.\<close>

definition listed_state ::
  "('s, 's Reconciler, host_action) st \<Rightarrow> 's \<Rightarrow> ('s, 's Reconciler, host_action) st" where
  "listed_state st w =
     st\<lparr>ext := w, trace := trace st @ [HostApi (CallGetAllMachine (rOrgName (obj st)))]\<rparr>"

lemma matches_rest: "matches d (d\<lparr>hostRest := rest\<rparr>)"
  by (simp add: matches_def host_key_def)

lemma host_key_refresh: "host_key (refresh_host d h) = host_key h"
  by (simp add: refresh_host_def host_key_def)

lemma matches_refresh:
  "host_key (refresh_host d h) = host_key d \<Longrightarrow> matches d (refresh_host d h\<lparr>hostRest := rest\<rparr>)"
  by (simp add: matches_def refresh_host_def host_key_def)

lemma upsert_host_run:
  "upsert_host L d st =
     (case hostGet (rClient (obj st)) (host_key d) (ext st) of
        (Inl e, w1) \<Rightarrow>
          (if hlIsNotFound L e then
             (case hostCreate (rClient (obj st)) d w1 of (c, w2) \<Rightarrow>
                (Val (case c of Inl e' \<Rightarrow> Some (ErrWrap ''create BMH: '' e') | Inr _ \<Rightarrow> None),
                 st\<lparr>ext := w2, trace := trace st @ [GetBMH (host_key d), CreateBMH d]\<rparr>))
           else (Val (Some (ErrWrap ''get BMH: '' e)),
                 st\<lparr>ext := w1, trace := trace st @ [GetBMH (host_key d)]\<rparr>))
      | (Inr x, w1) \<Rightarrow>
          (case hostUpdate (rClient (obj st)) (refresh_host d x) w1 of (u, w2) \<Rightarrow>
             (Val (case u of Inl e' \<Rightarrow> Some (ErrWrap ''update BMH: '' e') | Inr _ \<Rightarrow> None),
              st\<lparr>ext := w2, trace := trace st @ [GetBMH (host_key d), UpdateBMH (refresh_host d x)]\<rparr>)))"
  by (auto simp: upsert_host_def run_simps split: prod.split sum.split)

section \<open>Hosts at the API server\<close>

text \<open>
  What the poll relies on in the API server, with \<open>view\<close> the hosts it stores: reading a host finds
  it, or fails, and \<open>IsNotFound\<close> is said only of a host that is not there; a write that succeeds
  stores the object, with what the server adds to it, and one that fails stores nothing; the
  objects of firmware components and the NICo service do not touch the hosts.
\<close>

locale host_store =
  fixes C :: "'s HostClient" and N :: "'s NicoClientInterface"
    and view :: "'s \<Rightarrow> host_key \<Rightarrow> BareMetalHost option" and notfound :: "go_err \<Rightarrow> bool"
  assumes view_key: "view w k = Some h \<Longrightarrow> host_key h = k"
    and get_found: "hostGet C k w = (Inr h, w') \<Longrightarrow> view w k = Some h \<and> view w' = view w"
    and get_failed: "hostGet C k w = (Inl e, w') \<Longrightarrow> (notfound e \<longrightarrow> view w k = None) \<and> view w' = view w"
    and create_stores: "hostCreate C h w = (Inr h', w') \<Longrightarrow>
      \<exists>rest. view w' = (view w)(host_key h \<mapsto> h\<lparr>hostRest := rest\<rparr>)"
    and create_failed: "hostCreate C h w = (Inl e, w') \<Longrightarrow> view w' = view w"
    and update_stores: "hostUpdate C h w = (Inr h', w') \<Longrightarrow>
      \<exists>rest. view w' = (view w)(host_key h \<mapsto> h\<lparr>hostRest := rest\<rparr>)"
    and update_failed: "hostUpdate C h w = (Inl e, w') \<Longrightarrow> view w' = view w"
    and hfc_frame: "view (snd (hfcGet C k w)) = view w" "view (snd (hfcCreate C f w)) = view w"
      "view (snd (hfcStatusUpdate C f w)) = view w"
    and nico_frame: "view (snd (GetAllMachine N org w)) = view w" "view (snd (GetAllSku N org w)) = view w"
      "view (snd (GetAllSiteExplorerEndpoint N org w)) = view w"
begin

lemma upsert_effect:
  assumes C: "rClient (obj st) = C" and nf: "hlIsNotFound L = notfound"
    and run: "upsert_host L d st = (Val r, st')"
  shows "(\<forall>k. k \<noteq> host_key d \<longrightarrow> view (ext st') k = view (ext st) k)
    \<and> (r = None \<longrightarrow> (\<exists>h. view (ext st') (host_key d) = Some h \<and> matches d h))"
proof -
  obtain g w1 where g: "hostGet C (host_key d) (ext st) = (g, w1)" by fastforce
  show ?thesis
  proof (cases g)
    case (Inl e)
    have view1: "view w1 = view (ext st)" using get_failed g Inl by blast
    obtain c w2 where c: "hostCreate C d w1 = (c, w2)" by fastforce
    show ?thesis
    proof (cases "notfound e")
      case True
      then have r: "r = None \<longleftrightarrow> (\<exists>h. c = Inr h)" "ext st' = w2"
        using run C nf g Inl c by (auto simp: upsert_host_run split: sum.splits)
      show ?thesis
      proof (cases c)
        case (Inr h)
        then obtain rest where "view w2 = (view w1)(host_key d \<mapsto> d\<lparr>hostRest := rest\<rparr>)"
          using create_stores c by blast
        then show ?thesis using r view1 by (simp add: matches_rest)
      qed (use r view1 create_failed c in auto)
    next
      case False
      then have "r \<noteq> None" "ext st' = w1"
        using run C nf g Inl by (auto simp: upsert_host_run)
      then show ?thesis using view1 by auto
    qed
  next
    case (Inr x)
    let ?x = "refresh_host d x"
    have "view (ext st) (host_key d) = Some x" and view1: "view w1 = view (ext st)"
      using get_found g Inr by blast+
    then have key: "host_key ?x = host_key d" using view_key by (simp add: host_key_refresh)
    obtain u w2 where u: "hostUpdate C ?x w1 = (u, w2)" by fastforce
    have r: "r = None \<longleftrightarrow> (\<exists>h. u = Inr h)" "ext st' = w2"
      using run C nf g Inr u by (auto simp: upsert_host_run split: sum.splits)
    show ?thesis
    proof (cases u)
      case (Inr h)
      then obtain rest where "view w2 = (view w1)(host_key d \<mapsto> ?x\<lparr>hostRest := rest\<rparr>)"
        using update_stores [of ?x w1 h w2] u key by auto
      then show ?thesis using r view1 matches_refresh [OF key] by simp
    qed (use r view1 update_failed u in auto)
  qed
qed

lemma firmware_view:
  "rClient (obj st) = C \<Longrightarrow> view (ext (snd (syncFirmwareComponents L i fw m st))) = view (ext st)"
  by (auto simp: syncFirmwareComponents_def run_simps Let_def hfc_frame split: sum.split)

lemma syncMachine_effect:
  assumes C: "rClient (obj st) = C" and nf: "hlIsNotFound L = notfound"
    and run: "syncMachine L m sk fw st = (Val r, st')"
  shows "(\<forall>k. k \<noteq> (bmhName m, rNamespace (obj st)) \<longrightarrow> view (ext st') k = view (ext st) k)
    \<and> (r = None \<longrightarrow> in_view (view (ext st')) sk (rNamespace (obj st)) m)"
proof -
  let ?d = "MachineToBaremetalHost m (nilmap_get sk (derefStr (nmId m))) (rNamespace (obj st))"
  have key: "host_key ?d = (bmhName m, rNamespace (obj st))"
    by (simp add: host_key_def MachineToBaremetalHost_def)
  obtain r1 st1 where u: "upsert_host L ?d st = (Val r1, st1)"
    using totalD [OF total_upsert_host] by metis
  have C1: "rClient (obj st1) = C"
    using keepsD [OF keeps_upsert_host, of rClient L ?d st] u C by simp
  have "view (ext st') = view (ext st1) \<and> (r = None \<longrightarrow> r1 = None)"
  proof (cases "nilmap_get fw (derefStr (nmId m))")
    case None
    then show ?thesis
      using run u by (auto simp: syncMachine_def run_simps Let_def split: option.splits)
  next
    case (Some v)
    obtain r2 st2 where f: "syncFirmwareComponents L (derefStr (nmId m)) v m st1 = (Val r2, st2)"
      using totalD [OF total_syncFirmwareComponents] by metis
    then have "view (ext st2) = view (ext st1)" using firmware_view [OF C1] by (metis snd_conv)
    then show ?thesis
      using run u f Some by (auto simp: syncMachine_def run_simps Let_def split: option.splits)
  qed
  then show ?thesis
    using upsert_effect [OF C nf u] by (auto simp: key in_view_def)
qed

lemma sync_one_effect:
  assumes C: "rClient (obj st) = C" and nf: "hlIsNotFound L = notfound"
  shows "\<exists>st' es. sync_one L sk fw m st = (Val (), st') \<and> trace st' = trace st @ es \<and> obj st' = obj st
    \<and> (\<forall>k. k \<notin> polled_keys (rNamespace (obj st)) [m] \<longrightarrow> view (ext st') k = view (ext st) k)
    \<and> (\<forall>i. nmId m = Some i \<longrightarrow>
          sync_logged i es \<or> in_view (view (ext st')) sk (rNamespace (obj st)) m)"
proof (cases "nmId m")
  case None
  then show ?thesis by (simp add: sync_one_def run_simps)
next
  case (Some i)
  obtain r st1 where m: "syncMachine L m sk fw st = (Val r, st1)"
    using totalD [OF total_syncMachine] by metis
  obtain es where es: "trace st1 = trace st @ es"
    using emitsD [OF emits_syncMachine, of L m sk fw st] m by auto
  have ob: "obj st1 = obj st" using keepsD [OF keeps_syncMachine, of "\<lambda>x. x" L m sk fw st] m by simp
  show ?thesis
    using syncMachine_effect [OF C nf m] Some m es ob
    by (cases r) (auto simp: sync_one_def run_simps polled_keys_def sync_logged_def)
qed

lemma sku_frame: "rNicoClient (obj st) = N \<Longrightarrow> view (ext (snd (getSkuMap L st))) = view (ext st)"
  by (auto simp: getSkuMap_def run_simps nico_frame split: prod.split)

lemma firmware_frame: "rNicoClient (obj st) = N \<Longrightarrow> view (ext (snd (getFirmwareMap st))) = view (ext st)"
  by (auto simp: getFirmwareMap_def run_simps nico_frame split: prod.split)

lemma sync_loop_effect:
  assumes "rClient (obj st) = C" and "hlIsNotFound L = notfound"
    and "distinct (map nmId (filter (\<lambda>m. nmId m \<noteq> None) ms))"
  shows "\<exists>st' es. forp ms (sync_one L sk fw) st = (Val (), st') \<and> trace st' = trace st @ es
    \<and> obj st' = obj st
    \<and> (\<forall>k. k \<notin> polled_keys (rNamespace (obj st)) ms \<longrightarrow> view (ext st') k = view (ext st) k)
    \<and> (\<forall>m i. m \<in> set ms \<longrightarrow> nmId m = Some i \<longrightarrow>
          sync_logged i es \<or> in_view (view (ext st')) sk (rNamespace (obj st)) m)"
  using assms(1,3)
proof (induction ms arbitrary: st)
  case (Cons m0 ms)
  obtain st1 es1 where one: "sync_one L sk fw m0 st = (Val (), st1)" "trace st1 = trace st @ es1"
      "obj st1 = obj st"
      "\<forall>k. k \<notin> polled_keys (rNamespace (obj st)) [m0] \<longrightarrow> view (ext st1) k = view (ext st) k"
      "\<forall>i. nmId m0 = Some i \<longrightarrow>
          sync_logged i es1 \<or> in_view (view (ext st1)) sk (rNamespace (obj st)) m0"
    using sync_one_effect [OF Cons.prems(1) assms(2), of sk fw m0] by blast
  have prems: "rClient (obj st1) = C" "distinct (map nmId (filter (\<lambda>m. nmId m \<noteq> None) ms))"
    using Cons.prems one(3) by (auto split: if_splits)
  obtain st2 es2 where rest: "forp ms (sync_one L sk fw) st1 = (Val (), st2)"
      "trace st2 = trace st1 @ es2" "obj st2 = obj st1"
      "\<forall>k. k \<notin> polled_keys (rNamespace (obj st)) ms \<longrightarrow> view (ext st2) k = view (ext st1) k"
      "\<forall>m i. m \<in> set ms \<longrightarrow> nmId m = Some i \<longrightarrow>
          sync_logged i es2 \<or> in_view (view (ext st2)) sk (rNamespace (obj st)) m"
    using Cons.IH [OF prems] one(3) by auto
  have kept: "in_view (view (ext st2)) sk (rNamespace (obj st)) m0"
    if "in_view (view (ext st1)) sk (rNamespace (obj st)) m0" "nmId m0 \<noteq> None"
  proof -
    have "(bmhName m0, rNamespace (obj st)) \<notin> polled_keys (rNamespace (obj st)) ms"
      using Cons.prems(2) that(2) polled_keys_fresh by simp
    then show ?thesis using that(1) rest(4) by (simp add: in_view_def)
  qed
  have "sync_logged i (es1 @ es2) \<or> in_view (view (ext st2)) sk (rNamespace (obj st)) m"
    if "m \<in> set (m0 # ms)" "nmId m = Some i" for m i
    using that one(5) rest(5) kept by auto
  moreover have "forp (m0 # ms) (sync_one L sk fw) st = (Val (), st2)"
    using one(1) rest(1) by (simp add: run_simps)
  ultimately show ?case
    using one(2-4) rest(2-4) by (auto simp: polled_keys_Cons [of _ m0 ms])
qed (simp add: run_simps)

text \<open>A poll that can list the machines: the SKU and firmware maps, then the loop.\<close>

lemma sync_effect:
  assumes C: "rClient (obj st) = C" and N: "rNicoClient (obj st) = N" and nf: "hlIsNotFound L = notfound"
    and list: "GetAllMachine N (rOrgName (obj st)) (ext st) = ((ms, resp, err), w)"
    and ok: "\<not> list_failed resp err"
    and sku: "getSkuMap L (listed_state st w) = (Val sk, st1)"
    and dist: "distinct (map nmId (filter (\<lambda>m. nmId m \<noteq> None) ms))"
  shows "\<exists>st' es. sync L st = (Val (), st') \<and> trace st' = trace st @ es
    \<and> (\<forall>k. k \<notin> polled_keys (rNamespace (obj st)) ms \<longrightarrow> view (ext st') k = view (ext st) k)
    \<and> (\<forall>m i. m \<in> set ms \<longrightarrow> nmId m = Some i \<longrightarrow>
          sync_logged i es \<or> in_view (view (ext st')) sk (rNamespace (obj st)) m)"
proof -
  have one: "rClient (obj st1) = C" "rNicoClient (obj st1) = N" "rNamespace (obj st1) = rNamespace (obj st)"
    using keepsD [OF keeps_getSkuMap(1), of L "listed_state st w"]
      keepsD [OF keeps_getSkuMap(2), of L "listed_state st w"]
      keepsD [OF keeps_getSkuMap(3), of L "listed_state st w"] sku C N by (simp_all add: listed_state_def)
  obtain fw st2 where fw: "getFirmwareMap st1 = (Val fw, st2)"
    using totalD [OF total_getFirmwareMap] by metis
  have two: "obj st2 = obj st1" using keepsD [OF keeps_getFirmwareMap, of "\<lambda>x. x" st1] fw by simp
  have "view w = view (ext st)" using nico_frame(1) [of "rOrgName (obj st)" "ext st"] list by simp
  then have view2: "view (ext st2) = view (ext st)"
    using sku_frame [of "listed_state st w" L] firmware_frame [of st1] sku fw N one
    by (simp add: listed_state_def)
  obtain es1 es2 where es: "trace st1 = trace st @ es1" "trace st2 = trace st1 @ es2"
    using emitsD [OF emits_getSkuMap, of L "listed_state st w"] emitsD [OF emits_getFirmwareMap, of st1]
      sku fw by (auto simp: listed_state_def)
  obtain st3 es3 where loop: "forp ms (sync_one L sk fw) st2 = (Val (), st3)" "trace st3 = trace st2 @ es3"
      "\<forall>k. k \<notin> polled_keys (rNamespace (obj st)) ms \<longrightarrow> view (ext st3) k = view (ext st2) k"
      "\<forall>m i. m \<in> set ms \<longrightarrow> nmId m = Some i \<longrightarrow>
          sync_logged i es3 \<or> in_view (view (ext st3)) sk (rNamespace (obj st)) m"
    using sync_loop_effect [of st2 L ms sk fw] one two nf dist by auto
  have "sync L st = (Val (), st3)"
    using list ok sku fw loop(1) N by (simp add: sync_def run_simps listed_state_def)
  then show ?thesis using loop(2-4) es view2 by auto
qed

end

section \<open>A server of hosts\<close>

text \<open>
  A server that stores hosts, answers every call and gives each write a new version, and a NICo
  service that lists machines and knows nothing else: instances of the parameters, on which the
  programs can be run.
\<close>

record ref_hosts =
  rhHosts :: "BareMetalHost list"
  rhVersion :: nat
  rhMachines :: "NicoMachine list"

definition ref_view :: "ref_hosts \<Rightarrow> host_key \<Rightarrow> BareMetalHost option" where
  "ref_view w k = find (\<lambda>h. host_key h = k) (rhHosts w)"

definition ref_store :: "BareMetalHost \<Rightarrow> ref_hosts \<Rightarrow> (go_err + BareMetalHost) \<times> ref_hosts" where
  "ref_store h w =
     (let h' = h\<lparr>hostRest := JNum (show_nat (rhVersion w))\<rparr>
      in (Inr h', w\<lparr>rhHosts := h' # filter (\<lambda>x. host_key x \<noteq> host_key h) (rhHosts w),
                    rhVersion := Suc (rhVersion w)\<rparr>))"

definition ref_host_client :: "ref_hosts HostClient" where
  "ref_host_client = \<lparr>
     hostGet = (\<lambda>k w. (case ref_view w k of None \<Rightarrow> Inl (ErrText ''not found'') | Some h \<Rightarrow> Inr h, w)),
     hostCreate = ref_store, hostUpdate = ref_store,
     hfcGet = (\<lambda>k w. (Inl (ErrText ''not found''), w)),
     hfcCreate = (\<lambda>f w. (Inr f, w)), hfcStatusUpdate = (\<lambda>f w. (Inr f, w))\<rparr>"

definition no_reply :: "'a \<Rightarrow> 's \<Rightarrow> 'a reply \<times> 's" where
  "no_reply x w = ((x, None, Some (ErrText ''unavailable'')), w)"

definition ref_lister :: "ref_hosts NicoClientInterface" where
  "ref_lister = \<lparr>
     CreateInstance = (\<lambda>org req. no_reply None), GetInstance = (\<lambda>org i. no_reply None),
     DeleteInstance = (\<lambda>org i req. no_reply ()), UpdateInstance = (\<lambda>org i req. no_reply None),
     GetMachine = (\<lambda>org m. no_reply None), GetCurrentTenant = (\<lambda>org. no_reply None),
     GetInstanceStatusHistory = (\<lambda>org i. no_reply []),
     GetAllMachineHealthReport = (\<lambda>org m. no_reply []),
     CreateOrUpdateMachineHealthReport = (\<lambda>org m req. no_reply None),
     DeleteMachineHealthReport = (\<lambda>org m src. no_reply ()),
     GetMachineValidationRuns = (\<lambda>org m. no_reply []),
     GetMachineStatusHistory = (\<lambda>org m. no_reply []), GetAllTenantAccount = (\<lambda>org. no_reply []),
     GetAllMachine = (\<lambda>org w. ((rhMachines w, Some \<lparr>StatusCode = 200, Body = None\<rparr>, None), w)),
     GetAllSku = (\<lambda>org. no_reply []), GetAllSiteExplorerEndpoint = (\<lambda>org. no_reply [])\<rparr>"

lemma find_filtered:
  "find (\<lambda>h. host_key h = k) (filter (\<lambda>x. host_key x \<noteq> k') hs)
     = (if k = k' then None else find (\<lambda>h. host_key h = k) hs)"
  by (induction hs) auto

lemma host_key_rest [simp]: "host_key (h\<lparr>hostRest := rest\<rparr>) = host_key h"
  by (simp add: host_key_def)

lemma ref_store_view:
  "ref_store h w = (r, w') \<Longrightarrow>
     (\<exists>h'. r = Inr h') \<and> (\<exists>rest. ref_view w' = (ref_view w)(host_key h \<mapsto> h\<lparr>hostRest := rest\<rparr>))"
  by (auto simp: ref_store_def ref_view_def Let_def find_filtered fun_eq_iff
      intro!: exI [of _ "JNum (show_nat (rhVersion w))"])

interpretation ref_server: host_store ref_host_client ref_lister ref_view "\<lambda>e. e = ErrText ''not found''"
proof
  show "ref_view w k = Some h \<Longrightarrow> host_key h = k" for w k h
    by (auto simp: ref_view_def find_Some_iff)
qed (auto simp: ref_host_client_def ref_lister_def no_reply_def split: option.splits
    dest: ref_store_view)

section \<open>Properties\<close>

text \<open>C36. SKUs are fetched at most once in five minutes: while the cache is fresh it is the answer and
  NICo is not asked; otherwise one list call is made, whose success replaces the cache for five
  minutes and whose failure leaves the cache as it was and gives no SKUs for this poll.\<close>

theorem sku_cache:
  "getSkuMap L st =
     (if rSkuCache (obj st) \<noteq> None \<and> hlNow L (ext st) < rSkuCacheExpiry (obj st)
      then (Val (rSkuCache (obj st)), st)
      else
        (case GetAllSku (rNicoClient (obj st)) (rOrgName (obj st)) (ext st) of
           ((skus, httpResp, err), w) \<Rightarrow>
             (let st1 = st\<lparr>ext := w, trace := trace st @ [HostApi (CallGetAllSku (rOrgName (obj st)))]\<rparr>
              in if list_failed httpResp err then (Val None, st1)
                 else (Val (Some (sku_index skus)),
                       st1\<lparr>obj := (obj st)\<lparr>rSkuCache := Some (sku_index skus),
                         rSkuCacheExpiry := hlNow L w + 300000000000\<rparr>\<rparr>))))
   \<and> gomap_get (sku_index skus') i = find (\<lambda>s. i \<in> set (skuAssociatedMachineIds s)) (rev skus')"
  by (auto simp: getSkuMap_def run_simps sku_index_last skuCacheTTL_def Let_def split: prod.split)

text \<open>C38. A poll fails with a nil dereference exactly when the list of machines comes back with neither
  an error nor a response; every other failure, of the list or of a machine, is logged and the
  poll returns.\<close>

theorem sync_panics_iff:
  "fst (sync L st) = Panic \<longleftrightarrow>
     (\<exists>machines w. GetAllMachine (rNicoClient (obj st)) (rOrgName (obj st)) (ext st)
        = ((machines, None, None), w))"
proof -
  obtain machines httpResp err w where
    *: "GetAllMachine (rNicoClient (obj st)) (rOrgName (obj st)) (ext st) = ((machines, httpResp, err), w)"
    by (metis prod.exhaust)
  let ?st = "st\<lparr>ext := w, trace := trace st @ [HostApi (CallGetAllMachine (rOrgName (obj st)))]\<rparr>"
  have "total (andthen (getSkuMap L) (\<lambda>skuMap. andthen getFirmwareMap (\<lambda>firmwareMap.
      forp machines (sync_one L skuMap firmwareMap))))"
    by (intro total_intros)
  from totalD [OF this, of ?st] show ?thesis
    using * by (auto simp: sync_def run_simps list_failed_def split: option.split)
qed

text \<open>C9. A poll makes the hosts agree with NICo: after it, every listed machine that has an ID, the IDs
  being distinct, has a host that says what NICo says of the machine now, or its failure has
  been logged, and no other host is touched; in particular a host whose machine is no longer
  listed stays.\<close>

theorem sync_converges:
  assumes "host_store (rClient (obj st)) (rNicoClient (obj st)) view (hlIsNotFound L)"
    and "GetAllMachine (rNicoClient (obj st)) (rOrgName (obj st)) (ext st) = ((machines, httpResp, err), w)"
    and "\<not> list_failed httpResp err"
    and "getSkuMap L (listed_state st w) = (Val skuMap, st1)"
    and "distinct (map nmId (filter (\<lambda>m. nmId m \<noteq> None) machines))"
  shows "fst (sync L st) = Val ()
    \<and> (\<forall>m i. m \<in> set machines \<and> nmId m = Some i \<longrightarrow>
          sync_logged i (new_actions (sync L) st)
          \<or> in_view (view (ext (snd (sync L st)))) skuMap (rNamespace (obj st)) m)
    \<and> (\<forall>k. k \<notin> polled_keys (rNamespace (obj st)) machines \<longrightarrow>
          view (ext (snd (sync L st))) k = view (ext st) k)"
  using host_store.sync_effect [OF assms(1) refl refl refl assms(2-5)] by (auto simp: new_actions_def)

definition ref_host_state :: "(ref_hosts, ref_hosts Reconciler, host_action) st" where
  "ref_host_state = \<lparr>ext = \<lparr>rhHosts = [], rhVersion = 1, rhMachines = [ref_nico_machine]\<rparr>,
     obj = \<lparr>rClient = ref_host_client, rNicoClient = ref_lister, rOrgName = ''org'', rNamespace = ''ns'',
       rSkuCache = None, rSkuCacheExpiry = 0\<rparr>,
     trace = []\<rparr>"

definition ref_host_lib :: "ref_hosts host_lib" where
  "ref_host_lib = \<lparr>hlIsNotFound = (\<lambda>e. e = ErrText ''not found''), hlNow = (\<lambda>_. 0), hlOrder = (\<lambda>xs. xs)\<rparr>"

theorem sync_converges_witness:
  "in_view (ref_view (ext (snd (sync ref_host_lib ref_host_state)))) None ''ns'' ref_nico_machine"
proof -
  let ?w = "ext ref_host_state"
  have store: "host_store (rClient (obj ref_host_state)) (rNicoClient (obj ref_host_state)) ref_view
      (hlIsNotFound ref_host_lib)"
    using ref_server.host_store_axioms by (simp add: ref_host_state_def ref_host_lib_def)
  have list: "GetAllMachine (rNicoClient (obj ref_host_state)) (rOrgName (obj ref_host_state))
      (ext ref_host_state) = (([ref_nico_machine], Some \<lparr>StatusCode = 200, Body = None\<rparr>, None), ?w)"
    by (simp add: ref_host_state_def ref_lister_def)
  have ok: "\<not> list_failed (Some \<lparr>StatusCode = 200, Body = None\<rparr>) None" by (simp add: list_failed_def)
  have sku: "getSkuMap ref_host_lib (listed_state ref_host_state ?w)
      = (Val None, snd (getSkuMap ref_host_lib (listed_state ref_host_state ?w)))"
    by (simp add: getSkuMap_def run_simps listed_state_def ref_host_state_def ref_lister_def no_reply_def
        list_failed_def)
  have "\<not> sync_logged ''m-1'' (new_actions (sync ref_host_lib) ref_host_state)"
    by code_simp
  moreover have "nmId ref_nico_machine = Some ''m-1''" "rNamespace (obj ref_host_state) = ''ns''"
    by (simp_all add: ref_nico_machine_def ref_host_state_def)
  ultimately show ?thesis
    using sync_converges [OF store list ok sku] by auto
qed

section \<open>The polling loop\<close>

fun is_list_call :: "host_action \<Rightarrow> bool" where
  "is_list_call (HostApi (CallGetAllMachine org)) = True"
| "is_list_call _ = False"

lemma emits_no_list_call:
  "emits (\<lambda>a. \<not> is_list_call a) (getSkuMap L)" "emits (\<lambda>a. \<not> is_list_call a) getFirmwareMap"
  "emits (\<lambda>a. \<not> is_list_call a) (sync_one L sk fw m)"
  unfolding getSkuMap_def getFirmwareMap_def sync_one_def syncMachine_def upsert_host_def
    syncFirmwareComponents_def
  by (intro emits_intros; simp)+

text \<open>A poll lists the machines once, whatever comes of it.\<close>

lemma sync_lists_once:
  "\<exists>es. trace (snd (sync L st)) = trace st @ es \<and> length (filter is_list_call es) = 1"
proof -
  obtain ms resp err w where
    call: "GetAllMachine (rNicoClient (obj st)) (rOrgName (obj st)) (ext st) = ((ms, resp, err), w)"
    by (metis prod.exhaust)
  let ?rest = "if list_failed resp err then
          (if (case resp of None \<Rightarrow> False | Some h \<Rightarrow> StatusCode h = 403) then
             emit (HostLogInfo ''Provider-admin access required, skipping BMH sync'')
           else
             (case err of
                Some e \<Rightarrow> emit (HostLogError ''Failed to list NICo machines'' e)
              | None \<Rightarrow>
                  (case resp of
                     None \<Rightarrow> panic
                   | Some h \<Rightarrow> emit (HostLogInfo ''Failed to list NICo machines''))))
        else
          andthen (getSkuMap L) (\<lambda>skuMap.
          andthen getFirmwareMap (\<lambda>firmwareMap. forp ms (sync_one L skuMap firmwareMap)))"
  have "emits (\<lambda>a. \<not> is_list_call a) ?rest"
    by (intro emits_intros emits_no_list_call) simp_all
  from emitsD [OF this, of "listed_state st w"] obtain es where
    "trace (snd (?rest (listed_state st w))) = trace (listed_state st w) @ es"
    "list_all (\<lambda>a. \<not> is_list_call a) es" by blast
  moreover have "sync L st = ?rest (listed_state st w)"
    unfolding sync_def using call by (simp add: run_andthen run_getobj run_extcall listed_state_def)
  ultimately show ?thesis
    by (intro exI [of _ "HostApi (CallGetAllMachine (rOrgName (obj st))) # es"])
      (simp add: listed_state_def list_all_iff filter_empty_conv)
qed

text \<open>C37. The polling loop ends when its context is done and not before, unless a poll crashes: it has
  then listed the machines once at the start and once for every tick before the end.\<close>

theorem polling_ends_with_context:
  "fst (Start L cs st) = Panic
   \<or> fst (Start L cs st) = Val (CtxDone \<in> set cs)
     \<and> length (filter is_list_call (new_actions (Start L cs) st)) = Suc (length (takeWhile (\<lambda>c. c = TickerC) cs))"
proof -
  have "fst (Start L cs st) = Panic
     \<or> fst (Start L cs st) = Val (CtxDone \<in> set cs)
       \<and> (\<exists>es. trace (snd (Start L cs st)) = trace st @ es
            \<and> length (filter is_list_call es) = Suc (length (takeWhile (\<lambda>c. c = TickerC) cs)))"
  proof (induction L cs arbitrary: st rule: Start.induct)
    case (1 L)
    with sync_lists_once [of L st] show ?case
      by (cases "sync L st"; cases "fst (sync L st)") (auto simp: run_simps)
  next
    case (2 L cs)
    with sync_lists_once [of L st] show ?case
      by (cases "sync L st"; cases "fst (sync L st)") (auto simp: run_simps)
  next
    case (3 L cs)
    obtain r st1 where s: "sync L st = (r, st1)" by (cases "sync L st")
    obtain es where es: "trace st1 = trace st @ es" "length (filter is_list_call es) = 1"
      using sync_lists_once [of L st] s by auto
    show ?case
    proof (cases r)
      case (Val u)
      then have run: "Start L (TickerC # cs) st = Start L cs st1" using s by (simp add: run_simps)
      from 3 [of st1] show ?thesis
        unfolding run using es by (auto intro!: exI [of _ "es @ _"])
    qed (use s in \<open>simp add: run_simps\<close>)
  qed
  then show ?thesis by (auto simp: new_actions_def)
qed

end
