(* ===== verification/Manager.thy ===== *)
theory Manager
  imports ActuatorBase
begin

text \<open>
  The process: \<open>main\<close> of cmd/manager/main.go, from the parsed flags to the exit status. The manager
  of controller-runtime and the file system are the parameter \<open>manager_lib\<close>; a call that may fail
  gives its error or nil. The libraries' registration functions that \<open>main\<close> calls with constant
  arguments are actions of the trace.
\<close>

section \<open>The scheme\<close>

text \<open>
  pkg/apis/nicoprovider/v1beta1/register.go. A registration function changes the scheme and gives an
  error or nil; a scheme builder applies its functions in turn up to the first error. The package's
  own types are embedded in Machine objects, so its function registers none.
\<close>

record GroupVersion =
  gvGroup :: string
  gvVersion :: string

definition SchemeGroupVersion :: GroupVersion where
  "SchemeGroupVersion = \<lparr>gvGroup = ''nicoprovider.infrastructure.cluster.x-k8s.io'', gvVersion = ''v1beta1''\<rparr>"

type_synonym 'c scheme_fun = "'c \<Rightarrow> go_err option \<times> 'c"

fun run_scheme_builder :: "'c scheme_fun list \<Rightarrow> 'c scheme_fun" where
  "run_scheme_builder [] scheme = (None, scheme)"
| "run_scheme_builder (f # fs) scheme =
     (case f scheme of
        (Some e, scheme') \<Rightarrow> (Some e, scheme')
      | (None, scheme') \<Rightarrow> run_scheme_builder fs scheme')"

definition addKnownTypes :: "'c scheme_fun" where "addKnownTypes scheme = (None, scheme)"

definition nico_AddToScheme :: "'c scheme_fun" where
  "nico_AddToScheme = run_scheme_builder [addKnownTypes]"

text \<open>\<open>init\<close> of cmd/manager/main.go: the three registrations in order, their errors discarded.\<close>

definition init_scheme :: "'c scheme_fun \<Rightarrow> 'c scheme_fun \<Rightarrow> 'c \<Rightarrow> 'c" where
  "init_scheme clientgo_AddToScheme machine_AddToScheme scheme =
     snd (nico_AddToScheme (snd (machine_AddToScheme (snd (clientgo_AddToScheme scheme)))))"

lemma nico_AddToScheme_nothing: "nico_AddToScheme scheme = (None, scheme)"
  by (simp add: nico_AddToScheme_def addKnownTypes_def)

section \<open>Start-up\<close>

record manager_flags =
  metricsAddr :: string
  probeAddr :: string
  webhookPort :: int
  enableLeaderElection :: bool
  enableWebhooks :: bool
  webhookCertDir :: string

definition default_flags :: manager_flags where
  "default_flags = \<lparr>metricsAddr = '':8080'', probeAddr = '':8081'', webhookPort = 9443,
     enableLeaderElection = False, enableWebhooks = True,
     webhookCertDir = ''/tmp/k8s-webhook-server/serving-certs''\<rparr>"

text \<open>\<open>ctrl.Options\<close>; the webhook server is its port and its certificate directory, or nil.\<close>

record manager_options =
  moMetricsBindAddress :: string
  moHealthProbeBindAddress :: string
  moLeaderElection :: bool
  moLeaderElectionID :: string
  moWebhookServer :: "(int \<times> string) option"

datatype manager_action =
    StatCertDir string
  | GetConfig
  | NewManager manager_options
  | SetupMachineController
  | RegisterWebhook string
  | AddHealthzCheck
  | AddReadyzCheck
  | StartManager
  | SetupInfo string
  | SetupError string go_err

record 's manager_lib =
  mlNotExist :: "string \<Rightarrow> 's \<Rightarrow> bool \<times> 's"
  mlGetConfig :: "'s \<Rightarrow> go_err option \<times> 's"
  mlNewManager :: "manager_options \<Rightarrow> 's \<Rightarrow> go_err option \<times> 's"
  mlSetupMachineController :: "'s \<Rightarrow> go_err option \<times> 's"
  mlAddHealthzCheck :: "'s \<Rightarrow> go_err option \<times> 's"
  mlAddReadyzCheck :: "'s \<Rightarrow> go_err option \<times> 's"
  mlStart :: "'s \<Rightarrow> go_err option \<times> 's"

type_synonym ('s, 'r) main_prog = "('s, unit, manager_action, 'r) prog"

text \<open>A step whose failure is logged and ends the process with status 1.\<close>

definition or_exit ::
  "manager_action \<Rightarrow> ('s \<Rightarrow> go_err option \<times> 's) \<Rightarrow> string \<Rightarrow> ('s, int) main_prog \<Rightarrow> ('s, int) main_prog" where
  "or_exit act call msg k =
     andthen (extcall act call) (\<lambda>r. case r of
       Some e \<Rightarrow> seqp (emit (SetupError msg e)) (ret 1)
     | None \<Rightarrow> k)"

definition manager_options_of :: "manager_flags \<Rightarrow> bool \<Rightarrow> manager_options" where
  "manager_options_of f webhooks =
     \<lparr>moMetricsBindAddress = metricsAddr f, moHealthProbeBindAddress = probeAddr f,
      moLeaderElection = enableLeaderElection f,
      moLeaderElectionID = ''machine-controller.nico.nvidia.com'',
      moWebhookServer = (if webhooks then Some (webhookPort f, webhookCertDir f) else None)\<rparr>"

text \<open>Webhooks stay enabled unless the certificate directory is reported as missing.\<close>

definition check_cert_dir :: "'s manager_lib \<Rightarrow> manager_flags \<Rightarrow> ('s, bool) main_prog" where
  "check_cert_dir L f =
     (if enableWebhooks f then
        andthen (extcall (StatCertDir (webhookCertDir f)) (mlNotExist L (webhookCertDir f))) (\<lambda>missing.
        if missing then
          seqp (emit (SetupInfo ''Webhook cert directory not found, disabling webhooks'')) (ret False)
        else ret True)
      else ret False)"

text \<open>What follows once it is known whether webhooks are on.\<close>

definition start_manager :: "'s manager_lib \<Rightarrow> manager_flags \<Rightarrow> bool \<Rightarrow> ('s, int) main_prog" where
  "start_manager L f webhooks =
     or_exit GetConfig (mlGetConfig L) ''unable to get kubeconfig''
     (or_exit (NewManager (manager_options_of f webhooks)) (mlNewManager L (manager_options_of f webhooks))
        ''unable to start manager''
     (or_exit SetupMachineController (mlSetupMachineController L) ''unable to create controller''
     (seqp
       (if webhooks then seqp (emit (RegisterWebhook ''/validate-machine'')) (emit (SetupInfo ''Webhooks enabled''))
        else emit (SetupInfo ''Webhooks disabled''))
     (or_exit AddHealthzCheck (mlAddHealthzCheck L) ''unable to set up health check''
     (or_exit AddReadyzCheck (mlAddReadyzCheck L) ''unable to set up ready check''
     (seqp (emit (SetupInfo ''starting manager''))
     (or_exit StartManager (mlStart L) ''problem running manager'' (ret 0))))))))"

definition main_manager :: "'s manager_lib \<Rightarrow> manager_flags \<Rightarrow> ('s, int) main_prog" where
  "main_manager L f = andthen (check_cert_dir L f) (start_manager L f)"

section \<open>The order of start-up\<close>

fun is_setup :: "manager_action \<Rightarrow> bool" where
  "is_setup (StatCertDir d) = False"
| "is_setup (SetupInfo s) = False"
| "is_setup (SetupError s e) = False"
| "is_setup _ = True"

text \<open>The steps of a start-up, and whether the webhooks are on.\<close>

definition startup_plan :: "manager_flags \<Rightarrow> bool \<Rightarrow> manager_action list" where
  "startup_plan f webhooks =
     [GetConfig, NewManager (manager_options_of f webhooks), SetupMachineController]
     @ (if webhooks then [RegisterWebhook ''/validate-machine''] else [])
     @ [AddHealthzCheck, AddReadyzCheck, StartManager]"

definition webhooks_on :: "'s manager_lib \<Rightarrow> manager_flags \<Rightarrow> 's \<Rightarrow> bool" where
  "webhooks_on L f s \<longleftrightarrow> enableWebhooks f \<and> \<not> fst (mlNotExist L (webhookCertDir f) s)"

text \<open>\<open>follows plan m\<close>: \<open>m\<close> performs a beginning of the plan, and ends with status 0 after all of it or
  with status 1.\<close>

definition follows :: "manager_action list \<Rightarrow> ('s, int) main_prog \<Rightarrow> bool" where
  "follows plan m \<longleftrightarrow> (\<forall>st. \<exists>es n. trace (snd (m st)) = trace st @ es
     \<and> filter is_setup es = take n plan
     \<and> (fst (m st) = Val 1 \<or> fst (m st) = Val 0 \<and> n = length plan))"

lemma seqp_assoc: "seqp (seqp m m') k = seqp m (seqp m' k)"
  by (rule ext) (auto simp: run_seqp split: prod.split res.split)

lemma follows_exit: "follows [] (ret 0)"
  by (simp add: follows_def ret_def)

lemma follows_or_exit:
  assumes "follows plan k" and "is_setup act"
  shows "follows (act # plan) (or_exit act call msg k)"
  unfolding follows_def
proof
  fix st :: "('a, unit, manager_action) st"
  let ?st = "st\<lparr>ext := snd (call (ext st)), trace := trace st @ [act]\<rparr>"
  show "\<exists>es n. trace (snd (or_exit act call msg k st)) = trace st @ es
     \<and> filter is_setup es = take n (act # plan)
     \<and> (fst (or_exit act call msg k st) = Val 1
        \<or> fst (or_exit act call msg k st) = Val 0 \<and> n = length (act # plan))"
  proof (cases "fst (call (ext st))")
    case None
    obtain es n where "trace (snd (k ?st)) = trace ?st @ es" "filter is_setup es = take n plan"
        "fst (k ?st) = Val 1 \<or> fst (k ?st) = Val 0 \<and> n = length plan"
      using assms(1) unfolding follows_def by blast
    then show ?thesis
      using None assms(2) by (intro exI [of _ "act # es"] exI [of _ "Suc n"]) (auto simp: or_exit_def run_simps)
  next
    case (Some e)
    then show ?thesis
      using assms(2) by (intro exI [of _ "[act, SetupError msg e]"] exI [of _ 1])
        (simp add: or_exit_def run_simps)
  qed
qed

lemma follows_emit:
  assumes "follows plan k"
  shows "follows (filter is_setup [a] @ plan) (seqp (emit a) k)"
  unfolding follows_def
proof
  fix st :: "('a, unit, manager_action) st"
  let ?st = "st\<lparr>trace := trace st @ [a]\<rparr>"
  obtain es n where "trace (snd (k ?st)) = trace ?st @ es" "filter is_setup es = take n plan"
      "fst (k ?st) = Val 1 \<or> fst (k ?st) = Val 0 \<and> n = length plan"
    using assms unfolding follows_def by blast
  then show "\<exists>es n. trace (snd (seqp (emit a) k st)) = trace st @ es
     \<and> filter is_setup es = take n (filter is_setup [a] @ plan)
     \<and> (fst (seqp (emit a) k st) = Val 1
        \<or> fst (seqp (emit a) k st) = Val 0 \<and> n = length (filter is_setup [a] @ plan))"
    by (intro exI [of _ "a # es"] exI [of _ "if is_setup a then Suc n else n"]) (auto simp: run_simps)
qed

lemma start_manager_follows: "follows (startup_plan f webhooks) (start_manager L f webhooks)"
proof -
  let ?rest = "or_exit AddHealthzCheck (mlAddHealthzCheck L) ''unable to set up health check''
     (or_exit AddReadyzCheck (mlAddReadyzCheck L) ''unable to set up ready check''
     (seqp (emit (SetupInfo ''starting manager''))
     (or_exit StartManager (mlStart L) ''problem running manager'' (ret 0))))"
  have rest: "follows [AddHealthzCheck, AddReadyzCheck, StartManager] ?rest"
    using follows_emit [OF follows_or_exit [OF follows_exit, of StartManager "mlStart L"
        "''problem running manager''"], of "SetupInfo ''starting manager''"]
    by (intro follows_or_exit) simp_all
  have hooks: "follows ((if webhooks then [RegisterWebhook ''/validate-machine''] else [])
        @ [AddHealthzCheck, AddReadyzCheck, StartManager])
      (seqp (if webhooks then seqp (emit (RegisterWebhook ''/validate-machine'')) (emit (SetupInfo ''Webhooks enabled''))
        else emit (SetupInfo ''Webhooks disabled'')) ?rest)"
    using follows_emit [OF follows_emit [OF rest, of "SetupInfo ''Webhooks enabled''"],
        of "RegisterWebhook ''/validate-machine''"]
      follows_emit [OF rest, of "SetupInfo ''Webhooks disabled''"]
    by (cases webhooks) (simp_all add: seqp_assoc)
  show ?thesis
    unfolding start_manager_def startup_plan_def append_Cons append_Nil
    by (intro follows_or_exit hooks) simp_all
qed

section \<open>Properties\<close>

text \<open>C40. Start-up never skips a step: the process registers the Machine controller, the webhook where
  it is on, and both health checks before it starts the manager, in this order, and ends with
  status 0 only after all of it, otherwise with 1. The webhook is on exactly when its flag is and
  its certificate directory is not missing, and then the manager has a server for it.\<close>

theorem startup_in_order:
  "\<exists>n. filter is_setup (new_actions (main_manager L f) st) = take n (startup_plan f (webhooks_on L f (ext st)))
     \<and> (fst (main_manager L f st) = Val 1
        \<or> fst (main_manager L f st) = Val 0 \<and> n = length (startup_plan f (webhooks_on L f (ext st))))"
proof -
  have "\<exists>st1 es. check_cert_dir L f st = (Val (webhooks_on L f (ext st)), st1)
      \<and> trace st1 = trace st @ es \<and> filter is_setup es = []"
    by (simp add: check_cert_dir_def webhooks_on_def run_simps)
  then obtain es st1 where 1: "check_cert_dir L f st = (Val (webhooks_on L f (ext st)), st1)"
      "trace st1 = trace st @ es" "filter is_setup es = []" by blast
  obtain es' n where 2: "trace (snd (start_manager L f (webhooks_on L f (ext st)) st1)) = trace st1 @ es'"
      "filter is_setup es' = take n (startup_plan f (webhooks_on L f (ext st)))"
      "fst (start_manager L f (webhooks_on L f (ext st)) st1) = Val 1
       \<or> fst (start_manager L f (webhooks_on L f (ext st)) st1) = Val 0
          \<and> n = length (startup_plan f (webhooks_on L f (ext st)))"
    using start_manager_follows unfolding follows_def by blast
  have "main_manager L f st = start_manager L f (webhooks_on L f (ext st)) st1"
    using 1(1) by (simp add: main_manager_def run_andthen)
  then show ?thesis using 1 2 by (auto simp: new_actions_def)
qed

end
