(* ===== verification/Spec2Isabelle.thy ===== *)
theory Spec2Isabelle
  imports Escalation Metrics HostSync Manager
begin

text \<open>
  \<^bold>\<open>A verification of the NICo provider for the OpenShift Machine API.\<close>

  The program is a Kubernetes controller in Go. It makes the Machine objects of a cluster into
  instances of the NICo service (the bare-metal cloud), keeps their status up to date, deletes them
  with their Machines, validates Machines on admission, and can mirror the service's machines as
  BareMetalHosts. All paths below are under src/.

  \<^bold>\<open>How effects are modelled.\<close> A Go function with effects is a program \<open>st \<Rightarrow> result \<times> st\<close> (theory
  Prelude): the state has the world outside (\<open>ext\<close>), the object in memory the function works on
  (\<open>obj\<close>) and the actions performed so far (\<open>trace\<close>: API calls, reads and writes of Kubernetes
  objects, events, metrics). A run-time panic is the result \<open>Panic\<close>. Errors are values of the
  datatype \<open>go_err\<close>. What is not under src/ is a parameter: the NICo SDK, the Kubernetes client,
  the API machinery, google/uuid, metav1's JSON, the clock, Go's order of map iteration. What a
  theorem needs of them is a named hypothesis: \<open>uuid_codec\<close>, \<open>codec_ok\<close>, \<open>conditions_ok\<close>,
  \<open>nested_fields\<close>, \<open>finalizer_ops\<close>, \<open>host_store\<close> are locales (or predicates made of one) with the
  documented laws, interpreted on reference functions; \<open>truthful\<close> says that an update that succeeds is
  answered with the object sent, \<open>echoes\<close> that it succeeds as well; \<open>lawful\<close> says what the API server
  keeps of a Machine, \<open>reliable\<close> that the services do what they are asked, and \<open>unfit\<close> that the health
  reports of the chosen host always hold a critical alert. The theory RefWorld
  instantiates every parameter at once, so that the witnesses run the programs. No definition of the model needs fuel: every loop of the code is over a list,
  and the polling loop has the outcomes of its \<open>select\<close> as an argument.

  \<^bold>\<open>The theories, and the code they model.\<close>
  \<^item> Prelude, GoText, GoErrors, Json, HttpErrors: programs and their calculus (\<open>emits\<close>, \<open>keeps\<close>,
    \<open>returns\<close>, \<open>total\<close>, \<open>at_most\<close>), the string, number and JSON functions of the Go library that the
    sources use, error chains and \<open>classifyHTTPError\<close>.
  \<^item> ProviderTypes: the spec and status of pkg/apis/nicoprovider/v1beta1/types.go with their JSON.
  \<^item> ProviderId: pkg/providerid/providerid.go. Parsing, printing, normal forms and round trips, by way
    of the locale \<open>text_codec\<close> that every UUID library with the laws gives.
  \<^item> Webhook: pkg/apis/nicoprovider/v1beta1/webhook.go. Exactly what is admitted, and what cannot
    change along a history of updates.
  \<^item> NicoApi, KubeApi: the interfaces to the service and to Kubernetes, and the SDK wrapper
    \<open>nicoClient\<close>.
  \<^item> Conditions, ActuatorBase, MachineHealth, InstanceRequest, ActuatorCreate, ActuatorUpdate,
    ActuatorDelete: pkg/actuators/machine/actuator.go, one theory per group of functions, each
    handler with all its branches. Shown: the state machine of conditions, the health gates, the
    two mappings of alerts to conditions (each modelled from its own copy in the code) and that
    they agree, that the request that is built reads back as the spec, what a creation requires and
    records, what an update writes, what a deletion asks for and how it ends.
  \<^item> MachineController: pkg/controllers/machine/controller.go. The locale \<open>actuator_contract\<close> is what
    the reconciler relies on in the actuator; it is interpreted on \<open>Create\<close>, \<open>Update\<close>, \<open>Exists\<close>
    and \<open>Delete\<close>, and the reconciler's safety follows from it.
  \<^item> Writes, Lifecycle: an abstract machine (finalizer, recorded instance) and the proof that the
    reconciler with the actuator refines it.
  \<^item> Tracks, History, Progress: the controller in a world that changes under it. A program tracks an
    effect on the world when each of its calls obeys it; the histories of a stored Machine are an
    inductive step relation of reconciles and of the acts of others, with invariants by rule
    induction: no recorded instance is left without its finalizer, none is made twice while the
    service answers for it. With reliable services a new machine gets its finalizer, then its
    instance, once.
  \<^item> Escalation: whole reconciles of a machine whose chosen host stays unfit. The count of attempts
    goes through the stored status, and the third one declares the machine failed.
  \<^item> Metrics: pkg/metrics/metrics.go. The collectors and their registration, the values a trace gives
    them, and what the controller does to the two gauges.
  \<^item> HostMapper, HostSync: pkg/controllers/baremetalhost/mapper.go and controller.go. The mapping of
    machines to hosts with 64-bit arithmetic, the SKU cache, that a poll makes the stored hosts agree
    with the service (locale \<open>host_store\<close>), and when the polling loop ends.
  \<^item> Manager: \<open>main\<close> of cmd/manager/main.go, its order of start-up and its exit status, and the scheme
    of pkg/apis/nicoprovider/v1beta1/register.go.

  \<^bold>\<open>The properties of this theory\<close> span the reconciler and the actuator: the refinement of the
  abstract life cycle, how a refused creation ends, and what happens when the record of an instance
  cannot be written.

  \<^bold>\<open>Not modelled.\<close> Logging; what controller-runtime and Prometheus do with the controllers, types and
  collectors they are given, among it which bucket of a histogram an observation falls into; the
  caches of the Kubernetes client, so that a read of the Machine is current in the histories; the
  mutex of the SKU cache, which only the polling loop takes; the scheduling of reconciles by
  controller-runtime, of which the model has the requested delay. Time is in nanoseconds as an
  unbounded integer, with \<open>time.Since\<close> saturating as Go does.
\<close>

section \<open>Properties of the whole\<close>

text \<open>C2. Every object a reconcile writes is a step of the abstract machine from the object it fetched:
  a live machine gets the finalizer first and the record of an instance only after one has been
  asked for, a recorded instance is otherwise kept, and only a machine that is being deleted loses
  the finalizer.\<close>

theorem reconcile_refines_life:
  assumes "libraries_ok E norm" and "fst (kubeGetMachine (envKube E) key (ext st)) = Inr m"
    and "objBody m = MachineBody t"
  shows "life_writes (envLib E) (omDeletionTimestamp (objMeta m) \<noteq> 0) m
    (new_actions (Reconcile E (actuator_ops_of E a) key) st)"
  using assms(2,3) normal_life [OF assms(1), of "fetched E key m st" t a]
    deleting_life [OF assms(1), of "fetched E key m st" a]
  by (simp add: nico.reconcile_new life_writes_Cons fetched_def)

theorem reconcile_refines_life_witness:
  "life_writes ref_lib False ref_machine
     (new_actions (Reconcile ref_env (actuator_ops_of ref_env ref_actuator) (''worker'', ''ns''))
        (ref_state ref_world0))"
  using reconcile_refines_life [OF ref_libraries, of "(''worker'', ''ns'')" "ref_state ref_world0"
      ref_machine ref_typed ref_actuator] by simp

text \<open>C16. What a reconcile returns when the service refuses a creation. The machine is live, has the
  finalizer and no recorded instance, its spec is valid, its client could be made and the gates
  have let the creation pass, whatever client and whichever machine that is. After an answer with
  status 400 the reconcile returns neither an error nor a delay; after every other failure it
  returns an error whose text ends in the service's own, together with a delay of thirty seconds.
  (What controller-runtime does with the delay is its own: beside an error it ignores it.) The
  service has been asked once and nothing has been written to the API server.\<close>

theorem refused_creation:
  assumes "unrecorded E m" and "fst (kubeGetMachine (envKube E) key (ext st)) = Inr m"
    and "getProviderSpec (envLib E) m = Inr spec" and "actuator_validateProviderSpec spec = None"
    and "getNicoClient E a spec (fetched E key m st) = (Val (Inr (c, org)), st1)"
    and "gates_pass c org spec st1 st2"
    and "fst (CreateInstance c org (buildInstanceRequest (GetName m) spec) (ext st2)) = (inst, resp, Some e)"
  shows "\<exists>err pre. fst (Reconcile E (actuator_ops_of E a) key st)
        = Val (if resp_is resp 400 then (0, None) else (30000000000, Some err))
    \<and> err_string err = pre @ err_string e
    \<and> filter (\<lambda>x. is_create x \<or> is_kube_write x) (new_actions (Reconcile E (actuator_ops_of E a) key) st)
      = [Api (CallCreateInstance org (buildInstanceRequest (GetName m) spec))]"
proof -
  let ?err = "classifyHTTPError resp (create_error resp e)"
  have final: "errors_As ?err = Some (if resp_is resp 400 then ErrorTerminal else ErrorTransient)"
    by (auto simp: resp_is_def split: option.split)
  have "\<exists>pre. err_string ?err = pre @ err_string e"
    by (auto simp: create_error_def Let_def split: option.split sum.split)
  then obtain pre where pre: "err_string ?err = pre @ err_string e" by blast
  have f: "obj (fetched E key m st) = m" "trace (fetched E key m st) = trace st @ [KubeGetMachine key]"
    by (simp_all add: fetched_def)
  have create: "Create E a (fetched E key m st) = create_instance E a c org spec st2"
      and "reads_to (fetched E key m st) st2"
    using Create_passes [OF _ _ assms(4-6)] assms(1,3) f by (simp_all add: unrecorded_def)
  then obtain es where st2: "obj st2 = m" "trace st2 = trace st @ KubeGetMachine key # es" "list_all is_read es"
    using f by (auto simp: reads_to_def)
  have es: "filter (\<lambda>x. is_create x \<or> is_kube_write x) es = []"
    using st2(3) by (auto simp: filter_empty_conv list_all_iff dest: is_read_no_write)
  have "Reconcile E (actuator_ops_of E a) key st =
      (Val (handleActuatorError ?err), snd (create_instance E a c org spec st2))"
    using reconcile_unrecorded [OF assms(1,2), of a] create assms(7) st2(1)
    by (simp add: create_instance_def after_create_def handleCreateError_def call_CreateInstance_def
        metricp_def eventf_def run_simps Let_def)
  then show ?thesis
    using final pre assms(7) st2(1,2) es
    by (intro exI [of _ ?err] exI [of _ pre])
      (simp add: handleActuatorError_def RequeueAfterSeconds_def second_def new_actions_def
        create_instance_def after_create_def handleCreateError_def call_CreateInstance_def metricp_def
        eventf_def run_simps Let_def)
qed

theorem refused_creation_witness:
  "fst (Reconcile ref_env (actuator_ops_of ref_env ref_refusing) (''worker'', ''ns'')
     (ref_state (ref_world0\<lparr>rwMachine := ref_free_machine\<rparr>))) = Val (0, None)"
proof -
  let ?st = "ref_state (ref_world0\<lparr>rwMachine := ref_free_machine\<rparr>)"
  let ?st1 = "fetched ref_env (''worker'', ''ns'') ref_free_machine ?st"
  have client: "actNicoAPIClient ref_refusing = Some (ref_client\<lparr>CreateInstance :=
     (\<lambda>org req w. ((None, Some \<lparr>StatusCode = 400, Body = None\<rparr>, Some (ErrText ''bad request'')), w))\<rparr>)"
    by (simp add: ref_refusing_def)
  have spec: "getProviderSpec (envLib ref_env) ref_free_machine = Inr ref_typeless_spec"
      "actuator_validateProviderSpec ref_typeless_spec = None" "MachineID ref_typeless_spec = []"
    using ref_free_ready by (simp_all add: ready_to_create_def)
  have gates: "gates_pass c org ref_typeless_spec ?st1 ?st1" for c :: "ref_world NicoClientInterface" and org
    by (simp add: gates_pass_def spec(3))
  show ?thesis
    using refused_creation [OF ready_unrecorded [OF ref_free_ready] _ spec(1,2) getNicoClient_injected [OF client] gates,
        where inst = None and resp = "Some \<lparr>StatusCode = 400, Body = None\<rparr>" and e = "ErrText ''bad request''"]
    by (auto simp: resp_is_def)
qed

text \<open>C17. A created instance that cannot be recorded is created again: as long as the status of a
  machine cannot be written, every reconcile asks the service for one more instance, so that after
  \<open>n\<close> of them there are \<open>n\<close> instances of which the machine knows none.\<close>

theorem unrecorded_instance_is_made_again:
  assumes "ready_to_create E m spec" and "actNicoAPIClient a = Some c"
    and "\<And>s. fst (kubeGetMachine (envKube E) key s) = Inr m"
    and "\<And>m' s. \<exists>e. fst (kubeStatusUpdate (envKube E) m' s) = Inl e"
    and "\<And>req s. \<exists>inst i resp. fst (CreateInstance c (actOrgName a) req s) = (Some inst, resp, None)
      \<and> instId inst = Some i"
  shows "length (filter is_create (new_actions (reconciles E (actuator_ops_of E a) key n) st)) = n"
proof -
  have "\<exists>es. trace (snd (reconciles E (actuator_ops_of E a) key n st)) = trace st @ es
      \<and> length (filter is_create es) = n"
  proof (induction n arbitrary: st)
    case (Suc n)
    obtain r es where 1: "fst (Reconcile E (actuator_ops_of E a) key st) = Val r"
        "trace (snd (Reconcile E (actuator_ops_of E a) key st)) = trace st @ es"
        "length (filter is_create es) = 1"
      using unrecorded_step [OF assms(1,2,3,4,5)] by blast
    obtain es' where "trace (snd (reconciles E (actuator_ops_of E a) key n
        (snd (Reconcile E (actuator_ops_of E a) key st)))) = trace st @ es @ es'"
        "length (filter is_create es') = n"
      using Suc.IH 1(2) by (metis append.assoc)
    then show ?case
      using 1 by (intro exI [of _ "es @ es'"]) (auto simp: run_simps split: prod.split)
  qed (simp add: run_simps)
  then show ?thesis by (auto simp: new_actions_def)
qed

theorem unrecorded_instance_is_made_again_witness:
  "length (filter is_create (new_actions (reconciles ref_stuck_env (actuator_ops_of ref_stuck_env ref_actuator)
      (''worker'', ''ns'') 3) (ref_state ref_world0))) = 3"
proof (rule unrecorded_instance_is_made_again)
  show "ready_to_create ref_stuck_env ref_free_machine ref_typeless_spec"
    using ref_free_ready by (simp add: ready_to_create_def ref_stuck_env_def)
  show "actNicoAPIClient ref_actuator = Some ref_client" by simp
qed (simp_all add: ref_stuck_env_def ref_instance_def)

end
